(* ===== verification/Go_Prelude.thy ===== *)
theory Go_Prelude
  imports Main "HOL-Library.State_Monad" "HOL-Library.Sublist" "HOL-Library.Char_ord"
begin

text \<open>
  Shared ground of the development: the Go values the sources use (64-bit integers, times and
  durations, byte strings, errors), the effect monad in which the services are written, and a
  small calculus of preserved state predicates that the component proofs share.

  \<^item> \<^bold>\<open>Integers.\<close> A Go \<open>int\<close> or \<open>int64\<close> is an \<open>int\<close>; where a product can leave the 64-bit
    range the wrap-around is written out with \<open>wrap64\<close>.
  \<^item> \<^bold>\<open>Time.\<close> A \<open>time.Time\<close> is the number of nanoseconds since the Unix epoch, a
    \<open>time.Duration\<close> a number of nanoseconds; \<open>Time.Sub\<close> saturates as in the standard library.
  \<^item> \<^bold>\<open>Strings.\<close> Go strings are byte strings, here \<open>string\<close>. Case mapping and trimming are the
    ASCII part of the functions of package \<open>strings\<close>.
  \<^item> \<^bold>\<open>Effects.\<close> A service method is a computation over a state with a counter \<open>tick\<close> of its
    interactions with the outside. The environment answers the n-th interaction: the reading of the
    clock, a fresh identifier, or whether the n-th repository call fails. A theorem that holds for
    every environment holds for every pattern of repository failures.
\<close>

named_theorems pres \<open>rules that a computation preserves a state predicate\<close>
named_theorems keep \<open>rules that a computation keeps a part of the state\<close>
named_theorems run_simps \<open>evaluation of computations on a state\<close>

section \<open>Integers, times and durations\<close>

type_synonym time = int
type_synonym duration = int

definition max_int64 :: int where
  "max_int64 = 9223372036854775807"

definition min_int64 :: int where
  "min_int64 = - 9223372036854775808"

definition wrap64 :: "int \<Rightarrow> int" where
  "wrap64 x = (x - min_int64) mod 18446744073709551616 + min_int64"

definition in_int64 :: "int \<Rightarrow> bool" where
  "in_int64 x \<longleftrightarrow> min_int64 \<le> x \<and> x \<le> max_int64"

lemma wrap64_id [simp]: "in_int64 x \<Longrightarrow> wrap64 x = x"
  by (simp add: wrap64_def in_int64_def min_int64_def max_int64_def)

lemma wrap64_range [simp]: "in_int64 (wrap64 x)"
proof -
  have "0 \<le> (x - min_int64) mod 18446744073709551616"
    and "(x - min_int64) mod 18446744073709551616 < 18446744073709551616"
    by simp_all
  then show ?thesis
    unfolding wrap64_def in_int64_def min_int64_def max_int64_def by linarith
qed

text \<open>Go's integer division truncates towards zero.\<close>

definition go_div :: "int \<Rightarrow> int \<Rightarrow> int" where
  "go_div a b = sgn a * sgn b * (\<bar>a\<bar> div \<bar>b\<bar>)"

lemma go_div_pos [simp]: "0 \<le> a \<Longrightarrow> 0 < b \<Longrightarrow> go_div a b = a div b"
  by (cases "a = 0") (auto simp: go_div_def)

abbreviation Millisecond :: duration where "Millisecond \<equiv> 1000000"
abbreviation Second :: duration where "Second \<equiv> 1000000000"
abbreviation Minute :: duration where "Minute \<equiv> 60000000000"
abbreviation Hour :: duration where "Hour \<equiv> 3600000000000"

text \<open>\<open>Time.Sub\<close> (and \<open>time.Since\<close>, \<open>time.Until\<close>) saturate at the extreme durations.\<close>

definition time_sub :: "time \<Rightarrow> time \<Rightarrow> duration" where
  "time_sub a b = max min_int64 (min max_int64 (a - b))"

lemma time_sub_exact: "in_int64 (a - b) \<Longrightarrow> time_sub a b = a - b"
  by (simp add: time_sub_def in_int64_def)

lemma time_sub_ge_iff:
  "in_int64 d \<Longrightarrow> min_int64 < d \<Longrightarrow> time_sub a b \<ge> d \<longleftrightarrow> a - b \<ge> d"
  by (auto simp: time_sub_def in_int64_def min_int64_def max_int64_def)

lemma time_sub_le_iff:
  "in_int64 d \<Longrightarrow> d < max_int64 \<Longrightarrow> time_sub a b \<le> d \<longleftrightarrow> a - b \<le> d"
  by (auto simp: time_sub_def in_int64_def min_int64_def max_int64_def)

text \<open>\<open>time.Duration(n) * unit\<close>, a 64-bit product.\<close>

definition dur :: "int \<Rightarrow> duration \<Rightarrow> duration" where
  "dur n unit = wrap64 (n * unit)"

text \<open>The zero \<open>time.Time\<close> (January 1, year 1), which \<open>IsZero\<close> recognises.\<close>

definition zero_time :: time where
  "zero_time = - 62135596800000000000"

text \<open>\<open>Time.Unix\<close>: whole seconds, rounded down.\<close>

definition unix :: "time \<Rightarrow> int" where
  "unix t = t div Second"

lemma unix_mono: "a \<le> b \<Longrightarrow> unix a \<le> unix b"
  by (simp add: unix_def zdiv_mono1)

section \<open>Strings\<close>

definition lower_char :: "char \<Rightarrow> char" where
  "lower_char c = (if CHR ''A'' \<le> c \<and> c \<le> CHR ''Z'' then char_of ((of_char c :: nat) + 32) else c)"

definition to_lower :: "string \<Rightarrow> string" where
  "to_lower s = map lower_char s"

definition equal_fold :: "string \<Rightarrow> string \<Rightarrow> bool" where
  "equal_fold s t \<longleftrightarrow> to_lower s = to_lower t"

definition is_space :: "char \<Rightarrow> bool" where
  "is_space c \<longleftrightarrow> c = CHR '' '' \<or> (CHR 0x09 \<le> c \<and> c \<le> CHR 0x0D)"

definition trim_space :: "string \<Rightarrow> string" where
  "trim_space s = rev (dropWhile is_space (rev (dropWhile is_space s)))"

text \<open>\<open>strings.Trim(s, cutset)\<close>.\<close>

definition trim :: "char set \<Rightarrow> string \<Rightarrow> string" where
  "trim cs s = rev (dropWhile (\<lambda>c. c \<in> cs) (rev (dropWhile (\<lambda>c. c \<in> cs) s)))"

definition is_digit :: "char \<Rightarrow> bool" where
  "is_digit c \<longleftrightarrow> CHR ''0'' \<le> c \<and> c \<le> CHR ''9''"

definition digit_val :: "char \<Rightarrow> nat" where
  "digit_val c = of_char c - 48"

text \<open>\<open>strings.Split\<close> with a separator of one byte.\<close>

fun split_on :: "char \<Rightarrow> string \<Rightarrow> string list" where
  "split_on sep [] = [[]]"
| "split_on sep (c # cs) =
     (if c = sep then [] # split_on sep cs
      else (case split_on sep cs of [] \<Rightarrow> [[c]] | p # ps \<Rightarrow> (c # p) # ps))"

lemma split_on_nonempty [simp]: "split_on sep s \<noteq> []"
  by (induction s) (auto split: list.splits)

lemma split_on_no_sep: "p \<in> set (split_on sep s) \<Longrightarrow> sep \<notin> set p"
proof (induction s arbitrary: p)
  case Nil
  then show ?case by simp
next
  case (Cons c cs)
  then show ?case
    by (auto split: if_splits list.splits)
qed

text \<open>\<open>strings.HasPrefix\<close>, \<open>strings.HasSuffix\<close> and \<open>strings.Contains\<close>.\<close>

definition has_prefix :: "string \<Rightarrow> string \<Rightarrow> bool" where
  "has_prefix s p \<longleftrightarrow> take (length p) s = p"

definition has_suffix :: "string \<Rightarrow> string \<Rightarrow> bool" where
  "has_suffix s p \<longleftrightarrow> has_prefix (rev s) (rev p)"

fun str_contains :: "string \<Rightarrow> string \<Rightarrow> bool" where
  "str_contains [] sub = (sub = [])"
| "str_contains (c # cs) sub = (has_prefix (c # cs) sub \<or> str_contains cs sub)"

lemma has_prefix_iff_prefix: "has_prefix s p \<longleftrightarrow> prefix p s"
  unfolding has_prefix_def by (metis append_eq_conv_conj prefix_def)

lemma str_contains_iff_sublist: "str_contains s sub \<longleftrightarrow> sublist sub s"
  by (induction s) (auto simp: has_prefix_iff_prefix sublist_Cons_right)

text \<open>\<open>strconv.Atoi\<close>: an optional sign, at least one decimal digit, a value of 64 bits.\<close>

fun digits_val :: "nat \<Rightarrow> string \<Rightarrow> nat option" where
  "digits_val acc [] = Some acc"
| "digits_val acc (c # cs) = (if is_digit c then digits_val (10 * acc + digit_val c) cs else None)"

definition unsigned_val :: "string \<Rightarrow> nat option" where
  "unsigned_val s = (if s = [] then None else digits_val 0 s)"

definition atoi :: "string \<Rightarrow> int option" where
  "atoi s =
     (let v = (case s of
                 [] \<Rightarrow> None
               | c # cs \<Rightarrow>
                   (if c = CHR ''-'' then map_option (\<lambda>n. - int n) (unsigned_val cs)
                    else if c = CHR ''+'' then map_option int (unsigned_val cs)
                    else map_option int (unsigned_val s)))
      in case v of None \<Rightarrow> None | Some n \<Rightarrow> if in_int64 n then Some n else None)"

text \<open>\<open>strconv.Itoa\<close> and the verb \<open>%d\<close>.\<close>

fun nat_digits :: "nat \<Rightarrow> string" where
  "nat_digits n = (if n < 10 then [char_of (48 + n)] else nat_digits (n div 10) @ [char_of (48 + n mod 10)])"

declare nat_digits.simps [simp del]

definition itoa :: "int \<Rightarrow> string" where
  "itoa i = (if i < 0 then CHR ''-'' # nat_digits (nat (- i)) else nat_digits (nat i))"

lemma digit_val_char_of [simp]: "n < 10 \<Longrightarrow> digit_val (char_of (48 + n)) = n"
  by (simp add: digit_val_def)

lemma is_digit_char_of [simp]:
  assumes "n < 10"
  shows "is_digit (char_of (48 + n :: nat))"
proof -
  have "n \<in> {0, 1, 2, 3, 4, 5, 6, 7, 8, 9}"
    using assms by auto
  then show ?thesis
    by (auto simp: is_digit_def less_eq_char_def)
qed

lemma digits_val_append:
  "digits_val acc (s @ t) = Option.bind (digits_val acc s) (\<lambda>a. digits_val a t)"
  by (induction s arbitrary: acc) auto

lemma digits_val_nat_digits: "digits_val 0 (nat_digits n) = Some n"
proof (induction n rule: nat_digits.induct)
  case (1 n)
  show ?case
  proof (cases "n < 10")
    case True
    then show ?thesis by (simp add: nat_digits.simps [of n])
  next
    case False
    with "1.IH" have "digits_val 0 (nat_digits (n div 10)) = Some (n div 10)" by simp
    with False show ?thesis
      by (simp add: nat_digits.simps [of n] digits_val_append)
  qed
qed

lemma nat_digits_nonempty [simp]: "nat_digits n \<noteq> []"
  by (subst nat_digits.simps) simp

section \<open>Errors\<close>

text \<open>
  An error value: a sentinel made by \<open>errors.New\<close>, a formatted one, a wrapping
  \<open>fmt.Errorf("msg: %w", err)\<close> or \<open>fmt.Errorf("%w: msg", err)\<close>, or a run-time panic that reaches
  the caller.
\<close>

datatype error = ErrorNew string | Errorf string | Wrapf string error | Suffixf error string | Panic string

fun errors_Is :: "error \<Rightarrow> error \<Rightarrow> bool" where
  "errors_Is (Wrapf m e) t = (Wrapf m e = t \<or> errors_Is e t)"
| "errors_Is (Suffixf e m) t = (Suffixf e m = t \<or> errors_Is e t)"
| "errors_Is e t = (e = t)"

fun error_text :: "error \<Rightarrow> string" where
  "error_text (ErrorNew s) = s"
| "error_text (Errorf s) = s"
| "error_text (Wrapf m e) = m @ '': '' @ error_text e"
| "error_text (Suffixf e m) = error_text e @ '': '' @ m"
| "error_text (Panic s) = ''panic: '' @ s"

lemma errors_Is_wrap [simp]: "errors_Is e t \<Longrightarrow> errors_Is (Wrapf m e) t"
  by simp

section \<open>Computations over a faulty environment\<close>

record base =
  tick :: nat

record env =
  clock :: "nat \<Rightarrow> time"
  fault :: "nat \<Rightarrow> bool"
  ulid :: "nat \<Rightarrow> string"

definition ErrDB :: error where
  "ErrDB = Errorf ''database error''"

definition bump :: "'a base_scheme \<Rightarrow> 'a base_scheme" where
  "bump w = w\<lparr>tick := Suc (tick w)\<rparr>"

definition now :: "env \<Rightarrow> ('a base_scheme, time) state" where
  "now e = State (\<lambda>w. (clock e (tick w), bump w))"

definition new_id :: "env \<Rightarrow> ('a base_scheme, string) state" where
  "new_id e = State (\<lambda>w. (ulid e (tick w), bump w))"

definition repo_call ::
    "env \<Rightarrow> ('a base_scheme \<Rightarrow> (error + 'b) \<times> 'a base_scheme) \<Rightarrow> ('a base_scheme, error + 'b) state" where
  "repo_call e f = State (\<lambda>w. if fault e (tick w) then (Inl ErrDB, bump w) else f (bump w))"

definition repo_query ::
    "env \<Rightarrow> ('a base_scheme \<Rightarrow> error + 'b) \<Rightarrow> ('a base_scheme, error + 'b) state" where
  "repo_query e f = repo_call e (\<lambda>w. (f w, w))"

definition modify :: "('w \<Rightarrow> 'w) \<Rightarrow> ('w, unit) state" where
  "modify f = State (\<lambda>w. ((), f w))"

fun for_each :: "('b \<Rightarrow> ('w, unit) state) \<Rightarrow> 'b list \<Rightarrow> ('w, unit) state" where
  "for_each f [] = State_Monad.return ()"
| "for_each f (x # xs) = do { f x; for_each f xs }"

lemma run_bind [run_simps]:
  "run_state (m \<bind> f) w = (case run_state m w of (x, w') \<Rightarrow> run_state (f x) w')"
  by (simp add: State_Monad.bind_def)

lemma run_return [run_simps]: "run_state (State_Monad.return x) w = (x, w)"
  by (simp add: State_Monad.return_def)

lemma run_now [run_simps]: "run_state (now e) w = (clock e (tick w), bump w)"
  by (simp add: now_def)

lemma run_new_id [run_simps]: "run_state (new_id e) w = (ulid e (tick w), bump w)"
  by (simp add: new_id_def)

lemma run_repo_call [run_simps]:
  "run_state (repo_call e f) w = (if fault e (tick w) then (Inl ErrDB, bump w) else f (bump w))"
  by (simp add: repo_call_def)

lemma run_repo_query [run_simps]:
  "run_state (repo_query e f) w =
     (if fault e (tick w) then Inl ErrDB else f (bump w), bump w)"
  by (simp add: repo_query_def run_simps)

lemma run_modify [run_simps]: "run_state (modify f) w = ((), f w)"
  by (simp add: modify_def)

lemma tick_bump [simp]: "tick (bump w) = Suc (tick w)"
  by (simp add: bump_def)

subsection \<open>Preserved predicates\<close>

definition preserves :: "('w \<Rightarrow> bool) \<Rightarrow> ('w, 'b) state \<Rightarrow> bool" where
  "preserves I m \<longleftrightarrow> (\<forall>w. I w \<longrightarrow> I (snd (run_state m w)))"

lemma preservesI: "(\<And>w. I w \<Longrightarrow> I (snd (run_state m w))) \<Longrightarrow> preserves I m"
  by (simp add: preserves_def)

lemma preservesD: "preserves I m \<Longrightarrow> I w \<Longrightarrow> I (snd (run_state m w))"
  by (simp add: preserves_def)

lemma preserves_return [pres]: "preserves I (State_Monad.return x)"
  by (simp add: preserves_def run_simps)

lemma preserves_bind [pres]:
  "preserves I m \<Longrightarrow> (\<And>x. preserves I (f x)) \<Longrightarrow> preserves I (m \<bind> f)"
  by (simp add: preserves_def run_simps split_beta)

lemma preserves_if [pres]:
  "(b \<Longrightarrow> preserves I m) \<Longrightarrow> (\<not> b \<Longrightarrow> preserves I m') \<Longrightarrow> preserves I (if b then m else m')"
  by simp

lemma preserves_case_sum [pres]:
  "(\<And>x. s = Inl x \<Longrightarrow> preserves I (f x)) \<Longrightarrow> (\<And>y. s = Inr y \<Longrightarrow> preserves I (g y)) \<Longrightarrow>
   preserves I (case s of Inl x \<Rightarrow> f x | Inr y \<Rightarrow> g y)"
  by (cases s) auto

lemma preserves_case_option [pres]:
  "(s = None \<Longrightarrow> preserves I m) \<Longrightarrow> (\<And>y. s = Some y \<Longrightarrow> preserves I (g y)) \<Longrightarrow>
   preserves I (case s of None \<Rightarrow> m | Some y \<Rightarrow> g y)"
  by (cases s) auto

lemma preserves_case_prod [pres]:
  "(\<And>x y. p = (x, y) \<Longrightarrow> preserves I (f x y)) \<Longrightarrow> preserves I (case p of (x, y) \<Rightarrow> f x y)"
  by (cases p) auto

lemma preserves_case_list [pres]:
  "(s = [] \<Longrightarrow> preserves I m) \<Longrightarrow> (\<And>y ys. s = y # ys \<Longrightarrow> preserves I (g y ys)) \<Longrightarrow>
   preserves I (case s of [] \<Rightarrow> m | y # ys \<Rightarrow> g y ys)"
  by (cases s) auto

lemma preserves_for_each [pres]:
  "(\<And>x. x \<in> set xs \<Longrightarrow> preserves I (f x)) \<Longrightarrow> preserves I (for_each f xs)"
  by (induction xs) (auto intro!: pres)

lemma preserves_now: "(\<And>w. I w \<Longrightarrow> I (bump w)) \<Longrightarrow> preserves I (now e)"
  by (simp add: preserves_def run_simps)

lemma preserves_new_id: "(\<And>w. I w \<Longrightarrow> I (bump w)) \<Longrightarrow> preserves I (new_id e)"
  by (simp add: preserves_def run_simps)

lemma preserves_repo_call:
  "(\<And>w. I w \<Longrightarrow> I (bump w)) \<Longrightarrow> (\<And>w. I w \<Longrightarrow> I (snd (f w))) \<Longrightarrow> preserves I (repo_call e f)"
  by (simp add: preserves_def run_simps)

lemma preserves_repo_query: "(\<And>w. I w \<Longrightarrow> I (bump w)) \<Longrightarrow> preserves I (repo_query e f)"
  by (simp add: preserves_def run_simps)

lemma preserves_modify: "(\<And>w. I w \<Longrightarrow> I (f w)) \<Longrightarrow> preserves I (modify f)"
  by (simp add: preserves_def run_simps)

lemma preserves_conj:
  "preserves I m \<Longrightarrow> preserves J m \<Longrightarrow> preserves (\<lambda>w. I w \<and> J w) m"
  by (simp add: preserves_def)

subsection \<open>Triples\<close>

definition hoare :: "('w \<Rightarrow> bool) \<Rightarrow> ('w, 'b) state \<Rightarrow> ('b \<Rightarrow> 'w \<Rightarrow> bool) \<Rightarrow> bool" where
  "hoare P m Q \<longleftrightarrow> (\<forall>w. P w \<longrightarrow> Q (fst (run_state m w)) (snd (run_state m w)))"

lemma hoareI: "(\<And>w x w'. P w \<Longrightarrow> run_state m w = (x, w') \<Longrightarrow> Q x w') \<Longrightarrow> hoare P m Q"
  by (simp add: hoare_def)

lemma hoareD: "hoare P m Q \<Longrightarrow> P w \<Longrightarrow> run_state m w = (x, w') \<Longrightarrow> Q x w'"
  by (metis fst_conv hoare_def snd_conv)

lemma hoare_bind: "hoare P m R \<Longrightarrow> (\<And>x. hoare (R x) (f x) Q) \<Longrightarrow> hoare P (m \<bind> f) Q"
  by (simp add: hoare_def run_simps split_beta)

lemma hoare_return: "(\<And>w. P w \<Longrightarrow> Q x w) \<Longrightarrow> hoare P (State_Monad.return x) Q"
  by (simp add: hoare_def run_simps)

lemma hoare_conseq:
  "hoare P m Q \<Longrightarrow> (\<And>w. P' w \<Longrightarrow> P w) \<Longrightarrow> (\<And>x w. Q x w \<Longrightarrow> Q' x w) \<Longrightarrow> hoare P' m Q'"
  by (simp add: hoare_def)

lemma hoare_if:
  "(b \<Longrightarrow> hoare P m Q) \<Longrightarrow> (\<not> b \<Longrightarrow> hoare P m' Q) \<Longrightarrow> hoare P (if b then m else m') Q"
  by simp

lemma hoare_case_sum:
  "(\<And>x. s = Inl x \<Longrightarrow> hoare P (f x) Q) \<Longrightarrow> (\<And>y. s = Inr y \<Longrightarrow> hoare P (g y) Q) \<Longrightarrow>
   hoare P (case s of Inl x \<Rightarrow> f x | Inr y \<Rightarrow> g y) Q"
  by (cases s) auto

lemma hoare_case_option:
  "(s = None \<Longrightarrow> hoare P m Q) \<Longrightarrow> (\<And>y. s = Some y \<Longrightarrow> hoare P (g y) Q) \<Longrightarrow>
   hoare P (case s of None \<Rightarrow> m | Some y \<Rightarrow> g y) Q"
  by (cases s) auto

lemma hoare_preserves: "preserves I m \<Longrightarrow> hoare I m (\<lambda>_. I)"
  by (simp add: hoare_def preserves_def)

lemma preserves_hoare: "hoare I m (\<lambda>_. I) \<Longrightarrow> preserves I m"
  by (simp add: hoare_def preserves_def)

subsection \<open>Kept parts of the state\<close>

text \<open>
  \<open>keeps f m\<close>: the computation \<open>m\<close> leaves the part \<open>f\<close> of the state unchanged and only moves the
  interaction counter forward. A predicate that depends only on \<open>f\<close> and is stable under a later
  counter (\<open>stable f I\<close>) is then preserved.
\<close>

definition keeps :: "('a base_scheme \<Rightarrow> 'p) \<Rightarrow> ('a base_scheme, 'b) state \<Rightarrow> bool" where
  "keeps f m \<longleftrightarrow> (\<forall>w. f (snd (run_state m w)) = f w \<and> tick w \<le> tick (snd (run_state m w)))"

definition stable :: "('a base_scheme \<Rightarrow> 'p) \<Rightarrow> ('a base_scheme \<Rightarrow> bool) \<Rightarrow> bool" where
  "stable f I \<longleftrightarrow> (\<forall>w w'. f w' = f w \<longrightarrow> tick w \<le> tick w' \<longrightarrow> I w \<longrightarrow> I w')"

lemma keepsD: "keeps f m \<Longrightarrow> f (snd (run_state m w)) = f w"
  by (simp add: keeps_def)

lemma keeps_tick: "keeps f m \<Longrightarrow> tick w \<le> tick (snd (run_state m w))"
  by (simp add: keeps_def)

lemma keeps_preserves: "keeps f m \<Longrightarrow> stable f I \<Longrightarrow> preserves I m"
  by (simp add: keeps_def stable_def preserves_def)

lemma keeps_return [keep]: "keeps f (State_Monad.return x)"
  by (simp add: keeps_def run_simps)

lemma keeps_bind [keep]: "keeps f m \<Longrightarrow> (\<And>x. keeps f (g x)) \<Longrightarrow> keeps f (m \<bind> g)"
  by (simp add: keeps_def run_simps split_beta) (meson le_trans)

lemma keeps_if [keep]: "(b \<Longrightarrow> keeps f m) \<Longrightarrow> (\<not> b \<Longrightarrow> keeps f m') \<Longrightarrow> keeps f (if b then m else m')"
  by simp

lemma keeps_case_sum [keep]:
  "(\<And>x. s = Inl x \<Longrightarrow> keeps f (g x)) \<Longrightarrow> (\<And>y. s = Inr y \<Longrightarrow> keeps f (h y)) \<Longrightarrow>
   keeps f (case s of Inl x \<Rightarrow> g x | Inr y \<Rightarrow> h y)"
  by (cases s) auto

lemma keeps_case_option [keep]:
  "(s = None \<Longrightarrow> keeps f m) \<Longrightarrow> (\<And>y. s = Some y \<Longrightarrow> keeps f (g y)) \<Longrightarrow>
   keeps f (case s of None \<Rightarrow> m | Some y \<Rightarrow> g y)"
  by (cases s) auto

lemma keeps_case_prod [keep]:
  "(\<And>x y. p = (x, y) \<Longrightarrow> keeps f (g x y)) \<Longrightarrow> keeps f (case p of (x, y) \<Rightarrow> g x y)"
  by (cases p) auto

lemma keeps_case_list [keep]:
  "(s = [] \<Longrightarrow> keeps f m) \<Longrightarrow> (\<And>y ys. s = y # ys \<Longrightarrow> keeps f (g y ys)) \<Longrightarrow>
   keeps f (case s of [] \<Rightarrow> m | y # ys \<Rightarrow> g y ys)"
  by (cases s) auto

lemma keeps_for_each [keep]: "(\<And>x. keeps f (g x)) \<Longrightarrow> keeps f (for_each g xs)"
  by (induction xs) (auto intro!: keep)

lemma keeps_now [keep]: "(\<And>w. f (bump w) = f w) \<Longrightarrow> keeps f (now e)"
  by (simp add: keeps_def run_simps)

lemma keeps_new_id [keep]: "(\<And>w. f (bump w) = f w) \<Longrightarrow> keeps f (new_id e)"
  by (simp add: keeps_def run_simps)

lemma keeps_repo_call [keep]:
  "(\<And>w. f (bump w) = f w) \<Longrightarrow> (\<And>w. f (snd (g w)) = f w \<and> tick w \<le> tick (snd (g w))) \<Longrightarrow> keeps f (repo_call e g)"
proof -
  assume b: "\<And>w. f (bump w) = f w"
    and g: "\<And>w. f (snd (g w)) = f w \<and> tick w \<le> tick (snd (g w))"
  have "Suc (tick w) \<le> tick (snd (g (bump w)))" for w
    using g [of "bump w"] by simp
  then show "keeps f (repo_call e g)"
    using b g by (simp add: keeps_def run_simps Suc_le_eq less_imp_le)
qed

lemma keeps_repo_query [keep]: "(\<And>w. f (bump w) = f w) \<Longrightarrow> keeps f (repo_query e g)"
  by (simp add: keeps_def run_simps)

lemma keeps_pair: "keeps f m \<Longrightarrow> keeps g m \<Longrightarrow> keeps (\<lambda>w. (f w, g w)) m"
  by (simp add: keeps_def)

subsection \<open>Sequences that stop at the first error\<close>

definition and_then ::
    "('w, error + 'a) state \<Rightarrow> ('a \<Rightarrow> ('w, error + 'b) state) \<Rightarrow> ('w, error + 'b) state" where
  "and_then m f = do {
     x \<leftarrow> m;
     (case x of Inl err \<Rightarrow> State_Monad.return (Inl err) | Inr y \<Rightarrow> f y)
   }"

text \<open>A check or a write that gives only an error, and \<open>nil\<close> as the success of an operation.\<close>

definition failing :: "error option \<Rightarrow> error + unit" where
  "failing r = (case r of Some err \<Rightarrow> Inl err | None \<Rightarrow> Inr ())"

definition error_of :: "error + 'a \<Rightarrow> error option" where
  "error_of r = (case r of Inl err \<Rightarrow> Some err | Inr _ \<Rightarrow> None)"

lemma run_and_then:
  "run_state (and_then m f) w = (case run_state m w of (Inl err, w') \<Rightarrow> (Inl err, w') | (Inr x, w') \<Rightarrow> run_state (f x) w')"
  by (auto simp: and_then_def run_simps split: prod.splits sum.splits)

lemma preserves_and_then [pres]: "preserves I m \<Longrightarrow> (\<And>x. preserves I (f x)) \<Longrightarrow> preserves I (and_then m f)"
  unfolding and_then_def by (intro pres)

lemma keeps_and_then [keep]: "keeps f m \<Longrightarrow> (\<And>x. keeps f (g x)) \<Longrightarrow> keeps f (and_then m g)"
  unfolding and_then_def by (intro keep)

lemma hoare_and_then:
  assumes "hoare P m (\<lambda>x w. case x of Inl err \<Rightarrow> Q (Inl err) w | Inr y \<Rightarrow> R y w)" and "\<And>y. hoare (R y) (f y) Q"
  shows "hoare P (and_then m f) Q"
  unfolding and_then_def
  by (rule hoare_bind [OF assms(1)], rule hoare_case_sum; simp add: hoare_return hoare_conseq [OF assms(2)])

section \<open>Tables of rows with a key\<close>

text \<open>
  A database table is the list of its rows in insertion order; a row is found by its primary key.
\<close>

definition tbl_find :: "('r \<Rightarrow> 'k) \<Rightarrow> 'k \<Rightarrow> 'r list \<Rightarrow> 'r option" where
  "tbl_find key k t = find (\<lambda>r. key r = k) t"

definition tbl_update :: "('r \<Rightarrow> 'k) \<Rightarrow> 'k \<Rightarrow> ('r \<Rightarrow> 'r) \<Rightarrow> 'r list \<Rightarrow> 'r list" where
  "tbl_update key k f t = map (\<lambda>r. if key r = k then f r else r) t"

definition tbl_delete :: "('r \<Rightarrow> 'k) \<Rightarrow> 'k \<Rightarrow> 'r list \<Rightarrow> 'r list" where
  "tbl_delete key k t = filter (\<lambda>r. key r \<noteq> k) t"

definition tbl_has :: "('r \<Rightarrow> 'k) \<Rightarrow> 'k \<Rightarrow> 'r list \<Rightarrow> bool" where
  "tbl_has key k t = list_ex (\<lambda>r. key r = k) t"

text \<open>\<open>LIMIT n OFFSET m\<close>.\<close>

definition page :: "nat \<Rightarrow> nat \<Rightarrow> 'r list \<Rightarrow> 'r list" where
  "page limit offset t = take limit (drop offset t)"

definition distinct_keys :: "('r \<Rightarrow> 'k) \<Rightarrow> 'r list \<Rightarrow> bool" where
  "distinct_keys key t = distinct (map key t)"

lemma tbl_has_iff: "tbl_has key k t \<longleftrightarrow> k \<in> key ` set t"
  by (auto simp: tbl_has_def list_ex_iff)

lemma tbl_find_None: "tbl_find key k t = None \<longleftrightarrow> k \<notin> key ` set t"
  by (auto simp: tbl_find_def find_None_iff)

lemma tbl_find_Some_key: "tbl_find key k t = Some r \<Longrightarrow> r \<in> set t \<and> key r = k"
  by (auto simp: tbl_find_def find_Some_iff)

lemma tbl_find_Nil [simp]: "tbl_find key k [] = None"
  by (simp add: tbl_find_def)

lemma tbl_find_Cons [simp]:
  "tbl_find key k (r # t) = (if key r = k then Some r else tbl_find key k t)"
  by (simp add: tbl_find_def)

lemma tbl_find_append:
  "tbl_find key k (t @ u) = (case tbl_find key k t of None \<Rightarrow> tbl_find key k u | Some r \<Rightarrow> Some r)"
  by (induction t) auto

lemma tbl_find_update:
  assumes "\<And>r. key (f r) = key r"
  shows "tbl_find key k (tbl_update key k' f t) =
    (if k = k' then map_option f (tbl_find key k t) else tbl_find key k t)"
  by (induction t) (auto simp: tbl_update_def assms)

lemma tbl_find_delete:
  "tbl_find key k (tbl_delete key k' t) = (if k = k' then None else tbl_find key k t)"
  by (induction t) (auto simp: tbl_delete_def)

lemma tbl_update_keys [simp]:
  "(\<And>r. key (f r) = key r) \<Longrightarrow> map key (tbl_update key k f t) = map key t"
  by (simp add: tbl_update_def)

lemma tbl_update_id: "k \<notin> key ` set t \<Longrightarrow> tbl_update key k f t = t"
  by (induction t) (auto simp: tbl_update_def)

lemma set_page: "set (page l n t) \<subseteq> set t"
  by (auto simp: page_def dest: in_set_takeD in_set_dropD)

lemma page_one: "page 1 0 t = (case t of [] \<Rightarrow> [] | x # _ \<Rightarrow> [x])"
  by (cases t) (auto simp: page_def)

text \<open>
  The contract of a keyed table: what a lookup returns after each change, and that keys stay
  distinct. Every repository of the store provides it; clients use only these laws.
\<close>

locale keyed_table =
  fixes lookup :: "'k \<Rightarrow> 't \<Rightarrow> 'r option"
    and insert_row :: "'r \<Rightarrow> 't \<Rightarrow> 't"
    and update_row :: "'k \<Rightarrow> ('r \<Rightarrow> 'r) \<Rightarrow> 't \<Rightarrow> 't"
    and delete_row :: "'k \<Rightarrow> 't \<Rightarrow> 't"
    and key :: "'r \<Rightarrow> 'k"
    and wf :: "'t \<Rightarrow> bool"
  assumes lookup_insert:
      "wf t \<Longrightarrow> lookup (key r) t = None \<Longrightarrow>
       lookup k (insert_row r t) = (if k = key r then Some r else lookup k t)"
    and lookup_update:
      "wf t \<Longrightarrow> (\<And>r. key (f r) = key r) \<Longrightarrow>
       lookup k (update_row k' f t) = (if k = k' then map_option f (lookup k t) else lookup k t)"
    and lookup_delete:
      "wf t \<Longrightarrow> lookup k (delete_row k' t) = (if k = k' then None else lookup k t)"
    and wf_insert: "wf t \<Longrightarrow> lookup (key r) t = None \<Longrightarrow> wf (insert_row r t)"
    and wf_update: "wf t \<Longrightarrow> (\<And>r. key (f r) = key r) \<Longrightarrow> wf (update_row k f t)"
    and wf_delete: "wf t \<Longrightarrow> wf (delete_row k t)"
begin

lemma insert_then_delete:
  "wf t \<Longrightarrow> lookup (key r) t = None \<Longrightarrow> lookup k (delete_row (key r) (insert_row r t)) = lookup k t"
  by (simp add: lookup_delete wf_insert lookup_insert)

lemma update_preserves_absence:
  "wf t \<Longrightarrow> (\<And>r. key (f r) = key r) \<Longrightarrow> lookup k t = None \<Longrightarrow> lookup k (update_row k' f t) = None"
  by (cases "k = k'") (simp_all add: lookup_update)

lemma update_twice:
  assumes "wf t" and "\<And>r. key (f r) = key r" and "\<And>r. key (g r) = key r"
  shows "lookup k (update_row k' g (update_row k' f t)) = lookup k (update_row k' (g \<circ> f) t)"
  using assms by (simp add: lookup_update wf_update option.map_comp)

end

lemma distinct_keys_delete: "distinct_keys key t \<Longrightarrow> distinct_keys key (tbl_delete key k t)"
  by (auto simp: distinct_keys_def tbl_delete_def intro: distinct_map_filter)

lemma tbl_find_snoc:
  "tbl_find key (key r) t = None \<Longrightarrow>
   tbl_find key k (t @ [r]) = (if k = key r then Some r else tbl_find key k t)"
  by (cases "tbl_find key k t") (auto simp: tbl_find_append)

lemma distinct_keys_snoc:
  "distinct_keys key t \<Longrightarrow> tbl_find key (key r) t = None \<Longrightarrow> distinct_keys key (t @ [r])"
  by (auto simp: distinct_keys_def tbl_find_None)

lemma tbl_find_distinct: "distinct_keys key t \<Longrightarrow> r \<in> set t \<Longrightarrow> tbl_find key (key r) t = Some r"
  by (induction t) (auto simp: distinct_keys_def tbl_find_def)

lemma distinct_keys_update:
  "distinct_keys key t \<Longrightarrow> (\<And>r. key (f r) = key r) \<Longrightarrow> distinct_keys key (tbl_update key k f t)"
  by (simp add: distinct_keys_def)

lemma keyed_table_list:
  "keyed_table (tbl_find key) (\<lambda>r t. t @ [r]) (tbl_update key) (tbl_delete key) key (distinct_keys key)"
  by unfold_locales
    (simp_all add: tbl_find_snoc tbl_find_update tbl_find_delete distinct_keys_delete
      distinct_keys_snoc distinct_keys_update)

end
