(* ===== verification/Domain.thy ===== *)
theory Domain
  imports Go_Prelude
begin

text \<open>
  The domain package (\<open>src/internal/domain\<close>): the structs the services exchange as records, their
  string enumerations as datatypes, and the pure rules of the package: expiry states and alert
  thresholds (\<open>models.go\<close>), the check executor and its error summaries (\<open>check.go\<close>), and the
  validation of confirmation and heartbeat settings and of host names (\<open>validation.go\<close>).

  A Go string enumeration can carry any string, so each datatype keeps a constructor for the
  strings the source does not name.
\<close>

section \<open>Enumerations\<close>

datatype resource_type =
    ResourceHTTP | ResourceTCP | ResourceDNS | ResourceICMP | ResourceHeartbeat
  | ResourceKeyword | ResourceProtocol | ResourceTypeOther string

datatype resource_status =
    StatusUp | StatusDown | StatusError | StatusUnknown | StatusPaused | StatusPending
  | StatusWarn | StatusFlapping | StatusOther string

datatype component_status =
    ComponentStatusUp | ComponentStatusDegraded | ComponentStatusDown | ComponentStatusOther string

datatype expiry_status =
    ExpiryStatusOK | ExpiryStatusWarning | ExpiryStatusCritical | ExpiryStatusExpired

datatype incident_event_step_type =
    IncidentEventStepDetected | IncidentEventStepResolved | IncidentEventStepAlert
  | IncidentEventStepDownAlert | IncidentEventStepUpAlert | IncidentEventStepFlapping
  | IncidentEventStepFlappingStabilized | IncidentEventStepReminder
  | IncidentEventStepComponentAlert

datatype notification_event_type =
    NotificationEventTypeUp | NotificationEventTypeDown | NotificationEventTypeExpiry
  | NotificationEventTypeFlapping | NotificationEventTypeStabilized | NotificationEventTypeReminder

datatype notification_event_status =
    NotificationEventStatusSent | NotificationEventStatusFailed | NotificationEventStatusPending
  | NotificationEventStatusExpired | NotificationEventStatusDelivered | NotificationEventStatusRead

datatype notification_channel_type =
    NotificationChannelTypeSMTP | NotificationChannelTypeSlack | NotificationChannelTypeSMS
  | NotificationChannelTypeOther string

fun resource_type_string :: "resource_type \<Rightarrow> string" where
  "resource_type_string ResourceHTTP = ''http''"
| "resource_type_string ResourceTCP = ''tcp''"
| "resource_type_string ResourceDNS = ''dns''"
| "resource_type_string ResourceICMP = ''icmp''"
| "resource_type_string ResourceHeartbeat = ''heartbeat''"
| "resource_type_string ResourceKeyword = ''keyword''"
| "resource_type_string ResourceProtocol = ''protocol''"
| "resource_type_string (ResourceTypeOther s) = s"

fun resource_status_string :: "resource_status \<Rightarrow> string" where
  "resource_status_string StatusUp = ''up''"
| "resource_status_string StatusDown = ''down''"
| "resource_status_string StatusError = ''error''"
| "resource_status_string StatusUnknown = ''unknown''"
| "resource_status_string StatusPaused = ''paused''"
| "resource_status_string StatusPending = ''pending''"
| "resource_status_string StatusWarn = ''warning''"
| "resource_status_string StatusFlapping = ''flapping''"
| "resource_status_string (StatusOther s) = s"

fun channel_type_string :: "notification_channel_type \<Rightarrow> string" where
  "channel_type_string NotificationChannelTypeSMTP = ''smtp''"
| "channel_type_string NotificationChannelTypeSlack = ''slack''"
| "channel_type_string NotificationChannelTypeSMS = ''sms''"
| "channel_type_string (NotificationChannelTypeOther s) = s"

fun channel_type_IsValid :: "notification_channel_type \<Rightarrow> bool" where
  "channel_type_IsValid NotificationChannelTypeSMTP = True"
| "channel_type_IsValid NotificationChannelTypeSlack = True"
| "channel_type_IsValid NotificationChannelTypeSMS = True"
| "channel_type_IsValid (NotificationChannelTypeOther s) = False"

datatype check_failure_cause =
    ConnectionTimeout | ConnectionRefused | HostUnreachable | DNSTimeout | DNSResolutionFailed
  | TCPPortClosed | HTTPInvalidStatusCode | HTTPRedirectLoop | HTTPRequestFailed | HTTPSSLError
  | SSLNoCertificateFound | SSLExpired | SSLExpiringSoon | SSLInvalidHostname | SSLHandshakeFailed
  | DNSNoRecordsFound | DNSMisconfigured | DNSMismatch | DomainExpired | DomainExpiringSoon
  | DomainWhoisQueryFailed | DomainWhoisParseError | ResponseTooSlow | HighLatencyDetected
  | InvalidTarget | InvalidConfiguration | UnexpectedError | ContextCancelled | MissedHeartbeat
  | KeywordNotFound | KeywordFound | ProtocolHandshakeFailed | ProtocolUnexpectedResponse
  | ProtocolAuthFailed | ProtocolTLSHandshakeFailed | ProtocolDecryptFailed

fun cause_string :: "check_failure_cause \<Rightarrow> string" where
  "cause_string ConnectionTimeout = ''Connection Timeout''"
| "cause_string ConnectionRefused = ''Connection Refused''"
| "cause_string HostUnreachable = ''Host Unreachable''"
| "cause_string DNSTimeout = ''DNS Timeout''"
| "cause_string DNSResolutionFailed = ''DNS Resolution Failed''"
| "cause_string TCPPortClosed = ''TCP Port Closed''"
| "cause_string HTTPInvalidStatusCode = ''Invalid HTTP Status Code''"
| "cause_string HTTPRedirectLoop = ''HTTP Redirect Loop''"
| "cause_string HTTPRequestFailed = ''HTTP Request Failed''"
| "cause_string HTTPSSLError = ''HTTPS Handshake Error''"
| "cause_string SSLNoCertificateFound = ''No SSL Certificate Found''"
| "cause_string SSLExpired = ''SSL Certificate Expired''"
| "cause_string SSLExpiringSoon = ''SSL Certificate Expiring Soon''"
| "cause_string SSLInvalidHostname = ''SSL Hostname Mismatch''"
| "cause_string SSLHandshakeFailed = ''SSL Handshake Failed''"
| "cause_string DNSNoRecordsFound = ''No DNS Records Found''"
| "cause_string DNSMisconfigured = ''DNS Misconfiguration Detected''"
| "cause_string DNSMismatch = ''Unexpected DNS Records''"
| "cause_string DomainExpired = ''Domain Expired''"
| "cause_string DomainExpiringSoon = ''Domain Expiring Soon''"
| "cause_string DomainWhoisQueryFailed = ''WHOIS Query Failed''"
| "cause_string DomainWhoisParseError = ''WHOIS Parse Error''"
| "cause_string ResponseTooSlow = ''Response Too Slow''"
| "cause_string HighLatencyDetected = ''High Latency Detected''"
| "cause_string InvalidTarget = ''Invalid Target''"
| "cause_string InvalidConfiguration = ''Invalid Configuration''"
| "cause_string UnexpectedError = ''Unexpected Error''"
| "cause_string ContextCancelled = ''Operation Cancelled''"
| "cause_string MissedHeartbeat = ''missed_heartbeat''"
| "cause_string KeywordNotFound = ''keyword_not_found''"
| "cause_string KeywordFound = ''keyword_found''"
| "cause_string ProtocolHandshakeFailed = ''Protocol Handshake Failed''"
| "cause_string ProtocolUnexpectedResponse = ''Unexpected Protocol Response''"
| "cause_string ProtocolAuthFailed = ''Authentication Failed''"
| "cause_string ProtocolTLSHandshakeFailed = ''TLS Handshake Failed''"
| "cause_string ProtocolDecryptFailed = ''Credential Decryption Failed''"

section \<open>Structs\<close>

record resource_meta_data =
  md_SSLExpirationDate :: "time option"
  md_SSLIssuer :: string
  md_DomainExpirationDate :: "time option"
  md_DomainRegistrar :: string

record resource =
  r_ID :: string
  r_CreatedAt :: time
  r_Name :: string
  r_Type :: resource_type
  r_Interval :: int
  r_Timeout :: int
  r_Target :: string
  r_LastChecked :: "time option"
  r_Status :: resource_status
  r_IsActive :: bool
  r_FailureCount :: int
  r_ConfirmationChecks :: int
  r_ConfirmationInterval :: int
  r_ExpiryAlertThresholds :: "string option"
  r_Metadata :: "resource_meta_data option"
  r_ComponentID :: "string option"
  r_FlapDetectionEnabled :: bool
  r_FlapThreshold :: int
  r_FlapWindowSeconds :: int
  r_FlapMaxDurationMinutes :: int
  r_LastStatusTransition :: "time option"
  r_FlapStartedAt :: "time option"
  r_ReminderIntervalMinutes :: int
  r_HeartbeatSlug :: "string option"
  r_HeartbeatInterval :: "int option"
  r_HeartbeatGrace :: "int option"
  r_LastPingAt :: "time option"
  r_Keyword :: "string option"
  r_KeywordMode :: "string option"
  r_ProtocolType :: "string option"
  r_ProtocolPort :: "int option"

definition IsHeartbeatWaiting :: "resource \<Rightarrow> bool" where
  "IsHeartbeatWaiting r \<longleftrightarrow> r_Type r = ResourceHeartbeat \<and> r_LastPingAt r = None"

record incident =
  i_ID :: string
  i_ResourceID :: string
  i_Cause :: string
  i_ResolvedAt :: "time option"
  i_StartedAt :: time
  i_Details :: string
  i_CreatedAt :: time
  i_UpdatedAt :: time

record incident_event_step =
  es_ID :: string
  es_CreatedAt :: time
  es_IncidentID :: string
  es_Step :: incident_event_step_type
  es_Message :: "string option"

record notification_event =
  ne_ID :: string
  ne_CreatedAt :: time
  ne_IncidentID :: string
  ne_Type :: notification_event_type
  ne_Status :: notification_event_status
  ne_ClaimOwner :: "string option"
  ne_ClaimedAt :: "time option"
  ne_ProcessedAt :: "time option"
  ne_LastError :: string

record notification_channel =
  ch_ID :: string
  ch_Name :: string
  ch_Type :: notification_channel_type
  ch_Config :: string
  ch_EnabledByDefault :: bool
  ch_LastSentAt :: "time option"
  ch_LastFailureAt :: "time option"
  ch_Failures24h :: int
  ch_CreatedAt :: time

record monitoring_activity =
  ma_ID :: string
  ma_CreatedAt :: time
  ma_ResourceID :: string
  ma_Message :: string
  ma_Success :: bool
  ma_ResponseTime :: int
  ma_ResponseData :: string
  ma_IsMaintenance :: bool

record component =
  co_ID :: string
  co_CreatedAt :: time
  co_UpdatedAt :: time
  co_Name :: string
  co_Description :: "string option"
  co_LastNotificationStatus :: component_status
  co_GroupingWindowSeconds :: int

datatype maintenance_strategy = OneTime | Cron | StrategyOther string

record maintenance =
  mt_ID :: string
  mt_Title :: string
  mt_Strategy :: maintenance_strategy
  mt_Status :: string
  mt_StartAt :: "time option"
  mt_EndAt :: "time option"
  mt_CronExpr :: "string option"
  mt_WindowMinutes :: "int option"
  mt_Timezone :: "string option"
  mt_EffectiveFrom :: "time option"
  mt_EffectiveUntil :: "time option"
  mt_StartedAt :: "time option"
  mt_EndedAt :: "time option"
  mt_Description :: "string option"
  mt_CreatedAt :: time
  mt_UpdatedAt :: time

datatype incident_update_status =
    IncidentUpdateInvestigating | IncidentUpdateIdentified | IncidentUpdateMonitoring
  | IncidentUpdateResolved | IncidentUpdateOther string

record incident_update =
  iu_ID :: string
  iu_IncidentID :: string
  iu_Status :: incident_update_status
  iu_Message :: string
  iu_PostedBy :: string
  iu_PostedAt :: time

record tag =
  tg_ID :: string
  tg_Name :: string
  tg_Color :: "string option"
  tg_Description :: "string option"
  tg_CreatedAt :: time

record host =
  ho_ID :: string
  ho_CreatedAt :: time
  ho_Name :: string
  ho_LastSeenAt :: "time option"

definition IsOnline :: "time \<Rightarrow> duration \<Rightarrow> host \<Rightarrow> bool" where
  "IsOnline t threshold h = (case ho_LastSeenAt h of None \<Rightarrow> False | Some l \<Rightarrow> time_sub t l \<le> threshold)"

datatype host_state = HostAlertStateOnline | HostAlertStateOffline

record host_alert_state =
  ha_HostID :: string
  ha_State :: host_state
  ha_OfflineSince :: "time option"
  ha_Alerted :: bool
  ha_UpdatedAt :: time

datatype escalation_scope_kind = EscalationScopeComponent | EscalationScopeTag | EscalationScopeOther string

record escalation_scope =
  sc_Kind :: escalation_scope_kind
  sc_Value :: string

record escalation_step =
  st_ID :: string
  st_PolicyID :: string
  st_StepOrder :: int
  st_DelayMinutes :: int
  st_ChannelIDs :: "string list"

record escalation_policy =
  ep_ID :: string
  ep_CreatedAt :: time
  ep_UpdatedAt :: time
  ep_Name :: string
  ep_Scope :: escalation_scope
  ep_IsActive :: bool
  ep_Priority :: int
  ep_Steps :: "escalation_step list"

record emitted_notification =
  em_Category :: string
  em_Severity :: string
  em_Title :: string
  em_DeepLink :: "string option"
  em_OccurredAt :: time

record keyword_check_context =
  kc_Keyword :: string
  kc_KeywordMode :: string
  kc_KeywordFound :: bool

text \<open>A Go map of headers is an association list with distinct keys; \<open>nil\<close> is \<open>None\<close>.\<close>

type_synonym headers = "(string \<times> string) list option"

record check_result =
  c_Status :: resource_status
  c_ResponseTime :: duration
  c_ResponseData :: string
  c_Cause :: "check_failure_cause option"
  c_HTTPStatusCode :: int
  c_RequestMethod :: string
  c_RequestURL :: string
  c_ResponseHeaders :: headers
  c_ResponseBody :: string
  c_BodyTruncated :: bool
  c_BodyEncoded :: bool
  c_ErrorMessage :: string
  c_RequestHeaders :: headers
  c_DNSDuration :: duration
  c_TLSDuration :: duration
  c_FirstByteDuration :: duration
  c_KeywordContext :: "keyword_check_context option"
  c_ReadBodySize :: int

text \<open>The zero value of \<open>CheckResult\<close>, from which composite literals start.\<close>

definition check_result_zero :: check_result where
  "check_result_zero =
     \<lparr>c_Status = StatusOther '''', c_ResponseTime = 0, c_ResponseData = '''', c_Cause = None,
      c_HTTPStatusCode = 0, c_RequestMethod = '''', c_RequestURL = '''', c_ResponseHeaders = None,
      c_ResponseBody = '''', c_BodyTruncated = False, c_BodyEncoded = False, c_ErrorMessage = '''',
      c_RequestHeaders = None, c_DNSDuration = 0, c_TLSDuration = 0, c_FirstByteDuration = 0,
      c_KeywordContext = None, c_ReadBodySize = 0\<rparr>"

section \<open>Expiry states and alert thresholds (models.go)\<close>

definition ComputeExpiryStatus :: "int \<Rightarrow> expiry_status" where
  "ComputeExpiryStatus daysRemaining =
     (if daysRemaining \<le> 0 then ExpiryStatusExpired
      else if daysRemaining \<le> 7 then ExpiryStatusCritical
      else if daysRemaining \<le> 30 then ExpiryStatusWarning
      else ExpiryStatusOK)"

fun expiry_rank :: "expiry_status \<Rightarrow> int" where
  "expiry_rank ExpiryStatusOK = 0"
| "expiry_rank ExpiryStatusWarning = 1"
| "expiry_rank ExpiryStatusCritical = 2"
| "expiry_rank ExpiryStatusExpired = 3"

definition AggregateExpiryStatus :: "expiry_status \<Rightarrow> expiry_status \<Rightarrow> expiry_status" where
  "AggregateExpiryStatus ssl domain = (if expiry_rank domain > expiry_rank ssl then domain else ssl)"

definition DefaultExpiryThresholds :: "int list" where
  "DefaultExpiryThresholds = [30, 14, 7, 1]"

fun parse_threshold_parts :: "string list \<Rightarrow> int list" where
  "parse_threshold_parts [] = []"
| "parse_threshold_parts (p # ps) =
     (case atoi (trim_space p) of
        None \<Rightarrow> parse_threshold_parts ps
      | Some v \<Rightarrow> if v \<le> 0 \<or> v > 365 then parse_threshold_parts ps else v # parse_threshold_parts ps)"

definition parseThresholds :: "string \<Rightarrow> int list" where
  "parseThresholds s = parse_threshold_parts (split_on CHR '','' s)"

definition ParseThresholds :: "string \<Rightarrow> int list" where
  "ParseThresholds s = parseThresholds s"

definition ExpiryThresholds :: "resource \<Rightarrow> int list \<Rightarrow> int list" where
  "ExpiryThresholds r globalDefaults =
     (if r_ExpiryAlertThresholds r = None \<or> r_ExpiryAlertThresholds r = Some '''' then
        (if length globalDefaults > 0 then globalDefaults else DefaultExpiryThresholds)
      else
        (let parsed = parseThresholds (the (r_ExpiryAlertThresholds r)) in
         if length parsed = 0 then
           (if length globalDefaults > 0 then globalDefaults else DefaultExpiryThresholds)
         else parsed))"

section \<open>Checks (check.go)\<close>

record metric =
  m_resourceID :: string
  m_name :: string
  m_type :: resource_type
  m_duration :: duration
  m_status :: string

text \<open>
  A strategy performs the network check of a resource type; the outcome of that I/O is a parameter.
  \<open>ExecuteCheck\<close> returns the result, the error and what it records.
\<close>

type_synonym strategy = "resource \<Rightarrow> check_result \<times> error option"

definition ExecuteCheck ::
    "(resource_type \<rightharpoonup> strategy) \<Rightarrow> duration \<Rightarrow> resource \<Rightarrow> (check_result \<times> error option) \<times> metric option" where
  "ExecuteCheck strategies elapsed r =
     (case strategies (r_Type r) of
        None \<Rightarrow>
          ((check_result_zero\<lparr>c_Status := StatusError, c_ResponseTime := 0,
              c_ResponseData := ''unsupported resource type''\<rparr>, None), None)
      | Some strategy \<Rightarrow>
          (let (result, err) = strategy r;
               statusString = (if c_Status result = StatusUp then ''success'' else ''failure'')
           in ((result, err),
               Some \<lparr>m_resourceID = r_ID r, m_name = r_Name r, m_type = r_Type r,
                     m_duration = elapsed, m_status = statusString\<rparr>)))"

definition statusCodeText :: "int \<Rightarrow> string" where
  "statusCodeText code =
     (if code = 400 then ''Bad Request''
      else if code = 401 then ''Unauthorized''
      else if code = 403 then ''Forbidden''
      else if code = 404 then ''Not Found''
      else if code = 408 then ''Request Timeout''
      else if code = 429 then ''Too Many Requests''
      else if code = 500 then ''Internal Server Error''
      else if code = 501 then ''Not Implemented''
      else if code = 502 then ''Bad Gateway''
      else if code = 503 then ''Service Unavailable''
      else if code = 504 then ''Gateway Timeout''
      else '''')"

definition GenerateErrorSummary :: "string \<Rightarrow> int \<Rightarrow> string" where
  "GenerateErrorSummary failureType httpStatusCode =
     (if failureType = cause_string ConnectionTimeout then
        ''The server took too long to respond. Check if the target is overloaded or if network latency is high.''
      else if failureType = cause_string ConnectionRefused then
        ''The server rejected the connection. Verify that the target service is running and the port is correct.''
      else if failureType = cause_string HostUnreachable then
        ''The target host is unreachable. Check network connectivity and firewall rules.''
      else if failureType = cause_string DNSTimeout then
        ''DNS resolution took too long. The DNS server may be overloaded or unreachable.''
      else if failureType = cause_string DNSResolutionFailed then
        ''Unable to resolve the domain name to an IP address. Verify the domain is correctly configured and the DNS provider is operational.''
      else if failureType = cause_string TCPPortClosed then
        ''The TCP port is closed or not listening. Ensure the service is running on the specified port.''
      else if failureType = cause_string HTTPInvalidStatusCode then
        (if httpStatusCode > 0 \<and> httpStatusCode \<ge> 500 then
           ''Server error ('' @ itoa httpStatusCode @ '' '' @ statusCodeText httpStatusCode @
           ''). The target returned a server-side error. Check target logs.''
         else if httpStatusCode > 0 \<and> httpStatusCode \<ge> 400 then
           ''Client error ('' @ itoa httpStatusCode @ '' '' @ statusCodeText httpStatusCode @
           ''). Check the request configuration or target endpoint.''
         else ''The server returned an unexpected HTTP status code. Check the target configuration.'')
      else if failureType = cause_string HTTPRedirectLoop then
        ''The server is redirecting in a loop. Check redirect configuration on the target server.''
      else if failureType = cause_string HTTPRequestFailed then
        ''The HTTP request failed. Check network connectivity and target reachability.''
      else if failureType = cause_string HTTPSSLError then
        ''SSL/TLS handshake failed. Verify that the certificate is valid and properly configured.''
      else if failureType = cause_string SSLNoCertificateFound then
        ''No SSL certificate was found on the target. Verify that TLS is properly configured.''
      else if failureType = cause_string SSLExpired then
        ''The SSL certificate has expired. Request a new certificate or renew the existing one.''
      else if failureType = cause_string SSLExpiringSoon then
        ''The SSL certificate is expiring soon. Plan to renew it before expiration.''
      else if failureType = cause_string SSLInvalidHostname then
        ''The SSL certificate hostname doesn'' @ [CHR 0x27] @ ''t match the target. Ensure the certificate covers the correct domain.''
      else if failureType = cause_string SSLHandshakeFailed then
        ''SSL/TLS handshake failed. Check certificate configuration and TLS version support.''
      else if failureType = cause_string ResponseTooSlow then
        ''The response time exceeded the configured timeout. The target may be overloaded or network latency is high.''
      else if failureType = cause_string InvalidTarget then
        ''The target configuration is invalid. Check the URL or address format.''
      else if failureType = cause_string UnexpectedError then
        ''An unexpected error occurred during the check. See error details for more information.''
      else if failureType = cause_string KeywordNotFound then
        ''Response body does not contain the expected keyword.''
      else if failureType = cause_string KeywordFound then
        ''Response body contains the forbidden keyword.''
      else ''Health check failed. Review the error message and target configuration.'')"

section \<open>Validation (validation.go)\<close>

definition ErrInvalidConfirmationChecks :: error where
  "ErrInvalidConfirmationChecks = ErrorNew ''confirmation_checks must be >= 1''"
definition ErrInvalidConfirmationInterval :: error where
  "ErrInvalidConfirmationInterval = ErrorNew ''confirmation_interval must be > 0''"
definition ErrInvalidConfirmationRelation :: error where
  "ErrInvalidConfirmationRelation = ErrorNew ''confirmation_interval must be < interval''"
definition ErrInvalidHeartbeatInterval :: error where
  "ErrInvalidHeartbeatInterval = ErrorNew ''heartbeat_interval must be between 60 and 86400 seconds''"
definition ErrInvalidHeartbeatGrace :: error where
  "ErrInvalidHeartbeatGrace = ErrorNew ''heartbeat_grace must be between 60 and 3600 seconds''"
definition ErrInvalidHeartbeatGraceRange :: error where
  "ErrInvalidHeartbeatGraceRange = ErrorNew ''heartbeat_grace must be <= heartbeat_interval''"

definition ValidateHeartbeatSettings :: "int \<Rightarrow> int \<Rightarrow> error option" where
  "ValidateHeartbeatSettings interval grace =
     (if interval < 60 \<or> interval > 86400 then Some ErrInvalidHeartbeatInterval
      else if grace < 60 \<or> grace > 3600 then Some ErrInvalidHeartbeatGrace
      else if grace > interval then Some ErrInvalidHeartbeatGraceRange
      else None)"

definition ResolveConfirmationDefaults :: "int option \<Rightarrow> int option \<Rightarrow> int \<Rightarrow> int \<Rightarrow> int \<times> int" where
  "ResolveConfirmationDefaults checks interval defaultChecks defaultInterval =
     (let resolvedChecks = (case checks of Some c \<Rightarrow> c | None \<Rightarrow> defaultChecks);
          resolvedInterval = (case interval of Some i \<Rightarrow> i | None \<Rightarrow> defaultInterval)
      in (resolvedChecks, resolvedInterval))"

definition ValidateConfirmationSettings :: "int \<Rightarrow> int \<Rightarrow> int \<Rightarrow> error option" where
  "ValidateConfirmationSettings interval confirmationChecks confirmationInterval =
     (if confirmationChecks < 1 then Some ErrInvalidConfirmationChecks
      else if confirmationInterval \<le> 0 then Some ErrInvalidConfirmationInterval
      else if interval > 0 \<and> confirmationInterval \<ge> interval then Some ErrInvalidConfirmationRelation
      else None)"

definition hostname_char :: "char \<Rightarrow> bool" where
  "hostname_char ch \<longleftrightarrow>
     (CHR ''a'' \<le> ch \<and> ch \<le> CHR ''z'') \<or> (CHR ''A'' \<le> ch \<and> ch \<le> CHR ''Z'') \<or>
     (CHR ''0'' \<le> ch \<and> ch \<le> CHR ''9'') \<or> ch = CHR ''-'' \<or> ch = CHR ''_''"

definition isValidHostnameLabel :: "string \<Rightarrow> bool" where
  "isValidHostnameLabel label =
     (if length label = 0 \<or> length label > 63 then False
      else if has_prefix label ''-'' \<or> has_suffix label ''-'' then False
      else list_all hostname_char label)"

text \<open>\<open>net.ParseIP(s) != nil\<close> is the parameter \<open>is_ip\<close>.\<close>

definition isValidHostname :: "(string \<Rightarrow> bool) \<Rightarrow> string \<Rightarrow> bool" where
  "isValidHostname is_ip hostname0 =
     (if length hostname0 = 0 \<or> length hostname0 > 253 then False
      else
        (let hostname = trim {CHR ''['', CHR '']''} hostname0 in
         if is_ip hostname then True
         else if str_contains hostname ''..'' then False
         else if has_prefix hostname ''.'' \<or> has_suffix hostname ''.'' then False
         else if has_prefix hostname ''-'' \<or> has_suffix hostname ''-'' then False
         else list_all isValidHostnameLabel (split_on CHR ''.'' hostname)))"

section \<open>Facts of the domain rules\<close>

lemma cause_string_nonempty [simp]: "cause_string c \<noteq> ''''"
  by (cases c) simp_all

lemma parse_threshold_parts_range:
  "v \<in> set (parse_threshold_parts ps) \<Longrightarrow> 0 < v \<and> v \<le> 365"
  by (induction ps) (auto split: option.splits if_splits)

lemma parse_threshold_parts_append:
  "parse_threshold_parts (ps @ qs) = parse_threshold_parts ps @ parse_threshold_parts qs"
  by (induction ps) (auto split: option.splits)

lemma AggregateExpiryStatus_rank:
  "expiry_rank (AggregateExpiryStatus a b) = max (expiry_rank a) (expiry_rank b)"
  by (simp add: AggregateExpiryStatus_def max_def)

lemma expiry_rank_inj: "expiry_rank a = expiry_rank b \<Longrightarrow> a = b"
  by (cases a; cases b) auto

lemma expiry_rank_antimono:
  "d \<le> d' \<Longrightarrow> expiry_rank (ComputeExpiryStatus d') \<le> expiry_rank (ComputeExpiryStatus d)"
  by (simp add: ComputeExpiryStatus_def)

lemma ExecuteCheck_metric:
  assumes "ExecuteCheck st d r = ((res, err), Some m)"
  shows "(m_status m = ''success'' \<longleftrightarrow> c_Status res = StatusUp) \<and> m_resourceID m = r_ID r"
  using assms
  by (auto simp: ExecuteCheck_def Let_def split: option.splits prod.splits if_splits)

end
