(* ===== verification/Diagnostics.thy ===== *)
theory Diagnostics
  imports Domain
begin

text \<open>
  Incident diagnostics: the record (\<open>src/internal/domain/models.go\<close>), the two builders that fill
  it from a check result (\<open>src/internal/worker/diagnostics_builder.go\<close> and
  \<open>src/internal/monitoring/incident_service.go\<close>), and the ICMP enrichment
  (\<open>src/internal/icmp/enricher.go\<close>). The lemmas show what is removed from the stored headers, the
  bound on the stored body, and which root-cause hint each outcome of the probe gives.
\<close>

record incident_diagnostics =
  d_ID :: string
  d_IncidentID :: string
  d_RequestMethod :: string
  d_RequestURL :: string
  d_RequestHeaders :: "(string \<times> string) list"
  d_RequestTimeout :: int
  d_HTTPStatusCode :: int
  d_ResponseHeaders :: headers
  d_ResponseBody :: string
  d_ResponseSize :: int
  d_FailureType :: string
  d_ErrorMessage :: string
  d_ErrorSummary :: string
  d_TotalDuration :: int
  d_DNSDuration :: int
  d_TLSDuration :: int
  d_FirstByteDuration :: int
  d_BodyTruncated :: bool
  d_BodyEncoded :: bool
  d_Keyword :: "string option"
  d_KeywordMode :: "string option"
  d_KeywordFound :: "bool option"
  d_ICMPAvailable :: "bool option"
  d_ICMPReachable :: "bool option"
  d_ICMPRttMs :: "int option"
  d_RootCauseHint :: string

definition diagnostics_zero :: incident_diagnostics where
  "diagnostics_zero =
     \<lparr>d_ID = '''', d_IncidentID = '''', d_RequestMethod = '''', d_RequestURL = '''', d_RequestHeaders = [],
      d_RequestTimeout = 0, d_HTTPStatusCode = 0, d_ResponseHeaders = None, d_ResponseBody = '''',
      d_ResponseSize = 0, d_FailureType = '''', d_ErrorMessage = '''', d_ErrorSummary = '''',
      d_TotalDuration = 0, d_DNSDuration = 0, d_TLSDuration = 0, d_FirstByteDuration = 0,
      d_BodyTruncated = False, d_BodyEncoded = False, d_Keyword = None, d_KeywordMode = None,
      d_KeywordFound = None, d_ICMPAvailable = None, d_ICMPReachable = None, d_ICMPRttMs = None,
      d_RootCauseHint = ''''\<rparr>"

text \<open>\<open>Duration.Milliseconds\<close>.\<close>

definition milliseconds :: "duration \<Rightarrow> int" where
  "milliseconds d = go_div d Millisecond"

section \<open>Standard base64\<close>

definition b64_char :: "nat \<Rightarrow> char" where
  "b64_char n = ''ABCDEFGHIJKLMNOPQRSTUVWXYZabcdefghijklmnopqrstuvwxyz0123456789+/'' ! n"

fun base64 :: "string \<Rightarrow> string" where
  "base64 [] = []"
| "base64 [a] =
     (let x = of_char a in [b64_char (x div 4), b64_char (x mod 4 * 16), CHR ''='', CHR ''=''])"
| "base64 [a, b] =
     (let x = of_char a; y = of_char b in
      [b64_char (x div 4), b64_char (x mod 4 * 16 + y div 16), b64_char (y mod 16 * 4), CHR ''=''])"
| "base64 (a # b # c # rest) =
     (let x = of_char a; y = of_char b; z = of_char c in
      [b64_char (x div 4), b64_char (x mod 4 * 16 + y div 16), b64_char (y mod 16 * 4 + z div 64),
       b64_char (z mod 64)] @ base64 rest)"

lemma length_base64: "length (base64 s) = 4 * ((length s + 2) div 3)"
proof (induction s rule: base64.induct)
  case (4 a b c rest)
  have "(length rest + 5) div 3 = Suc ((length rest + 2) div 3)"
    by presburger
  with "4.IH" show ?case
    by (simp add: Let_def add.commute)
qed (simp_all add: Let_def)

section \<open>The builder of the worker (diagnostics_builder.go)\<close>

definition normalizeHeaders :: "headers \<Rightarrow> (string \<times> string) list" where
  "normalizeHeaders hs = (case hs of None \<Rightarrow> [] | Some kvs \<Rightarrow> kvs)"

definition blocked :: "string list" where
  "blocked = [''authorization'', ''cookie'', ''x-api-key'', ''x-auth-token'', ''authorization-key'',
     ''x-access-token'', ''password'', ''secret'', ''token'', ''apikey'']"

definition sanitizeHeaders :: "headers \<Rightarrow> (string \<times> string) list" where
  "sanitizeHeaders hs =
     (case hs of None \<Rightarrow> [] | Some kvs \<Rightarrow> filter (\<lambda>(k, v). \<not> List.member blocked (to_lower k)) kvs)"

definition maxBodySize :: nat where
  "maxBodySize = 5 * 1024"

definition BuildIncidentDiagnostics :: "string \<Rightarrow> check_result \<Rightarrow> resource \<Rightarrow> incident_diagnostics" where
  "BuildIncidentDiagnostics incidentID result res =
     (let d0 = diagnostics_zero\<lparr>d_IncidentID := incidentID,
                 d_RequestMethod := c_RequestMethod result,
                 d_RequestURL := c_RequestURL result,
                 d_RequestHeaders := sanitizeHeaders (c_RequestHeaders result),
                 d_RequestTimeout := r_Timeout res,
                 d_HTTPStatusCode := c_HTTPStatusCode result,
                 d_ResponseHeaders := Some (normalizeHeaders (c_ResponseHeaders result)),
                 d_TotalDuration := milliseconds (c_ResponseTime result),
                 d_DNSDuration := milliseconds (c_DNSDuration result),
                 d_TLSDuration := milliseconds (c_TLSDuration result),
                 d_FirstByteDuration := milliseconds (c_FirstByteDuration result)\<rparr>;
          d1 = (case c_Cause result of
                  None \<Rightarrow> d0
                | Some c \<Rightarrow> d0\<lparr>d_FailureType := cause_string c,
                    d_ErrorSummary := GenerateErrorSummary (cause_string c) (c_HTTPStatusCode result)\<rparr>);
          d2 = (if c_ErrorMessage result \<noteq> '''' then d1\<lparr>d_ErrorMessage := c_ErrorMessage result\<rparr> else d1);
          d3 = (case c_KeywordContext result of
                  None \<Rightarrow> d2
                | Some kc \<Rightarrow> d2\<lparr>d_Keyword := Some (kc_Keyword kc), d_KeywordMode := Some (kc_KeywordMode kc),
                    d_KeywordFound := Some (kc_KeywordFound kc)\<rparr>);
          d4 = (if c_ReadBodySize result > 0 then d3\<lparr>d_ResponseSize := c_ReadBodySize result\<rparr> else d3);
          d5 = (if c_BodyTruncated result \<and> c_KeywordContext result \<noteq> None
                then d4\<lparr>d_BodyTruncated := True\<rparr> else d4)
      in if c_ResponseBody result = '''' then d5
         else
           (let d6 = (if CHR 0x00 \<in> set (c_ResponseBody result)
                      then d5\<lparr>d_ResponseBody := base64 (c_ResponseBody result), d_BodyEncoded := True\<rparr>
                      else d5\<lparr>d_ResponseBody := c_ResponseBody result, d_BodyEncoded := False\<rparr>)
            in if c_KeywordContext result = None then
                 (let d7 = (if length (d_ResponseBody d6) > maxBodySize
                            then d6\<lparr>d_ResponseBody := take maxBodySize (d_ResponseBody d6), d_BodyTruncated := True\<rparr>
                            else d6)
                  in d7\<lparr>d_ResponseSize := int (length (c_ResponseBody result))\<rparr>)
               else d6))"

section \<open>The builder of the incident service (incident_service.go)\<close>

definition sanitizeRequestHeaders :: "headers \<Rightarrow> (string \<times> string) list" where
  "sanitizeRequestHeaders hs =
     (case hs of None \<Rightarrow> [] | Some kvs \<Rightarrow> filter (\<lambda>(k, v). \<not> equal_fold k ''Authorization'') kvs)"

definition service_buildIncidentDiagnostics :: "string \<Rightarrow> check_result \<Rightarrow> resource \<Rightarrow> incident_diagnostics" where
  "service_buildIncidentDiagnostics incidentID result res =
     (let d0 = diagnostics_zero\<lparr>d_IncidentID := incidentID,
                 d_RequestMethod := c_RequestMethod result,
                 d_RequestURL := c_RequestURL result,
                 d_RequestHeaders := sanitizeRequestHeaders (c_RequestHeaders result),
                 d_RequestTimeout := r_Timeout res,
                 d_HTTPStatusCode := c_HTTPStatusCode result,
                 d_ResponseHeaders := c_ResponseHeaders result,
                 d_TotalDuration := milliseconds (c_ResponseTime result),
                 d_DNSDuration := milliseconds (c_DNSDuration result),
                 d_TLSDuration := milliseconds (c_TLSDuration result),
                 d_FirstByteDuration := milliseconds (c_FirstByteDuration result)\<rparr>;
          d1 = (case c_Cause result of None \<Rightarrow> d0 | Some c \<Rightarrow> d0\<lparr>d_FailureType := cause_string c\<rparr>);
          d2 = (if c_ErrorMessage result \<noteq> '''' then d1\<lparr>d_ErrorMessage := c_ErrorMessage result\<rparr> else d1)
      in if c_ResponseBody result \<noteq> ''''
         then d2\<lparr>d_ResponseBody := c_ResponseBody result,
                 d_ResponseSize := int (length (c_ResponseBody result))\<rparr>
         else d2)"

section \<open>ICMP enrichment (enricher.go)\<close>

record enrichment_result =
  en_ICMPAvailable :: "bool option"
  en_ICMPReachable :: "bool option"
  en_ICMPRTTMs :: "int option"
  en_RootCauseHint :: string

definition RootCauseICMPUnavailable :: string where
  "RootCauseICMPUnavailable = ''icmp_unavailable''"
definition RootCauseHostUnreachable :: string where
  "RootCauseHostUnreachable = ''host_unreachable''"
definition RootCauseServiceDown :: string where
  "RootCauseServiceDown = ''service_down''"

text \<open>
  The parameters of the enricher: \<open>uri_hostname\<close> is the host name of \<open>url.ParseRequestURI\<close>
  (\<open>None\<close> when it fails), \<open>split_host_port\<close> the host of \<open>net.SplitHostPort\<close>, \<open>detect\<close> whether raw
  sockets are available, and \<open>probe\<close> the outcome of one echo (the round trip in ms, if any).
\<close>

record icmp_env =
  uri_hostname :: "string \<Rightarrow> string option"
  split_host_port :: "string \<Rightarrow> string option"
  detect :: bool
  probe :: "string \<Rightarrow> int option"

definition ExtractHost :: "icmp_env \<Rightarrow> resource_type \<Rightarrow> string \<Rightarrow> string option" where
  "ExtractHost ie resourceType target0 =
     (let target = trim_space target0 in
      if target = '''' then None
      else case resourceType of
        ResourceHTTP \<Rightarrow>
          (case uri_hostname ie target of None \<Rightarrow> None | Some host \<Rightarrow> if host = '''' then None else Some host)
      | ResourceTCP \<Rightarrow> map_option (trim {CHR ''['', CHR '']''}) (split_host_port ie target)
      | _ \<Rightarrow> Some target)"

definition deriveFromICMPResult :: "check_result \<Rightarrow> enrichment_result" where
  "deriveFromICMPResult result =
     (let msg = to_lower (c_ErrorMessage result @ '' '' @ c_ResponseData result) in
      if str_contains msg ''operation not permitted'' \<or> str_contains msg ''permission denied'' \<or>
         str_contains msg ''cap_net_raw'' \<or> str_contains msg ''raw''
      then \<lparr>en_ICMPAvailable = Some False, en_ICMPReachable = None, en_ICMPRTTMs = None,
            en_RootCauseHint = RootCauseICMPUnavailable\<rparr>
      else if c_Status result = StatusUp
      then \<lparr>en_ICMPAvailable = Some True, en_ICMPReachable = Some True,
            en_ICMPRTTMs = Some (milliseconds (c_ResponseTime result)),
            en_RootCauseHint = RootCauseServiceDown\<rparr>
      else \<lparr>en_ICMPAvailable = Some True, en_ICMPReachable = Some False, en_ICMPRTTMs = None,
            en_RootCauseHint = RootCauseHostUnreachable\<rparr>)"

definition Enrich :: "icmp_env \<Rightarrow> resource_type \<Rightarrow> string \<Rightarrow> check_result \<Rightarrow> enrichment_result" where
  "Enrich ie resourceType target result =
     (if resourceType = ResourceICMP then deriveFromICMPResult result
      else case ExtractHost ie resourceType target of
        None \<Rightarrow> \<lparr>en_ICMPAvailable = Some False, en_ICMPReachable = None, en_ICMPRTTMs = None,
                 en_RootCauseHint = RootCauseICMPUnavailable\<rparr>
      | Some host \<Rightarrow>
          (if host = '''' \<or> \<not> detect ie
           then \<lparr>en_ICMPAvailable = Some False, en_ICMPReachable = None, en_ICMPRTTMs = None,
                 en_RootCauseHint = RootCauseICMPUnavailable\<rparr>
           else case probe ie host of
             Some rtt \<Rightarrow> \<lparr>en_ICMPAvailable = Some True, en_ICMPReachable = Some True, en_ICMPRTTMs = Some rtt,
                          en_RootCauseHint = RootCauseServiceDown\<rparr>
           | None \<Rightarrow> \<lparr>en_ICMPAvailable = Some True, en_ICMPReachable = Some False, en_ICMPRTTMs = None,
                      en_RootCauseHint = RootCauseHostUnreachable\<rparr>))"

definition WithICMP :: "bool option \<Rightarrow> bool option \<Rightarrow> int option \<Rightarrow> string \<Rightarrow> incident_diagnostics \<Rightarrow> incident_diagnostics" where
  "WithICMP icmpAvailable icmpReachable icmpRttMs rootCauseHint d =
     d\<lparr>d_ICMPAvailable := icmpAvailable, d_ICMPReachable := icmpReachable, d_ICMPRttMs := icmpRttMs,
       d_RootCauseHint := rootCauseHint\<rparr>"

section \<open>Lemmas\<close>

lemma sanitizeHeaders_subset:
  "(k, v) \<in> set (sanitizeHeaders hs) \<Longrightarrow> to_lower k \<notin> set blocked"
  by (auto simp: sanitizeHeaders_def List.member_iff split: option.splits)

lemma sanitizeHeaders_keeps:
  "hs = Some kvs \<Longrightarrow> (k, v) \<in> set kvs \<Longrightarrow> to_lower k \<notin> set blocked \<Longrightarrow> (k, v) \<in> set (sanitizeHeaders hs)"
  by (auto simp: sanitizeHeaders_def List.member_iff)

lemma enrichment_hint_iff:
  "en_RootCauseHint (Enrich ie t tgt res) = RootCauseServiceDown \<longleftrightarrow>
   en_ICMPReachable (Enrich ie t tgt res) = Some True"
  by (auto simp: Enrich_def deriveFromICMPResult_def Let_def RootCauseICMPUnavailable_def
      RootCauseHostUnreachable_def RootCauseServiceDown_def split: option.splits)

lemma Build_RequestHeaders:
  "d_RequestHeaders (BuildIncidentDiagnostics i res r) = sanitizeHeaders (c_RequestHeaders res)"
  by (simp add: BuildIncidentDiagnostics_def Let_def split: option.split)

lemma service_RequestHeaders:
  "d_RequestHeaders (service_buildIncidentDiagnostics i res r) = sanitizeRequestHeaders (c_RequestHeaders res)"
  by (simp add: service_buildIncidentDiagnostics_def Let_def split: option.split)

lemma Build_ResponseBody:
  "d_ResponseBody (BuildIncidentDiagnostics i res r) =
     (if c_ResponseBody res = '''' then ''''
      else let b = (if CHR 0x00 \<in> set (c_ResponseBody res) then base64 (c_ResponseBody res) else c_ResponseBody res)
           in if c_KeywordContext res = None then take maxBodySize b else b)"
  by (simp add: BuildIncidentDiagnostics_def Let_def diagnostics_zero_def split: option.split)

lemma service_ResponseBody:
  "d_ResponseBody (service_buildIncidentDiagnostics i res r) = c_ResponseBody res"
  by (simp add: service_buildIncidentDiagnostics_def diagnostics_zero_def Let_def split: option.split)

lemma Build_body_bound:
  "c_KeywordContext res = None \<Longrightarrow> length (d_ResponseBody (BuildIncidentDiagnostics i res r)) \<le> maxBodySize"
  by (simp add: Build_ResponseBody Let_def)

lemma Build_ErrorSummary_iff:
  "d_FailureType (BuildIncidentDiagnostics i res r) = (case c_Cause res of None \<Rightarrow> '''' | Some c \<Rightarrow> cause_string c)"
  by (simp add: BuildIncidentDiagnostics_def diagnostics_zero_def Let_def split: option.split)

end
