(* ===== verification/Store.thy ===== *)
theory Store
  imports Diagnostics
begin

text \<open>
  The repositories of \<open>src/internal/repository/store\<close> over one database state. A table is the list
  of its rows in insertion order; each repository method is one fallible call of the environment
  followed by what its SQL statement (\<open>src/internal/repository/sqlc\<close>) does to the tables. The
  PostgreSQL and SQLite branches of a method run the same statement and have one model. A failing
  call leaves the tables unchanged; because the environment may fail any call, constraint
  violations other than the primary key, decryption of channel configurations and preloads of
  related rows are covered by its faults. Rows with equal sort keys come in insertion order.

  The state also logs what leaves the program: notifications sent, feed entries emitted, and
  checks rescheduled; and it holds the timers of deferred component alerts.
\<close>

section \<open>The database state\<close>

datatype payload =
    PayloadIncident incident
  | PayloadFlapping string int int int
  | PayloadStabilized string resource_status
  | PayloadReminder string string int
  | PayloadComponent string component_status component_status "(string \<times> string \<times> resource_status) list"

text \<open>The calls to the monitor scheduler, and the tasks put on the maintenance queue with their due time.\<close>

datatype monitor_call = MonitorSchedule string | MonitorUnschedule string

datatype maintenance_task = MaintenanceStart string time | MaintenanceEnd string time

record world = base +
  resources :: "resource list"
  incidents :: "incident list"
  event_steps :: "incident_event_step list"
  notifications :: "notification_event list"
  channels :: "notification_channel list"
  resource_channels :: "(string \<times> string) list"
  component_channels :: "(string \<times> string) list"
  components :: "component list"
  activities :: "monitoring_activity list"
  maintenances :: "maintenance list"
  maintenance_resources :: "(string \<times> string) list"
  diagnostics :: "incident_diagnostics list"
  incident_updates :: "incident_update list"
  feed :: "emitted_notification list"
  scheduled :: "(string \<times> duration) list"
  sent :: "(string \<times> payload) list"
  pending_timers :: "(string \<times> time) list"
  tags :: "tag list"
  resource_tags :: "(string \<times> string) list"
  hosts :: "host list"
  host_alert_states :: "host_alert_state list"
  escalation_policies :: "escalation_policy list"
  escalation_steps :: "escalation_step list"
  monitor_calls :: "monitor_call list"
  maintenance_tasks :: "maintenance_task list"
  cron_entries :: "(string \<times> string) list"
  operator_mail :: "(string \<times> string) list"

definition empty_world :: world where
  "empty_world =
     \<lparr>tick = 0, resources = [], incidents = [], event_steps = [], notifications = [], channels = [],
      resource_channels = [], component_channels = [], components = [], activities = [],
      maintenances = [], maintenance_resources = [], diagnostics = [], incident_updates = [],
      feed = [], scheduled = [], sent = [], pending_timers = [], tags = [], resource_tags = [],
      hosts = [], host_alert_states = [], escalation_policies = [], escalation_steps = [],
      monitor_calls = [], maintenance_tasks = [], cron_entries = [], operator_mail = []\<rparr>"

definition ErrNotFound :: error where "ErrNotFound = ErrorNew ''repository: not found''"
definition ErrDuplicate :: error where "ErrDuplicate = ErrorNew ''repository: duplicate''"
definition ErrInvalidInput :: error where "ErrInvalidInput = ErrorNew ''repository: invalid input''"

text \<open>What the drivers report for a violated index or reference.\<close>

definition ErrUnique :: error where "ErrUnique = Errorf ''UNIQUE constraint failed''"
definition ErrForeignKey :: error where "ErrForeignKey = Errorf ''FOREIGN KEY constraint failed''"

text \<open>A time stamp that is set unless the caller gave one.\<close>

definition fresh_stamp :: "time \<Rightarrow> time \<Rightarrow> time" where
  "fresh_stamp t old = (if old = zero_time then t else old)"

text \<open>The wrapping of a driver error: \<open>fmt.Errorf("sqlc: ...: %w", err)\<close>; sentinels pass.\<close>

definition wrap_db :: "string \<Rightarrow> error + 'a \<Rightarrow> error + 'a" where
  "wrap_db msg r = (case r of Inl e \<Rightarrow> Inl (if e = ErrDB then Wrapf msg e else e) | Inr x \<Rightarrow> Inr x)"

definition EnsureID :: "env \<Rightarrow> string \<Rightarrow> ('a base_scheme, string) state" where
  "EnsureID e i = (if i = '''' then new_id e else State_Monad.return i)"

section \<open>Incidents (incident\_repository\_sqlc.go)\<close>

definition Incidents_Create :: "env \<Rightarrow> incident \<Rightarrow> (world, error + incident) state" where
  "Incidents_Create e inc = do {
     i \<leftarrow> EnsureID e (i_ID inc);
     t \<leftarrow> now e;
     let inc' = inc\<lparr>i_ID := i,
                 i_CreatedAt := (if i_CreatedAt inc = zero_time then t else i_CreatedAt inc),
                 i_UpdatedAt := (if i_UpdatedAt inc = zero_time then t else i_UpdatedAt inc),
                 i_StartedAt := (if i_StartedAt inc = zero_time then t else i_StartedAt inc),
                 i_Cause := (if i_Cause inc = '''' then ''unknown_failure'' else i_Cause inc)\<rparr>;
     r \<leftarrow> repo_call e (\<lambda>w. if tbl_has i_ID i (incidents w) then (Inl ErrDB, w)
                         else (Inr inc', w\<lparr>incidents := incidents w @ [inc']\<rparr>));
     State_Monad.return (wrap_db ''sqlc: create incident'' r)
   }"

definition incidents_of :: "string \<Rightarrow> incident list \<Rightarrow> incident list" where
  "incidents_of rid t = sort_key (\<lambda>i. - i_StartedAt i) (filter (\<lambda>i. i_ResourceID i = rid) t)"

definition Incidents_FindByResource ::
    "env \<Rightarrow> string \<Rightarrow> nat \<Rightarrow> nat \<Rightarrow> (world, error + incident list) state" where
  "Incidents_FindByResource e rid limit offset = do {
     r \<leftarrow> repo_query e (\<lambda>w. Inr (page limit offset (incidents_of rid (incidents w))));
     State_Monad.return (wrap_db ''sqlc: find incidents by resource'' r)
   }"

definition Incidents_Update :: "env \<Rightarrow> incident \<Rightarrow> (world, error option) state" where
  "Incidents_Update e inc = do {
     t \<leftarrow> now e;
     r \<leftarrow> repo_call e (\<lambda>w. if tbl_has i_ID (i_ID inc) (incidents w)
            then (Inr (), w\<lparr>incidents := tbl_update i_ID (i_ID inc)
                    (\<lambda>row. row\<lparr>i_ResourceID := i_ResourceID inc, i_Cause := i_Cause inc,
                       i_ResolvedAt := i_ResolvedAt inc, i_StartedAt := i_StartedAt inc,
                       i_Details := i_Details inc, i_UpdatedAt := t\<rparr>) (incidents w)\<rparr>)
            else (Inl ErrNotFound, w));
     State_Monad.return (case wrap_db ''sqlc: update incident'' r of Inl err \<Rightarrow> Some err | Inr u \<Rightarrow> None)
   }"

section \<open>Event steps (incident\_event\_step\_repository\_sqlc.go)\<close>

definition EventSteps_Create ::
    "env \<Rightarrow> string \<Rightarrow> incident_event_step_type \<Rightarrow> string \<Rightarrow> (world, error + incident_event_step) state" where
  "EventSteps_Create e incidentID step message = do {
     i \<leftarrow> EnsureID e '''';
     t \<leftarrow> now e;
     let s = \<lparr>es_ID = i, es_CreatedAt = t, es_IncidentID = incidentID, es_Step = step, es_Message = Some message\<rparr>;
     r \<leftarrow> repo_call e (\<lambda>w. if tbl_has es_ID i (event_steps w) then (Inl ErrDB, w)
                         else (Inr s, w\<lparr>event_steps := event_steps w @ [s]\<rparr>));
     State_Monad.return (wrap_db ''sqlc: create event step'' r)
   }"

definition last_step ::
    "string \<Rightarrow> incident_event_step_type \<Rightarrow> incident_event_step list \<Rightarrow> incident_event_step option" where
  "last_step iid step t =
     (case sort_key (\<lambda>s. - es_CreatedAt s) (filter (\<lambda>s. es_IncidentID s = iid \<and> es_Step s = step) t) of
        [] \<Rightarrow> None | s # _ \<Rightarrow> Some s)"

definition EventSteps_FindLastByIncidentAndStep ::
    "env \<Rightarrow> string \<Rightarrow> incident_event_step_type \<Rightarrow> (world, error + incident_event_step) state" where
  "EventSteps_FindLastByIncidentAndStep e iid step = do {
     r \<leftarrow> repo_query e (\<lambda>w. case last_step iid step (event_steps w) of
                              None \<Rightarrow> Inl ErrNotFound | Some s \<Rightarrow> Inr s);
     State_Monad.return (wrap_db ''sqlc: find last event step'' r)
   }"

section \<open>Notification events (notification\_repository\_sqlc.go)\<close>

text \<open>\<open>Create\<close> stores a pending event and yields its identifier.\<close>

definition Notifications_Create ::
    "env \<Rightarrow> string \<Rightarrow> notification_event_type \<Rightarrow> notification_event_status \<Rightarrow> (world, error + string) state" where
  "Notifications_Create e incidentID typ status = do {
     i \<leftarrow> EnsureID e '''';
     t \<leftarrow> now e;
     let n = \<lparr>ne_ID = i, ne_CreatedAt = t, ne_IncidentID = incidentID, ne_Type = typ, ne_Status = status,
              ne_ClaimOwner = None, ne_ClaimedAt = None, ne_ProcessedAt = None, ne_LastError = ''''\<rparr>;
     repo_call e (\<lambda>w. if tbl_has ne_ID i (notifications w) then (Inl ErrDB, w)
                     else (Inr i, w\<lparr>notifications := notifications w @ [n]\<rparr>))
   }"

definition Notifications_FindPending ::
    "env \<Rightarrow> nat \<Rightarrow> nat \<Rightarrow> (world, error + notification_event list) state" where
  "Notifications_FindPending e limit offset = do {
     r \<leftarrow> repo_query e (\<lambda>w. Inr (page limit offset (sort_key ne_CreatedAt
            (filter (\<lambda>n. ne_Status n = NotificationEventStatusPending \<and>
               (ne_Type n = NotificationEventTypeDown \<or> ne_Type n = NotificationEventTypeUp)) (notifications w)))));
     State_Monad.return (wrap_db ''sqlc: find pending notifications'' r)
   }"

definition claimable :: "notification_event \<Rightarrow> bool" where
  "claimable n \<longleftrightarrow> ne_Status n = NotificationEventStatusPending \<and>
     (ne_ClaimOwner n = None \<or> ne_ClaimOwner n = Some '''')"

definition Notifications_ClaimPending ::
    "env \<Rightarrow> string \<Rightarrow> string \<Rightarrow> time \<Rightarrow> (world, error + bool) state" where
  "Notifications_ClaimPending e i owner claimedAt =
     (if i = '''' \<or> owner = '''' then State_Monad.return (Inl ErrInvalidInput)
      else do {
        r \<leftarrow> repo_call e (\<lambda>w. case tbl_find ne_ID i (notifications w) of
               None \<Rightarrow> (Inr False, w)
             | Some n \<Rightarrow>
                 if claimable n
                 then (Inr True, w\<lparr>notifications := tbl_update ne_ID i
                         (\<lambda>row. row\<lparr>ne_ClaimOwner := Some owner, ne_ClaimedAt := Some claimedAt\<rparr>)
                         (notifications w)\<rparr>)
                 else (Inr False, w));
        State_Monad.return (wrap_db ''sqlc: claim pending notification'' r)
      })"

definition Notifications_markTerminal ::
    "env \<Rightarrow> string \<Rightarrow> notification_event_status \<Rightarrow> string \<Rightarrow> time \<Rightarrow> (world, error option) state" where
  "Notifications_markTerminal e i status lastError processedAt =
     (if i = '''' then State_Monad.return (Some ErrInvalidInput)
      else do {
        r \<leftarrow> repo_call e (\<lambda>w. if tbl_has ne_ID i (notifications w)
               then (Inr (), w\<lparr>notifications := tbl_update ne_ID i
                      (\<lambda>row. row\<lparr>ne_Status := status, ne_ProcessedAt := Some processedAt, ne_LastError := lastError,
                         ne_ClaimOwner := None, ne_ClaimedAt := None\<rparr>) (notifications w)\<rparr>)
               else (Inl ErrNotFound, w));
        State_Monad.return (case wrap_db ''sqlc: mark terminal'' r of Inl err \<Rightarrow> Some err | Inr u \<Rightarrow> None)
      })"

definition Notifications_MarkAsSent :: "env \<Rightarrow> string \<Rightarrow> time \<Rightarrow> (world, error option) state" where
  "Notifications_MarkAsSent e i processedAt =
     Notifications_markTerminal e i NotificationEventStatusSent '''' processedAt"

definition Notifications_MarkAsFailed :: "env \<Rightarrow> string \<Rightarrow> string \<Rightarrow> time \<Rightarrow> (world, error option) state" where
  "Notifications_MarkAsFailed e i lastError processedAt =
     Notifications_markTerminal e i NotificationEventStatusFailed lastError processedAt"

definition Notifications_MarkAsExpired :: "env \<Rightarrow> string \<Rightarrow> string \<Rightarrow> time \<Rightarrow> (world, error option) state" where
  "Notifications_MarkAsExpired e i lastError processedAt =
     Notifications_markTerminal e i NotificationEventStatusExpired lastError processedAt"

section \<open>Notification channels (notification\_channel\_repository\_sqlc.go)\<close>

definition Channels_FindByResourceID :: "env \<Rightarrow> string \<Rightarrow> (world, error + notification_channel list) state" where
  "Channels_FindByResourceID e rid = do {
     r \<leftarrow> repo_query e (\<lambda>w. Inr (filter (\<lambda>c. List.member (resource_channels w) (rid, ch_ID c)) (channels w)));
     State_Monad.return (wrap_db ''sqlc: find by resource id'' r)
   }"

definition Channels_FindByComponentID :: "env \<Rightarrow> string \<Rightarrow> (world, error + notification_channel list) state" where
  "Channels_FindByComponentID e cid = do {
     r \<leftarrow> repo_query e (\<lambda>w. Inr (filter (\<lambda>c. List.member (component_channels w) (cid, ch_ID c)) (channels w)));
     State_Monad.return (wrap_db ''sqlc: find by component id'' r)
   }"

definition Channels_FindDefaultChannels :: "env \<Rightarrow> (world, error + notification_channel list) state" where
  "Channels_FindDefaultChannels e = do {
     r \<leftarrow> repo_query e (\<lambda>w. Inr (filter ch_EnabledByDefault (channels w)));
     State_Monad.return (wrap_db ''sqlc: find default channels'' r)
   }"

definition Channels_MarkSent :: "env \<Rightarrow> string \<Rightarrow> time \<Rightarrow> (world, error + unit) state" where
  "Channels_MarkSent e cid at =
     repo_call e (\<lambda>w. (Inr (), w\<lparr>channels := tbl_update ch_ID cid (\<lambda>c. c\<lparr>ch_LastSentAt := Some at\<rparr>) (channels w)\<rparr>))"

definition bump_failure :: "time \<Rightarrow> notification_channel \<Rightarrow> notification_channel" where
  "bump_failure at c =
     (let cutoff = at - 24 * Hour in
      c\<lparr>ch_Failures24h := (case ch_LastFailureAt c of
             None \<Rightarrow> 1
           | Some l \<Rightarrow> if l < cutoff then 1 else ch_Failures24h c + 1),
        ch_LastFailureAt := Some at\<rparr>)"

definition Channels_MarkFailure :: "env \<Rightarrow> string \<Rightarrow> time \<Rightarrow> (world, error + unit) state" where
  "Channels_MarkFailure e cid at =
     repo_call e (\<lambda>w. (Inr (), w\<lparr>channels := tbl_update ch_ID cid (bump_failure at) (channels w)\<rparr>))"

section \<open>Resources (resource\_repository\_sqlc.go)\<close>

text \<open>The row \<open>WHERE id = ? AND is_active = TRUE\<close> selects: a paused or deleted monitor is not found.\<close>

definition active_row :: "string \<Rightarrow> resource list \<Rightarrow> resource option" where
  "active_row rid t = (case tbl_find r_ID rid t of None \<Rightarrow> None | Some x \<Rightarrow> if r_IsActive x then Some x else None)"

definition Resources_FindByID :: "env \<Rightarrow> string \<Rightarrow> (world, error + resource) state" where
  "Resources_FindByID e rid = do {
     r \<leftarrow> repo_query e (\<lambda>w. case active_row rid (resources w) of None \<Rightarrow> Inl ErrNotFound | Some x \<Rightarrow> Inr x);
     State_Monad.return (wrap_db ''sqlc: find resource by id'' r)
   }"

record update_monitoring_state_request =
  ums_Status :: "resource_status option"
  ums_FailureCount :: "int option"
  ums_LastChecked :: "time option option"
  ums_LastStatusTransition :: "time option option"
  ums_FlapStartedAt :: "time option option"

definition set_opt :: "'a option \<Rightarrow> ('a \<Rightarrow> 'r \<Rightarrow> 'r) \<Rightarrow> 'r \<Rightarrow> 'r" where
  "set_opt v f r = (case v of None \<Rightarrow> r | Some x \<Rightarrow> f x r)"

definition apply_monitoring_state :: "update_monitoring_state_request \<Rightarrow> resource \<Rightarrow> resource" where
  "apply_monitoring_state req r =
     set_opt (ums_FlapStartedAt req) (\<lambda>v r. r\<lparr>r_FlapStartedAt := v\<rparr>)
      (set_opt (ums_LastStatusTransition req) (\<lambda>v r. r\<lparr>r_LastStatusTransition := v\<rparr>)
        (set_opt (ums_LastChecked req) (\<lambda>v r. r\<lparr>r_LastChecked := v\<rparr>)
          (set_opt (ums_FailureCount req) (\<lambda>v r. r\<lparr>r_FailureCount := v\<rparr>)
            (set_opt (ums_Status req) (\<lambda>v r. r\<lparr>r_Status := v\<rparr>) r))))"

definition ums_empty :: "update_monitoring_state_request \<Rightarrow> bool" where
  "ums_empty req \<longleftrightarrow> ums_Status req = None \<and> ums_FailureCount req = None \<and> ums_LastChecked req = None \<and>
     ums_LastStatusTransition req = None \<and> ums_FlapStartedAt req = None"

definition Resources_execUpdate ::
    "env \<Rightarrow> string \<Rightarrow> string \<Rightarrow> (resource \<Rightarrow> bool) \<Rightarrow> (resource \<Rightarrow> resource) \<Rightarrow> (world, error option) state" where
  "Resources_execUpdate e msg rid cond f = do {
     r \<leftarrow> repo_call e (\<lambda>w. if list_ex (\<lambda>r. r_ID r = rid \<and> cond r) (resources w)
            then (Inr (), w\<lparr>resources := tbl_update r_ID rid (\<lambda>r. if cond r then f r else r) (resources w)\<rparr>)
            else (Inl ErrNotFound, w));
     State_Monad.return (case wrap_db msg r of Inl err \<Rightarrow> Some err | Inr u \<Rightarrow> None)
   }"

definition Resources_UpdateMonitoringState ::
    "env \<Rightarrow> string \<Rightarrow> update_monitoring_state_request \<Rightarrow> (world, error option) state" where
  "Resources_UpdateMonitoringState e rid req =
     (if ums_empty req then State_Monad.return None
      else Resources_execUpdate e ''sqlc: dynamic update resources'' rid (\<lambda>_. True) (apply_monitoring_state req))"

definition Resources_UpdateStatus :: "env \<Rightarrow> string \<Rightarrow> resource_status \<Rightarrow> (world, error option) state" where
  "Resources_UpdateStatus e rid s =
     Resources_execUpdate e ''sqlc: update status'' rid (\<lambda>_. True) (\<lambda>r. r\<lparr>r_Status := s\<rparr>)"

definition active_heartbeat :: "resource \<Rightarrow> bool" where
  "active_heartbeat r \<longleftrightarrow> r_Type r = ResourceHeartbeat \<and> r_IsActive r"

definition Resources_UpdateLastPingAt :: "env \<Rightarrow> string \<Rightarrow> time \<Rightarrow> (world, error option) state" where
  "Resources_UpdateLastPingAt e rid at =
     Resources_execUpdate e ''sqlc: update last_ping_at'' rid active_heartbeat (\<lambda>r. r\<lparr>r_LastPingAt := Some at\<rparr>)"

definition missed_heartbeat :: "time \<Rightarrow> resource \<Rightarrow> bool" where
  "missed_heartbeat t r \<longleftrightarrow>
     r_Type r = ResourceHeartbeat \<and> r_Status r = StatusUp \<and> r_IsActive r \<and>
     (case (r_LastPingAt r, r_HeartbeatInterval r, r_HeartbeatGrace r) of
        (Some p, Some i, Some g) \<Rightarrow> unix p + i + g < unix t
      | _ \<Rightarrow> False)"

definition Resources_FindMissedHeartbeats :: "env \<Rightarrow> time \<Rightarrow> int \<Rightarrow> (world, error + resource list) state" where
  "Resources_FindMissedHeartbeats e t limit0 = do {
     let limit = (if limit0 \<le> 0 then 1000 else limit0);
     r \<leftarrow> repo_query e (\<lambda>w. Inr (page (nat limit) 0
            (sort_key (\<lambda>r. case r_LastPingAt r of None \<Rightarrow> 0 | Some p \<Rightarrow> p) (filter (missed_heartbeat t) (resources w)))));
     State_Monad.return (wrap_db ''sqlc: find missed heartbeats'' r)
   }"

definition Resources_FindByHeartbeatSlug :: "env \<Rightarrow> string \<Rightarrow> (world, error + resource) state" where
  "Resources_FindByHeartbeatSlug e slug = do {
     r \<leftarrow> repo_query e (\<lambda>w. case find (\<lambda>r. r_HeartbeatSlug r = Some slug \<and> active_heartbeat r) (resources w) of
                              None \<Rightarrow> Inl ErrNotFound | Some x \<Rightarrow> Inr x);
     State_Monad.return (wrap_db ''sqlc: find resource by heartbeat slug'' r)
   }"

section \<open>Monitoring activities (monitoring\_activity\_repository\_sqlc.go)\<close>

definition Activities_Create :: "env \<Rightarrow> monitoring_activity \<Rightarrow> (world, error + unit) state" where
  "Activities_Create e a =
     (if ma_ResourceID a = '''' then State_Monad.return (Inl ErrInvalidInput)
      else do {
        i \<leftarrow> EnsureID e (ma_ID a);
        t \<leftarrow> now e;
        let a' = a\<lparr>ma_ID := i, ma_CreatedAt := (if ma_CreatedAt a = zero_time then t else ma_CreatedAt a)\<rparr>;
        repo_call e (\<lambda>w. if tbl_has ma_ID i (activities w) then (Inl ErrDB, w)
                        else (Inr (), w\<lparr>activities := activities w @ [a']\<rparr>))
      })"

fun count_changes :: "bool list \<Rightarrow> int" where
  "count_changes (a # b # rest) = (if b \<noteq> a then 1 else 0) + count_changes (b # rest)"
| "count_changes _ = 0"

definition transitions_in_window :: "string \<Rightarrow> time \<Rightarrow> monitoring_activity list \<Rightarrow> int" where
  "transitions_in_window rid start t =
     count_changes (map ma_Success (sort_key ma_CreatedAt
       (filter (\<lambda>a. ma_ResourceID a = rid \<and> start \<le> ma_CreatedAt a) t)))"

definition Activities_CountTransitionsInWindow :: "env \<Rightarrow> string \<Rightarrow> time \<Rightarrow> (world, error + int) state" where
  "Activities_CountTransitionsInWindow e rid start =
     (if rid = '''' then State_Monad.return (Inl ErrInvalidInput)
      else do {
        r \<leftarrow> repo_query e (\<lambda>w. Inr (transitions_in_window rid start (activities w)));
        State_Monad.return (wrap_db ''sqlc: count transitions'' r)
      })"

section \<open>Maintenances (maintenance\_repository\_sqlc.go)\<close>

definition maintenance_active :: "time \<Rightarrow> maintenance \<Rightarrow> bool" where
  "maintenance_active t m \<longleftrightarrow>
     mt_Status m = ''active'' \<or>
     (mt_Strategy m = OneTime \<and> mt_Status m = ''scheduled'' \<and>
      (case (mt_StartAt m, mt_EndAt m) of (Some s, Some f) \<Rightarrow> s \<le> t \<and> t \<le> f | _ \<Rightarrow> False))"

definition Maintenances_FindActiveForResource :: "env \<Rightarrow> string \<Rightarrow> time \<Rightarrow> (world, error + maintenance list) state" where
  "Maintenances_FindActiveForResource e rid t = do {
     r \<leftarrow> repo_query e (\<lambda>w. Inr (filter (\<lambda>m. List.member (maintenance_resources w) (mt_ID m, rid) \<and> maintenance_active t m)
            (maintenances w)));
     State_Monad.return (wrap_db ''sqlc: find active maintenances'' r)
   }"

section \<open>Diagnostics (incident\_diagnostics\_repository\_sqlc.go)\<close>

definition Diagnostics_Create :: "env \<Rightarrow> incident_diagnostics \<Rightarrow> (world, error + incident_diagnostics) state" where
  "Diagnostics_Create e d = do {
     i \<leftarrow> EnsureID e (d_ID d);
     t \<leftarrow> now e;
     let d' = d\<lparr>d_ID := i\<rparr>;
     r \<leftarrow> repo_call e (\<lambda>w. if tbl_has d_ID i (diagnostics w) then (Inl ErrDB, w)
                         else (Inr d', w\<lparr>diagnostics := diagnostics w @ [d']\<rparr>));
     State_Monad.return (wrap_db ''sqlc: create incident diagnostics'' r)
   }"

definition Diagnostics_FindByIncidentID :: "env \<Rightarrow> string \<Rightarrow> (world, error + incident_diagnostics) state" where
  "Diagnostics_FindByIncidentID e iid = do {
     r \<leftarrow> repo_query e (\<lambda>w. case find (\<lambda>d. d_IncidentID d = iid) (diagnostics w) of
                              None \<Rightarrow> Inl ErrNotFound | Some d \<Rightarrow> Inr d);
     State_Monad.return (wrap_db ''sqlc: find diagnostics by incident id'' r)
   }"

definition Diagnostics_Update :: "env \<Rightarrow> incident_diagnostics \<Rightarrow> (world, error option) state" where
  "Diagnostics_Update e d = do {
     r \<leftarrow> repo_call e (\<lambda>w. if tbl_has d_ID (d_ID d) (diagnostics w)
            then (Inr (), w\<lparr>diagnostics := tbl_update d_ID (d_ID d) (\<lambda>_. d) (diagnostics w)\<rparr>)
            else (Inl ErrNotFound, w));
     State_Monad.return (case wrap_db ''sqlc: update incident diagnostics'' r of Inl err \<Rightarrow> Some err | Inr u \<Rightarrow> None)
   }"

section \<open>Components (component\_repository\_sqlc.go)\<close>

definition Components_FindByID :: "env \<Rightarrow> string \<Rightarrow> (world, error + component) state" where
  "Components_FindByID e cid = do {
     r \<leftarrow> repo_query e (\<lambda>w. case tbl_find co_ID cid (components w) of None \<Rightarrow> Inl ErrNotFound | Some c \<Rightarrow> Inr c);
     State_Monad.return (wrap_db ''sqlc: find component'' r)
   }"

definition Resources_FindByComponentID :: "env \<Rightarrow> string \<Rightarrow> (world, error + resource list) state" where
  "Resources_FindByComponentID e cid = do {
     r \<leftarrow> repo_query e (\<lambda>w. Inr (sort_key (\<lambda>r. - r_CreatedAt r)
            (filter (\<lambda>r. r_ComponentID r = Some cid \<and> r_IsActive r) (resources w))));
     State_Monad.return (wrap_db ''sqlc: find resources by component'' r)
   }"

definition Components_UpdateLastNotificationStatus :: "env \<Rightarrow> string \<Rightarrow> component_status \<Rightarrow> (world, error option) state" where
  "Components_UpdateLastNotificationStatus e cid s = do {
     r \<leftarrow> repo_call e (\<lambda>w. if tbl_has co_ID cid (components w)
            then (Inr (), w\<lparr>components := tbl_update co_ID cid (\<lambda>c. c\<lparr>co_LastNotificationStatus := s\<rparr>) (components w)\<rparr>)
            else (Inl ErrNotFound, w));
     State_Monad.return (case wrap_db ''sqlc: update component status'' r of Inl err \<Rightarrow> Some err | Inr u \<Rightarrow> None)
   }"

section \<open>Incident updates and the notification feed\<close>

definition IncidentUpdates_Create ::
    "env \<Rightarrow> string \<Rightarrow> incident_update_status \<Rightarrow> string \<Rightarrow> time \<Rightarrow> (world, error + unit) state" where
  "IncidentUpdates_Create e iid st msg at = do {
     i \<leftarrow> EnsureID e '''';
     let u = \<lparr>iu_ID = i, iu_IncidentID = iid, iu_Status = st, iu_Message = msg, iu_PostedBy = '''', iu_PostedAt = at\<rparr>;
     repo_call e (\<lambda>w. if tbl_has iu_ID i (incident_updates w) then (Inl ErrDB, w)
                     else (Inr (), w\<lparr>incident_updates := incident_updates w @ [u]\<rparr>))
   }"

definition AutoSeedOnDetect :: "env \<Rightarrow> string \<Rightarrow> string \<Rightarrow> (world, unit) state" where
  "AutoSeedOnDetect e iid message =
     (if iid = '''' then State_Monad.return ()
      else do {
        let msg = trim_space message;
        let msg = (if msg = '''' then ''We are currently investigating this issue.'' else msg);
        t \<leftarrow> now e;
        IncidentUpdates_Create e iid IncidentUpdateInvestigating msg t;
        State_Monad.return ()
      })"

definition AutoSeedOnResolve :: "env \<Rightarrow> string \<Rightarrow> string \<Rightarrow> (world, unit) state" where
  "AutoSeedOnResolve e iid message =
     (if iid = '''' then State_Monad.return ()
      else do {
        let msg = trim_space message;
        let msg = (if msg = '''' then ''This incident has been resolved.'' else msg);
        t \<leftarrow> now e;
        IncidentUpdates_Create e iid IncidentUpdateResolved msg t;
        State_Monad.return ()
      })"

definition Feed_Emit :: "env \<Rightarrow> emitted_notification \<Rightarrow> (world, error + unit) state" where
  "Feed_Emit e n = repo_call e (\<lambda>w. (Inr (), w\<lparr>feed := feed w @ [n]\<rparr>))"

section \<open>Frame facts\<close>

lemma bump_world [simp]:
  "resources (bump w) = resources w" "incidents (bump w) = incidents w"
  "event_steps (bump w) = event_steps w" "notifications (bump w) = notifications w"
  "channels (bump w) = channels w" "resource_channels (bump w) = resource_channels w"
  "component_channels (bump w) = component_channels w" "components (bump w) = components w"
  "activities (bump w) = activities w" "maintenances (bump w) = maintenances w"
  "maintenance_resources (bump w) = maintenance_resources w" "diagnostics (bump w) = diagnostics w"
  "incident_updates (bump w) = incident_updates w" "feed (bump w) = feed w"
  "scheduled (bump w) = scheduled w" "sent (bump w) = sent w" "pending_timers (bump w) = pending_timers w"
  "tags (bump w) = tags w" "resource_tags (bump w) = resource_tags w" "hosts (bump w) = hosts w"
  "host_alert_states (bump w) = host_alert_states w" "escalation_policies (bump w) = escalation_policies w"
  "escalation_steps (bump w) = escalation_steps w" "monitor_calls (bump w) = monitor_calls w"
  "maintenance_tasks (bump w) = maintenance_tasks w" "cron_entries (bump w) = cron_entries w"
  "operator_mail (bump w) = operator_mail w"
  by (simp_all add: bump_def)

text \<open>Which repository methods leave which tables alone.\<close>

lemmas store_write_defs = EventSteps_Create_def Notifications_Create_def Notifications_ClaimPending_def
  Notifications_markTerminal_def Notifications_MarkAsSent_def Notifications_MarkAsFailed_def
  Notifications_MarkAsExpired_def Channels_MarkSent_def Channels_MarkFailure_def
  Diagnostics_Create_def Diagnostics_Update_def Activities_Create_def
  IncidentUpdates_Create_def AutoSeedOnDetect_def AutoSeedOnResolve_def Feed_Emit_def EnsureID_def Let_def
  Components_UpdateLastNotificationStatus_def

lemmas store_query_defs = Incidents_FindByResource_def EventSteps_FindLastByIncidentAndStep_def
  Notifications_FindPending_def Channels_FindByResourceID_def Channels_FindByComponentID_def
  Channels_FindDefaultChannels_def Resources_FindByID_def Resources_FindMissedHeartbeats_def
  Resources_FindByHeartbeatSlug_def Resources_FindByComponentID_def
  Activities_CountTransitionsInWindow_def Maintenances_FindActiveForResource_def
  Diagnostics_FindByIncidentID_def Components_FindByID_def

definition core :: "world \<Rightarrow> resource list \<times> incident list" where
  "core w = (resources w, incidents w)"

lemma core_bump [simp]: "core (bump w) = core w"
  by (simp add: core_def)

lemma core_writes [keep]:
  "keeps core (EventSteps_Create e i st m)"
  "keeps core (Notifications_Create e i ty s)"
  "keeps core (Notifications_ClaimPending e i ow t)"
  "keeps core (Notifications_MarkAsSent e i t)"
  "keeps core (Notifications_MarkAsFailed e i le t)"
  "keeps core (Notifications_MarkAsExpired e i le t)"
  "keeps core (Channels_MarkSent e i t)"
  "keeps core (Channels_MarkFailure e i t)"
  "keeps core (Diagnostics_Create e d)"
  "keeps core (Diagnostics_Update e d)"
  "keeps core (Activities_Create e a)"
  "keeps core (AutoSeedOnDetect e i m)"
  "keeps core (AutoSeedOnResolve e i m)"
  "keeps core (Feed_Emit e n)"
  "keeps core (Components_UpdateLastNotificationStatus e i cs)"
  unfolding store_write_defs
  by (intro keep; simp add: core_def split: option.split)+

lemma core_queries [keep]:
  "keeps core (Incidents_FindByResource e i l n)"
  "keeps core (EventSteps_FindLastByIncidentAndStep e i st)"
  "keeps core (Notifications_FindPending e l n)"
  "keeps core (Channels_FindByResourceID e i)"
  "keeps core (Channels_FindByComponentID e i)"
  "keeps core (Channels_FindDefaultChannels e)"
  "keeps core (Resources_FindByID e i)"
  "keeps core (Resources_FindMissedHeartbeats e t li)"
  "keeps core (Resources_FindByHeartbeatSlug e i)"
  "keeps core (Resources_FindByComponentID e i)"
  "keeps core (Activities_CountTransitionsInWindow e i t)"
  "keeps core (Maintenances_FindActiveForResource e i t)"
  "keeps core (Diagnostics_FindByIncidentID e i)"
  "keeps core (Components_FindByID e i)"
  unfolding store_query_defs Let_def
  by (intro keep; simp)+

section \<open>Tables with a primary key\<close>

interpretation component_table: keyed_table "tbl_find co_ID" "\<lambda>r t. t @ [r]" "tbl_update co_ID" "tbl_delete co_ID" co_ID "distinct_keys co_ID"
  by (rule keyed_table_list)

interpretation resource_table: keyed_table "tbl_find r_ID" "\<lambda>r t. t @ [r]" "tbl_update r_ID" "tbl_delete r_ID" r_ID "distinct_keys r_ID"
  by (rule keyed_table_list)

interpretation incident_table: keyed_table "tbl_find i_ID" "\<lambda>r t. t @ [r]" "tbl_update i_ID" "tbl_delete i_ID" i_ID "distinct_keys i_ID"
  by (rule keyed_table_list)

end
