(* ===== verification/Incidents.thy ===== *)
theory Incidents
  imports Store
begin

text \<open>
  The incident service (\<open>src/internal/monitoring/incident_service.go\<close>): creation of an incident
  with its diagnostics, timeline and notifications, its resolution, flapping notices, reminders,
  the resolution hierarchy of notification channels, and the classification of failure causes.

  What the service calls outside the repository is a parameter (\<open>svc_env\<close>): whether the optional
  collaborators are wired, whether a channel's configuration parses, and whether the n-th delivery
  succeeds. A delivery that succeeds is logged in \<open>sent\<close>; the goroutine that emits a feed entry is
  run where it is started.
\<close>

text \<open>The collaborators and the delivery of notifications.\<close>

record svc_env = env +
  has_updates :: bool
  has_emitter :: bool
  has_components :: bool
  build_notifier :: "notification_channel \<Rightarrow> error option"
  send_result :: "nat \<Rightarrow> notification_channel \<Rightarrow> payload \<Rightarrow> error option"

abbreviation ev :: "svc_env \<Rightarrow> env" where
  "ev e \<equiv> env.truncate e"

section \<open>Causes\<close>

definition findSubstring :: "string \<Rightarrow> string \<Rightarrow> bool" where
  "findSubstring s substr =
     list_ex (\<lambda>i. take (length substr) (drop i s) = substr) [0..<Suc (length s - length substr)]"

definition contains_str :: "string \<Rightarrow> string \<Rightarrow> bool" where
  "contains_str s substr \<longleftrightarrow>
     length s \<ge> length substr \<and> (s = substr \<or> length s > length substr \<and> findSubstring s substr)"

definition cause_from_data :: "string \<Rightarrow> string option" where
  "cause_from_data data =
     (if contains_str data ''timeout'' then Some ''connection_timeout''
      else if contains_str data ''refused'' then Some ''connection_refused''
      else if contains_str data ''dns'' \<or> contains_str data ''resolve'' \<or> contains_str data ''no such host''
      then Some ''dns_resolution_failure''
      else if contains_str data ''ssl'' \<or> contains_str data ''tls'' \<or> contains_str data ''certificate''
      then Some ''ssl_certificate_error''
      else if contains_str data ''status'' \<or> contains_str data ''code'' then Some ''invalid_status_code''
      else None)"

definition extractCause :: "check_result \<Rightarrow> string" where
  "extractCause result =
     (case c_Cause result of
        Some c \<Rightarrow> cause_string c
      | None \<Rightarrow>
          (case (if c_Status result = StatusDown \<and> length (c_ResponseData result) > 0
                 then cause_from_data (to_lower (c_ResponseData result)) else None) of
             Some s \<Rightarrow> s
           | None \<Rightarrow>
               (case c_Status result of
                  StatusDown \<Rightarrow> ''health_check_failed''
                | StatusError \<Rightarrow> ''check_execution_error''
                | _ \<Rightarrow> ''unknown_failure'')))"

definition known_causes :: "(string \<times> string) list" where
  "known_causes =
     [(''connection_timeout'', ''Connection timeout''),
      (''connection_refused'', ''Connection refused''),
      (''invalid_status_code'', ''Invalid HTTP status code''),
      (''dns_resolution_failure'', ''DNS resolution failed''),
      (''ssl_certificate_error'', ''SSL certificate error''),
      (''health_check_failed'', ''Health check failed''),
      (''check_execution_error'', ''Check execution error''),
      (''unknown_failure'', ''Unknown failure''),
      (cause_string ConnectionTimeout, ''Connection timeout''),
      (cause_string ConnectionRefused, ''Connection refused''),
      (cause_string DNSResolutionFailed, ''DNS resolution failed''),
      (cause_string HTTPInvalidStatusCode, ''Invalid HTTP status code''),
      (cause_string HTTPRequestFailed, ''HTTP request failed''),
      (cause_string HTTPSSLError, ''HTTPS handshake error''),
      (cause_string InvalidTarget, ''Invalid target''),
      (cause_string MissedHeartbeat, ''No ping received within the expected interval + grace period'')]"

definition humanizeCause :: "string \<Rightarrow> string" where
  "humanizeCause cause =
     (case map_of known_causes cause of
        Some msg \<Rightarrow> msg
      | None \<Rightarrow> if trim_space cause = '''' then ''Health check failed'' else ''Health check failed'')"

section \<open>Channels and delivery\<close>

text \<open>The three levels of \<open>resolveNotificationChannels\<close>.\<close>

definition component_channels_of :: "svc_env \<Rightarrow> resource \<Rightarrow> (world, error + notification_channel list) state" where
  "component_channels_of e r =
     (case r_ComponentID r of
        Some cid \<Rightarrow>
          if has_components e then do {
            comp \<leftarrow> Components_FindByID (ev e) cid;
            (case comp of
               Inl err \<Rightarrow> State_Monad.return (Inl err)
             | Inr component \<Rightarrow> Channels_FindByComponentID (ev e) (co_ID component))
          } else State_Monad.return (Inr [])
      | None \<Rightarrow> State_Monad.return (Inr []))"

definition resolveNotificationChannels :: "svc_env \<Rightarrow> resource \<Rightarrow> (world, notification_channel list) state" where
  "resolveNotificationChannels e r = do {
     rcs \<leftarrow> Channels_FindByResourceID (ev e) (r_ID r);
     case rcs of
       Inr (c # cs) \<Rightarrow> State_Monad.return (c # cs)
     | _ \<Rightarrow> do {
         ccs \<leftarrow> component_channels_of e r;
         case ccs of
           Inr (c # cs) \<Rightarrow> State_Monad.return (c # cs)
         | _ \<Rightarrow> do {
             dcs \<leftarrow> Channels_FindDefaultChannels (ev e);
             State_Monad.return (case dcs of Inr (c # cs) \<Rightarrow> c # cs | _ \<Rightarrow> [])
           }
       }
   }"

definition send :: "svc_env \<Rightarrow> notification_channel \<Rightarrow> payload \<Rightarrow> (world, error option) state" where
  "send e c p = State (\<lambda>w.
     (case send_result e (tick w) c p of
        None \<Rightarrow> (None, (bump w)\<lparr>sent := sent w @ [(ch_ID c, p)]\<rparr>)
      | Some err \<Rightarrow> (Some err, bump w)))"

definition dispatchNotification :: "svc_env \<Rightarrow> payload \<Rightarrow> notification_channel \<Rightarrow> (world, error option) state" where
  "dispatchNotification e p c =
     (let dispatch = (\<lambda>msg. case build_notifier e c of
            Some err \<Rightarrow> State_Monad.return (Some (Wrapf msg err))
          | None \<Rightarrow> do {
              r \<leftarrow> send e c p;
              State_Monad.return (map_option (Wrapf ''failed to send notification'') r)
            })
      in if channel_type_string (ch_Type c) = ''smtp'' then dispatch ''failed to build SMTP notifier''
         else if channel_type_string (ch_Type c) = ''webhook'' then dispatch ''failed to build webhook notifier''
         else State_Monad.return (Some (Errorf (''unknown notification channel type: '' @ channel_type_string (ch_Type c)))))"

definition emitFeedNotification :: "svc_env \<Rightarrow> incident \<Rightarrow> string \<Rightarrow> string \<Rightarrow> (world, unit) state" where
  "emitFeedNotification e inc severity title =
     (if \<not> has_emitter e then State_Monad.return ()
      else do {
        t \<leftarrow> now (ev e);
        Feed_Emit (ev e) \<lparr>em_Category = ''incident'', em_Severity = severity, em_Title = title,
           em_DeepLink = Some (''/incidents/'' @ i_ID inc), em_OccurredAt = t\<rparr>;
        State_Monad.return ()
      })"

text \<open>
  The loop body shared by \<open>CreateIncident\<close> (down alerts) and \<open>ResolveIncident\<close> (up alerts): a
  pending event, one delivery, a timeline step, and the terminal state of the event and the channel.
\<close>

definition mark_outcome :: "svc_env \<Rightarrow> string \<Rightarrow> string \<Rightarrow> error option \<Rightarrow> (world, unit) state" where
  "mark_outcome e nid cid outcome = do {
     processedAt \<leftarrow> now (ev e);
     (case outcome of
        Some err \<Rightarrow> do {
          Notifications_MarkAsFailed (ev e) nid (error_text err) processedAt;
          Channels_MarkFailure (ev e) cid processedAt;
          State_Monad.return ()
        }
      | None \<Rightarrow> do {
          Notifications_MarkAsSent (ev e) nid processedAt;
          Channels_MarkSent (ev e) cid processedAt;
          State_Monad.return ()
        })
   }"

definition notify_channel ::
    "svc_env \<Rightarrow> incident \<Rightarrow> notification_event_type \<Rightarrow> incident_event_step_type \<Rightarrow> string \<Rightarrow> notification_channel \<Rightarrow> (world, unit) state" where
  "notify_channel e inc typ step label c = do {
     created \<leftarrow> Notifications_Create (ev e) (i_ID inc) typ NotificationEventStatusPending;
     outcome \<leftarrow> dispatchNotification e (PayloadIncident inc) c;
     let statusMsg = (case outcome of None \<Rightarrow> ''sent'' | Some err \<Rightarrow> ''failed: '' @ error_text err);
     EventSteps_Create (ev e) (i_ID inc) step
       (label @ '' notification '' @ statusMsg @ '' via '' @ channel_type_string (ch_Type c) @ '' ('' @ ch_Name c @ ''): '' @
        humanizeCause (i_Cause inc));
     (case created of
        Inl err \<Rightarrow> State_Monad.return ()
      | Inr nid \<Rightarrow> mark_outcome e nid (ch_ID c) outcome)
   }"

section \<open>CreateIncident\<close>

definition active :: "incident \<Rightarrow> bool" where
  "active i \<longleftrightarrow> i_ResolvedAt i = None"

definition after_create :: "svc_env \<Rightarrow> resource \<Rightarrow> check_result \<Rightarrow> incident \<Rightarrow> (world, error option) state" where
  "after_create e r result inc = do {
     emitFeedNotification e inc ''error'' (r_Name r @ '' is down'');
     Diagnostics_Create (ev e) (service_buildIncidentDiagnostics (i_ID inc) result r);
     EventSteps_Create (ev e) (i_ID inc) IncidentEventStepDetected
       (''Incident detected: '' @ humanizeCause (i_Cause inc));
     (if has_updates e then AutoSeedOnDetect (ev e) (i_ID inc) '''' else State_Monad.return ());
     prior \<leftarrow> EventSteps_FindLastByIncidentAndStep (ev e) (i_ID inc) IncidentEventStepDownAlert;
     (case prior of
        Inr s \<Rightarrow> State_Monad.return None
      | Inl err \<Rightarrow>
          if \<not> errors_Is err ErrNotFound
          then State_Monad.return (Some (Wrapf ''failed to verify prior down alert event step'' err))
          else do {
            cs \<leftarrow> resolveNotificationChannels e r;
            (if cs = [] then State_Monad.return None
             else do {
               for_each (notify_channel e inc NotificationEventTypeDown IncidentEventStepDownAlert ''Down'') cs;
               State_Monad.return None
             })
          })
   }"

definition CreateIncident :: "svc_env \<Rightarrow> resource \<Rightarrow> check_result \<Rightarrow> (world, error option) state" where
  "CreateIncident e r result = do {
     found \<leftarrow> Incidents_FindByResource (ev e) (r_ID r) 1 0;
     (case found of
        Inl err \<Rightarrow> State_Monad.return (Some (Wrapf ''failed to check for existing incidents'' err))
      | Inr is \<Rightarrow>
          if list_ex active is then State_Monad.return None
          else do {
            t \<leftarrow> now (ev e);
            created \<leftarrow> Incidents_Create (ev e)
              \<lparr>i_ID = '''', i_ResourceID = r_ID r, i_Cause = extractCause result, i_ResolvedAt = None,
               i_StartedAt = t, i_Details = c_ResponseData result, i_CreatedAt = zero_time, i_UpdatedAt = zero_time\<rparr>;
            (case created of
               Inl err \<Rightarrow> State_Monad.return (Some (Wrapf ''failed to create incident'' err))
             | Inr inc \<Rightarrow> after_create e r result inc)
          })
   }"

section \<open>ResolveIncident and the lookups\<close>

fun pick_active :: "incident option \<Rightarrow> incident list \<Rightarrow> incident option" where
  "pick_active best [] = best"
| "pick_active best (i # is) =
     (if active i \<and> (case best of None \<Rightarrow> True | Some b \<Rightarrow> i_StartedAt i > i_StartedAt b)
      then pick_active (Some i) is else pick_active best is)"

definition findActiveIncident :: "svc_env \<Rightarrow> string \<Rightarrow> (world, error + incident option) state" where
  "findActiveIncident e rid = do {
     found \<leftarrow> Incidents_FindByResource (ev e) rid 10 0;
     State_Monad.return (case found of
       Inl err \<Rightarrow> Inl (Wrapf ''failed to find incidents'' err)
     | Inr is \<Rightarrow> Inr (pick_active None is))
   }"

definition FindLatestIncidentForResource :: "svc_env \<Rightarrow> string \<Rightarrow> (world, error + incident) state" where
  "FindLatestIncidentForResource e rid = do {
     found \<leftarrow> Incidents_FindByResource (ev e) rid 1 0;
     State_Monad.return (case found of
       Inl err \<Rightarrow> Inl (Wrapf ''failed to find incidents'' err)
     | Inr [] \<Rightarrow> Inl ErrNotFound
     | Inr (i # _) \<Rightarrow> Inr i)
   }"

definition after_resolve :: "svc_env \<Rightarrow> resource \<Rightarrow> incident \<Rightarrow> (world, error option) state" where
  "after_resolve e r inc = do {
     (if has_updates e then AutoSeedOnResolve (ev e) (i_ID inc) '''' else State_Monad.return ());
     emitFeedNotification e inc ''success'' (r_Name r @ '' recovered'');
     EventSteps_Create (ev e) (i_ID inc) IncidentEventStepResolved ''Incident resolved: resource is back up'';
     cs \<leftarrow> resolveNotificationChannels e r;
     (if cs = [] then State_Monad.return None
      else do {
        for_each (notify_channel e inc NotificationEventTypeUp IncidentEventStepUpAlert ''Up'') cs;
        State_Monad.return None
      })
   }"

definition ResolveIncident :: "svc_env \<Rightarrow> resource \<Rightarrow> check_result \<Rightarrow> (world, error option) state" where
  "ResolveIncident e r result = do {
     found \<leftarrow> Incidents_FindByResource (ev e) (r_ID r) 10 0;
     (case found of
        Inl err \<Rightarrow> State_Monad.return (Some (Wrapf ''failed to find incidents'' err))
      | Inr is \<Rightarrow>
          (case pick_active None is of
             None \<Rightarrow> State_Monad.return None
           | Some inc \<Rightarrow> do {
               since \<leftarrow> now (ev e);
               t \<leftarrow> now (ev e);
               let inc' = inc\<lparr>i_ResolvedAt := Some t\<rparr>;
               updated \<leftarrow> Incidents_Update (ev e) inc';
               (case updated of
                  Some err \<Rightarrow> State_Monad.return (Some (Wrapf ''failed to resolve incident'' err))
                | None \<Rightarrow> after_resolve e r inc')
             }))
   }"

section \<open>Flapping notices and reminders\<close>

definition NotifyFlapping :: "svc_env \<Rightarrow> resource \<Rightarrow> int \<Rightarrow> int \<Rightarrow> int \<Rightarrow> (world, error option) state" where
  "NotifyFlapping e r transitionCount windowSeconds maxDurationMinutes = do {
     cs \<leftarrow> resolveNotificationChannels e r;
     for_each (\<lambda>c. do {
        dispatchNotification e (PayloadFlapping (r_ID r) transitionCount windowSeconds maxDurationMinutes) c;
        State_Monad.return () }) cs;
     State_Monad.return None
   }"

definition NotifyStabilized :: "svc_env \<Rightarrow> resource \<Rightarrow> resource_status \<Rightarrow> (world, error option) state" where
  "NotifyStabilized e r finalStatus = do {
     cs \<leftarrow> resolveNotificationChannels e r;
     for_each (\<lambda>c. do {
        dispatchNotification e (PayloadStabilized (r_ID r) finalStatus) c;
        State_Monad.return () }) cs;
     State_Monad.return None
   }"

text \<open>
  \<open>int(time.Since(t).Minutes())\<close>: the whole minutes of the duration. (\<open>Minutes\<close> is a float64; its
  rounding is below a nanosecond's effect for the durations between two alerts of an incident.)
\<close>

definition elapsed_minutes :: "time \<Rightarrow> time \<Rightarrow> int" where
  "elapsed_minutes t since = go_div (time_sub t since) Minute"

definition remind_channel :: "svc_env \<Rightarrow> resource \<Rightarrow> incident \<Rightarrow> int \<Rightarrow> notification_channel \<Rightarrow> (world, unit) state" where
  "remind_channel e r inc elapsed c = do {
     created \<leftarrow> Notifications_Create (ev e) (i_ID inc) NotificationEventTypeReminder NotificationEventStatusPending;
     outcome \<leftarrow> dispatchNotification e (PayloadReminder (r_ID r) (i_ID inc) elapsed) c;
     (case created of
        Inl err \<Rightarrow> State_Monad.return ()
      | Inr nid \<Rightarrow> mark_outcome e nid (ch_ID c) outcome)
   }"

definition SendReminderIfDue :: "svc_env \<Rightarrow> resource \<Rightarrow> (world, error option) state" where
  "SendReminderIfDue e r =
     (if r_ReminderIntervalMinutes r \<le> 0 then State_Monad.return None
      else do {
        found \<leftarrow> findActiveIncident e (r_ID r);
        (case found of
           Inl err \<Rightarrow> State_Monad.return (Some err)
         | Inr None \<Rightarrow> State_Monad.return None
         | Inr (Some inc) \<Rightarrow>
             if i_ResolvedAt inc \<noteq> None then State_Monad.return None
             else do {
               lastStep \<leftarrow> EventSteps_FindLastByIncidentAndStep (ev e) (i_ID inc) IncidentEventStepDownAlert;
               (case lastStep of
                  Inl err \<Rightarrow>
                    if errors_Is err ErrNotFound then State_Monad.return None
                    else State_Monad.return (Some (Wrapf ''failed to fetch last down alert step'' err))
                | Inr s \<Rightarrow> do {
                    t \<leftarrow> now (ev e);
                    let elapsed = elapsed_minutes t (es_CreatedAt s);
                    (if elapsed < r_ReminderIntervalMinutes r then State_Monad.return None
                     else do {
                       cs \<leftarrow> resolveNotificationChannels e r;
                       for_each (remind_channel e r inc elapsed) cs;
                       EventSteps_Create (ev e) (i_ID inc) IncidentEventStepReminder ''Reminder notification sent'';
                       EventSteps_Create (ev e) (i_ID inc) IncidentEventStepDownAlert ''Reminder anchor written'';
                       State_Monad.return None
                     })
                  })
             })
      })"

section \<open>What the service leaves alone\<close>

lemma core_send [keep]: "keeps core (send e c p)"
  by (simp add: keeps_def send_def core_def split: option.split)

lemma core_dispatch [keep]: "keeps core (dispatchNotification e p c)"
  unfolding dispatchNotification_def Let_def by (intro keep)

lemma core_emit [keep]: "keeps core (emitFeedNotification e i sv ti)"
  unfolding emitFeedNotification_def by (intro keep) simp

lemma core_resolve_channels [keep]: "keeps core (resolveNotificationChannels e r)"
  unfolding resolveNotificationChannels_def component_channels_of_def by (intro keep)

lemma core_mark_outcome [keep]: "keeps core (mark_outcome e n c o')"
  unfolding mark_outcome_def by (intro keep) simp

lemma core_notify_channel [keep]: "keeps core (notify_channel e i ty st lb c)"
  unfolding notify_channel_def Let_def by (intro keep)

lemma core_after_create [keep]: "keeps core (after_create e r res i)"
  unfolding after_create_def by (intro keep)

lemma core_after_resolve [keep]: "keeps core (after_resolve e r i)"
  unfolding after_resolve_def by (intro keep)

lemma core_notify [keep]:
  "keeps core (NotifyFlapping e r n wd mx)" "keeps core (NotifyStabilized e r fs)"
  unfolding NotifyFlapping_def NotifyStabilized_def by (intro keep)+

lemma core_remind [keep]: "keeps core (SendReminderIfDue e r)"
  unfolding SendReminderIfDue_def findActiveIncident_def remind_channel_def Let_def by (intro keep; simp?)

section \<open>The journal of incidents\<close>

text \<open>
  The invariant of the incidents table: keys are distinct, every incident started before the next
  clock reading, and an active incident is strictly newer than every other incident of its resource.
\<close>

definition journal_ok :: "incident list \<Rightarrow> bool" where
  "journal_ok t \<longleftrightarrow> distinct_keys i_ID t \<and>
     (\<forall>i \<in> set t. \<forall>j \<in> set t. active i \<longrightarrow> i_ResourceID j = i_ResourceID i \<longrightarrow> i_ID j \<noteq> i_ID i \<longrightarrow>
        i_StartedAt j < i_StartedAt i)"

definition in_past :: "env \<Rightarrow> world \<Rightarrow> bool" where
  "in_past e w \<longleftrightarrow> (\<forall>i \<in> set (incidents w). i_StartedAt i < clock e (tick w))"

definition incidents_inv :: "env \<Rightarrow> world \<Rightarrow> bool" where
  "incidents_inv e w \<longleftrightarrow> journal_ok (incidents w) \<and> in_past e w"

definition none_active :: "string \<Rightarrow> world \<Rightarrow> bool" where
  "none_active rid w \<longleftrightarrow> (\<forall>i \<in> set (incidents w). i_ResourceID i = rid \<longrightarrow> \<not> active i)"

definition active_of :: "string \<Rightarrow> world \<Rightarrow> incident list" where
  "active_of rid w = filter (\<lambda>i. active i \<and> i_ResourceID i = rid) (incidents w)"

lemma distinct_keys_same: "distinct_keys key t \<Longrightarrow> x \<in> set t \<Longrightarrow> y \<in> set t \<Longrightarrow> key x = key y \<Longrightarrow> x = y"
  by (auto simp: distinct_keys_def distinct_map inj_on_def)

lemma journal_unique:
  assumes "journal_ok t" "i \<in> set t" "j \<in> set t" "active i" "active j" "i_ResourceID i = i_ResourceID j"
  shows "i = j"
proof (rule ccontr)
  assume "i \<noteq> j"
  with assms have "i_ID i \<noteq> i_ID j"
    by (auto simp: journal_ok_def dest: distinct_keys_same)
  with assms have "i_StartedAt i < i_StartedAt j" and "i_StartedAt j < i_StartedAt i"
    unfolding journal_ok_def by metis+
  then show False by simp
qed

lemma journal_at_most_one:
  assumes "journal_ok (incidents w)"
  shows "length (active_of rid w) \<le> 1"
proof -
  have d: "distinct (active_of rid w)"
    using assms by (auto simp: active_of_def journal_ok_def distinct_keys_def distinct_map)
  have "\<forall>x \<in> set (active_of rid w). \<forall>y \<in> set (active_of rid w). x = y"
    using assms by (auto simp: active_of_def intro: journal_unique)
  then have "card (set (active_of rid w)) \<le> 1"
    by (simp add: card_le_Suc0_iff_eq)
  with d show ?thesis by (simp add: distinct_card)
qed

lemma stable_incidents_inv:
  assumes "strict_mono (clock e)"
  shows "stable core (incidents_inv e)"
proof -
  have "clock e (tick w) \<le> clock e (tick w')" if "tick w \<le> tick w'" for w w' :: world
    using assms that by (simp add: strict_mono_less_eq)
  then show ?thesis
    unfolding stable_def incidents_inv_def in_past_def core_def
    by (metis (no_types, lifting) order_less_le_trans prod.inject)
qed

lemma incidents_of_set: "set (incidents_of rid t) = {i \<in> set t. i_ResourceID i = rid}"
  by (auto simp: incidents_of_def)

lemma incidents_of_newest:
  assumes "incidents_of rid t = h # rest" and "i \<in> set t" and "i_ResourceID i = rid"
  shows "i_StartedAt i \<le> i_StartedAt h"
proof -
  have "sorted (map (\<lambda>i. - i_StartedAt i) (incidents_of rid t))"
    by (simp add: incidents_of_def)
  moreover have "i \<in> set (h # rest)"
    using assms incidents_of_set [of rid t] by (metis (mono_tags, lifting) mem_Collect_eq)
  ultimately show ?thesis
    using assms(1) by auto
qed

text \<open>An active incident is the first row that the ordered query returns.\<close>

lemma active_is_newest:
  assumes "journal_ok t" "i \<in> set t" "active i" "i_ResourceID i = rid"
  shows "\<exists>rest. incidents_of rid t = i # rest"
proof (cases "incidents_of rid t")
  case Nil
  with assms show ?thesis using incidents_of_set [of rid t] by auto
next
  case (Cons h rest)
  then have h: "h \<in> set t" "i_ResourceID h = rid"
    using incidents_of_set [of rid t] by auto
  have "i_StartedAt i \<le> i_StartedAt h"
    using incidents_of_newest [OF Cons] assms by auto
  with assms h have "i_ID h = i_ID i"
    unfolding journal_ok_def by fastforce
  with assms h have "h = i"
    by (auto simp: journal_ok_def dest: distinct_keys_same)
  with Cons show ?thesis by simp
qed

lemma no_active_head:
  assumes "journal_ok t" and "\<not> list_ex active (page 1 0 (incidents_of rid t))"
    and "i \<in> set t" and "i_ResourceID i = rid"
  shows "\<not> active i"
proof
  assume "active i"
  with assms obtain rest where "incidents_of rid t = i # rest"
    using active_is_newest by blast
  with assms(2) \<open>active i\<close> show False
    by (simp add: page_def)
qed

lemma pick_active_None: "pick_active None is = None \<longleftrightarrow> \<not> list_ex active is"
proof -
  have some: "pick_active (Some b) is \<noteq> None" for b "is"
    by (induction "is" arbitrary: b) auto
  show ?thesis by (induction "is") (auto simp: some)
qed

lemma pick_active_Some:
  "pick_active b is = Some i \<Longrightarrow> (\<forall>x. b = Some x \<longrightarrow> active x) \<Longrightarrow> (b = Some i \<or> i \<in> set is) \<and> active i"
proof (induction b "is" rule: pick_active.induct)
  case (1 best)
  then show ?case by simp
next
  case (2 best i' "is")
  then show ?case
    by (auto split: if_splits)
qed


section \<open>Substring search\<close>

lemma take_drop_sublist: "take n (drop i s) = sub \<Longrightarrow> sublist sub s"
  by (metis append_take_drop_id sublist_def)

lemma findSubstring_iff:
  assumes "length sub \<le> length s"
  shows "findSubstring s sub \<longleftrightarrow> sublist sub s"
proof
  assume "findSubstring s sub"
  then show "sublist sub s"
    unfolding findSubstring_def list_ex_iff using take_drop_sublist by blast
next
  assume "sublist sub s"
  then obtain xs ys where "s = xs @ sub @ ys"
    by (auto simp: sublist_def)
  then have "length xs \<in> set [0..<Suc (length s - length sub)]"
    and "take (length sub) (drop (length xs) s) = sub"
    by auto
  then show "findSubstring s sub"
    unfolding findSubstring_def list_ex_iff by blast
qed

lemma contains_str_sublist: "contains_str s sub \<longleftrightarrow> sublist sub s"
proof -
  have "length sub < length s" if "sublist sub s" "s \<noteq> sub"
    using that by (metis le_neq_implies_less sublist_length_le subseq_same_length sublist_imp_subseq)
  then show ?thesis
    using findSubstring_iff [of sub s] sublist_length_le [of sub s] by (auto simp: contains_str_def)
qed

section \<open>Creation and resolution keep the journal\<close>

abbreviation sinv :: "svc_env \<Rightarrow> world \<Rightarrow> bool" where
  "sinv e \<equiv> incidents_inv (ev e)"

lemma clock_ev [simp]: "clock (ev e) = clock e"
  by (simp add: env.defs)

lemma fault_ev [simp]: "fault (ev e) = fault e"
  by (simp add: env.defs)

lemma ulid_ev [simp]: "ulid (ev e) = ulid e"
  by (simp add: env.defs)

lemma stable_none_active: "stable core (none_active rid)"
  by (simp add: stable_def none_active_def core_def)

lemma stable_active_of: "stable core (\<lambda>w. P (active_of rid w))"
  by (simp add: stable_def active_of_def core_def)

lemma journal_snoc:
  assumes "journal_ok t" and "i_ID n \<notin> i_ID ` set t"
    and "\<And>i. i \<in> set t \<Longrightarrow> i_StartedAt i < i_StartedAt n"
    and "\<And>i. i \<in> set t \<Longrightarrow> i_ResourceID i = i_ResourceID n \<Longrightarrow> \<not> active i"
  shows "journal_ok (t @ [n])"
  using assms unfolding journal_ok_def distinct_keys_def by auto

definition update_row :: "incident \<Rightarrow> time \<Rightarrow> incident \<Rightarrow> incident" where
  "update_row inc t row = row\<lparr>i_ResourceID := i_ResourceID inc, i_Cause := i_Cause inc,
     i_ResolvedAt := i_ResolvedAt inc, i_StartedAt := i_StartedAt inc,
     i_Details := i_Details inc, i_UpdatedAt := t\<rparr>"

lemma journal_map:
  assumes "journal_ok t"
    and "\<And>row. row \<in> set t \<Longrightarrow> i_ID (f row) = i_ID row \<and> i_ResourceID (f row) = i_ResourceID row \<and>
      i_StartedAt (f row) = i_StartedAt row \<and> (active (f row) \<longrightarrow> active row)"
  shows "journal_ok (map f t)"
proof -
  have "map i_ID (map f t) = map i_ID t"
    using assms(2) by simp
  then have "distinct_keys i_ID (map f t)"
    using assms(1) by (simp add: journal_ok_def distinct_keys_def del: map_map)
  with assms show ?thesis
    unfolding journal_ok_def by auto
qed

lemma journal_resolve:
  assumes "journal_ok t" and "i \<in> set t"
  shows "journal_ok (tbl_update i_ID (i_ID i) (update_row (i\<lparr>i_ResolvedAt := Some s\<rparr>) u) t)"
  unfolding tbl_update_def
proof (rule journal_map [OF assms(1)])
  fix row assume "row \<in> set t"
  then have "row = i" if "i_ID row = i_ID i"
    using assms that by (auto simp: journal_ok_def dest: distinct_keys_same)
  then show "i_ID (if i_ID row = i_ID i then update_row (i\<lparr>i_ResolvedAt := Some s\<rparr>) u row else row) = i_ID row \<and>
      i_ResourceID (if i_ID row = i_ID i then update_row (i\<lparr>i_ResolvedAt := Some s\<rparr>) u row else row) = i_ResourceID row \<and>
      i_StartedAt (if i_ID row = i_ID i then update_row (i\<lparr>i_ResolvedAt := Some s\<rparr>) u row else row) = i_StartedAt row \<and>
      (active (if i_ID row = i_ID i then update_row (i\<lparr>i_ResolvedAt := Some s\<rparr>) u row else row) \<longrightarrow> active row)"
    by (auto simp: update_row_def active_def)
qed

text \<open>A fresh incident of a resource without an active one.\<close>

lemma Incidents_Create_cases:
  assumes "run_state (Incidents_Create e inc) w = (x, w')"
  obtains (failed) err where "x = Inl err" "incidents w' = incidents w" "tick w < tick w'"
  | (stored) n where "x = Inr n" "incidents w' = incidents w @ [n]" "Suc (tick w) < tick w'"
      "i_ID n \<notin> i_ID ` set (incidents w)" "i_ResolvedAt n = i_ResolvedAt inc" "i_ResourceID n = i_ResourceID inc"
      "i_StartedAt n \<in> {i_StartedAt inc, clock e (tick w), clock e (Suc (tick w))}"
      "i_Details n = i_Details inc"
  using assms
  by (force simp: Incidents_Create_def run_simps EnsureID_def wrap_db_def tbl_has_iff bump_def Let_def
      split: if_splits)

lemma hoare_Incidents_Create:
  assumes mono: "strict_mono (clock e)" and act: "i_ResolvedAt inc = None"
  shows "hoare (\<lambda>w. incidents_inv e w \<and> none_active (i_ResourceID inc) w \<and>
      (\<forall>i \<in> set (incidents w). i_StartedAt i < i_StartedAt inc) \<and> i_StartedAt inc < clock e (tick w))
    (Incidents_Create e inc)
    (\<lambda>x w. incidents_inv e w \<and> (\<forall>y. x = Inr y \<longrightarrow> length (active_of (i_ResourceID inc) w) = 1))"
proof (rule hoareI)
  fix w x w'
  assume pre: "incidents_inv e w \<and> none_active (i_ResourceID inc) w \<and>
      (\<forall>i \<in> set (incidents w). i_StartedAt i < i_StartedAt inc) \<and> i_StartedAt inc < clock e (tick w)"
    and run: "run_state (Incidents_Create e inc) w = (x, w')"
  have lt: "clock e m < clock e n" if "m < n" for m n
    using mono that by (simp add: strict_mono_less)
  from run show "incidents_inv e w' \<and> (\<forall>y. x = Inr y \<longrightarrow> length (active_of (i_ResourceID inc) w') = 1)"
  proof (cases rule: Incidents_Create_cases)
    case (failed err)
    with pre lt [of "tick w" "tick w'"] show ?thesis
      by (auto simp: incidents_inv_def in_past_def)
  next
    case (stored n)
    have older: "i_StartedAt i < i_StartedAt n" if "i \<in> set (incidents w)" for i
      using pre that stored lt [of "tick w" "Suc (tick w)"] by (auto simp: incidents_inv_def in_past_def)
    have "i_StartedAt n < clock e (tick w')"
      using pre stored lt [of "tick w" "tick w'"] lt [of "Suc (tick w)" "tick w'"] by auto
    with older have "in_past e w'"
      by (auto simp: in_past_def stored(2) dest: order_less_trans)
    moreover have "journal_ok (incidents w')"
      unfolding stored(2) using pre stored older
      by (intro journal_snoc) (auto simp: incidents_inv_def none_active_def)
    moreover have "active_of (i_ResourceID inc) w' = [n]"
      using pre stored act by (auto simp: active_of_def none_active_def active_def filter_empty_conv)
    ultimately show ?thesis by (simp add: incidents_inv_def)
  qed
qed

lemma run_FindByResource:
  "run_state (Incidents_FindByResource e rid l n) w =
     (if fault e (tick w) then Inl (Wrapf ''sqlc: find incidents by resource'' ErrDB)
      else Inr (page l n (incidents_of rid (incidents w))), bump w)"
  by (simp add: Incidents_FindByResource_def run_simps wrap_db_def)

lemma hoare_FindByResource_head:
  assumes "strict_mono (clock e)"
  shows "hoare (incidents_inv e) (Incidents_FindByResource e rid 1 0)
    (\<lambda>x w. incidents_inv e w \<and>
      (\<forall>is. x = Inr is \<longrightarrow> (if list_ex active is then length (active_of rid w) = 1 else none_active rid w)))"
proof -
  have st: "incidents_inv e (bump w)" if "incidents_inv e w" for w
    using stable_incidents_inv [OF assms] that unfolding stable_def
    by (metis core_bump lessI less_imp_le tick_bump)
  have na: "none_active rid w"
    if "incidents_inv e w" "\<not> list_ex active (page 1 0 (incidents_of rid (incidents w)))" for w
    using that no_active_head by (fastforce simp: incidents_inv_def none_active_def)
  have one: "length (active_of rid w) = 1"
    if inv: "incidents_inv e w" and ex: "list_ex active (page 1 0 (incidents_of rid (incidents w)))" for w
  proof -
    obtain i where "i \<in> set (page 1 0 (incidents_of rid (incidents w)))" and act: "active i"
      using ex by (auto simp: list_ex_iff)
    then have "i \<in> set (incidents_of rid (incidents w))"
      using subsetD [OF set_page] by simp
    then have "i \<in> set (incidents w)" "i_ResourceID i = rid"
      by (simp_all add: incidents_of_set)
    with act have "active_of rid w \<noteq> []"
      by (auto simp: active_of_def filter_empty_conv)
    moreover have "length (active_of rid w) \<le> 1"
      using inv by (intro journal_at_most_one) (simp add: incidents_inv_def)
    ultimately show ?thesis by (cases "active_of rid w") auto
  qed
  show ?thesis
    unfolding hoare_def
    using st na one by (auto simp: run_FindByResource none_active_def active_of_def)
qed

lemma hoare_keeps: "keeps f m \<Longrightarrow> stable f I \<Longrightarrow> hoare I m (\<lambda>_. I)"
  by (rule hoare_preserves) (rule keeps_preserves)

lemma hoare_now:
  assumes mono: "strict_mono (clock e)"
  shows "hoare (\<lambda>w. incidents_inv e w \<and> none_active rid w) (now e)
    (\<lambda>t w. incidents_inv e w \<and> none_active rid w \<and>
      (\<forall>i \<in> set (incidents w). i_StartedAt i < t) \<and> t < clock e (tick w))"
proof (rule hoareI)
  fix w t w'
  assume pre: "incidents_inv e w \<and> none_active rid w" and run: "run_state (now e) w = (t, w')"
  then have w': "w' = bump w" "t = clock e (tick w)"
    by (simp_all add: run_simps)
  have lt: "clock e (tick w) < clock e (Suc (tick w))"
    using mono by (simp add: strict_mono_less)
  have "incidents_inv e w'"
    unfolding incidents_inv_def in_past_def
    using pre w' lt by (auto simp: incidents_inv_def in_past_def intro: order_less_trans [OF _ lt])
  with pre lt w' show "incidents_inv e w' \<and> none_active rid w' \<and>
      (\<forall>i \<in> set (incidents w'). i_StartedAt i < t) \<and> t < clock e (tick w')"
    by (simp add: none_active_def incidents_inv_def in_past_def)
qed

text \<open>Creation: the invariant holds again, and a creation that succeeds leaves one active incident.\<close>

lemma hoare_CreateIncident:
  assumes mono: "strict_mono (clock e)"
  shows "hoare (sinv e) (CreateIncident e r res)
    (\<lambda>x w. sinv e w \<and> (x = None \<longrightarrow> length (active_of (r_ID r) w) = 1))" (is "hoare _ _ ?Q")
proof -
  have m: "strict_mono (clock (ev e))" using mono by simp
  let ?one = "\<lambda>w. sinv e w \<and> length (active_of (r_ID r) w) = 1"
  let ?inc = "\<lambda>t. \<lparr>i_ID = '''', i_ResourceID = r_ID r, i_Cause = extractCause res, i_ResolvedAt = None,
      i_StartedAt = t, i_Details = c_ResponseData res, i_CreatedAt = zero_time, i_UpdatedAt = zero_time\<rparr>"
  have "stable core ?one"
    using stable_incidents_inv [OF m] stable_active_of [of "\<lambda>l. length l = 1" "r_ID r"]
    unfolding stable_def by blast
  note keep_one = hoare_keeps [OF core_after_create this]
  have tail: "hoare ?one (after_create e r res inc) ?Q" for inc
    by (rule hoare_conseq [OF keep_one]) auto
  have create: "hoare (\<lambda>w. sinv e w \<and> none_active (r_ID r) w \<and> (\<forall>i \<in> set (incidents w). i_StartedAt i < t) \<and>
        t < clock (ev e) (tick w)) (Incidents_Create (ev e) (?inc t))
      (\<lambda>x w. sinv e w \<and> (\<forall>y. x = Inr y \<longrightarrow> length (active_of (r_ID r) w) = 1))" for t
    using hoare_Incidents_Create [OF m, of "?inc t"] by simp
  show ?thesis
    unfolding CreateIncident_def
  proof (rule hoare_bind [OF hoare_FindByResource_head [OF m]], goal_cases)
    case (1 found)
    show ?case
    proof (intro hoare_case_sum hoare_if hoare_return)
      fix rows assume "found = Inr rows" "\<not> list_ex active rows"
      then show "hoare (\<lambda>w. sinv e w \<and> (\<forall>is. found = Inr is \<longrightarrow>
            (if list_ex active is then length (active_of (r_ID r) w) = 1 else none_active (r_ID r) w)))
          (now (ev e) \<bind> (\<lambda>t. Incidents_Create (ev e) (?inc t) \<bind>
            (\<lambda>created. case created of Inl err \<Rightarrow> State_Monad.return (Some (Wrapf ''failed to create incident'' err))
              | Inr inc \<Rightarrow> after_create e r res inc))) ?Q"
        by (intro hoare_bind [OF hoare_conseq [OF hoare_now [OF m]] hoare_bind [OF create]]
            hoare_case_sum hoare_return hoare_conseq [OF tail]) auto
    qed auto
  qed
qed

text \<open>Resolution: the active incident, if there is one, is found and closed.\<close>

lemma hoare_FindByResource_active:
  assumes "strict_mono (clock e)" and "0 < l"
  shows "hoare (incidents_inv e) (Incidents_FindByResource e rid l 0)
    (\<lambda>x w. incidents_inv e w \<and> (\<forall>is. x = Inr is \<longrightarrow>
      (case pick_active None is of None \<Rightarrow> none_active rid w
       | Some i \<Rightarrow> i \<in> set (incidents w) \<and> active i \<and> i_ResourceID i = rid)))"
proof (rule hoareI)
  fix w x w'
  assume inv: "incidents_inv e w" and run: "run_state (Incidents_FindByResource e rid l 0) w = (x, w')"
  let ?p = "page l 0 (incidents_of rid (incidents w))"
  have w': "w' = bump w" and x: "\<And>is. x = Inr is \<Longrightarrow> is = ?p"
    using run by (auto simp: run_FindByResource split: if_splits)
  have st: "incidents_inv e (bump w)"
    using stable_incidents_inv [OF assms(1)] inv unfolding stable_def
    by (metis core_bump lessI less_imp_le tick_bump)
  have "none_active rid w" if "pick_active None ?p = None"
  proof -
    have "\<not> list_ex active ?p"
      using that by (simp add: pick_active_None)
    then have "\<not> list_ex active (page 1 0 (incidents_of rid (incidents w)))"
      using assms(2) by (cases "incidents_of rid (incidents w)"; cases l) (auto simp: page_def)
    with inv show ?thesis
      using no_active_head by (fastforce simp: incidents_inv_def none_active_def)
  qed
  moreover have "i \<in> set (incidents w) \<and> active i \<and> i_ResourceID i = rid" if "pick_active None ?p = Some i" for i
  proof -
    have p: "i \<in> set ?p" and act: "active i"
      using pick_active_Some [OF that] by auto
    have "i \<in> set (incidents_of rid (incidents w))"
      by (rule subsetD [OF set_page p])
    with act show ?thesis by (simp add: incidents_of_set)
  qed
  ultimately show "incidents_inv e w' \<and> (\<forall>is. x = Inr is \<longrightarrow>
      (case pick_active None is of None \<Rightarrow> none_active rid w'
       | Some i \<Rightarrow> i \<in> set (incidents w') \<and> active i \<and> i_ResourceID i = rid))"
    using st w' x by (auto simp: none_active_def split: option.split)
qed

lemma Incidents_Update_cases:
  assumes "run_state (Incidents_Update e inc) w = (x, w')"
  obtains (failed) err where "x = Some err" "incidents w' = incidents w" "tick w < tick w'"
  | (stored) u where "x = None" "incidents w' = tbl_update i_ID (i_ID inc) (update_row inc u) (incidents w)"
      "tick w < tick w'"
  using assms
  by (force simp: Incidents_Update_def run_simps wrap_db_def bump_def update_row_def [abs_def] split: if_splits)

lemma hoare_Incidents_Update:
  assumes mono: "strict_mono (clock e)"
  shows "hoare (\<lambda>w. incidents_inv e w \<and> i \<in> set (incidents w) \<and> active i \<and> i_ResourceID i = rid)
    (Incidents_Update e (i\<lparr>i_ResolvedAt := Some t\<rparr>))
    (\<lambda>x w. incidents_inv e w \<and> (x = None \<longrightarrow> none_active rid w))"
proof (rule hoareI)
  fix w x w'
  assume pre: "incidents_inv e w \<and> i \<in> set (incidents w) \<and> active i \<and> i_ResourceID i = rid"
    and run: "run_state (Incidents_Update e (i\<lparr>i_ResolvedAt := Some t\<rparr>)) w = (x, w')"
  have past: "i_StartedAt j < clock e (tick w')" if "j \<in> set (incidents w)" "tick w < tick w'" for j
    using pre that mono by (auto simp: incidents_inv_def in_past_def strict_mono_less intro: order_less_trans)
  from run show "incidents_inv e w' \<and> (x = None \<longrightarrow> none_active rid w')"
  proof (cases rule: Incidents_Update_cases)
    case (failed err)
    with pre past show ?thesis by (auto simp: incidents_inv_def in_past_def)
  next
    case (stored u)
    have "\<not> active j" if "j \<in> set (incidents w)" "i_ID j \<noteq> i_ID i" "i_ResourceID j = rid" for j
      using pre that journal_unique [of "incidents w" i j] by (auto simp: incidents_inv_def)
    moreover have resolved: "\<not> active (update_row (i\<lparr>i_ResolvedAt := Some t\<rparr>) u j)" for j
      by (simp add: update_row_def active_def)
    ultimately have "none_active rid w'"
      unfolding none_active_def stored(2) tbl_update_def
      using resolved by auto
    moreover have "journal_ok (incidents w')"
      using pre journal_resolve [of "incidents w" i t u] stored by (simp add: incidents_inv_def)
    moreover have "in_past e w'"
      using pre past stored by (auto simp: in_past_def tbl_update_def update_row_def)
    ultimately show ?thesis by (simp add: incidents_inv_def)
  qed
qed

lemma hoare_ResolveIncident:
  assumes mono: "strict_mono (clock e)"
  shows "hoare (sinv e) (ResolveIncident e r res)
    (\<lambda>x w. sinv e w \<and> (x = None \<longrightarrow> none_active (r_ID r) w))" (is "hoare _ _ ?Q")
proof -
  have m: "strict_mono (clock (ev e))" using mono by simp
  note st = stable_incidents_inv [OF m]
  let ?found = "\<lambda>i w. sinv e w \<and> i \<in> set (incidents w) \<and> active i \<and> i_ResourceID i = r_ID r"
  have found: "hoare (?found i) (now (ev e)) (\<lambda>_. ?found i)" for i
    using st by (intro hoare_keeps [of core] keeps_now) (auto simp: stable_def core_def)
  have "stable core (\<lambda>w. sinv e w \<and> none_active (r_ID r) w)"
    using st stable_none_active unfolding stable_def by blast
  note keep_none = hoare_keeps [OF core_after_resolve this]
  have tail: "hoare (\<lambda>w. sinv e w \<and> none_active (r_ID r) w) (after_resolve e r inc) ?Q" for inc
    by (rule hoare_conseq [OF keep_none]) auto
  have close: "hoare (?found i) (do {
        since \<leftarrow> now (ev e);
        t \<leftarrow> now (ev e);
        updated \<leftarrow> Incidents_Update (ev e) (i\<lparr>i_ResolvedAt := Some t\<rparr>);
        (case updated of
           Some err \<Rightarrow> State_Monad.return (Some (Wrapf ''failed to resolve incident'' err))
         | None \<Rightarrow> after_resolve e r (i\<lparr>i_ResolvedAt := Some t\<rparr>)) }) ?Q" for i
    by (intro hoare_bind [OF found hoare_bind [OF found hoare_bind [OF hoare_Incidents_Update [OF m]]]]
        hoare_case_option hoare_return hoare_conseq [OF tail]) auto
  show ?thesis
    unfolding ResolveIncident_def Let_def
    by (intro hoare_bind [OF hoare_FindByResource_active [OF m]] hoare_case_sum hoare_case_option hoare_return
        hoare_conseq [OF close]) auto
qed

section \<open>Sample inputs for the witnesses\<close>

definition demo_env :: svc_env where
  "demo_env = \<lparr>clock = (\<lambda>n. int n * Second), fault = (\<lambda>_. False), ulid = (\<lambda>n. nat_digits n),
     has_updates = True, has_emitter = True, has_components = True,
     build_notifier = (\<lambda>_. None), send_result = (\<lambda>_ _ _. None)\<rparr>"

definition demo_resource :: resource where
  "demo_resource =
     \<lparr>r_ID = ''r1'', r_CreatedAt = 0, r_Name = ''api'', r_Type = ResourceHTTP, r_Interval = 60, r_Timeout = 10,
      r_Target = ''https://example.org'', r_LastChecked = None, r_Status = StatusUp, r_IsActive = True,
      r_FailureCount = 0, r_ConfirmationChecks = 3, r_ConfirmationInterval = 30, r_ExpiryAlertThresholds = None,
      r_Metadata = None, r_ComponentID = Some ''c1'', r_FlapDetectionEnabled = True, r_FlapThreshold = 3,
      r_FlapWindowSeconds = 600, r_FlapMaxDurationMinutes = 60, r_LastStatusTransition = None,
      r_FlapStartedAt = None, r_ReminderIntervalMinutes = 5, r_HeartbeatSlug = None,
      r_HeartbeatInterval = None, r_HeartbeatGrace = None, r_LastPingAt = None,
      r_Keyword = None, r_KeywordMode = None, r_ProtocolType = None, r_ProtocolPort = None\<rparr>"

definition demo_check :: check_result where
  "demo_check = check_result_zero\<lparr>c_Status := StatusDown, c_ResponseData := ''dial tcp: i/o timeout''\<rparr>"

definition demo_channel :: notification_channel where
  "demo_channel = \<lparr>ch_ID = ''ch1'', ch_Name = ''ops'', ch_Type = NotificationChannelTypeSMTP, ch_Config = ''{}'',
     ch_EnabledByDefault = True, ch_LastSentAt = None, ch_LastFailureAt = None, ch_Failures24h = 0, ch_CreatedAt = 0\<rparr>"

definition demo_world :: world where
  "demo_world = empty_world\<lparr>resources := [demo_resource], channels := [demo_channel]\<rparr>"

text \<open>The state after one failure of the sample resource was reported.\<close>

definition demo_open :: world where
  "demo_open = snd (run_state (CreateIncident demo_env demo_resource demo_check) demo_world)"

lemma demo_clock: "strict_mono (clock demo_env)"
  by (rule strict_monoI) (simp add: demo_env_def)

lemma demo_no_fault: "\<not> fault demo_env n"
  by (simp add: demo_env_def)

lemma demo_inv: "sinv demo_env demo_world"
  by code_simp

lemma demo_open_inv: "sinv demo_env demo_open"
  by code_simp

definition demo_open_incident :: incident where
  "demo_open_incident = hd (incidents demo_open)"

text \<open>The same state 1000 interactions, hence 1000 seconds, later.\<close>

definition demo_late :: world where
  "demo_late = demo_open\<lparr>tick := tick demo_open + 1000\<rparr>"

lemma demo_ulid: "ulid demo_env n \<noteq> ''''"
  by (simp add: demo_env_def)

section \<open>Properties\<close>

text \<open>
  \<open>CreateIncident\<close> keeps the journal of incidents well formed under every pattern of repository
  failures, and whenever it reports success the resource has exactly one active incident, whatever
  it had before.
\<close>

theorem CreateIncident_one_active:
  assumes "strict_mono (clock e)" and "incidents_inv (ev e) w"
    and "run_state (CreateIncident e r res) w = (x, w')"
  shows "incidents_inv (ev e) w' \<and> (x = None \<longrightarrow> length (active_of (r_ID r) w') = 1)"
  using hoareD [OF hoare_CreateIncident [OF assms(1)] assms(2,3)] by simp

theorem CreateIncident_one_active_witness:
  "incidents_inv (ev demo_env) demo_open \<and> length (active_of ''r1'' demo_open) = 1"
proof -
  have "run_state (CreateIncident demo_env demo_resource demo_check) demo_world = (None, demo_open)"
    by code_simp
  from CreateIncident_one_active [OF demo_clock demo_inv this] show ?thesis
    by (simp add: demo_resource_def)
qed

text \<open>
  \<open>ResolveIncident\<close> keeps the journal well formed, and whenever it reports success no incident
  of the resource is active: the ten rows it reads always contain the active one.
\<close>

theorem ResolveIncident_none_active:
  assumes "strict_mono (clock e)" and "incidents_inv (ev e) w"
    and "run_state (ResolveIncident e r res) w = (x, w')"
  shows "incidents_inv (ev e) w' \<and> (x = None \<longrightarrow> none_active (r_ID r) w')"
  using hoareD [OF hoare_ResolveIncident [OF assms(1)] assms(2,3)] by simp

theorem ResolveIncident_none_active_witness:
  "none_active ''r1'' (snd (run_state (ResolveIncident demo_env demo_resource demo_check) demo_open)) \<and>
   \<not> none_active ''r1'' demo_open"
proof -
  have "fst (run_state (ResolveIncident demo_env demo_resource demo_check) demo_open) = None"
    by code_simp
  then have "run_state (ResolveIncident demo_env demo_resource demo_check) demo_open =
      (None, snd (run_state (ResolveIncident demo_env demo_resource demo_check) demo_open))"
    by (simp add: prod_eq_iff)
  from ResolveIncident_none_active [OF demo_clock demo_open_inv this]
  have "none_active ''r1'' (snd (run_state (ResolveIncident demo_env demo_resource demo_check) demo_open))"
    by (simp add: demo_resource_def)
  moreover have "\<not> none_active ''r1'' demo_open"
    by code_simp
  ultimately show ?thesis by simp
qed

text \<open>
  A failure reported while the resource already has an active incident changes nothing: no
  second incident, no timeline entry and no second notification, only the query is made.
\<close>

theorem CreateIncident_duplicate:
  assumes "incidents_inv (ev e) w" and "active_of (r_ID r) w \<noteq> []" and "\<not> fault e (tick w)"
  shows "run_state (CreateIncident e r res) w = (None, bump w)"
proof -
  obtain i where i: "i \<in> set (incidents w)" "active i" "i_ResourceID i = r_ID r"
    using assms(2) by (auto simp: active_of_def filter_empty_conv)
  then obtain rest where "incidents_of (r_ID r) (incidents w) = i # rest"
    using active_is_newest [OF _ i] assms(1) by (auto simp: incidents_inv_def)
  with assms(3) i show ?thesis
    by (simp add: CreateIncident_def run_simps run_FindByResource page_def)
qed

theorem CreateIncident_duplicate_witness:
  "run_state (CreateIncident demo_env demo_resource demo_check) demo_open = (None, bump demo_open)"
proof (rule CreateIncident_duplicate)
  show "active_of (r_ID demo_resource) demo_open \<noteq> []"
    by code_simp
qed (simp_all add: demo_open_inv demo_no_fault)

subsection \<open>Channels\<close>

text \<open>The three tiers of channels as the tables define them.\<close>

definition resource_tier :: "world \<Rightarrow> resource \<Rightarrow> notification_channel list" where
  "resource_tier w r = filter (\<lambda>c. (r_ID r, ch_ID c) \<in> set (resource_channels w)) (channels w)"

definition component_tier :: "bool \<Rightarrow> world \<Rightarrow> resource \<Rightarrow> notification_channel list" where
  "component_tier wired w r =
     (case r_ComponentID r of
        Some cid \<Rightarrow>
          if wired \<and> tbl_has co_ID cid (components w)
          then filter (\<lambda>c. (cid, ch_ID c) \<in> set (component_channels w)) (channels w) else []
      | None \<Rightarrow> [])"

definition default_tier :: "world \<Rightarrow> notification_channel list" where
  "default_tier w = filter ch_EnabledByDefault (channels w)"

definition channels_spec :: "bool \<Rightarrow> world \<Rightarrow> resource \<Rightarrow> notification_channel list" where
  "channels_spec wired w r =
     (if resource_tier w r \<noteq> [] then resource_tier w r
      else if component_tier wired w r \<noteq> [] then component_tier wired w r
      else default_tier w)"

lemma run_channels:
  "run_state (Channels_FindByResourceID e i) w =
    (if fault e (tick w) then Inl (Wrapf ''sqlc: find by resource id'' ErrDB)
     else Inr (filter (\<lambda>c. List.member (resource_channels w) (i, ch_ID c)) (channels w)), bump w)"
  "run_state (Channels_FindByComponentID e i) w =
    (if fault e (tick w) then Inl (Wrapf ''sqlc: find by component id'' ErrDB)
     else Inr (filter (\<lambda>c. List.member (component_channels w) (i, ch_ID c)) (channels w)), bump w)"
  "run_state (Channels_FindDefaultChannels e) w =
    (if fault e (tick w) then Inl (Wrapf ''sqlc: find default channels'' ErrDB)
     else Inr (filter ch_EnabledByDefault (channels w)), bump w)"
  "run_state (Components_FindByID e i) w =
    (if fault e (tick w) then Inl (Wrapf ''sqlc: find component'' ErrDB)
     else case tbl_find co_ID i (components w) of None \<Rightarrow> Inl ErrNotFound | Some c \<Rightarrow> Inr c, bump w)"
  by (simp_all add: Channels_FindByResourceID_def Channels_FindByComponentID_def Channels_FindDefaultChannels_def
      Components_FindByID_def run_simps wrap_db_def ErrDB_def ErrNotFound_def split: option.split)

lemma component_tier_bump [simp]: "component_tier a (bump w) r = component_tier a w r"
  by (simp add: component_tier_def split: option.split)

lemma component_channels_of_cases:
  assumes "run_state (component_channels_of e r) w = (x, w')"
  shows "channels w' = channels w"
    and "x = Inr (component_tier (has_components e) w r) \<or> (\<exists>err. x = Inl err)"
    and "(\<And>n. \<not> fault e n) \<Longrightarrow> x = Inr (component_tier (has_components e) w r) \<or>
      component_tier (has_components e) w r = [] \<and> (\<exists>err. x = Inl err)"
proof -
  have comp: "co_ID c = cid \<and> tbl_has co_ID cid t" if "tbl_find co_ID cid t = Some c" for cid t c
    using tbl_find_Some_key [OF that] by (auto simp: tbl_has_iff)
  have none: "\<not> tbl_has co_ID cid t" if "tbl_find co_ID cid t = None" for cid t
    using that by (simp add: tbl_find_None tbl_has_iff)
  show "channels w' = channels w"
    using assms by (auto simp: component_channels_of_def run_simps run_channels
        split: option.splits if_splits sum.splits)
  show "x = Inr (component_tier (has_components e) w r) \<or> (\<exists>err. x = Inl err)"
    using assms by (auto simp: component_channels_of_def component_tier_def run_simps run_channels
        split: option.splits if_splits sum.splits dest: comp)
  show "x = Inr (component_tier (has_components e) w r) \<or>
      component_tier (has_components e) w r = [] \<and> (\<exists>err. x = Inl err)" if "\<And>n. \<not> fault e n"
    using assms that by (auto simp: component_channels_of_def component_tier_def run_simps run_channels
        split: option.splits if_splits sum.splits dest: comp none)
qed

text \<open>
  C36: Without repository failures the channels an alert goes to are those of the most specific
  tier that has any: the resource's own, else its component's, else the default channels.
\<close>

theorem resolveNotificationChannels_spec:
  assumes "\<And>n. \<not> fault e n"
  shows "fst (run_state (resolveNotificationChannels e r) w) = channels_spec (has_components e) w r"
proof -
  obtain x v where run: "run_state (component_channels_of e r) (bump w) = (x, v)"
    by (cases "run_state (component_channels_of e r) (bump w)")
  show ?thesis
    using component_channels_of_cases(1,3) [OF run] assms
    by (auto simp: resolveNotificationChannels_def run_simps run_channels run channels_spec_def resource_tier_def
        default_tier_def split: list.splits sum.splits)
qed

theorem resolveNotificationChannels_spec_witness:
  "fst (run_state (resolveNotificationChannels demo_env demo_resource) demo_world) = [demo_channel]"
proof -
  have "channels_spec (has_components demo_env) demo_world demo_resource = [demo_channel]"
    by code_simp
  with resolveNotificationChannels_spec [of demo_env, OF demo_no_fault] show ?thesis by simp
qed

text \<open>
  Whatever fails, an alert only ever goes to one whole tier or to nobody: a failing query of a
  tier falls through to the next one and never mixes them.
\<close>

theorem resolveNotificationChannels_tiers:
  "fst (run_state (resolveNotificationChannels e r) w) \<in>
     {resource_tier w r, component_tier (has_components e) w r, default_tier w, []}"
proof -
  obtain x v where run: "run_state (component_channels_of e r) (bump w) = (x, v)"
    by (cases "run_state (component_channels_of e r) (bump w)")
  show ?thesis
    using component_channels_of_cases(1,2) [OF run]
    by (auto simp: resolveNotificationChannels_def run_simps run_channels run resource_tier_def
        default_tier_def split: list.splits sum.splits)
qed

subsection \<open>Delivery\<close>

text \<open>
  The channel types \<open>slack\<close> and \<open>sms\<close> pass the validation of \<open>NotificationChannelType.IsValid\<close>, but
  the dispatcher has no case for them: every alert to such a channel fails, and nothing is sent.
\<close>

theorem valid_channel_undeliverable:
  assumes "channel_type_IsValid (ch_Type c)" and "ch_Type c \<noteq> NotificationChannelTypeSMTP"
  shows "run_state (dispatchNotification e p c) w =
    (Some (Errorf (''unknown notification channel type: '' @ channel_type_string (ch_Type c))), w)"
  using assms by (cases "ch_Type c") (simp_all add: dispatchNotification_def Let_def run_simps)

theorem valid_channel_undeliverable_witness:
  "run_state (dispatchNotification demo_env (PayloadStabilized ''r1'' StatusUp)
      (demo_channel\<lparr>ch_Type := NotificationChannelTypeSlack\<rparr>)) demo_world =
    (Some (Errorf ''unknown notification channel type: slack''), demo_world)"
  using valid_channel_undeliverable [of "demo_channel\<lparr>ch_Type := NotificationChannelTypeSlack\<rparr>"] by simp

text \<open>
  One alert to one channel is accounted for exactly: without repository failures it adds one
  notification event, which ends as sent when the payload left and as failed when it did not, and
  is never left pending.
\<close>

theorem notify_channel_accounted:
  assumes "\<And>n. \<not> fault e n" and "\<And>n. ulid e n \<noteq> ''''"
    and "ulid e (tick w) \<notin> ne_ID ` set (notifications w)"
    and "run_state (notify_channel e inc typ st lb c) w = (u, w')"
  shows "\<exists>n. notifications w' = notifications w @ [n] \<and> ne_IncidentID n = i_ID inc \<and> ne_Type n = typ \<and>
    (ne_Status n = NotificationEventStatusSent \<and> sent w' = sent w @ [(ch_ID c, PayloadIncident inc)] \<or>
     ne_Status n = NotificationEventStatusFailed \<and> sent w' = sent w)"
proof -
  have upd: "tbl_update ne_ID i f (t @ [n]) = t @ [f n]" if "ne_ID n = i" "i \<notin> ne_ID ` set t" for f t n i
    using that tbl_update_id [of i ne_ID t f] by (simp add: tbl_update_def)
  have steps: "run_state (EventSteps_Create (ev e) a b m) v = (y, v') \<Longrightarrow>
      notifications v' = notifications v \<and> sent v' = sent v" for a b m v y v'
    by (auto simp: EventSteps_Create_def EnsureID_def run_simps Let_def split: if_splits)
  have disp: "run_state (dispatchNotification e p c) v = (y, v') \<Longrightarrow> notifications v' = notifications v \<and>
      (y = None \<and> sent v' = sent v @ [(ch_ID c, p)] \<or> y \<noteq> None \<and> sent v' = sent v)" for p v y v'
    by (auto simp: dispatchNotification_def send_def Let_def run_simps split: if_splits option.splits)
  have mark: "run_state (mark_outcome e i cid o') v = (y, v') \<Longrightarrow> i \<noteq> '''' \<Longrightarrow> ne_ID n = i \<Longrightarrow>
      notifications v = t @ [n] \<Longrightarrow> i \<notin> ne_ID ` set t \<Longrightarrow> sent v' = sent v \<and>
      (\<exists>n'. notifications v' = t @ [n'] \<and> ne_IncidentID n' = ne_IncidentID n \<and> ne_Type n' = ne_Type n \<and>
        ne_Status n' = (if o' = None then NotificationEventStatusSent else NotificationEventStatusFailed))"
    for i cid o' v y v' n t
    by (auto simp: mark_outcome_def Notifications_MarkAsSent_def Notifications_MarkAsFailed_def
        Notifications_markTerminal_def Channels_MarkSent_def Channels_MarkFailure_def run_simps assms(1) tbl_has_iff
        wrap_db_def upd split: option.splits)
  show ?thesis
    using assms(4)
    apply (simp add: notify_channel_def Notifications_Create_def EnsureID_def run_simps assms(1-3) tbl_has_iff Let_def
        split: prod.splits)
    apply (drule disp)
    apply (drule steps)
    apply (frule mark)
    using assms(2,3) apply auto
    done
qed

theorem notify_channel_accounted_witness:
  "\<exists>n. notifications (snd (run_state (notify_channel demo_env (demo_open_incident) NotificationEventTypeUp
        IncidentEventStepUpAlert ''Up'' demo_channel) demo_open)) = notifications demo_open @ [n] \<and>
      ne_Status n = NotificationEventStatusSent"
proof -
  let ?r = "run_state (notify_channel demo_env demo_open_incident NotificationEventTypeUp
        IncidentEventStepUpAlert ''Up'' demo_channel) demo_open"
  have fresh: "ulid demo_env (tick demo_open) \<notin> ne_ID ` set (notifications demo_open)"
    by code_simp
  have "sent (snd ?r) \<noteq> sent demo_open"
    by code_simp
  with notify_channel_accounted [of demo_env, OF demo_no_fault demo_ulid fresh prod.collapse [symmetric],
      of demo_open_incident NotificationEventTypeUp IncidentEventStepUpAlert "''Up''" demo_channel]
  show ?thesis by auto
qed

subsection \<open>Reminders\<close>

lemma run_findActiveIncident:
  "run_state (findActiveIncident e rid) w =
     (if fault e (tick w)
      then Inl (Wrapf ''failed to find incidents'' (Wrapf ''sqlc: find incidents by resource'' ErrDB))
      else Inr (pick_active None (page 10 0 (incidents_of rid (incidents w)))), bump w)"
  by (simp add: findActiveIncident_def run_simps run_FindByResource)

lemma run_FindLast:
  "run_state (EventSteps_FindLastByIncidentAndStep e i st) w =
     (if fault e (tick w) then Inl (Wrapf ''sqlc: find last event step'' ErrDB)
      else case last_step i st (event_steps w) of None \<Rightarrow> Inl ErrNotFound | Some s \<Rightarrow> Inr s, bump w)"
  by (simp add: EventSteps_FindLastByIncidentAndStep_def run_simps wrap_db_def ErrDB_def ErrNotFound_def split: option.split)

text \<open>
  A reminder leaves the program only for an active incident of a resource that asks for
  reminders, and only when at least the configured number of minutes has passed since the last
  down alert or reminder anchor of that incident.
\<close>

theorem reminder_only_when_due:
  assumes "run_state (SendReminderIfDue e r) w = (x, w')" and "sent w' \<noteq> sent w"
  shows "0 < r_ReminderIntervalMinutes r \<and>
    (\<exists>inc s. inc \<in> set (incidents w) \<and> active inc \<and> i_ResourceID inc = r_ID r \<and>
      last_step (i_ID inc) IncidentEventStepDownAlert (event_steps w) = Some s \<and>
      r_ReminderIntervalMinutes r \<le> elapsed_minutes (clock e (tick w + 2)) (es_CreatedAt s))"
proof (cases "pick_active None (page 10 0 (incidents_of (r_ID r) (incidents w)))")
  case None
  with assms show ?thesis
    by (auto simp: SendReminderIfDue_def run_simps run_findActiveIncident split: if_splits)
next
  case (Some inc)
  then have "inc \<in> set (page 10 0 (incidents_of (r_ID r) (incidents w)))" "active inc"
    using pick_active_Some [OF Some] by auto
  then have inc: "inc \<in> set (incidents w)" "active inc" "i_ResourceID inc = r_ID r"
    using incidents_of_set subsetD [OF set_page] by fastforce+
  with assms Some show ?thesis
    by (fastforce simp: SendReminderIfDue_def run_simps run_findActiveIncident run_FindLast active_def Let_def
        split: if_splits option.splits)
qed

theorem reminder_only_when_due_witness:
  "0 < r_ReminderIntervalMinutes demo_resource \<and>
   (\<exists>inc s. inc \<in> set (incidents demo_late) \<and> active inc \<and>
      last_step (i_ID inc) IncidentEventStepDownAlert (event_steps demo_late) = Some s \<and>
      r_ReminderIntervalMinutes demo_resource \<le> elapsed_minutes (clock demo_env (tick demo_late + 2)) (es_CreatedAt s))"
proof -
  let ?r = "run_state (SendReminderIfDue demo_env demo_resource) demo_late"
  have "sent (snd ?r) \<noteq> sent demo_late"
    by code_simp
  from reminder_only_when_due [OF _ this, of demo_env demo_resource "fst ?r"] show ?thesis by auto
qed

subsection \<open>Causes\<close>

text \<open>
  The hand-written substring search of the incident service (\<open>contains\<close> over \<open>findSubstring\<close>)
  decides the substring relation, so the classification of a failure text by \<open>extractCause\<close> is the
  one its keywords describe.
\<close>

theorem contains_str_correct:
  "contains_str s sub \<longleftrightarrow> (\<exists>pre post. s = pre @ sub @ post)"
  by (simp add: contains_str_sublist sublist_def)

end
