(* ===== verification/Components.thy ===== *)
theory Components
  imports Incidents
begin

text \<open>
  Components (\<open>src/internal/service/component_service.go\<close>, \<open>component_notification.go\<close>, and the
  component methods of the repositories): groups of resources with a derived status, the grouped
  alert that follows a change of it, and the assignment of resources to components.

  A pending \<open>time.AfterFunc\<close> timer is a pair of component and deadline in \<open>pending_timers\<close>;
  \<open>fire_timer\<close> is its callback, run to completion. The sleeps between two attempts of a delivery
  only let time pass. Time stamps of a response are times, not formatted strings. A resource that
  \<open>Update\<close> writes back carries the channels and tags it was loaded with, so the junction tables do
  not change.
\<close>

record config =
  cfg_FlapDetectionEnabled :: bool
  cfg_FlapThreshold :: int
  cfg_FlapWindowSeconds :: int
  cfg_FlapMaxDurationMinutes :: int
  cfg_GroupingWindowSeconds :: int
  cfg_EnableICMP :: bool

section \<open>Repository methods of components\<close>

definition Components_Create :: "env \<Rightarrow> component \<Rightarrow> (world, error + component) state" where
  "Components_Create e c = do {
     i \<leftarrow> EnsureID e (co_ID c);
     t \<leftarrow> now e;
     let c' = c\<lparr>co_ID := i,
        co_CreatedAt := (if co_CreatedAt c = zero_time then t else co_CreatedAt c),
        co_UpdatedAt := (if co_UpdatedAt c = zero_time then t else co_UpdatedAt c),
        co_LastNotificationStatus := (if co_LastNotificationStatus c = ComponentStatusOther ''''
          then ComponentStatusUp else co_LastNotificationStatus c),
        co_GroupingWindowSeconds := (if co_GroupingWindowSeconds c = 0 then 30 else co_GroupingWindowSeconds c)\<rparr>;
     r \<leftarrow> repo_call e (\<lambda>w. if tbl_has co_ID i (components w) then (Inl ErrDB, w)
                         else (Inr c', w\<lparr>components := components w @ [c']\<rparr>));
     State_Monad.return (wrap_db ''sqlc: create component'' r)
   }"

definition Components_List :: "env \<Rightarrow> nat \<Rightarrow> nat \<Rightarrow> (world, error + component list) state" where
  "Components_List e limit offset = do {
     r \<leftarrow> repo_query e (\<lambda>w. Inr (page limit offset (sort_key (\<lambda>c. - co_CreatedAt c) (components w))));
     State_Monad.return (wrap_db ''sqlc: list components'' r)
   }"

text \<open>The statement sets name, description and time stamp, and does not report a missing row.\<close>

definition Components_Update :: "env \<Rightarrow> component \<Rightarrow> (world, error + component) state" where
  "Components_Update e c = do {
     t \<leftarrow> now e;
     r \<leftarrow> repo_call e (\<lambda>w. (Inr (), w\<lparr>components := tbl_update co_ID (co_ID c)
            (\<lambda>row. row\<lparr>co_Name := co_Name c, co_Description := co_Description c, co_UpdatedAt := t\<rparr>)
            (components w)\<rparr>));
     State_Monad.return (case r of Inl err \<Rightarrow> Inl err | Inr u \<Rightarrow> Inr (c\<lparr>co_UpdatedAt := t\<rparr>))
   }"

text \<open>The foreign keys: resources of the component are detached, its channel links go.\<close>

definition Components_Delete :: "env \<Rightarrow> string \<Rightarrow> (world, error option) state" where
  "Components_Delete e cid = do {
     r \<leftarrow> repo_call e (\<lambda>w. if tbl_has co_ID cid (components w)
            then (Inr (), w\<lparr>components := tbl_delete co_ID cid (components w),
                    resources := map (\<lambda>r. if r_ComponentID r = Some cid then r\<lparr>r_ComponentID := None\<rparr> else r) (resources w),
                    component_channels := filter (\<lambda>(c, _). c \<noteq> cid) (component_channels w)\<rparr>)
            else (Inl ErrNotFound, w));
     State_Monad.return (case wrap_db ''sqlc: delete component'' r of Inl err \<Rightarrow> Some err | Inr u \<Rightarrow> None)
   }"

definition Resources_CountByComponentID :: "env \<Rightarrow> string \<Rightarrow> (world, error + nat) state" where
  "Resources_CountByComponentID e cid = do {
     r \<leftarrow> repo_query e (\<lambda>w. Inr (length (filter (\<lambda>r. r_ComponentID r = Some cid \<and> r_IsActive r) (resources w))));
     State_Monad.return (wrap_db ''sqlc: count resources by component'' r)
   }"

text \<open>The columns \<open>UpdateResourceMain\<close> writes; the monitoring state is not among them.\<close>

definition main_columns :: "resource \<Rightarrow> resource \<Rightarrow> resource" where
  "main_columns res row = row\<lparr>r_Name := r_Name res, r_Type := r_Type res, r_Target := r_Target res,
     r_Interval := r_Interval res, r_Timeout := r_Timeout res, r_IsActive := r_IsActive res,
     r_ConfirmationChecks := r_ConfirmationChecks res, r_ConfirmationInterval := r_ConfirmationInterval res,
     r_ComponentID := r_ComponentID res, r_ExpiryAlertThresholds := r_ExpiryAlertThresholds res,
     r_FlapDetectionEnabled := r_FlapDetectionEnabled res, r_FlapThreshold := r_FlapThreshold res,
     r_FlapWindowSeconds := r_FlapWindowSeconds res, r_FlapMaxDurationMinutes := r_FlapMaxDurationMinutes res,
     r_ReminderIntervalMinutes := r_ReminderIntervalMinutes res, r_HeartbeatInterval := r_HeartbeatInterval res,
     r_HeartbeatGrace := r_HeartbeatGrace res\<rparr>"

definition Resources_Update :: "env \<Rightarrow> resource \<Rightarrow> (world, error option) state" where
  "Resources_Update e res = do {
     t \<leftarrow> now e;
     r \<leftarrow> repo_call e (\<lambda>w. (Inr (), w\<lparr>resources := tbl_update r_ID (r_ID res) (main_columns res) (resources w)\<rparr>));
     State_Monad.return (case wrap_db ''sqlc: update resource'' r of Inl err \<Rightarrow> Some err | Inr u \<Rightarrow> None)
   }"

section \<open>Derived status and channels\<close>

fun down_status :: "resource_status \<Rightarrow> bool" where
  "down_status StatusDown = True"
| "down_status StatusError = True"
| "down_status _ = False"

fun degraded_status :: "resource_status \<Rightarrow> bool" where
  "degraded_status StatusWarn = True"
| "degraded_status StatusPending = True"
| "degraded_status StatusUnknown = True"
| "degraded_status _ = False"

type_synonym impacted = "(string \<times> string \<times> resource_status) list"

fun derive_loop :: "bool \<Rightarrow> bool \<Rightarrow> impacted \<Rightarrow> resource list \<Rightarrow> bool \<times> bool \<times> impacted" where
  "derive_loop hasDown hasDegraded imp [] = (hasDown, hasDegraded, imp)"
| "derive_loop hasDown hasDegraded imp (r # rs) =
     (if down_status (r_Status r) then derive_loop True hasDegraded (imp @ [(r_ID r, r_Name r, r_Status r)]) rs
      else if degraded_status (r_Status r) then derive_loop hasDown True (imp @ [(r_ID r, r_Name r, r_Status r)]) rs
      else derive_loop hasDown hasDegraded imp rs)"

definition deriveComponentStatus :: "resource list \<Rightarrow> component_status \<times> impacted" where
  "deriveComponentStatus rs =
     (case derive_loop False False [] rs of (hasDown, hasDegraded, imp) \<Rightarrow>
        (if hasDown then ComponentStatusDown
         else if hasDegraded then ComponentStatusDegraded
         else ComponentStatusUp, imp))"

fun add_unseen :: "notification_channel list \<Rightarrow> notification_channel list \<Rightarrow> notification_channel list" where
  "add_unseen acc [] = acc"
| "add_unseen acc (c # cs) =
     (if list_ex (\<lambda>x. ch_ID x = ch_ID c) acc then add_unseen acc cs else add_unseen (acc @ [c]) cs)"

fun collect_loop :: "svc_env \<Rightarrow> notification_channel list \<Rightarrow> resource list \<Rightarrow>
    (world, error + notification_channel list) state" where
  "collect_loop e acc [] = State_Monad.return (Inr acc)"
| "collect_loop e acc (r # rs) = do {
     found \<leftarrow> Channels_FindByResourceID (ev e) (r_ID r);
     (case found of
        Inl err \<Rightarrow> State_Monad.return (Inl (Wrapf (''failed to load channels for resource '' @ r_ID r) err))
      | Inr cs \<Rightarrow> collect_loop e (add_unseen acc cs) rs)
   }"

definition collectChannels :: "svc_env \<Rightarrow> resource list \<Rightarrow> (world, error + notification_channel list) state" where
  "collectChannels e rs = collect_loop e [] rs"

section \<open>Grouped alerts\<close>

definition sendNotification :: "svc_env \<Rightarrow> payload \<Rightarrow> notification_channel \<Rightarrow> (world, error option) state" where
  "sendNotification e p c =
     (let dispatch = (case build_notifier e c of Some err \<Rightarrow> State_Monad.return (Some err) | None \<Rightarrow> send e c p)
      in if channel_type_string (ch_Type c) = ''smtp'' then dispatch
         else if channel_type_string (ch_Type c) = ''webhook'' then dispatch
         else State_Monad.return (Some (Errorf (''unknown notification channel type: '' @ channel_type_string (ch_Type c)))))"

text \<open>One attempt per element of the backoff list.\<close>

fun sendWithRetry :: "svc_env \<Rightarrow> payload \<Rightarrow> notification_channel \<Rightarrow> error option \<Rightarrow> duration list \<Rightarrow> (world, error option) state" where
  "sendWithRetry e p c lastErr [] = State_Monad.return lastErr"
| "sendWithRetry e p c lastErr (b # bs) = do {
     r \<leftarrow> sendNotification e p c;
     (case r of
        Some err \<Rightarrow> sendWithRetry e p c (Some err) bs
      | None \<Rightarrow> State_Monad.return None)
   }"

definition retry_backoff :: "duration list" where
  "retry_backoff = [0, 2 * Second, 4 * Second]"

fun sendToChannelsWithRetry ::
    "svc_env \<Rightarrow> payload \<Rightarrow> error option \<Rightarrow> notification_channel list \<Rightarrow> (world, error option) state" where
  "sendToChannelsWithRetry e p lastErr [] = State_Monad.return lastErr"
| "sendToChannelsWithRetry e p lastErr (c # cs) = do {
     r \<leftarrow> sendWithRetry e p c None retry_backoff;
     sendToChannelsWithRetry e p (case r of Some err \<Rightarrow> Some err | None \<Rightarrow> lastErr) cs
   }"

definition dispatchComponentAlertImmediate :: "svc_env \<Rightarrow> string \<Rightarrow> (world, error option) state" where
  "dispatchComponentAlertImmediate e cid = do {
     found \<leftarrow> Components_FindByID (ev e) cid;
     (case found of
        Inl err \<Rightarrow> State_Monad.return (Some err)
      | Inr component \<Rightarrow> do {
          rs \<leftarrow> Resources_FindByComponentID (ev e) cid;
          (case rs of
             Inl err \<Rightarrow> State_Monad.return (Some err)
           | Inr members \<Rightarrow>
               (case deriveComponentStatus members of (status, imp) \<Rightarrow>
                  if co_LastNotificationStatus component = status then State_Monad.return None
                  else do {
                    chs \<leftarrow> collectChannels e members;
                    (case chs of
                       Inl err \<Rightarrow> State_Monad.return (Some err)
                     | Inr cs \<Rightarrow> do {
                         lastErr \<leftarrow> sendToChannelsWithRetry e
                           (PayloadComponent (co_ID component) status (co_LastNotificationStatus component) imp) None cs;
                         upd \<leftarrow> Components_UpdateLastNotificationStatus (ev e) cid status;
                         State_Monad.return (case upd of Some err \<Rightarrow> Some err | None \<Rightarrow> lastErr)
                       })
                  }))
        })
   }"

definition dispatchComponentAlert :: "svc_env \<Rightarrow> string \<Rightarrow> (world, unit) state" where
  "dispatchComponentAlert e cid = do {
     dispatchComponentAlertImmediate e cid;
     State_Monad.return ()
   }"

definition set_timer :: "string \<Rightarrow> time \<Rightarrow> world \<Rightarrow> world" where
  "set_timer cid deadline w = w\<lparr>pending_timers := tbl_delete fst cid (pending_timers w) @ [(cid, deadline)]\<rparr>"

text \<open>The grouping window: the global one unless the component has its own.\<close>

definition grouping_window :: "config option \<Rightarrow> component \<Rightarrow> int" where
  "grouping_window cfg component =
     (if co_GroupingWindowSeconds component > 0 then co_GroupingWindowSeconds component
      else case cfg of Some c \<Rightarrow> cfg_GroupingWindowSeconds c | None \<Rightarrow> 0)"

definition RecalculateAndNotify :: "svc_env \<Rightarrow> config option \<Rightarrow> string \<Rightarrow> (world, error option) state" where
  "RecalculateAndNotify e cfg cid = do {
     found \<leftarrow> Components_FindByID (ev e) cid;
     (case found of
        Inl err \<Rightarrow> State_Monad.return (Some err)
      | Inr component \<Rightarrow> do {
          rs \<leftarrow> Resources_FindByComponentID (ev e) cid;
          (case rs of
             Inl err \<Rightarrow> State_Monad.return (Some err)
           | Inr members \<Rightarrow>
               if co_LastNotificationStatus component = fst (deriveComponentStatus members)
               then State_Monad.return None
               else if grouping_window cfg component > 0
               then do {
                 t \<leftarrow> now (ev e);
                 modify (set_timer cid (t + dur (grouping_window cfg component) Second));
                 State_Monad.return None
               }
               else dispatchComponentAlertImmediate e cid)
        })
   }"

text \<open>The callback of the timer of a component, which runs only when its deadline has passed.\<close>

definition fire_timer :: "svc_env \<Rightarrow> string \<Rightarrow> (world, unit) state" where
  "fire_timer e cid = do {
     t \<leftarrow> now (ev e);
     w \<leftarrow> State_Monad.get;
     (case tbl_find fst cid (pending_timers w) of
        None \<Rightarrow> State_Monad.return ()
      | Some (c, deadline) \<Rightarrow>
          if deadline \<le> t
          then do {
            modify (\<lambda>w. w\<lparr>pending_timers := tbl_delete fst cid (pending_timers w)\<rparr>);
            dispatchComponentAlert e cid
          }
          else State_Monad.return ())
   }"

section \<open>The component service\<close>

definition ErrResourceNotFound :: error where
  "ErrResourceNotFound = ErrorNew ''resource not found''"

definition ErrValidationFailed :: error where
  "ErrValidationFailed = ErrorNew ''validation failed''"

record create_component_payload =
  cp_Name :: string
  cp_Description :: "string option"
  cp_ResourceIDs :: "string list"
  cp_GroupingWindowSeconds :: "int option"

record update_component_payload =
  up_Name :: "string option"
  up_Description :: "string option"
  up_GroupingWindowSeconds :: "int option"

record component_response =
  cr_ID :: string
  cr_Name :: string
  cr_Description :: "string option"
  cr_Status :: component_status
  cr_ImpactedResources :: impacted
  cr_Resources :: impacted
  cr_GroupingWindowSeconds :: int
  cr_CreatedAt :: time
  cr_UpdatedAt :: time

definition validateGroupingWindow :: "int \<Rightarrow> error option" where
  "validateGroupingWindow seconds =
     (if seconds \<noteq> 0 \<and> (seconds < 10 \<or> seconds > 300)
      then Some (Suffixf ErrValidationFailed
        (''grouping_window_seconds must be 0 (disabled) or between 10 and 300 (got '' @ itoa seconds @ '')''))
      else None)"

definition snapshot :: "resource \<Rightarrow> string \<times> string \<times> resource_status" where
  "snapshot r = (r_ID r, r_Name r, r_Status r)"

definition toComponentResponse :: "svc_env \<Rightarrow> component \<Rightarrow> (world, error + component_response) state" where
  "toComponentResponse e component = do {
     rs \<leftarrow> Resources_FindByComponentID (ev e) (co_ID component);
     State_Monad.return (case rs of
       Inl err \<Rightarrow> Inl err
     | Inr members \<Rightarrow> Inr \<lparr>cr_ID = co_ID component, cr_Name = co_Name component,
          cr_Description = co_Description component, cr_Status = fst (deriveComponentStatus members),
          cr_ImpactedResources = map snapshot (filter (\<lambda>r. r_Status r \<noteq> StatusUp) members),
          cr_Resources = map snapshot members,
          cr_GroupingWindowSeconds = co_GroupingWindowSeconds component,
          cr_CreatedAt = co_CreatedAt component, cr_UpdatedAt = co_UpdatedAt component\<rparr>)
   }"

definition not_found_text :: "string \<Rightarrow> error" where
  "not_found_text rid = Suffixf ErrValidationFailed (''resource '' @ rid @ '' not found'')"

fun validate_resources :: "svc_env \<Rightarrow> string list \<Rightarrow> (world, error option) state" where
  "validate_resources e [] = State_Monad.return None"
| "validate_resources e (rid # rids) = do {
     found \<leftarrow> Resources_FindByID (ev e) rid;
     (case found of
        Inl err \<Rightarrow> State_Monad.return (Some (if err = ErrNotFound then not_found_text rid else err))
      | Inr r \<Rightarrow> validate_resources e rids)
   }"

text \<open>
  The assignment loop of \<open>CreateComponent\<close>. It ignores the error of the second lookup of a resource,
  so when that lookup fails it dereferences a nil pointer.
\<close>

fun assign_loop :: "svc_env \<Rightarrow> string \<Rightarrow> string list \<Rightarrow> (world, error option) state" where
  "assign_loop e cid [] = State_Monad.return None"
| "assign_loop e cid (rid # rids) = do {
     found \<leftarrow> Resources_FindByID (ev e) rid;
     (case found of
        Inl err \<Rightarrow> State_Monad.return (Some (Panic ''invalid memory address or nil pointer dereference''))
      | Inr r \<Rightarrow> do {
          upd \<leftarrow> Resources_Update (ev e) (r\<lparr>r_ComponentID := Some cid\<rparr>);
          (case upd of
             Some err \<Rightarrow> do {
               Components_Delete (ev e) cid;
               State_Monad.return (Some (Wrapf (''failed to assign resource '' @ rid) err))
             }
           | None \<Rightarrow> assign_loop e cid rids)
        })
   }"

definition CreateComponent :: "svc_env \<Rightarrow> create_component_payload \<Rightarrow> (world, error + component_response) state" where
  "CreateComponent e payload =
     (if cp_Name payload = '''' then State_Monad.return (Inl (Suffixf ErrValidationFailed ''component name is required''))
      else if cp_ResourceIDs payload = []
      then State_Monad.return (Inl (Suffixf ErrValidationFailed ''component must have at least one resource''))
      else do {
        valid \<leftarrow> validate_resources e (cp_ResourceIDs payload);
        (case valid of
           Some err \<Rightarrow> State_Monad.return (Inl err)
         | None \<Rightarrow>
             (case Option.bind (cp_GroupingWindowSeconds payload) validateGroupingWindow of
                Some err \<Rightarrow> State_Monad.return (Inl err)
              | None \<Rightarrow> do {
                  created \<leftarrow> Components_Create (ev e)
                    \<lparr>co_ID = '''', co_CreatedAt = zero_time, co_UpdatedAt = zero_time, co_Name = cp_Name payload,
                     co_Description = cp_Description payload, co_LastNotificationStatus = ComponentStatusOther '''',
                     co_GroupingWindowSeconds = (case cp_GroupingWindowSeconds payload of None \<Rightarrow> 0 | Some s \<Rightarrow> s)\<rparr>;
                  (case created of
                     Inl err \<Rightarrow> State_Monad.return (Inl err)
                   | Inr component \<Rightarrow> do {
                       assigned \<leftarrow> assign_loop e (co_ID component) (cp_ResourceIDs payload);
                       (case assigned of
                          Some err \<Rightarrow> State_Monad.return (Inl err)
                        | None \<Rightarrow> toComponentResponse e component)
                     })
                }))
      })"

definition UpdateComponent ::
    "svc_env \<Rightarrow> string \<Rightarrow> update_component_payload \<Rightarrow> (world, error + component_response) state" where
  "UpdateComponent e cid payload = do {
     found \<leftarrow> Components_FindByID (ev e) cid;
     (case found of
        Inl err \<Rightarrow> State_Monad.return (Inl err)
      | Inr component \<Rightarrow>
          if up_Name payload = Some ''''
          then State_Monad.return (Inl (Suffixf ErrValidationFailed ''component name is required''))
          else (case Option.bind (up_GroupingWindowSeconds payload) validateGroupingWindow of
             Some err \<Rightarrow> State_Monad.return (Inl err)
           | None \<Rightarrow> do {
               let component' = component
                 \<lparr>co_Name := (case up_Name payload of Some n \<Rightarrow> n | None \<Rightarrow> co_Name component),
                  co_Description := (case up_Description payload of Some d \<Rightarrow> Some d | None \<Rightarrow> co_Description component),
                  co_GroupingWindowSeconds :=
                    (case up_GroupingWindowSeconds payload of Some s \<Rightarrow> s | None \<Rightarrow> co_GroupingWindowSeconds component)\<rparr>;
               upd \<leftarrow> Components_Update (ev e) component';
               (case upd of
                  Inl err \<Rightarrow> State_Monad.return (Inl err)
                | Inr component'' \<Rightarrow> toComponentResponse e component'')
             }))
   }"

definition DeleteComponent :: "svc_env \<Rightarrow> string \<Rightarrow> (world, error option) state" where
  "DeleteComponent e cid = do {
     n \<leftarrow> Resources_CountByComponentID (ev e) cid;
     (case n of
        Inl err \<Rightarrow> State_Monad.return (Some err)
      | Inr count \<Rightarrow>
          if count > 0
          then State_Monad.return (Some (Suffixf ErrValidationFailed (''component still has '' @ itoa (int count) @ '' resources'')))
          else Components_Delete (ev e) cid)
   }"

fun responses :: "svc_env \<Rightarrow> component list \<Rightarrow> (world, error + component_response list) state" where
  "responses e [] = State_Monad.return (Inr [])"
| "responses e (c # cs) = do {
     r \<leftarrow> toComponentResponse e c;
     (case r of
        Inl err \<Rightarrow> State_Monad.return (Inl err)
      | Inr x \<Rightarrow> do {
          rs \<leftarrow> responses e cs;
          State_Monad.return (case rs of Inl err \<Rightarrow> Inl err | Inr xs \<Rightarrow> Inr (x # xs))
        })
   }"

definition ListComponents :: "svc_env \<Rightarrow> nat \<Rightarrow> nat \<Rightarrow> (world, error + component_response list) state" where
  "ListComponents e limit offset = do {
     found \<leftarrow> Components_List (ev e) limit offset;
     (case found of Inl err \<Rightarrow> State_Monad.return (Inl err) | Inr cs \<Rightarrow> responses e cs)
   }"

definition GetComponent :: "svc_env \<Rightarrow> string \<Rightarrow> (world, error + component_response) state" where
  "GetComponent e cid = do {
     found \<leftarrow> Components_FindByID (ev e) cid;
     (case found of Inl err \<Rightarrow> State_Monad.return (Inl err) | Inr c \<Rightarrow> toComponentResponse e c)
   }"

section \<open>Bulk assignment\<close>

definition autoCleanupComponent :: "svc_env \<Rightarrow> config option \<Rightarrow> string \<Rightarrow> (world, error option) state" where
  "autoCleanupComponent e cfg cid = do {
     n \<leftarrow> Resources_CountByComponentID (ev e) cid;
     (case n of
        Inl err \<Rightarrow> State_Monad.return (Some err)
      | Inr count \<Rightarrow>
          if count = 0 then Components_Delete (ev e) cid else RecalculateAndNotify e cfg cid)
   }"

definition assignResourceToComponent :: "svc_env \<Rightarrow> config option \<Rightarrow> string \<Rightarrow> string \<Rightarrow> (world, error option) state" where
  "assignResourceToComponent e cfg rid cid = do {
     found \<leftarrow> Resources_FindByID (ev e) rid;
     (case found of
        Inl err \<Rightarrow> State_Monad.return (Some (if err = ErrNotFound then not_found_text rid else err))
      | Inr r \<Rightarrow> do {
          let old = (case r_ComponentID r of Some c \<Rightarrow> if c \<noteq> cid then c else '''' | None \<Rightarrow> '''');
          upd \<leftarrow> Resources_Update (ev e) (r\<lparr>r_ComponentID := Some cid\<rparr>);
          (case upd of
             Some err \<Rightarrow> State_Monad.return (Some (Wrapf (''failed to assign resource '' @ rid) err))
           | None \<Rightarrow> do {
               (if old \<noteq> '''' then do { autoCleanupComponent e cfg old; State_Monad.return () }
                else State_Monad.return ());
               State_Monad.return None
             })
        })
   }"

fun assign_all :: "svc_env \<Rightarrow> config option \<Rightarrow> string \<Rightarrow> string list \<Rightarrow> (world, error option) state" where
  "assign_all e cfg cid [] = State_Monad.return None"
| "assign_all e cfg cid (rid # rids) = do {
     r \<leftarrow> assignResourceToComponent e cfg rid cid;
     (case r of Some err \<Rightarrow> State_Monad.return (Some err) | None \<Rightarrow> assign_all e cfg cid rids)
   }"

definition BulkAssignToComponent :: "svc_env \<Rightarrow> config option \<Rightarrow> string \<Rightarrow> string list \<Rightarrow> (world, error option) state" where
  "BulkAssignToComponent e cfg cid rids =
     (if rids = [] then State_Monad.return (Some (Suffixf ErrValidationFailed ''at least one resource ID is required''))
      else do {
        found \<leftarrow> Components_FindByID (ev e) cid;
        (case found of
           Inl err \<Rightarrow> State_Monad.return (Some err)
         | Inr c \<Rightarrow> do {
             r \<leftarrow> assign_all e cfg cid rids;
             (case r of Some err \<Rightarrow> State_Monad.return (Some err) | None \<Rightarrow> RecalculateAndNotify e cfg cid)
           })
      })"

definition removeResourceFromComponent :: "svc_env \<Rightarrow> string \<Rightarrow> (world, error + string) state" where
  "removeResourceFromComponent e rid = do {
     found \<leftarrow> Resources_FindByID (ev e) rid;
     (case found of
        Inl err \<Rightarrow> State_Monad.return (Inl (if err = ErrNotFound then not_found_text rid else err))
      | Inr r \<Rightarrow>
          (case r_ComponentID r of
             None \<Rightarrow> State_Monad.return (Inr '''')
           | Some cid \<Rightarrow> do {
               upd \<leftarrow> Resources_Update (ev e) (r\<lparr>r_ComponentID := None\<rparr>);
               State_Monad.return (case upd of
                 Some err \<Rightarrow> Inl (Wrapf (''failed to remove resource '' @ rid @ '' from component'') err)
               | None \<Rightarrow> Inr cid)
             }))
   }"

text \<open>The affected components are a set; the model visits them in the order they were found.\<close>

fun remove_all :: "svc_env \<Rightarrow> string list \<Rightarrow> string list \<Rightarrow> (world, error + string list) state" where
  "remove_all e acc [] = State_Monad.return (Inr acc)"
| "remove_all e acc (rid # rids) = do {
     r \<leftarrow> removeResourceFromComponent e rid;
     (case r of
        Inl err \<Rightarrow> State_Monad.return (Inl err)
      | Inr cid \<Rightarrow> remove_all e (if cid \<noteq> '''' then List.insert cid acc else acc) rids)
   }"

definition BulkRemoveFromComponent :: "svc_env \<Rightarrow> config option \<Rightarrow> string list \<Rightarrow> (world, error option) state" where
  "BulkRemoveFromComponent e cfg rids =
     (if rids = [] then State_Monad.return (Some (Suffixf ErrValidationFailed ''at least one resource ID is required''))
      else do {
        r \<leftarrow> remove_all e [] rids;
        (case r of
           Inl err \<Rightarrow> State_Monad.return (Some err)
         | Inr cids \<Rightarrow> do {
             for_each (\<lambda>cid. do { autoCleanupComponent e cfg cid; State_Monad.return () }) cids;
             State_Monad.return None
           })
      })"

section \<open>What alerts leave alone\<close>

lemma keeps_modify [keep]: "(\<And>w. f (g w) = f w \<and> tick w \<le> tick (g w)) \<Longrightarrow> keeps f (modify g)"
  by (simp add: keeps_def run_simps)

lemma keeps_get [keep]: "keeps f State_Monad.get"
  by (simp add: keeps_def State_Monad.get_def)

lemma run_get [run_simps]: "run_state State_Monad.get w = (w, w)"
  by (simp add: State_Monad.get_def)

lemma core_sendNotification [keep]: "keeps core (sendNotification e p c)"
  unfolding sendNotification_def Let_def by (intro keep)

lemma core_collect [keep]: "keeps core (collect_loop e acc rs)"
  by (induction rs arbitrary: acc) (simp_all, (intro keep; assumption?)+)

lemma core_sendWithRetry [keep]: "keeps core (sendWithRetry e p c le bs)"
  by (induction bs arbitrary: le) (simp_all, (intro keep; assumption?)+)

lemma core_sendToChannels [keep]: "keeps core (sendToChannelsWithRetry e p le cs)"
  by (induction cs arbitrary: le) (simp_all, (intro keep; assumption?)+)

lemma core_dispatch_alert [keep]: "keeps core (dispatchComponentAlertImmediate e cid)"
  unfolding dispatchComponentAlertImmediate_def collectChannels_def by (intro keep)

lemma core_recalculate [keep]: "keeps core (RecalculateAndNotify e cfg cid)"
  unfolding RecalculateAndNotify_def by (intro keep) (simp_all add: set_timer_def core_def)

lemma core_fire_timer [keep]: "keeps core (fire_timer e cid)"
  unfolding fire_timer_def dispatchComponentAlert_def by (intro keep) (simp_all add: core_def)

section \<open>Properties\<close>

subsection \<open>Derived status\<close>

lemma derive_loop_spec:
  "derive_loop d g imp rs =
     (d \<or> (\<exists>r \<in> set rs. down_status (r_Status r)),
      g \<or> (\<exists>r \<in> set rs. degraded_status (r_Status r)),
      imp @ map snapshot (filter (\<lambda>r. down_status (r_Status r) \<or> degraded_status (r_Status r)) rs))"
proof (induction d g imp rs rule: derive_loop.induct)
  case (1 d g imp)
  then show ?case by simp
next
  case (2 d g imp r rs)
  have "\<not> (down_status (r_Status r) \<and> degraded_status (r_Status r))"
    by (cases "r_Status r") simp_all
  with 2 show ?case by (auto simp: snapshot_def)
qed

text \<open>
  The derived status of a component is the worst of its resources: down when one is down or in
  error, else degraded when one is in warning, pending or unknown, else up; the impacted list holds
  exactly the resources responsible, in order. A flapping or paused resource counts as up.
\<close>

theorem deriveComponentStatus_spec:
  "deriveComponentStatus rs =
     (if \<exists>r \<in> set rs. down_status (r_Status r) then ComponentStatusDown
      else if \<exists>r \<in> set rs. degraded_status (r_Status r) then ComponentStatusDegraded
      else ComponentStatusUp,
      map snapshot (filter (\<lambda>r. down_status (r_Status r) \<or> degraded_status (r_Status r)) rs))"
  by (simp add: deriveComponentStatus_def derive_loop_spec)

subsection \<open>Channels of a component\<close>

lemma add_unseen_spec:
  assumes "distinct (map ch_ID acc)"
  shows "distinct (map ch_ID (add_unseen acc cs)) \<and>
    ch_ID ` set (add_unseen acc cs) = ch_ID ` set acc \<union> ch_ID ` set cs \<and> set acc \<subseteq> set (add_unseen acc cs) \<and>
    set (add_unseen acc cs) \<subseteq> set acc \<union> set cs"
  using assms
proof (induction acc cs rule: add_unseen.induct)
  case (1 acc)
  then show ?case by simp
next
  case (2 acc c cs)
  show ?case
  proof (cases "list_ex (\<lambda>x. ch_ID x = ch_ID c) acc")
    case True
    then have "ch_ID c \<in> ch_ID ` set acc"
      by (metis (mono_tags, lifting) image_eqI list_ex_iff)
    with True 2 show ?thesis by auto
  next
    case False
    then have "distinct (map ch_ID (acc @ [c]))"
      using 2(3) by (auto simp: list_ex_iff)
    from "2.IH"(2) [OF False this] False show ?thesis by auto
  qed
qed

lemma collect_loop_spec:
  assumes "\<And>n. \<not> fault e n" and "distinct (map ch_ID acc)"
  shows "\<exists>cs. fst (run_state (collect_loop e acc rs) w) = Inr cs \<and> distinct (map ch_ID cs) \<and>
    ch_ID ` set cs = ch_ID ` set acc \<union> (\<Union>r \<in> set rs. ch_ID ` set (resource_tier w r))"
  using assms(2)
proof (induction rs arbitrary: acc w)
  case Nil
  then show ?case by (simp add: run_simps)
next
  case (Cons r rs)
  let ?acc = "add_unseen acc (resource_tier w r)"
  have run: "run_state (Channels_FindByResourceID (ev e) (r_ID r)) w = (Inr (resource_tier w r), bump w)"
    using assms(1) by (simp add: run_channels resource_tier_def)
  have tier: "resource_tier (bump w) r' = resource_tier w r'" for r'
    by (simp add: resource_tier_def)
  from add_unseen_spec [OF Cons.prems, of "resource_tier w r"] Cons.IH [of ?acc "bump w"]
  show ?case by (simp add: run_simps run tier Un_assoc)
qed

text \<open>
  Without failures the channels of a component alert are all channels of the component's
  resources, each exactly once.
\<close>

theorem collectChannels_spec:
  assumes "\<And>n. \<not> fault e n"
  shows "\<exists>cs. fst (run_state (collectChannels e rs) w) = Inr cs \<and> distinct (map ch_ID cs) \<and>
    ch_ID ` set cs = (\<Union>r \<in> set rs. ch_ID ` set (resource_tier w r))"
  using collect_loop_spec [OF assms, of "[]"] by (simp add: collectChannels_def)

theorem collectChannels_spec_witness:
  "\<exists>cs. fst (run_state (collectChannels demo_env [demo_resource, demo_resource])
      (demo_world\<lparr>resource_channels := [(''r1'', ''ch1'')]\<rparr>)) = Inr cs \<and> ch_ID ` set cs = {''ch1''}"
proof -
  let ?w = "demo_world\<lparr>resource_channels := [(''r1'', ''ch1'')]\<rparr>"
  have "resource_tier ?w demo_resource = [demo_channel]"
    by code_simp
  then show ?thesis
    using collectChannels_spec [of demo_env "[demo_resource, demo_resource]" ?w, OF demo_no_fault]
    by (auto simp: demo_channel_def)
qed

subsection \<open>Grouped alerts\<close>

lemma sendNotification_cases:
  assumes "run_state (sendNotification e p c) w = (x, w')"
  shows "tick w' \<le> Suc (tick w)"
    and "x = None \<and> sent w' = sent w @ [(ch_ID c, p)] \<or> x \<noteq> None \<and> sent w' = sent w"
  using assms
  by (cases "build_notifier e c";
      auto simp: sendNotification_def send_def Let_def run_simps split: if_splits option.splits)+

lemma sendWithRetry_cases:
  assumes "run_state (sendWithRetry e p c le bs) w = (x, w')" and "bs \<noteq> [] \<or> le \<noteq> None"
  shows "tick w' \<le> tick w + length bs \<and>
    (x = None \<and> sent w' = sent w @ [(ch_ID c, p)] \<or> x \<noteq> None \<and> sent w' = sent w)"
  using assms
proof (induction bs arbitrary: le w)
  case Nil
  then show ?case by (auto simp: run_simps)
next
  case (Cons b bs)
  obtain y v where run: "run_state (sendNotification e p c) w = (y, v)"
    by (cases "run_state (sendNotification e p c) w")
  show ?case
  proof (cases y)
    case None
    with Cons.prems run sendNotification_cases [OF run] show ?thesis
      by (auto simp: run_simps)
  next
    case (Some err)
    with Cons.prems(1) run have "run_state (sendWithRetry e p c (Some err) bs) v = (x, w')"
      by (simp add: run_simps)
    from Cons.IH [OF this] sendNotification_cases [OF run] Some show ?thesis by auto
  qed
qed

text \<open>
  A component alert is tried at most three times per channel and delivered at most once: the
  result is success exactly when the payload left, and then it left once.
\<close>

theorem sendWithRetry_at_most_once:
  assumes "run_state (sendWithRetry e p c None retry_backoff) w = (x, w')"
  shows "tick w' \<le> tick w + 3 \<and>
    (x = None \<and> sent w' = sent w @ [(ch_ID c, p)] \<or> x \<noteq> None \<and> sent w' = sent w)"
  using sendWithRetry_cases [OF assms] by (simp add: retry_backoff_def)

definition third_time_env :: svc_env where
  "third_time_env = demo_env\<lparr>send_result := (\<lambda>n _ _. if n < 2 then Some (Errorf ''refused'') else None)\<rparr>"

theorem sendWithRetry_at_most_once_witness:
  "run_state (sendWithRetry third_time_env (PayloadStabilized ''r1'' StatusUp) demo_channel None retry_backoff) demo_world =
     (None, demo_world\<lparr>tick := 3, sent := [(''ch1'', PayloadStabilized ''r1'' StatusUp)]\<rparr>) \<and>
   sent (snd (run_state (sendWithRetry third_time_env (PayloadStabilized ''r1'' StatusUp) demo_channel None retry_backoff) demo_world))
     = sent demo_world @ [(''ch1'', PayloadStabilized ''r1'' StatusUp)]"
proof -
  have run: "run_state (sendWithRetry third_time_env (PayloadStabilized ''r1'' StatusUp) demo_channel None retry_backoff) demo_world =
     (None, demo_world\<lparr>tick := 3, sent := [(''ch1'', PayloadStabilized ''r1'' StatusUp)]\<rparr>)"
    by code_simp
  from sendWithRetry_at_most_once [OF run] run show ?thesis
    by (simp add: demo_channel_def)
qed

text \<open>What the members of a component amount to.\<close>

definition members :: "world \<Rightarrow> string \<Rightarrow> resource list" where
  "members w cid = sort_key (\<lambda>r. - r_CreatedAt r) (filter (\<lambda>r. r_ComponentID r = Some cid \<and> r_IsActive r) (resources w))"

lemma run_FindByComponentID:
  "run_state (Resources_FindByComponentID e cid) w =
     (if fault e (tick w) then Inl (Wrapf ''sqlc: find resources by component'' ErrDB) else Inr (members w cid), bump w)"
  by (simp add: Resources_FindByComponentID_def members_def run_simps wrap_db_def)

lemma members_core: "core w' = core w \<Longrightarrow> members w' cid = members w cid"
  by (simp add: members_def core_def)

text \<open>Deliveries do not write the components table.\<close>

lemma keeps_components_send:
  "keeps components (sendToChannelsWithRetry e p le cs)" "keeps components (collectChannels e rs)"
proof -
  have n: "keeps components (sendNotification e p c)" for c
    by (auto simp: keeps_def sendNotification_def send_def Let_def run_simps split: option.splits)
  have r: "keeps components (sendWithRetry e p c le bs)" for c le bs
    by (induction bs arbitrary: le) (simp_all, (intro keep n; assumption?)+)
  show "keeps components (sendToChannelsWithRetry e p le cs)"
    by (induction cs arbitrary: le) (simp_all, (intro keep r; assumption?)+)
  have "keeps components (collect_loop e acc rs)" for acc
    by (induction rs arbitrary: acc) (simp_all add: Channels_FindByResourceID_def, (intro keep; simp)+)
  then show "keeps components (collectChannels e rs)"
    by (simp add: collectChannels_def)
qed

lemma dispatch_unchanged:
  assumes "tbl_find co_ID cid (components w) = Some c"
    and "co_LastNotificationStatus c = fst (deriveComponentStatus (members w cid))"
  shows "sent (snd (run_state (dispatchComponentAlertImmediate e cid) w)) = sent w"
  using assms
  by (auto simp: dispatchComponentAlertImmediate_def run_simps run_channels run_FindByComponentID members_def
      split: prod.split)

text \<open>
  Without repository failures an alert records the derived status it announced, whatever happens
  to its deliveries, so that dispatching again without a change of a resource sends nothing.
\<close>

theorem dispatch_alert_idempotent:
  assumes "\<And>n. \<not> fault e n" and "tbl_find co_ID cid (components w) = Some c"
    and "run_state (dispatchComponentAlertImmediate e cid) w = (x, w')"
  shows "\<exists>c'. tbl_find co_ID cid (components w') = Some c' \<and>
      co_LastNotificationStatus c' = fst (deriveComponentStatus (members w cid)) \<and>
      sent (snd (run_state (dispatchComponentAlertImmediate e cid) w')) = sent w'"
proof -
  let ?st = "fst (deriveComponentStatus (members w cid))"
  have core: "core w' = core w"
    using keepsD [OF core_dispatch_alert, of e cid w] assms(3) by simp
  have "\<exists>c'. tbl_find co_ID cid (components w') = Some c' \<and> co_LastNotificationStatus c' = ?st"
  proof (cases "co_LastNotificationStatus c = ?st")
    case True
    with assms show ?thesis
      by (auto simp: dispatchComponentAlertImmediate_def run_simps run_channels run_FindByComponentID members_def
          split: prod.splits)
  next
    case False
    obtain cs v where col: "run_state (collectChannels e (members w cid)) (bump (bump w)) = (Inr cs, v)"
      using collectChannels_spec [OF assms(1), of "members w cid" "bump (bump w)"]
      by (metis prod.collapse)
    obtain le u where snd: "run_state (sendToChannelsWithRetry e (PayloadComponent (co_ID c) ?st
        (co_LastNotificationStatus c) (snd (deriveComponentStatus (members w cid)))) None cs) v = (le, u)"
      by fastforce
    have comp: "components u = components w"
      using keepsD [OF keeps_components_send(2), of e "members w cid" "bump (bump w)"] col
        keepsD [OF keeps_components_send(1), of e _ None cs v] snd by (metis bump_world(8) snd_conv)
    have m: "members (bump w) cid = members w cid"
      by (rule members_core) simp
    have has: "tbl_has co_ID cid (components w)"
      using tbl_find_Some_key [OF assms(2)] by (auto simp: tbl_has_iff)
    show ?thesis
      using assms False col snd comp has
      by (auto simp: dispatchComponentAlertImmediate_def run_simps run_channels run_FindByComponentID m
          Components_UpdateLastNotificationStatus_def wrap_db_def tbl_find_update split: prod.splits)
  qed
  then obtain c' where c': "tbl_find co_ID cid (components w') = Some c'" "co_LastNotificationStatus c' = ?st"
    by blast
  then have "sent (snd (run_state (dispatchComponentAlertImmediate e cid) w')) = sent w'"
    by (intro dispatch_unchanged) (simp_all add: members_core [OF core])
  with c' show ?thesis by blast
qed

definition demo_component :: component where
  "demo_component = \<lparr>co_ID = ''c1'', co_CreatedAt = 0, co_UpdatedAt = 0, co_Name = ''core'', co_Description = None,
     co_LastNotificationStatus = ComponentStatusUp, co_GroupingWindowSeconds = 30\<rparr>"

text \<open>The sample resource is down and a member of the sample component.\<close>

definition demo_group :: world where
  "demo_group = demo_world\<lparr>resources := [demo_resource\<lparr>r_Status := StatusDown\<rparr>], components := [demo_component],
     resource_channels := [(''r1'', ''ch1'')]\<rparr>"

theorem dispatch_alert_idempotent_witness:
  "sent (snd (run_state (dispatchComponentAlertImmediate demo_env ''c1'') demo_group)) \<noteq> [] \<and>
   sent (snd (run_state (dispatchComponentAlertImmediate demo_env ''c1'')
     (snd (run_state (dispatchComponentAlertImmediate demo_env ''c1'') demo_group)))) =
   sent (snd (run_state (dispatchComponentAlertImmediate demo_env ''c1'') demo_group))"
proof -
  have "tbl_find co_ID ''c1'' (components demo_group) = Some demo_component"
    by code_simp
  from dispatch_alert_idempotent [of demo_env, OF demo_no_fault this prod.collapse [symmetric]]
  have "sent (snd (run_state (dispatchComponentAlertImmediate demo_env ''c1'')
     (snd (run_state (dispatchComponentAlertImmediate demo_env ''c1'') demo_group)))) =
   sent (snd (run_state (dispatchComponentAlertImmediate demo_env ''c1'') demo_group))"
    by blast
  moreover have "sent (snd (run_state (dispatchComponentAlertImmediate demo_env ''c1'') demo_group)) \<noteq> []"
    by code_simp
  ultimately show ?thesis by simp
qed

subsection \<open>The sliding window\<close>

definition timers_ok :: "world \<Rightarrow> bool" where
  "timers_ok w \<longleftrightarrow> distinct_keys fst (pending_timers w)"

lemma set_timer_ok: "timers_ok w \<Longrightarrow> timers_ok (set_timer cid d w)"
  using distinct_keys_snoc [of fst "tbl_delete fst cid (pending_timers w)" "(cid, d)"]
  by (simp add: timers_ok_def set_timer_def distinct_keys_delete tbl_find_delete)

lemma set_timer_find:
  "tbl_find fst k (pending_timers (set_timer cid d w)) =
     (if k = cid then Some (cid, d) else tbl_find fst k (pending_timers w))"
  by (auto simp: set_timer_def tbl_find_append tbl_find_delete split: option.split)

text \<open>
  With a grouping window the recalculation never alerts by itself, whatever fails: it leaves the
  announced status alone and at most (re)starts the one timer of the component. When the status has
  changed, and nothing fails, that timer is due one full window from now, so changes within the
  window share a single alert.
\<close>

theorem recalculate_deferred:
  assumes "tbl_find co_ID cid (components w) = Some c" and "0 < grouping_window cfg c" and "timers_ok w"
    and "run_state (RecalculateAndNotify e cfg cid) w = (x, w')"
  shows "sent w' = sent w \<and> components w' = components w \<and> timers_ok w' \<and>
    (\<forall>k. k \<noteq> cid \<longrightarrow> tbl_find fst k (pending_timers w') = tbl_find fst k (pending_timers w)) \<and>
    ((\<forall>n. \<not> fault e n) \<and> co_LastNotificationStatus c \<noteq> fst (deriveComponentStatus (members w cid)) \<longrightarrow>
      tbl_find fst cid (pending_timers w') =
        Some (cid, clock e (tick w + 2) + dur (grouping_window cfg c) Second))"
proof -
  let ?n = "clock e (tick w + 2) + dur (grouping_window cfg c) Second"
  have m: "members (bump w) cid = members w cid"
    by (rule members_core) simp
  have run: "\<exists>err. run_state (RecalculateAndNotify e cfg cid) w =
      (if fault e (tick w) then (Some err, bump w)
       else if fault e (Suc (tick w)) then (Some err, bump (bump w))
       else if co_LastNotificationStatus c = fst (deriveComponentStatus (members w cid)) then (None, bump (bump w))
       else (None, set_timer cid ?n (bump (bump (bump w)))))"
    using assms(1,2) by (simp add: RecalculateAndNotify_def run_simps run_channels run_FindByComponentID m)
  have b: "timers_ok (bump v) = timers_ok v" for v
    by (simp add: timers_ok_def)
  have "timers_ok (set_timer cid ?n (bump (bump (bump w))))"
    by (rule set_timer_ok) (simp add: b assms(3))
  moreover have "sent (set_timer k d v) = sent v" "components (set_timer k d v) = components v" for k d v
    by (simp_all add: set_timer_def)
  ultimately show ?thesis
    using run assms(3,4) by (auto simp: b set_timer_find split: if_splits)
qed

theorem recalculate_deferred_witness:
  "tbl_find fst ''c1'' (pending_timers (snd (run_state (RecalculateAndNotify demo_env None ''c1'') demo_group))) =
     Some (''c1'', 32 * Second)"
proof -
  have "tbl_find co_ID ''c1'' (components demo_group) = Some demo_component"
    and "0 < grouping_window None demo_component" and "timers_ok demo_group"
    and st: "co_LastNotificationStatus demo_component \<noteq> fst (deriveComponentStatus (members demo_group ''c1''))"
    by code_simp+
  from recalculate_deferred [OF this(1-3) prod.collapse [symmetric]] st demo_no_fault
  have "tbl_find fst ''c1'' (pending_timers (snd (run_state (RecalculateAndNotify demo_env None ''c1'') demo_group))) =
     Some (''c1'', clock demo_env (tick demo_group + 2) + dur (grouping_window None demo_component) Second)"
    by blast
  also have "clock demo_env (tick demo_group + 2) + dur (grouping_window None demo_component) Second = 32 * Second"
    by code_simp
  finally show ?thesis .
qed

subsection \<open>The component service\<close>

lemma run_CountByComponentID:
  "run_state (Resources_CountByComponentID e cid) w =
     (if fault e (tick w) then Inl (Wrapf ''sqlc: count resources by component'' ErrDB)
      else Inr (length (members w cid)), bump w)"
  by (simp add: Resources_CountByComponentID_def members_def run_simps wrap_db_def)

lemma Components_Delete_cases:
  assumes "run_state (Components_Delete e cid) w = (x, w')"
  shows "x \<noteq> None \<Longrightarrow> components w' = components w \<and> resources w' = resources w"
    and "x = None \<Longrightarrow> components w' = tbl_delete co_ID cid (components w) \<and>
      resources w' = map (\<lambda>r. if r_ComponentID r = Some cid then r\<lparr>r_ComponentID := None\<rparr> else r) (resources w)"
  using assms by (auto simp: Components_Delete_def run_simps wrap_db_def split: if_splits)

text \<open>
  \<open>DeleteComponent\<close> removes a component only when no active resource belongs to it, and then
  removes it and nothing else: every other component stays, no resource is lost. A refused or failed
  call changes neither table. (The guard counts active resources only: a paused member is silently
  detached.)
\<close>

theorem DeleteComponent_guard:
  assumes "run_state (DeleteComponent e cid) w = (x, w')"
  shows "x \<noteq> None \<and> components w' = components w \<and> resources w' = resources w \<or>
    x = None \<and> members w cid = [] \<and>
      (\<forall>k. tbl_find co_ID k (components w') = (if k = cid then None else tbl_find co_ID k (components w))) \<and>
      map r_ID (resources w') = map r_ID (resources w)"
proof (cases "fault e (tick w) \<or> members w cid \<noteq> []")
  case True
  with assms show ?thesis
    by (auto simp: DeleteComponent_def run_simps run_CountByComponentID split: if_splits)
next
  case False
  then have "run_state (Components_Delete (ev e) cid) (bump w) = (x, w')"
    using assms by (simp add: DeleteComponent_def run_simps run_CountByComponentID)
  from Components_Delete_cases [OF this] False show ?thesis
    by (cases x) (auto simp: tbl_find_delete)
qed

theorem DeleteComponent_guard_witness:
  "fst (run_state (DeleteComponent demo_env ''c1'') demo_group) \<noteq> None \<and>
   components (snd (run_state (DeleteComponent demo_env ''c1'') demo_group)) = [demo_component]"
proof -
  have "members demo_group ''c1'' \<noteq> []" and "components demo_group = [demo_component]"
    by code_simp+
  with DeleteComponent_guard [OF prod.collapse [symmetric], of demo_env "''c1''" demo_group] show ?thesis
    by auto
qed

text \<open>
  A change of the grouping window through \<open>UpdateComponent\<close> is lost: the response shows the new
  window, but the stored component keeps the old one, because the statement does not write it.
\<close>

theorem UpdateComponent_window_lost:
  assumes "tbl_find co_ID cid (components w) = Some c" and "up_GroupingWindowSeconds p = Some s"
    and "run_state (UpdateComponent e cid p) w = (Inr resp, w')"
  shows "cr_GroupingWindowSeconds resp = s \<and>
    (\<exists>c'. tbl_find co_ID cid (components w') = Some c' \<and> co_GroupingWindowSeconds c' = co_GroupingWindowSeconds c)"
proof -
  have i: "co_ID c = cid"
    using tbl_find_Some_key [OF assms(1)] by simp
  show ?thesis
    using assms i
    by (auto simp: UpdateComponent_def toComponentResponse_def Components_Update_def run_simps run_channels
        run_FindByComponentID Let_def tbl_find_update split: if_splits option.splits sum.splits)
qed

theorem UpdateComponent_window_lost_witness:
  "\<exists>resp w' c'. run_state (UpdateComponent demo_env ''c1''
       \<lparr>up_Name = None, up_Description = None, up_GroupingWindowSeconds = Some 120\<rparr>) demo_group = (Inr resp, w') \<and>
     cr_GroupingWindowSeconds resp = 120 \<and>
     tbl_find co_ID ''c1'' (components w') = Some c' \<and> co_GroupingWindowSeconds c' = 30"
proof -
  let ?p = "\<lparr>up_Name = None, up_Description = None, up_GroupingWindowSeconds = Some 120\<rparr>"
  let ?r = "run_state (UpdateComponent demo_env ''c1'' ?p) demo_group"
  have "\<not> isl (fst ?r)"
    by code_simp
  then have run: "?r = (Inr (projr (fst ?r)), snd ?r)"
    by (cases "fst ?r") (auto simp: prod_eq_iff)
  have "tbl_find co_ID ''c1'' (components demo_group) = Some demo_component"
    by code_simp
  from UpdateComponent_window_lost [OF this _ run, of 120] run show ?thesis
    by (auto simp: demo_component_def)
qed

lemma Components_Create_window:
  assumes "run_state (Components_Create e c) w = (Inr c', w')"
  shows "co_GroupingWindowSeconds c' = (if co_GroupingWindowSeconds c = 0 then 30 else co_GroupingWindowSeconds c)"
  using assms
  by (auto simp: Components_Create_def EnsureID_def run_simps wrap_db_def Let_def split: if_splits)

text \<open>
  The window 0 that the payload documents as disabled cannot be chosen: a component created with
  it gets the window of 30 seconds, and so defers its alerts.
\<close>

theorem CreateComponent_window_zero:
  assumes "cp_GroupingWindowSeconds p = Some 0 \<or> cp_GroupingWindowSeconds p = None"
    and "run_state (CreateComponent e p) w = (Inr resp, w')"
  shows "cr_GroupingWindowSeconds resp = 30"
  using assms
  by (auto simp: CreateComponent_def toComponentResponse_def run_simps dest!: Components_Create_window
      split: if_splits option.splits sum.splits prod.splits)

definition demo_payload :: create_component_payload where
  "demo_payload = \<lparr>cp_Name = ''edge'', cp_Description = None, cp_ResourceIDs = [''r1''], cp_GroupingWindowSeconds = Some 0\<rparr>"

theorem CreateComponent_window_zero_witness:
  "\<exists>resp w'. run_state (CreateComponent demo_env demo_payload) demo_world = (Inr resp, w') \<and>
     cr_GroupingWindowSeconds resp = 30"
proof -
  let ?r = "run_state (CreateComponent demo_env demo_payload) demo_world"
  have "\<not> isl (fst ?r)"
    by code_simp
  then have run: "?r = (Inr (projr (fst ?r)), snd ?r)"
    by (cases "fst ?r") (auto simp: prod_eq_iff)
  from CreateComponent_window_zero [OF _ run] run show ?thesis
    by (metis demo_payload_def create_component_payload.select_convs(4))
qed

section \<open>Round trips\<close>

lemma run_Components_Create:
  assumes "\<And>n. \<not> fault e n" "run_state (Components_Create e c) w = (Inr c', w')"
  shows "components w' = components w @ [c'] \<and> tbl_find co_ID (co_ID c') (components w) = None"
  using assms
  by (auto simp: Components_Create_def EnsureID_def run_simps wrap_db_def Let_def tbl_has_iff tbl_find_None
      split: if_splits)

lemma run_Components_FindByID:
  "\<not> fault e (tick w) \<Longrightarrow> fst (run_state (Components_FindByID e k) w) =
     (case tbl_find co_ID k (components w) of None \<Rightarrow> Inl ErrNotFound | Some c \<Rightarrow> Inr c)"
  by (simp add: Components_FindByID_def run_simps wrap_db_def ErrNotFound_def ErrDB_def split: option.split)

lemma run_Components_Delete:
  assumes "\<And>n. \<not> fault e n" "tbl_find co_ID k (components w) \<noteq> None"
  shows "\<exists>w'. run_state (Components_Delete e k) w = (None, w') \<and> components w' = tbl_delete co_ID k (components w)"
  using assms by (simp add: Components_Delete_def run_simps wrap_db_def tbl_has_iff tbl_find_None)

text \<open>
  Creation, lookup and deletion of components agree when the database answers. A created
  component is found under its identifier exactly as it was returned, every other lookup is as before,
  and deleting it again succeeds and restores every lookup, its own giving \<open>ErrNotFound\<close>.
\<close>

theorem component_round_trip:
  assumes "\<And>n. \<not> fault e n" and "distinct_keys co_ID (components w)"
    and "run_state (Components_Create e c) w = (Inr c', w')"
  shows "fst (run_state (Components_FindByID e (co_ID c')) w') = Inr c' \<and>
    (\<forall>k. k \<noteq> co_ID c' \<longrightarrow>
       fst (run_state (Components_FindByID e k) w') = fst (run_state (Components_FindByID e k) w)) \<and>
    (\<exists>w''. run_state (Components_Delete e (co_ID c')) w' = (None, w'') \<and>
       (\<forall>k. fst (run_state (Components_FindByID e k) w'') = fst (run_state (Components_FindByID e k) w)) \<and>
       fst (run_state (Components_FindByID e (co_ID c')) w'') = Inl ErrNotFound)"
proof -
  from run_Components_Create [OF assms(1,3)]
  have rows: "components w' = components w @ [c']" and new: "tbl_find co_ID (co_ID c') (components w) = None"
    by blast+
  note look = run_Components_FindByID [OF assms(1)]
  have ins: "tbl_find co_ID k (components w') = (if k = co_ID c' then Some c' else tbl_find co_ID k (components w))" for k
    unfolding rows by (rule component_table.lookup_insert [OF assms(2) new])
  obtain w'' where del: "run_state (Components_Delete e (co_ID c')) w' = (None, w'')"
    "components w'' = tbl_delete co_ID (co_ID c') (components w')"
    using run_Components_Delete [OF assms(1), of "co_ID c'" w'] ins by auto
  have "tbl_find co_ID k (components w'') = tbl_find co_ID k (components w)" for k
    unfolding del(2) rows by (rule component_table.insert_then_delete [OF assms(2) new])
  then show ?thesis
    using del(1) new by (simp add: look ins)
qed

theorem component_round_trip_witness:
  "\<exists>c' w' w''. run_state (Components_Create (ev demo_env) (demo_component\<lparr>co_ID := ''c2''\<rparr>)) demo_group = (Inr c', w') \<and>
     fst (run_state (Components_FindByID (ev demo_env) (co_ID c')) w') = Inr c' \<and>
     run_state (Components_Delete (ev demo_env) (co_ID c')) w' = (None, w'')"
proof -
  let ?r = "run_state (Components_Create (ev demo_env) (demo_component\<lparr>co_ID := ''c2''\<rparr>)) demo_group"
  have "\<not> isl (fst ?r)" and keys: "distinct_keys co_ID (components demo_group)"
    by code_simp+
  then have run: "?r = (Inr (projr (fst ?r)), snd ?r)"
    by (cases "fst ?r") (auto simp: prod_eq_iff)
  have "\<not> fault (ev demo_env) n" for n
    by (simp add: env.truncate_def demo_no_fault)
  from component_round_trip [OF this keys run] run show ?thesis
    by blast
qed

end
