(* ===== verification/Monitoring.thy ===== *)
theory Monitoring
  imports Components
begin

text \<open>
  The monitoring task handler (\<open>src/internal/worker/handler_monitoring.go\<close>) and the flap detector
  (\<open>src/internal/monitoring/flap_detector.go\<close>): what one check of a resource does to its status, its
  failure count, its incidents and its schedule.

  The handler calls the incident service through the interface \<open>incidentManager\<close>, here a record of
  operations; \<open>incident_service\<close> is the implementation of theory \<open>Incidents\<close>, and the locale
  \<open>incident_contract\<close> states what the handler relies on. The network check is a parameter: the n-th
  interaction of the environment decides it. A task holds the lock of its resource from the lookup to
  the end, so one task is one step. Statuses are written with the constructors of the enumeration
  wherever the string is one of its members.
\<close>

section \<open>Flap detector\<close>

record flap_config =
  fc_Enabled :: bool
  fc_Threshold :: int
  fc_WindowSeconds :: int
  fc_MaxDurationMinutes :: int

definition Evaluate :: "svc_env \<Rightarrow> flap_config \<Rightarrow> string \<Rightarrow> time \<Rightarrow> (world, error + int) state" where
  "Evaluate e cfg rid windowStart =
     (if \<not> fc_Enabled cfg then State_Monad.return (Inr 0)
      else Activities_CountTransitionsInWindow (ev e) rid windowStart)"

definition ShouldForceIncident :: "svc_env \<Rightarrow> flap_config \<Rightarrow> time option \<Rightarrow> (world, bool) state" where
  "ShouldForceIncident e cfg flapStartedAt =
     (case flapStartedAt of
        None \<Rightarrow> State_Monad.return False
      | Some s \<Rightarrow>
          if fc_MaxDurationMinutes cfg \<le> 0 then State_Monad.return False
          else do {
            t \<leftarrow> now (ev e);
            State_Monad.return (time_sub t s \<ge> dur (fc_MaxDurationMinutes cfg) Minute)
          })"

section \<open>The handler\<close>

record incident_manager =
  im_CreateIncident :: "resource \<Rightarrow> check_result \<Rightarrow> (world, error option) state"
  im_ResolveIncident :: "resource \<Rightarrow> check_result \<Rightarrow> (world, error option) state"
  im_NotifyFlapping :: "resource \<Rightarrow> int \<Rightarrow> int \<Rightarrow> int \<Rightarrow> (world, error option) state"
  im_NotifyStabilized :: "resource \<Rightarrow> resource_status \<Rightarrow> (world, error option) state"
  im_SendReminderIfDue :: "resource \<Rightarrow> (world, error option) state"
  im_FindLatestIncidentForResource :: "string \<Rightarrow> (world, error + incident) state"

record monitoring_handler =
  h_env :: svc_env
  h_strategies :: "nat \<Rightarrow> resource_type \<rightharpoonup> strategy"
  h_config :: config
  h_icmp :: icmp_env
  h_incidents :: incident_manager
  h_components :: "config option option"
  h_scheduler :: bool

definition defaultConfirmationInterval :: int where
  "defaultConfirmationInterval = 30"

definition normalizeConfirmationChecks :: "int \<Rightarrow> int" where
  "normalizeConfirmationChecks v = (if v \<le> 0 then 1 else v)"

definition monitoringStateFromResource :: "resource \<Rightarrow> update_monitoring_state_request" where
  "monitoringStateFromResource r =
     \<lparr>ums_Status = Some (r_Status r), ums_FailureCount = Some (r_FailureCount r),
      ums_LastChecked = Some (r_LastChecked r), ums_LastStatusTransition = Some (r_LastStatusTransition r),
      ums_FlapStartedAt = Some (r_FlapStartedAt r)\<rparr>"

abbreviation hev :: "monitoring_handler \<Rightarrow> env" where
  "hev h \<equiv> ev (h_env h)"

definition save_state :: "monitoring_handler \<Rightarrow> resource \<Rightarrow> (world, error option) state" where
  "save_state h r = Resources_UpdateMonitoringState (hev h) (r_ID r) (monitoringStateFromResource r)"

definition reschedule :: "monitoring_handler \<Rightarrow> resource \<Rightarrow> duration \<Rightarrow> (world, unit) state" where
  "reschedule h r interval =
     (if h_scheduler h then modify (\<lambda>w. w\<lparr>scheduled := scheduled w @ [(r_ID r, interval)]\<rparr>)
      else State_Monad.return ())"

definition enrichIncidentDiagnostics ::
    "monitoring_handler \<Rightarrow> string \<Rightarrow> resource_type \<Rightarrow> string \<Rightarrow> check_result \<Rightarrow> (world, unit) state" where
  "enrichIncidentDiagnostics h rid resourceType target result = do {
     latest \<leftarrow> im_FindLatestIncidentForResource (h_incidents h) rid;
     (case latest of
        Inl err \<Rightarrow> State_Monad.return ()
      | Inr inc \<Rightarrow>
          if i_ResolvedAt inc \<noteq> None then State_Monad.return ()
          else do {
            found \<leftarrow> Diagnostics_FindByIncidentID (hev h) (i_ID inc);
            (case found of
               Inl err \<Rightarrow> State_Monad.return ()
             | Inr diag \<Rightarrow> do {
                 let en = Enrich (h_icmp h) resourceType target result;
                 Diagnostics_Update (hev h)
                   (WithICMP (en_ICMPAvailable en) (en_ICMPReachable en) (en_ICMPRTTMs en) (en_RootCauseHint en) diag);
                 State_Monad.return ()
               })
          })
   }"

section \<open>Flapping\<close>

definition flap_settings :: "config \<Rightarrow> resource \<Rightarrow> flap_config" where
  "flap_settings cfg r =
     \<lparr>fc_Enabled = (if \<not> r_FlapDetectionEnabled r \<and> r_FlapThreshold r = 0 \<and> r_FlapWindowSeconds r = 0 \<and>
                        r_FlapMaxDurationMinutes r = 0
                    then cfg_FlapDetectionEnabled cfg else r_FlapDetectionEnabled r),
      fc_Threshold = (if r_FlapThreshold r \<le> 0 then cfg_FlapThreshold cfg else r_FlapThreshold r),
      fc_WindowSeconds = (if r_FlapWindowSeconds r \<le> 0 then cfg_FlapWindowSeconds cfg else r_FlapWindowSeconds r),
      fc_MaxDurationMinutes =
        (if r_FlapMaxDurationMinutes r \<le> 0 then cfg_FlapMaxDurationMinutes cfg else r_FlapMaxDurationMinutes r)\<rparr>"

text \<open>
  The result is what the Go function returns (\<open>handled\<close> or an error) together with the resource it
  mutated.
\<close>

definition handleFlapping ::
    "monitoring_handler \<Rightarrow> resource \<Rightarrow> resource_status \<Rightarrow> resource_status \<Rightarrow> time \<Rightarrow> int \<Rightarrow>
     (world, (error + bool) \<times> resource) state" where
  "handleFlapping h r previousStatus cur t confirmationChecks =
     (if cur \<noteq> StatusUp \<and> cur \<noteq> StatusDown then State_Monad.return (Inr False, r)
      else do {
        let fc = flap_settings (h_config h) r;
        evaluated \<leftarrow> Evaluate (h_env h) fc (r_ID r) (t - dur (fc_WindowSeconds fc) Second);
        (case evaluated of
           Inl err \<Rightarrow> State_Monad.return (Inl (Wrapf ''failed to evaluate flapping state'' err), r)
         | Inr transitions \<Rightarrow>
             if transitions \<ge> fc_Threshold fc
             then
               (if previousStatus = StatusFlapping
                then do {
                  force \<leftarrow> ShouldForceIncident (h_env h) fc (r_FlapStartedAt r);
                  (if force
                   then State_Monad.return (Inr False,
                     r\<lparr>r_FlapStartedAt := None, r_Status := cur, r_LastStatusTransition := Some t,
                       r_FailureCount := (if cur = StatusDown then confirmationChecks - 1 else r_FailureCount r)\<rparr>)
                   else do {
                     let r' = r\<lparr>r_Status := StatusFlapping, r_FailureCount := 0\<rparr>;
                     upd \<leftarrow> save_state h r';
                     (case upd of
                        Some err \<Rightarrow> State_Monad.return (Inl (Wrapf ''failed to persist flapping resource state'' err), r')
                      | None \<Rightarrow> do {
                          reschedule h r' (dur (r_Interval r') Second);
                          State_Monad.return (Inr True, r')
                        })
                   })
                }
                else do {
                  let r' = r\<lparr>r_Status := StatusFlapping, r_FlapStartedAt := Some t, r_FailureCount := 0\<rparr>;
                  upd \<leftarrow> save_state h r';
                  (case upd of
                     Some err \<Rightarrow> State_Monad.return (Inl (Wrapf ''failed to persist flapping entry state'' err), r')
                   | None \<Rightarrow> do {
                       im_NotifyFlapping (h_incidents h) r' transitions (fc_WindowSeconds fc) (fc_MaxDurationMinutes fc);
                       reschedule h r' (dur (r_Interval r') Second);
                       State_Monad.return (Inr True, r')
                     })
                })
             else if previousStatus = StatusFlapping
             then do {
               let r' = r\<lparr>r_FlapStartedAt := None, r_Status := cur, r_LastStatusTransition := Some t,
                         r_FailureCount := (if cur = StatusDown then confirmationChecks - 1 else 0)\<rparr>;
               im_NotifyStabilized (h_incidents h) r' cur;
               State_Monad.return (Inr False, r')
             }
             else State_Monad.return (Inr False, r))
      })"

section \<open>The three outcomes of a check\<close>

definition process_up :: "monitoring_handler \<Rightarrow> resource \<Rightarrow> resource_status \<Rightarrow> check_result \<Rightarrow> (world, error option) state" where
  "process_up h r previousStatus result = do {
     (if previousStatus = StatusDown
      then do { im_ResolveIncident (h_incidents h) r result; State_Monad.return () }
      else State_Monad.return ());
     let r' = r\<lparr>r_FailureCount := 0, r_Status := StatusUp\<rparr>;
     upd \<leftarrow> save_state h r';
     (case upd of
        Some err \<Rightarrow> State_Monad.return (Some (Wrapf ''failed to update resource status'' err))
      | None \<Rightarrow> do {
          reschedule h r' (dur (r_Interval r') Second);
          State_Monad.return None
        })
   }"

definition confirm_failure :: "monitoring_handler \<Rightarrow> resource \<Rightarrow> check_result \<Rightarrow> (world, unit) state" where
  "confirm_failure h r result = do {
     created \<leftarrow> im_CreateIncident (h_incidents h) r result;
     (if created = None \<and> cfg_EnableICMP (h_config h)
      then enrichIncidentDiagnostics h (r_ID r) (r_Type r) (r_Target r) result
      else State_Monad.return ());
     im_SendReminderIfDue (h_incidents h) r;
     reschedule h r (dur (r_Interval r) Second)
   }"

definition process_down ::
    "monitoring_handler \<Rightarrow> resource \<Rightarrow> int \<Rightarrow> int \<Rightarrow> check_result \<Rightarrow> (world, error option) state" where
  "process_down h r confirmationChecks confirmationInterval result = do {
     let r' = r\<lparr>r_FailureCount := r_FailureCount r + 1, r_Status := StatusDown\<rparr>;
     upd \<leftarrow> save_state h r';
     (if upd \<noteq> None \<or> r_FailureCount r' < confirmationChecks
      then reschedule h r' (dur confirmationInterval Second)
      else confirm_failure h r' result);
     State_Monad.return None
   }"

definition process_other :: "monitoring_handler \<Rightarrow> resource \<Rightarrow> resource_status \<Rightarrow> (world, error option) state" where
  "process_other h r cur = do {
     upd \<leftarrow> save_state h (r\<lparr>r_Status := cur\<rparr>);
     State_Monad.return (map_option (Wrapf ''failed to update resource status'') upd)
   }"

definition notify_component :: "monitoring_handler \<Rightarrow> resource \<Rightarrow> (world, unit) state" where
  "notify_component h r =
     (case (h_components h, r_ComponentID r) of
        (Some cfg, Some cid) \<Rightarrow> do { RecalculateAndNotify (h_env h) cfg cid; State_Monad.return () }
      | _ \<Rightarrow> State_Monad.return ())"

definition process_result :: "monitoring_handler \<Rightarrow> resource \<Rightarrow> check_result \<Rightarrow> time \<Rightarrow> (world, error option) state" where
  "process_result h r0 result t = do {
     let previousStatus = r_Status r0;
     let cur = c_Status result;
     let confirmationChecks = normalizeConfirmationChecks (r_ConfirmationChecks r0);
     let confirmationInterval =
       (if r_ConfirmationInterval r0 \<le> 0 then defaultConfirmationInterval else r_ConfirmationInterval r0);
     let r1 = r0\<lparr>r_LastChecked := Some t\<rparr>;
     let r2 = (if r_Status r1 \<noteq> cur \<and> cur \<noteq> StatusFlapping then r1\<lparr>r_LastStatusTransition := Some t\<rparr> else r1);
     flap \<leftarrow> handleFlapping h r2 previousStatus cur t confirmationChecks;
     (case flap of
        (Inl err, r) \<Rightarrow> State_Monad.return (Some err)
      | (Inr handled, r) \<Rightarrow>
          if handled then State_Monad.return None
          else do {
            failed \<leftarrow> (if cur = StatusUp then process_up h r previousStatus result
                       else if cur = StatusDown then process_down h r confirmationChecks confirmationInterval result
                       else process_other h r cur);
            (case failed of
               Some err \<Rightarrow> State_Monad.return (Some err)
             | None \<Rightarrow> do {
                 notify_component h r;
                 State_Monad.return None
               })
          })
   }"

section \<open>ProcessTask\<close>

definition run_check :: "monitoring_handler \<Rightarrow> resource \<Rightarrow> (world, check_result \<times> error option) state" where
  "run_check h r = do {
     start \<leftarrow> now (hev h);
     w \<leftarrow> State_Monad.get;
     stop \<leftarrow> now (hev h);
     State_Monad.return (fst (ExecuteCheck (h_strategies h (tick w)) (time_sub stop start) r))
   }"

definition response_ms :: "duration \<Rightarrow> int" where
  "response_ms d = (if d > 0 then go_div (wrap64 (d + Millisecond - 1)) Millisecond else 0)"

definition check_activity :: "resource \<Rightarrow> check_result \<Rightarrow> bool \<Rightarrow> monitoring_activity" where
  "check_activity r result maint =
     \<lparr>ma_ID = '''', ma_CreatedAt = zero_time, ma_ResourceID = r_ID r,
      ma_Message = ''Check '' @ resource_type_string (r_Type r) @ '' - Status: '' @ resource_status_string (c_Status result),
      ma_Success = (c_Status result = StatusUp), ma_ResponseTime = response_ms (c_ResponseTime result),
      ma_ResponseData = c_ResponseData result, ma_IsMaintenance = maint\<rparr>"

text \<open>The payload is the resource identifier of the task, \<open>None\<close> when it does not parse.\<close>

definition ProcessTask :: "monitoring_handler \<Rightarrow> string option \<Rightarrow> (world, error option) state" where
  "ProcessTask h payload =
     (case payload of
        None \<Rightarrow> State_Monad.return (Some (Errorf ''failed to unmarshal task payload''))
      | Some rid \<Rightarrow> do {
          found \<leftarrow> Resources_FindByID (hev h) rid;
          (case found of
             Inl err \<Rightarrow> State_Monad.return (Some (Wrapf (''failed to find resource '' @ rid) err))
           | Inr r \<Rightarrow>
               if \<not> r_IsActive r then State_Monad.return None
               else do {
                 checked \<leftarrow> run_check h r;
                 (case checked of
                    (result, Some err) \<Rightarrow>
                      State_Monad.return (Some (Wrapf (''failed to execute check for resource '' @ r_ID r) err))
                  | (result, None) \<Rightarrow> do {
                      t0 \<leftarrow> now (hev h);
                      maint \<leftarrow> Maintenances_FindActiveForResource (hev h) (r_ID r) t0;
                      (case maint of
                         Inr (m # ms) \<Rightarrow> do {
                           Activities_Create (hev h) (check_activity r result True);
                           State_Monad.return None
                         }
                       | _ \<Rightarrow> do {
                           Activities_Create (hev h) (check_activity r result False);
                           t \<leftarrow> now (hev h);
                           process_result h r result t
                         })
                    })
               })
        })"

definition incident_service :: "svc_env \<Rightarrow> incident_manager" where
  "incident_service e =
     \<lparr>im_CreateIncident = CreateIncident e, im_ResolveIncident = ResolveIncident e,
      im_NotifyFlapping = NotifyFlapping e, im_NotifyStabilized = NotifyStabilized e,
      im_SendReminderIfDue = SendReminderIfDue e,
      im_FindLatestIncidentForResource = FindLatestIncidentForResource e\<rparr>"

section \<open>What the handler relies on\<close>

lemma keeps_core_incidents: "keeps core m \<Longrightarrow> keeps incidents m"
  by (simp add: keeps_def core_def)

lemma keeps_core_resources: "keeps core m \<Longrightarrow> keeps resources m"
  by (simp add: keeps_def core_def)

lemmas incidents_keep [keep] = core_writes [THEN keeps_core_incidents] core_queries [THEN keeps_core_incidents]
  core_recalculate [THEN keeps_core_incidents]

lemmas resources_keep [keep] = core_writes [THEN keeps_core_resources] core_queries [THEN keeps_core_resources]
  core_recalculate [THEN keeps_core_resources]

lemma save_state_incidents [keep]: "keeps incidents (save_state h r)"
  unfolding save_state_def Resources_UpdateMonitoringState_def Resources_execUpdate_def by (intro keep) simp_all

lemma reschedule_keeps [keep]: "keeps incidents (reschedule h r d)" "keeps resources (reschedule h r d)"
  unfolding reschedule_def by (intro keep; simp)+

lemma run_check_keeps [keep]: "keeps incidents (run_check h r)" "keeps resources (run_check h r)"
  unfolding run_check_def by (intro keep; simp)+

lemma process_other_incidents [keep]: "keeps incidents (process_other h r cur)"
  unfolding process_other_def by (intro keep)

lemma notify_component_keeps [keep]: "keeps incidents (notify_component h r)" "keeps resources (notify_component h r)"
  unfolding notify_component_def by (intro keep)+

text \<open>
  The contract of the incident manager: an invariant \<open>inv\<close> of the incidents that creation and
  resolution preserve, that resolution adds no incident, and that no operation writes resources. The notices, reminders and lookups
  write neither resources nor incidents.
\<close>

lemma handleFlapping_same:
  assumes "run_state (handleFlapping h r prev cur t cc) w = ((Inr False, r'), w')" and "prev \<noteq> StatusFlapping"
  shows "r' = r"
  using assms
  by (auto simp: handleFlapping_def Let_def run_simps split: if_splits sum.splits option.splits prod.splits)

definition incident_ids :: "world \<Rightarrow> string list" where
  "incident_ids w = map i_ID (incidents w)"

lemma keeps_incidents_ids: "keeps incidents m \<Longrightarrow> keeps incident_ids m"
  by (simp add: keeps_def incident_ids_def)

locale incident_contract =
  fixes im :: incident_manager
    and inv :: "world \<Rightarrow> bool"
  assumes inv_stable: "stable incidents inv"
    and create_inv: "preserves inv (im_CreateIncident im r res)"
    and resolve_inv: "preserves inv (im_ResolveIncident im r res)"
    and create_resources: "keeps resources (im_CreateIncident im r res)"
    and resolve_resources: "keeps resources (im_ResolveIncident im r res)"
    and notify_flapping_core: "keeps core (im_NotifyFlapping im r n s m)"
    and notify_stabilized_core: "keeps core (im_NotifyStabilized im r st)"
    and reminder_core: "keeps core (im_SendReminderIfDue im r)"
    and latest_core: "keeps core (im_FindLatestIncidentForResource im rid)"
    and resolve_ids: "keeps incident_ids (im_ResolveIncident im r res)"
begin

lemma inv_keep: "keeps incidents m \<Longrightarrow> preserves inv m"
  using keeps_preserves inv_stable by blast

lemma enrich_incidents:
  assumes "h_incidents h = im"
  shows "keeps incidents (enrichIncidentDiagnostics h rid ty tg res)"
  unfolding enrichIncidentDiagnostics_def Let_def assms
  by (intro keep latest_core [THEN keeps_core_incidents])

lemma handleFlapping_incidents:
  assumes "h_incidents h = im"
  shows "keeps incidents (handleFlapping h r prev cur t cc)"
  unfolding handleFlapping_def Evaluate_def ShouldForceIncident_def Let_def assms
  by (intro keep notify_flapping_core [THEN keeps_core_incidents] notify_stabilized_core [THEN keeps_core_incidents]) simp

lemma process_up_inv:
  assumes "h_incidents h = im"
  shows "preserves inv (process_up h r prev res)"
  unfolding process_up_def Let_def assms
  by (intro preserves_bind preserves_if preserves_case_option preserves_return resolve_inv inv_keep
      save_state_incidents reschedule_keeps)

lemma process_down_inv:
  assumes "h_incidents h = im"
  shows "preserves inv (process_down h r cc ci res)"
  unfolding process_down_def confirm_failure_def Let_def assms
  by (intro preserves_bind preserves_if preserves_return create_inv inv_keep
      save_state_incidents reschedule_keeps enrich_incidents [OF assms] reminder_core [THEN keeps_core_incidents])

lemma process_result_inv:
  assumes "h_incidents h = im"
  shows "preserves inv (process_result h r res t)"
  unfolding process_result_def Let_def
  by (intro preserves_bind preserves_case_prod preserves_case_sum preserves_case_option preserves_if preserves_return
      process_up_inv [OF assms] process_down_inv [OF assms] inv_keep [OF handleFlapping_incidents [OF assms]]
      inv_keep [OF process_other_incidents] inv_keep [OF notify_component_keeps(1)])

lemma ProcessTask_inv:
  assumes "h_incidents h = im"
  shows "preserves inv (ProcessTask h payload)"
proof -
  have maint: "keeps incidents (Maintenances_FindActiveForResource (hev h) rid t)"
    "keeps incidents (Activities_Create (hev h) a)" "keeps incidents (Resources_FindByID (hev h) rid)"
    "keeps incidents (now (hev h) :: (world, time) state)" for rid t a
    by (intro keep; simp)+
  show ?thesis
    unfolding ProcessTask_def
    by (intro preserves_bind preserves_case_prod preserves_case_sum preserves_case_option preserves_case_list
        preserves_if preserves_return process_result_inv [OF assms] inv_keep [OF maint(1)] inv_keep [OF maint(2)]
        inv_keep [OF maint(3)] inv_keep [OF maint(4)] inv_keep [OF run_check_keeps(1)])
qed

text \<open>A new incident needs a failed check that reaches the confirmation threshold, or leaves flapping.\<close>

lemma process_up_ids:
  assumes "h_incidents h = im"
  shows "keeps incident_ids (process_up h r prev res)"
  unfolding process_up_def Let_def assms
  by (intro keep resolve_ids keeps_incidents_ids [OF save_state_incidents]
      keeps_incidents_ids [OF reschedule_keeps(1)])

lemma process_up_incidents:
  assumes "h_incidents h = im" and "prev \<noteq> StatusDown"
  shows "keeps incidents (process_up h r prev res)"
  unfolding process_up_def Let_def by (simp add: assms(2), intro keep)

lemma process_down_ids:
  assumes "r_FailureCount r + 1 < cc"
  shows "keeps incident_ids (process_down h r cc ci res)"
  unfolding process_down_def Let_def
  by (simp add: assms) (intro keep keeps_incidents_ids [OF save_state_incidents]
      keeps_incidents_ids [OF reschedule_keeps(1)])

lemma process_result_ids:
  assumes h: "h_incidents h = im"
    and below: "c_Status res = StatusDown \<Longrightarrow>
      r_Status r \<noteq> StatusFlapping \<and> r_FailureCount r + 1 < normalizeConfirmationChecks (r_ConfirmationChecks r)"
  shows "incident_ids (snd (run_state (process_result h r res t) w)) = incident_ids w"
proof -
  let ?r2 = "if r_Status r \<noteq> c_Status res \<and> c_Status res \<noteq> StatusFlapping
    then r\<lparr>r_LastChecked := Some t, r_LastStatusTransition := Some t\<rparr> else r\<lparr>r_LastChecked := Some t\<rparr>"
  let ?cc = "normalizeConfirmationChecks (r_ConfirmationChecks r)"
  obtain flap r' w1 where run: "run_state (handleFlapping h ?r2 (r_Status r) (c_Status res) t ?cc) w = ((flap, r'), w1)"
    by (metis surj_pair)
  have ids1: "incident_ids w1 = incident_ids w"
    using keepsD [OF keeps_incidents_ids [OF handleFlapping_incidents [OF h]], of ?r2 "r_Status r" "c_Status res" t ?cc w] run
    by simp
  have same: "r_FailureCount r' = r_FailureCount r" if "flap = Inr False" "r_Status r \<noteq> StatusFlapping"
    using handleFlapping_same [OF run [unfolded that(1)] that(2)] by (simp split: if_splits)
  have up: "incident_ids (snd (run_state (process_up h r' (r_Status r) res) w1)) = incident_ids w"
    using keepsD [OF process_up_ids [OF h]] ids1 by simp
  have other: "incident_ids (snd (run_state (process_other h r' (c_Status res)) w1)) = incident_ids w"
    using keepsD [OF keeps_incidents_ids [OF process_other_incidents]] ids1 by simp
  have down: "incident_ids (snd (run_state (process_down h r' ?cc ci res) w1)) = incident_ids w"
    if "c_Status res = StatusDown" "flap = Inr False" for ci
    using keepsD [OF process_down_ids] ids1 same below that by auto
  have comp: "incident_ids (snd (run_state (notify_component h r') v)) = incident_ids v" for v
    using keepsD [OF keeps_incidents_ids [OF notify_component_keeps(1)]] by simp
  show ?thesis
  proof (cases flap)
    case (Inl err)
    with run ids1 show ?thesis
      by (simp add: process_result_def Let_def run_simps)
  next
    case (Inr handled)
    show ?thesis
    proof (cases handled)
      case True
      with Inr run ids1 show ?thesis
        by (simp add: process_result_def Let_def run_simps)
    next
      case False
      with Inr run up other down comp show ?thesis
        by (auto simp: process_result_def Let_def run_simps split_beta split: option.splits)
    qed
  qed
qed

end

section \<open>The incident service fulfils the contract\<close>

lemma incidents_inv_stable: "strict_mono (clock e) \<Longrightarrow> stable incidents (incidents_inv e)"
  using stable_incidents_inv [of e] unfolding stable_def core_def
  by (smt (verit, ccfv_threshold) in_past_def incidents_inv_def order_less_le_trans strict_mono_less_eq)

interpretation service: incident_contract "incident_service e" "\<lambda>w. strict_mono (clock e) \<longrightarrow> sinv e w" for e
proof
  show "stable incidents (\<lambda>w. strict_mono (clock e) \<longrightarrow> sinv e w)"
    using incidents_inv_stable [of "ev e"] by (auto simp: stable_def)
  show "preserves (\<lambda>w. strict_mono (clock e) \<longrightarrow> sinv e w) (im_CreateIncident (incident_service e) r res)" for r res
    using hoare_CreateIncident [of e r res] by (auto simp: preserves_def hoare_def incident_service_def)
  show "preserves (\<lambda>w. strict_mono (clock e) \<longrightarrow> sinv e w) (im_ResolveIncident (incident_service e) r res)" for r res
    using hoare_ResolveIncident [of e r res] by (auto simp: preserves_def hoare_def incident_service_def)
  show "keeps resources (im_CreateIncident (incident_service e) r res)" for r res
    unfolding incident_service_def CreateIncident_def Incidents_Create_def EnsureID_def Let_def
    by (simp, intro keep core_after_create [THEN keeps_core_resources]; simp)
  show "keeps resources (im_ResolveIncident (incident_service e) r res)" for r res
    unfolding incident_service_def ResolveIncident_def Incidents_Update_def Let_def
    by (simp, intro keep core_after_resolve [THEN keeps_core_resources]; simp)
  show "keeps incident_ids (im_ResolveIncident (incident_service e) r res)" for r res
    unfolding incident_service_def ResolveIncident_def Incidents_Update_def Let_def
    by (simp, intro keep core_after_resolve [THEN keeps_core_incidents, THEN keeps_incidents_ids]
        core_queries [THEN keeps_core_incidents, THEN keeps_incidents_ids])
      (auto simp: incident_ids_def tbl_update_def)
qed (auto simp: incident_service_def FindLatestIncidentForResource_def intro!: keep)

section \<open>Properties\<close>

definition check_of :: "monitoring_handler \<Rightarrow> nat \<Rightarrow> resource \<Rightarrow> check_result \<times> error option" where
  "check_of h k r = fst (ExecuteCheck (h_strategies h k) 0 r)"

lemma check_of_elapsed: "fst (ExecuteCheck (h_strategies h k) d r) = check_of h k r"
  by (simp add: check_of_def ExecuteCheck_def Let_def split_beta split: option.split)

lemma run_run_check: "run_state (run_check h r) w = (check_of h (Suc (tick w)) r, bump (bump w))"
  by (simp add: run_check_def run_simps check_of_elapsed)

lemma run_Resources_FindByID:
  "run_state (Resources_FindByID e rid) w =
     (if fault e (tick w) then Inl (Wrapf ''sqlc: find resource by id'' ErrDB)
      else case tbl_find r_ID rid (resources w) of None \<Rightarrow> Inl ErrNotFound
        | Some r \<Rightarrow> if r_IsActive r then Inr r else Inl ErrNotFound, bump w)"
  by (simp add: Resources_FindByID_def active_row_def run_simps wrap_db_def ErrDB_def ErrNotFound_def split: option.split)

definition maintenances_of :: "world \<Rightarrow> string \<Rightarrow> time \<Rightarrow> maintenance list" where
  "maintenances_of w rid t =
     filter (\<lambda>m. (mt_ID m, rid) \<in> set (maintenance_resources w) \<and> maintenance_active t m) (maintenances w)"

lemma run_FindActiveForResource:
  "run_state (Maintenances_FindActiveForResource e rid t) w =
     (if fault e (tick w) then Inl (Wrapf ''sqlc: find active maintenances'' ErrDB) else Inr (maintenances_of w rid t), bump w)"
  by (simp add: Maintenances_FindActiveForResource_def run_simps wrap_db_def maintenances_of_def)

text \<open>A handler over the sample environment whose checks always come back with \<open>res\<close>.\<close>

definition demo_config :: config where
  "demo_config = \<lparr>cfg_FlapDetectionEnabled = True, cfg_FlapThreshold = 4, cfg_FlapWindowSeconds = 600,
     cfg_FlapMaxDurationMinutes = 30, cfg_GroupingWindowSeconds = 30, cfg_EnableICMP = True\<rparr>"

definition demo_handler :: "check_result \<Rightarrow> monitoring_handler" where
  "demo_handler res =
     \<lparr>h_env = demo_env, h_strategies = (\<lambda>_. [ResourceHTTP \<mapsto> (\<lambda>_. (res, None))]), h_config = demo_config,
      h_icmp = \<lparr>uri_hostname = (\<lambda>_. Some ''example.org''), split_host_port = (\<lambda>_. None), detect = True,
        probe = (\<lambda>_. Some 12)\<rparr>,
      h_incidents = incident_service demo_env, h_components = Some None, h_scheduler = True\<rparr>"

definition up_check :: check_result where
  "up_check = check_result_zero\<lparr>c_Status := StatusUp, c_ResponseTime := 1500000\<rparr>"

text \<open>The sample resource with two failures out of three behind it.\<close>

definition demo_failing :: world where
  "demo_failing = demo_group\<lparr>resources := [demo_resource\<lparr>r_Status := StatusDown, r_FailureCount := 2\<rparr>]\<rparr>"

lemma demo_failing_inv: "sinv demo_env demo_failing"
  by code_simp

text \<open>
  A monitoring task keeps the journal of incidents well formed whatever the check reports and
  whatever fails; in particular no resource ever has two active incidents.
\<close>

theorem ProcessTask_at_most_one_active:
  assumes "strict_mono (clock (h_env h))" and "h_incidents h = incident_service (h_env h)"
    and "incidents_inv (hev h) w" and "run_state (ProcessTask h payload) w = (x, w')"
  shows "incidents_inv (hev h) w' \<and> length (active_of rid w') \<le> 1"
proof -
  have "incidents_inv (hev h) w'"
    using preservesD [OF service.ProcessTask_inv [OF assms(2)], of w payload] assms by simp
  then show ?thesis
    using journal_at_most_one by (simp add: incidents_inv_def)
qed

theorem ProcessTask_at_most_one_active_witness:
  "length (active_of ''r1'' (snd (run_state (ProcessTask (demo_handler demo_check) (Some ''r1'')) demo_failing))) \<le> 1 \<and>
   active_of ''r1'' (snd (run_state (ProcessTask (demo_handler demo_check) (Some ''r1'')) demo_failing)) \<noteq> []"
proof -
  let ?h = "demo_handler demo_check"
  have "strict_mono (clock (h_env ?h))" "h_incidents ?h = incident_service (h_env ?h)" "incidents_inv (hev ?h) demo_failing"
    using demo_clock demo_failing_inv by (simp_all add: demo_handler_def)
  from ProcessTask_at_most_one_active [OF this prod.collapse [symmetric]]
  have "length (active_of ''r1'' (snd (run_state (ProcessTask ?h (Some ''r1'')) demo_failing))) \<le> 1"
    by blast
  moreover have "active_of ''r1'' (snd (run_state (ProcessTask ?h (Some ''r1'')) demo_failing)) \<noteq> []"
    by code_simp
  ultimately show ?thesis by simp
qed

text \<open>The state in which the result of a check is processed: five interactions later, with the activity stored.\<close>

definition logged :: "monitoring_handler \<Rightarrow> resource \<Rightarrow> check_result \<Rightarrow> world \<Rightarrow> world" where
  "logged h r res w =
     snd (run_state (Activities_Create (hev h) (check_activity r res False)) (bump (bump (bump (bump (bump w))))))"

lemma logged_kept [simp]: "incidents (logged h r res w) = incidents w" "resources (logged h r res w) = resources w"
  using keepsD [OF incidents_keep(11)] keepsD [OF resources_keep(11)] by (simp_all add: logged_def)

lemma run_ProcessTask:
  assumes "\<not> fault (h_env h) (tick w)" and "tbl_find r_ID rid (resources w) = Some r" and "r_IsActive r"
    and "check_of h (tick w + 2) r = (res, None)"
    and "fault (h_env h) (tick w + 4) \<or> maintenances_of w rid (clock (h_env h) (tick w + 3)) = []"
  shows "run_state (ProcessTask h (Some rid)) w =
    run_state (process_result h r res (clock (h_env h) (tick (logged h r res w)))) (bump (logged h r res w))"
proof -
  have m: "maintenances_of (bump v) i t = maintenances_of v i t" for v i t
    by (simp add: maintenances_of_def)
  have rid: "r_ID r = rid"
    using tbl_find_Some_key [OF assms(2)] by simp
  show ?thesis
    using assms rid
    by (auto simp: ProcessTask_def logged_def run_simps run_Resources_FindByID run_run_check run_FindActiveForResource m
        eval_nat_numeral split_beta)
qed

lemma run_ProcessTask_maintenance:
  assumes "\<not> fault (h_env h) (tick w)" and "tbl_find r_ID rid (resources w) = Some r" and "r_IsActive r"
    and "check_of h (tick w + 2) r = (res, None)"
    and "\<not> fault (h_env h) (tick w + 4)" and "maintenances_of w rid (clock (h_env h) (tick w + 3)) \<noteq> []"
  shows "run_state (ProcessTask h (Some rid)) w =
    (None, snd (run_state (Activities_Create (hev h) (check_activity r res True)) (bump (bump (bump (bump (bump w)))))))"
proof -
  have m: "maintenances_of (bump v) i t = maintenances_of v i t" for v i t
    by (simp add: maintenances_of_def)
  have rid: "r_ID r = rid"
    using tbl_find_Some_key [OF assms(2)] by simp
  show ?thesis
    using assms rid
    by (cases "maintenances_of w rid (clock (h_env h) (tick w + 3))")
      (auto simp: ProcessTask_def run_simps run_Resources_FindByID run_run_check run_FindActiveForResource m
        eval_nat_numeral split_beta)
qed

text \<open>Every other way through the task touches neither resources nor incidents.\<close>

lemma ProcessTask_else:
  assumes "fault (h_env h) (tick w) \<or> tbl_find r_ID rid (resources w) = None \<or>
    (\<exists>r. tbl_find r_ID rid (resources w) = Some r \<and> (\<not> r_IsActive r \<or> snd (check_of h (tick w + 2) r) \<noteq> None))"
  shows "core (snd (run_state (ProcessTask h (Some rid)) w)) = core w"
  using assms
  by (auto simp: ProcessTask_def run_simps run_Resources_FindByID run_run_check split_beta split: option.split)

lemma ProcessTask_cases:
  assumes "core (snd (run_state (ProcessTask h (Some rid)) w)) \<noteq> core w"
  obtains r res where "\<not> fault (h_env h) (tick w)" "tbl_find r_ID rid (resources w) = Some r" "r_IsActive r"
    "check_of h (tick w + 2) r = (res, None)"
    "fault (h_env h) (tick w + 4) \<or> maintenances_of w rid (clock (h_env h) (tick w + 3)) = []"
proof -
  obtain r where r: "\<not> fault (h_env h) (tick w)" "tbl_find r_ID rid (resources w) = Some r" "r_IsActive r"
      "snd (check_of h (tick w + 2) r) = None"
    using ProcessTask_else [of h w rid] assms by fastforce
  then obtain res where res: "check_of h (tick w + 2) r = (res, None)"
    by (metis prod.collapse)
  have "fault (h_env h) (tick w + 4) \<or> maintenances_of w rid (clock (h_env h) (tick w + 3)) = []"
  proof (rule ccontr)
    assume "\<not> ?thesis"
    then have "snd (run_state (ProcessTask h (Some rid)) w) =
        snd (run_state (Activities_Create (hev h) (check_activity r res True)) (bump (bump (bump (bump (bump w))))))"
      using run_ProcessTask_maintenance [OF r(1-3) res] by simp
    then show False
      using assms keepsD [OF core_writes(11)] by simp
  qed
  with r(1-3) res show ?thesis
    by (rule that)
qed

text \<open>
  C6: A task adds an incident only for an active resource whose check came back down without an
  error, outside of every maintenance window the repository reports, and only when the failure
  reaches the configured number of consecutive confirmations or the resource leaves flapping.
\<close>

theorem incident_needs_confirmation:
  assumes "h_incidents h = incident_service (h_env h)"
    and "run_state (ProcessTask h (Some rid)) w = (x, w')" and "incident_ids w' \<noteq> incident_ids w"
  shows "\<exists>r res. tbl_find r_ID rid (resources w) = Some r \<and> r_IsActive r \<and>
    check_of h (tick w + 2) r = (res, None) \<and> c_Status res = StatusDown \<and>
    (fault (h_env h) (tick w + 4) \<or> maintenances_of w rid (clock (h_env h) (tick w + 3)) = []) \<and>
    (normalizeConfirmationChecks (r_ConfirmationChecks r) \<le> r_FailureCount r + 1 \<or> r_Status r = StatusFlapping)"
proof -
  have "core (snd (run_state (ProcessTask h (Some rid)) w)) \<noteq> core w"
    using assms(2,3) by (auto simp: core_def incident_ids_def)
  then obtain r res where c: "\<not> fault (h_env h) (tick w)" "tbl_find r_ID rid (resources w) = Some r" "r_IsActive r"
      "check_of h (tick w + 2) r = (res, None)"
      "fault (h_env h) (tick w + 4) \<or> maintenances_of w rid (clock (h_env h) (tick w + 3)) = []"
    by (rule ProcessTask_cases)
  have "incident_ids w' = incident_ids w" if "c_Status res = StatusDown \<Longrightarrow>
      r_Status r \<noteq> StatusFlapping \<and> r_FailureCount r + 1 < normalizeConfirmationChecks (r_ConfirmationChecks r)"
    using assms(2) run_ProcessTask [OF c] service.process_result_ids [OF assms(1) that]
    by (metis bump_world(2) incident_ids_def logged_kept(1) snd_conv)
  with assms(3) have "c_Status res = StatusDown \<and>
      (normalizeConfirmationChecks (r_ConfirmationChecks r) \<le> r_FailureCount r + 1 \<or> r_Status r = StatusFlapping)"
    by linarith
  with c show ?thesis by blast
qed

theorem incident_needs_confirmation_witness:
  "\<exists>r. tbl_find r_ID ''r1'' (resources demo_failing) = Some r \<and>
     (normalizeConfirmationChecks (r_ConfirmationChecks r) \<le> r_FailureCount r + 1 \<or> r_Status r = StatusFlapping)"
proof -
  let ?h = "demo_handler demo_check"
  have h: "h_incidents ?h = incident_service (h_env ?h)"
    by (simp add: demo_handler_def)
  have "incident_ids (snd (run_state (ProcessTask ?h (Some ''r1'')) demo_failing)) \<noteq> incident_ids demo_failing"
    by code_simp
  from incident_needs_confirmation [OF h prod.collapse [symmetric] this] show ?thesis by blast
qed

text \<open>
  C8: During a maintenance the repository reports, a task records the activity and changes nothing
  else: no status, failure count, incident, schedule or notification, whatever the check says.
\<close>

theorem maintenance_freezes:
  assumes "\<not> fault (h_env h) (tick w)" and "tbl_find r_ID rid (resources w) = Some r"
    and "\<not> fault (h_env h) (tick w + 4)" and "maintenances_of w rid (clock (h_env h) (tick w + 3)) \<noteq> []"
    and "run_state (ProcessTask h (Some rid)) w = (x, w')"
  shows "resources w' = resources w \<and> incidents w' = incidents w \<and> scheduled w' = scheduled w \<and> sent w' = sent w \<and>
    components w' = components w \<and> event_steps w' = event_steps w"
proof (cases "r_IsActive r \<and> snd (check_of h (tick w + 2) r) = None")
  case False
  with assms(1,2,5) show ?thesis
    by (auto simp: ProcessTask_def run_simps run_Resources_FindByID run_run_check split_beta split: if_splits option.splits)
next
  case True
  then obtain res where "check_of h (tick w + 2) r = (res, None)"
    by (metis prod.collapse)
  with run_ProcessTask_maintenance [OF assms(1,2) _ this assms(3,4)] True assms(5)
  have "w' = snd (run_state (Activities_Create (hev h) (check_activity r res True)) (bump (bump (bump (bump (bump w))))))"
    by simp
  then show ?thesis
    by (simp add: Activities_Create_def EnsureID_def run_simps Let_def)
qed

definition demo_maintenance :: maintenance where
  "demo_maintenance = \<lparr>mt_ID = ''m1'', mt_Title = ''upgrade'', mt_Strategy = OneTime, mt_Status = ''active'',
     mt_StartAt = None, mt_EndAt = None, mt_CronExpr = None, mt_WindowMinutes = None, mt_Timezone = None,
     mt_EffectiveFrom = None, mt_EffectiveUntil = None, mt_StartedAt = None, mt_EndedAt = None,
     mt_Description = None, mt_CreatedAt = 0, mt_UpdatedAt = 0\<rparr>"

definition demo_frozen :: world where
  "demo_frozen = demo_failing\<lparr>maintenances := [demo_maintenance], maintenance_resources := [(''m1'', ''r1'')]\<rparr>"

theorem maintenance_freezes_witness:
  "resources (snd (run_state (ProcessTask (demo_handler demo_check) (Some ''r1'')) demo_frozen)) = resources demo_frozen"
proof -
  let ?h = "demo_handler demo_check"
  have nf: "\<not> fault (h_env ?h) n" for n
    by (simp add: demo_handler_def demo_env_def)
  have f: "tbl_find r_ID ''r1'' (resources demo_frozen) = Some (demo_resource\<lparr>r_Status := StatusDown, r_FailureCount := 2\<rparr>)"
    by (simp add: demo_frozen_def demo_failing_def demo_resource_def)
  have m: "maintenances_of demo_frozen ''r1'' (clock (h_env ?h) (tick demo_frozen + 3)) \<noteq> []"
    by code_simp
  from maintenance_freezes [OF nf f nf m prod.collapse [symmetric]] show ?thesis by blast
qed

text \<open>
  An incident is resolved by a recovery only when the resource was last seen down. A check that
  comes back up while the stored status is anything else, such as flapping or error, leaves every
  incident as it is, so an incident opened before the resource started to flap stays active.
\<close>

theorem recovery_only_from_down:
  assumes "h_incidents h = incident_service (h_env h)" and "tbl_find r_ID rid (resources w) = Some r"
    and "r_Status r \<noteq> StatusDown" and "c_Status (fst (check_of h (tick w + 2) r)) = StatusUp"
    and "run_state (ProcessTask h (Some rid)) w = (x, w')"
  shows "incidents w' = incidents w"
proof (rule ccontr)
  assume "incidents w' \<noteq> incidents w"
  then have "core (snd (run_state (ProcessTask h (Some rid)) w)) \<noteq> core w"
    using assms(5) by (auto simp: core_def)
  then obtain r' res where c: "\<not> fault (h_env h) (tick w)" "tbl_find r_ID rid (resources w) = Some r'" "r_IsActive r'"
      "check_of h (tick w + 2) r' = (res, None)"
      "fault (h_env h) (tick w + 4) \<or> maintenances_of w rid (clock (h_env h) (tick w + 3)) = []"
    by (rule ProcessTask_cases)
  with assms(2,4) have r: "r' = r" "c_Status res = StatusUp"
    by auto
  have "keeps incidents (process_result h r res t)" for t
    unfolding process_result_def Let_def r(2)
    by (intro keep service.handleFlapping_incidents [OF assms(1)] service.process_up_incidents [OF assms(1) assms(3)]) simp_all
  then have "incidents (snd (run_state (process_result h r res t) (bump (logged h r res w)))) = incidents w" for t
    by (simp add: keepsD)
  with run_ProcessTask [OF c] r assms(5) \<open>incidents w' \<noteq> incidents w\<close> show False
    by (metis snd_conv)
qed

text \<open>The sample resource with an open incident, flapping since.\<close>

definition demo_flapping :: world where
  "demo_flapping = demo_open\<lparr>resources := [demo_resource\<lparr>r_Status := StatusFlapping\<rparr>]\<rparr>"

theorem recovery_only_from_down_witness:
  "active_of ''r1'' (snd (run_state (ProcessTask (demo_handler up_check) (Some ''r1'')) demo_flapping)) \<noteq> []"
proof -
  let ?h = "demo_handler up_check"
  have h: "h_incidents ?h = incident_service (h_env ?h)"
    by (simp add: demo_handler_def)
  have f: "tbl_find r_ID ''r1'' (resources demo_flapping) = Some (demo_resource\<lparr>r_Status := StatusFlapping\<rparr>)"
    by (simp add: demo_flapping_def demo_resource_def)
  have c: "c_Status (fst (check_of ?h (tick demo_flapping + 2) (demo_resource\<lparr>r_Status := StatusFlapping\<rparr>))) = StatusUp"
    by (simp add: check_of_def ExecuteCheck_def demo_handler_def demo_resource_def up_check_def)
  have "incidents (snd (run_state (ProcessTask ?h (Some ''r1'')) demo_flapping)) = incidents demo_flapping"
    using recovery_only_from_down [OF h f _ c prod.collapse [symmetric]] by simp
  moreover have "active_of ''r1'' demo_flapping \<noteq> []"
    by code_simp
  ultimately show ?thesis
    by (simp add: active_of_def)
qed

subsection \<open>The stored status follows the checks\<close>

lemma save_state_find:
  assumes "\<And>n. \<not> fault (h_env h) n" and "tbl_find r_ID (r_ID r) (resources w) = Some row"
    and "run_state (save_state h r) w = (x, w')"
  shows "x = None \<and> tbl_find r_ID (r_ID r) (resources w') = Some (row
    \<lparr>r_Status := r_Status r, r_FailureCount := r_FailureCount r, r_LastChecked := r_LastChecked r,
     r_LastStatusTransition := r_LastStatusTransition r, r_FlapStartedAt := r_FlapStartedAt r\<rparr>)"
proof -
  have "list_ex (\<lambda>y. r_ID y = r_ID r) (resources w)"
    using tbl_find_Some_key [OF assms(2)] by (auto simp: list_ex_iff)
  with assms show ?thesis
    by (auto simp: save_state_def Resources_UpdateMonitoringState_def Resources_execUpdate_def ums_empty_def
        monitoringStateFromResource_def apply_monitoring_state_def set_opt_def run_simps wrap_db_def tbl_find_update)
qed

lemma process_status:
  assumes nf: "\<And>n. \<not> fault (h_env h) n" and h: "h_incidents h = incident_service (h_env h)"
    and row: "tbl_find r_ID (r_ID r) (resources w) = Some row"
  shows "\<exists>r'. tbl_find r_ID (r_ID r) (resources (snd (run_state (process_up h r prev res) w))) = Some r' \<and>
      r_Status r' = StatusUp \<and> r_FailureCount r' = 0 \<and> r_LastChecked r' = r_LastChecked r \<and>
      fst (run_state (process_up h r prev res) w) = None"
    and "\<exists>r'. tbl_find r_ID (r_ID r) (resources (snd (run_state (process_down h r cc ci res) w))) = Some r' \<and>
      r_Status r' = StatusDown \<and> r_FailureCount r' = r_FailureCount r + 1 \<and> r_LastChecked r' = r_LastChecked r \<and>
      fst (run_state (process_down h r cc ci res) w) = None"
    and "\<exists>r'. tbl_find r_ID (r_ID r) (resources (snd (run_state (process_other h r cur) w))) = Some r' \<and>
      r_Status r' = cur \<and> r_FailureCount r' = r_FailureCount r \<and> r_LastChecked r' = r_LastChecked r \<and>
      fst (run_state (process_other h r cur) w) = None"
proof -
  note kept = keepsD [OF service.resolve_resources] keepsD [OF service.create_resources]
    keepsD [OF reschedule_keeps(2)] keepsD [OF service.reminder_core [THEN keeps_core_resources]]
  have enrich: "keeps resources (enrichIncidentDiagnostics h a b c d)" for a b c d
    unfolding enrichIncidentDiagnostics_def Let_def h
    by (intro keep service.latest_core [THEN keeps_core_resources])
  have confirm: "keeps resources (confirm_failure h r' res)" for r' res
    unfolding confirm_failure_def h
    by (intro keep service.create_resources service.reminder_core [THEN keeps_core_resources] enrich)
  show "\<exists>r'. tbl_find r_ID (r_ID r) (resources (snd (run_state (process_up h r prev res) w))) = Some r' \<and>
      r_Status r' = StatusUp \<and> r_FailureCount r' = 0 \<and> r_LastChecked r' = r_LastChecked r \<and>
      fst (run_state (process_up h r prev res) w) = None"
  proof -
    obtain w1 where w1: "resources w1 = resources w"
      and run: "run_state (process_up h r prev res) w =
        (case run_state (save_state h (r\<lparr>r_FailureCount := 0, r_Status := StatusUp\<rparr>)) w1 of
           (Some err, v) \<Rightarrow> (Some (Wrapf ''failed to update resource status'' err), v)
         | (None, v) \<Rightarrow> (None, snd (run_state (reschedule h (r\<lparr>r_FailureCount := 0, r_Status := StatusUp\<rparr>)
              (dur (r_Interval r) Second)) v)))"
    proof (cases "prev = StatusDown")
      case True
      then show ?thesis
        by (intro that [of "snd (run_state (im_ResolveIncident (incident_service (h_env h)) r res) w)"])
          (auto simp: kept h process_up_def Let_def run_simps split_beta split: option.split)
    next
      case False
      then show ?thesis
        by (intro that [of w]) (auto simp: process_up_def Let_def run_simps split_beta split: option.split)
    qed
    obtain y v where sv: "run_state (save_state h (r\<lparr>r_FailureCount := 0, r_Status := StatusUp\<rparr>)) w1 = (y, v)"
      by fastforce
    from save_state_find [OF nf _ sv, of row] row w1 run sv show ?thesis
      by (auto simp: kept)
  qed
  show "\<exists>r'. tbl_find r_ID (r_ID r) (resources (snd (run_state (process_down h r cc ci res) w))) = Some r' \<and>
      r_Status r' = StatusDown \<and> r_FailureCount r' = r_FailureCount r + 1 \<and> r_LastChecked r' = r_LastChecked r \<and>
      fst (run_state (process_down h r cc ci res) w) = None"
  proof -
    obtain y v where sv: "run_state (save_state h (r\<lparr>r_FailureCount := r_FailureCount r + 1, r_Status := StatusDown\<rparr>)) w = (y, v)"
      by fastforce
    from save_state_find [OF nf _ sv, of row] row sv show ?thesis
      by (auto simp: process_down_def Let_def run_simps split_beta kept keepsD [OF confirm])
  qed
  show "\<exists>r'. tbl_find r_ID (r_ID r) (resources (snd (run_state (process_other h r cur) w))) = Some r' \<and>
      r_Status r' = cur \<and> r_FailureCount r' = r_FailureCount r \<and> r_LastChecked r' = r_LastChecked r \<and>
      fst (run_state (process_other h r cur) w) = None"
  proof -
    obtain y v where sv: "run_state (save_state h (r\<lparr>r_Status := cur\<rparr>)) w = (y, v)"
      by fastforce
    from save_state_find [OF nf _ sv, of row] row sv show ?thesis
      by (auto simp: process_other_def run_simps)
  qed
qed

text \<open>The branch that \<open>process_result\<close> takes for a check without flapping.\<close>

definition outcome :: "monitoring_handler \<Rightarrow> resource \<Rightarrow> resource \<Rightarrow> check_result \<Rightarrow> (world, error option) state" where
  "outcome h r r2 res = (if c_Status res = StatusUp then process_up h r2 (r_Status r) res
    else if c_Status res = StatusDown
    then process_down h r2 (normalizeConfirmationChecks (r_ConfirmationChecks r))
      (if r_ConfirmationInterval r \<le> 0 then defaultConfirmationInterval else r_ConfirmationInterval r) res
    else process_other h r2 (c_Status res))"

lemma run_ProcessTask_plain:
  assumes nf: "\<And>n. \<not> fault (h_env h) n" and found: "tbl_find r_ID rid (resources w) = Some r" and "r_IsActive r"
    and "check_of h (tick w + 2) r = (res, None)" and "maintenances_of w rid (clock (h_env h) (tick w + 3)) = []"
    and plain: "r_Status r \<noteq> StatusFlapping" "\<not> fc_Enabled (flap_settings (h_config h) r)"
      "0 < fc_Threshold (flap_settings (h_config h) r)"
  shows "\<exists>r2 t. r_ID r2 = rid \<and> r_FailureCount r2 = r_FailureCount r \<and> r_LastChecked r2 = Some t \<and>
    run_state (ProcessTask h (Some rid)) w =
      run_state (do { failed \<leftarrow> outcome h r r2 res; (case failed of Some err \<Rightarrow> State_Monad.return (Some err)
        | None \<Rightarrow> do { notify_component h r2; State_Monad.return None }) }) (bump (logged h r res w))"
proof -
  let ?t = "clock (h_env h) (tick (logged h r res w))"
  define r2 where "r2 = (if r_Status r \<noteq> c_Status res \<and> c_Status res \<noteq> StatusFlapping
    then r\<lparr>r_LastChecked := Some ?t, r_LastStatusTransition := Some ?t\<rparr> else r\<lparr>r_LastChecked := Some ?t\<rparr>)"
  have r2: "r_ID r2 = rid" "r_FailureCount r2 = r_FailureCount r" "r_LastChecked r2 = Some ?t"
      "flap_settings (h_config h) r2 = flap_settings (h_config h) r"
    using tbl_find_Some_key [OF found] by (auto simp: r2_def flap_settings_def)
  have flap: "run_state (handleFlapping h r2 (r_Status r) (c_Status res) t cc) v = ((Inr False, r2), v)" for t cc v
    using plain by (simp add: handleFlapping_def Evaluate_def Let_def run_simps r2)
  have "run_state (ProcessTask h (Some rid)) w = run_state (process_result h r res ?t) (bump (logged h r res w))"
    using assms by (intro run_ProcessTask) auto
  also have "\<dots> = run_state (do { failed \<leftarrow> outcome h r r2 res; (case failed of Some err \<Rightarrow> State_Monad.return (Some err)
        | None \<Rightarrow> do { notify_component h r2; State_Monad.return None }) }) (bump (logged h r res w))"
    by (simp add: process_result_def Let_def r2_def [symmetric] outcome_def run_simps flap)
  finally show ?thesis
    using r2 by blast
qed

definition next_failure_count :: "resource_status \<Rightarrow> int \<Rightarrow> int" where
  "next_failure_count st n = (if st = StatusUp then 0 else if st = StatusDown then n + 1 else n)"


definition demo_quiet :: resource where
  "demo_quiet = demo_resource\<lparr>r_FlapDetectionEnabled := False\<rparr>"


subsection \<open>Flapping\<close>

text \<open>
  A zero or negative flap threshold defeats the switch that turns flap detection off: with
  detection disabled the detector counts no transitions, and no transitions are already enough, so
  every up or down check of the resource marks it flapping and ends there, without an incident.
\<close>

theorem flap_threshold_zero:
  assumes "\<not> fc_Enabled (flap_settings (h_config h) r)" and "fc_Threshold (flap_settings (h_config h) r) \<le> 0"
    and "cur = StatusUp \<or> cur = StatusDown" and "prev \<noteq> StatusFlapping" and "\<And>n. \<not> fault (h_env h) n"
    and "tbl_find r_ID (r_ID r) (resources w) = Some row" and "h_incidents h = incident_service (h_env h)"
    and "run_state (handleFlapping h r prev cur t cc) w = ((res, r'), w')"
  shows "res = Inr True \<and> (\<exists>s. tbl_find r_ID (r_ID r) (resources w') = Some s \<and> r_Status s = StatusFlapping \<and>
    r_FailureCount s = 0) \<and> incidents w' = incidents w"
proof -
  let ?r = "r\<lparr>r_Status := StatusFlapping, r_FlapStartedAt := Some t, r_FailureCount := 0\<rparr>"
  obtain y v where sv: "run_state (save_state h ?r) w = (y, v)"
    by fastforce
  have s: "y = None" "tbl_find r_ID (r_ID r) (resources v) = Some (row\<lparr>r_Status := StatusFlapping,
      r_FailureCount := 0, r_LastChecked := r_LastChecked r, r_LastStatusTransition := r_LastStatusTransition r,
      r_FlapStartedAt := Some t\<rparr>)"
    using save_state_find [OF assms(5) _ sv, of row] assms(6) by simp_all
  have kept: "resources (snd (run_state (im_NotifyFlapping (h_incidents h) a b c d) u)) = resources u"
      "resources (snd (run_state (reschedule h a e) u)) = resources u" for a b c d e u
    using assms(7) keepsD [OF service.notify_flapping_core [THEN keeps_core_resources]] keepsD [OF reschedule_keeps(2)]
    by simp_all
  have "incidents w' = incidents w"
    using keepsD [OF service.handleFlapping_incidents [OF assms(7)], of r prev cur t cc w] assms(8) by simp
  with assms(1-4,8) sv s show ?thesis
    by (auto simp: handleFlapping_def Evaluate_def Let_def run_simps kept split_beta)
qed

theorem flap_threshold_zero_witness:
  "fst (fst (run_state (handleFlapping ((demo_handler demo_check)\<lparr>h_config := demo_config\<lparr>cfg_FlapThreshold := 0\<rparr>\<rparr>)
      (demo_quiet\<lparr>r_FlapThreshold := 0\<rparr>) StatusUp StatusDown 0 3)
      (demo_world\<lparr>resources := [demo_quiet\<lparr>r_FlapThreshold := 0\<rparr>]\<rparr>))) = Inr True"
proof -
  let ?h = "(demo_handler demo_check)\<lparr>h_config := demo_config\<lparr>cfg_FlapThreshold := 0\<rparr>\<rparr>"
    and ?r = "demo_quiet\<lparr>r_FlapThreshold := 0\<rparr>"
  let ?w = "demo_world\<lparr>resources := [?r]\<rparr>"
  have nf: "\<not> fault (h_env ?h) n" for n
    by (simp add: demo_handler_def demo_env_def)
  have h: "h_incidents ?h = incident_service (h_env ?h)"
    by (simp add: demo_handler_def)
  have "\<not> fc_Enabled (flap_settings (h_config ?h) ?r)" "fc_Threshold (flap_settings (h_config ?h) ?r) \<le> 0"
    and f: "tbl_find r_ID (r_ID ?r) (resources ?w) = Some ?r"
    by code_simp+
  from flap_threshold_zero [OF this(1,2) _ _ nf f h, of StatusDown StatusUp 0 3] show ?thesis
    by (metis prod.collapse resource_status.distinct(13))
qed

end
