(* ===== verification/Heartbeat.thy ===== *)
theory Heartbeat
  imports Monitoring
begin

text \<open>
  Heartbeat monitors: the detection of missed pings (\<open>src/internal/service/heartbeat_detector.go\<close>),
  the operations behind a ping (\<open>src/internal/service/resource_heartbeat.go\<close>), and the two ping
  endpoints with their rate limiter (\<open>src/internal/api/handler/ping_handler.go\<close>,
  \<open>ping_rate_limiter.go\<close>, \<open>v1/heartbeat_handler.go\<close>). Whether a slug is a UUID is a parameter; the
  state of the limiter is passed explicitly, since its mutex makes each call one step.
\<close>

section \<open>Detection\<close>

definition detectorQueryLimit :: int where
  "detectorQueryLimit = 1000"

text \<open>
  The delay is a float64 product converted to 64 bits. The factors are exact powers of two of one
  minute; \<open>overflow\<close> is the result of converting a value out of range, which Go leaves to the
  implementation.
\<close>

definition CalculateBackoffDelay :: "(int \<Rightarrow> int) \<Rightarrow> nat \<Rightarrow> duration" where
  "CalculateBackoffDelay overflow attempt =
     (let v = Minute * 2 ^ attempt;
          delay = (if in_int64 v then v else overflow v)
      in if delay > 60 * Minute then 60 * Minute else delay)"

definition missed_result :: check_result where
  "missed_result = check_result_zero\<lparr>c_Status := StatusDown, c_Cause := Some MissedHeartbeat,
     c_ErrorMessage := ''No ping received within the expected interval + grace period.''\<rparr>"

definition Detect :: "svc_env \<Rightarrow> incident_manager \<Rightarrow> (world, error option) state" where
  "Detect e im = do {
     t \<leftarrow> now (ev e);
     missed \<leftarrow> Resources_FindMissedHeartbeats (ev e) t detectorQueryLimit;
     (case missed of
        Inl err \<Rightarrow> State_Monad.return (Some err)
      | Inr rs \<Rightarrow> do {
          for_each (\<lambda>r. do { im_CreateIncident im r missed_result; State_Monad.return () }) rs;
          State_Monad.return None
        })
   }"

section \<open>Pings\<close>

definition GetResourceByHeartbeatSlug :: "svc_env \<Rightarrow> string \<Rightarrow> (world, error + resource) state" where
  "GetResourceByHeartbeatSlug e slug = do {
     r \<leftarrow> Resources_FindByHeartbeatSlug (ev e) slug;
     State_Monad.return (case r of
       Inl err \<Rightarrow> Inl (if errors_Is err ErrNotFound then ErrResourceNotFound else err)
     | Inr x \<Rightarrow> Inr x)
   }"

definition MarkHeartbeatPing :: "svc_env \<Rightarrow> string \<Rightarrow> time \<Rightarrow> (world, error option) state" where
  "MarkHeartbeatPing e rid at = do {
     r \<leftarrow> Resources_UpdateLastPingAt (ev e) rid at;
     State_Monad.return (case r of
       Some err \<Rightarrow> Some (if errors_Is err ErrNotFound then ErrResourceNotFound else err)
     | None \<Rightarrow> None)
   }"

definition HandleHeartbeatRecovery :: "svc_env \<Rightarrow> resource \<Rightarrow> (world, error option) state" where
  "HandleHeartbeatRecovery e r = do {
     upd \<leftarrow> Resources_UpdateStatus (ev e) (r_ID r) StatusUp;
     (case upd of
        Some err \<Rightarrow> State_Monad.return (Some (Wrapf ''failed to update heartbeat monitor status on recovery'' err))
      | None \<Rightarrow> do {
          found \<leftarrow> Incidents_FindByResource (ev e) (r_ID r) 10 0;
          (case found of
             Inl err \<Rightarrow> State_Monad.return (Some (Wrapf ''failed to find incidents for heartbeat recovery'' err))
           | Inr is \<Rightarrow>
               (case find active is of
                  None \<Rightarrow> State_Monad.return None
                | Some inc \<Rightarrow> do {
                    t \<leftarrow> now (ev e);
                    u \<leftarrow> Incidents_Update (ev e) (inc\<lparr>i_ResolvedAt := Some t\<rparr>);
                    State_Monad.return (map_option (Wrapf ''failed to resolve heartbeat incident'') u)
                  }))
        })
   }"

section \<open>The rate limiter\<close>

record ping_window_counter =
  pw_window :: int
  pw_count :: int

record ping_rate_limiter =
  pl_max :: int
  pl_per :: duration
  pl_counters :: "string \<rightharpoonup> ping_window_counter"

definition NewPingRateLimiter :: "int \<Rightarrow> duration \<Rightarrow> ping_rate_limiter" where
  "NewPingRateLimiter mx per = \<lparr>pl_max = mx, pl_per = per, pl_counters = (\<lambda>_. None)\<rparr>"

definition ping_window :: "ping_rate_limiter \<Rightarrow> time \<Rightarrow> int" where
  "ping_window l t = go_div (unix t) (go_div (pl_per l) Second)"

text \<open>The entry of a key in the current window: a missing one is the zero struct.\<close>

definition current_counter :: "ping_rate_limiter \<Rightarrow> string \<Rightarrow> time \<Rightarrow> ping_window_counter" where
  "current_counter l key t =
     (let c = (case pl_counters l key of None \<Rightarrow> \<lparr>pw_window = 0, pw_count = 0\<rparr> | Some c \<Rightarrow> c)
      in if pw_window c \<noteq> ping_window l t then \<lparr>pw_window = ping_window l t, pw_count = 0\<rparr> else c)"

definition Allow :: "ping_rate_limiter \<Rightarrow> string \<Rightarrow> time \<Rightarrow> bool \<times> ping_rate_limiter" where
  "Allow l key t =
     (let c = current_counter l key t in
      if pw_count c \<ge> pl_max l then (False, l\<lparr>pl_counters := (pl_counters l)(key \<mapsto> c)\<rparr>)
      else (True, l\<lparr>pl_counters := (pl_counters l)(key \<mapsto> c\<lparr>pw_count := pw_count c + 1\<rparr>)\<rparr>))"

section \<open>The endpoints\<close>

datatype response = RespondError nat string | RespondPing string | RespondPingAt time

definition finish_ping :: "svc_env \<Rightarrow> string \<Rightarrow> time \<Rightarrow> (resource \<Rightarrow> response) \<Rightarrow> (world, response) state" where
  "finish_ping e slug t ok = do {
     found \<leftarrow> GetResourceByHeartbeatSlug e slug;
     (case found of
        Inl err \<Rightarrow> State_Monad.return
          (if errors_Is err ErrResourceNotFound then RespondError 404 ''monitor not found''
           else RespondError 500 ''failed to process ping'')
      | Inr r \<Rightarrow>
          if \<not> r_IsActive r then State_Monad.return (RespondError 403 ''monitor is paused'')
          else do {
            marked \<leftarrow> MarkHeartbeatPing e (r_ID r) t;
            (case marked of
               Some err \<Rightarrow> State_Monad.return
                 (if errors_Is err ErrResourceNotFound then RespondError 404 ''monitor not found''
                  else RespondError 500 ''failed to process ping'')
             | None \<Rightarrow> do {
                 (if r_Status r = StatusDown
                  then do { HandleHeartbeatRecovery e r; State_Monad.return () }
                  else State_Monad.return ());
                 State_Monad.return (ok r)
               })
          })
   }"

definition Ping :: "svc_env \<Rightarrow> (string \<Rightarrow> bool) \<Rightarrow> ping_rate_limiter \<Rightarrow> string \<Rightarrow> (world, response \<times> ping_rate_limiter) state" where
  "Ping e valid_slug l slug =
     (if slug = '''' \<or> \<not> valid_slug slug
      then State_Monad.return (RespondError 422 ''invalid slug format'', l)
      else do {
        t \<leftarrow> now (ev e);
        (case Allow l slug t of
           (False, l') \<Rightarrow> State_Monad.return (RespondError 429 ''rate limit exceeded'', l')
         | (True, l') \<Rightarrow> do {
             r \<leftarrow> finish_ping e slug t (\<lambda>r. RespondPing (r_Name r));
             State_Monad.return (r, l')
           })
      })"

definition PingV1 :: "svc_env \<Rightarrow> string \<Rightarrow> (world, response) state" where
  "PingV1 e slug = do {
     t \<leftarrow> now (ev e);
     finish_ping e slug t (\<lambda>_. RespondPingAt t)
   }"

section \<open>The limit per window\<close>

fun admitted :: "ping_rate_limiter \<Rightarrow> (string \<times> time) list \<Rightarrow> (string \<times> time) list" where
  "admitted l [] = []"
| "admitted l ((k, t) # rs) =
     (case Allow l k t of (b, l') \<Rightarrow> (if b then (k, t) # admitted l' rs else admitted l' rs))"

definition in_window :: "ping_rate_limiter \<Rightarrow> string \<Rightarrow> int \<Rightarrow> string \<times> time \<Rightarrow> bool" where
  "in_window l k v r \<longleftrightarrow> fst r = k \<and> ping_window l (snd r) = v"

definition used :: "ping_rate_limiter \<Rightarrow> string \<Rightarrow> int \<Rightarrow> int" where
  "used l k v = (case pl_counters l k of None \<Rightarrow> 0 | Some c \<Rightarrow> if pw_window c = v then pw_count c else 0)"

lemma Allow_frame:
  assumes "Allow l k t = (b, l')"
  shows "pl_max l' = pl_max l" and "ping_window l' = ping_window l" and "k' \<noteq> k \<Longrightarrow> pl_counters l' k' = pl_counters l k'"
  using assms by (auto simp: Allow_def Let_def ping_window_def fun_eq_iff split: if_splits)

lemma Allow_same:
  assumes "Allow l k t = (b, l')"
  shows "b \<longleftrightarrow> used l k (ping_window l t) < pl_max l"
    and "used l' k (ping_window l t) = used l k (ping_window l t) + (if b then 1 else 0)"
    and "v \<noteq> ping_window l t \<Longrightarrow> used l' k v = 0"
    and "\<exists>c. pl_counters l' k = Some c \<and> pw_window c = ping_window l t"
  using assms
  by (auto simp: Allow_def Let_def used_def current_counter_def split: if_splits option.splits)

lemma admitted_subset: "set (admitted l rs) \<subseteq> set rs"
proof (induction rs arbitrary: l)
  case (Cons r rs)
  obtain k t b l' where "r = (k, t)" "Allow l k t = (b, l')"
    by (metis surj_pair)
  with Cons.IH [of l'] show ?case by auto
qed simp

lemma admitted_later:
  assumes "\<forall>r \<in> set rs. v < ping_window l (snd r)"
  shows "filter (in_window l k v) (admitted l' rs) = []"
  using assms admitted_subset [of l' rs] by (force simp: filter_empty_conv in_window_def)

lemma admitted_bound:
  assumes "sorted (map (\<lambda>r. ping_window l (snd r)) rs)"
    and "\<And>c. pl_counters l k = Some c \<Longrightarrow> \<forall>r \<in> set rs. pw_window c \<le> ping_window l (snd r)"
    and "used l k v \<le> pl_max l"
  shows "used l k v + int (length (filter (in_window l k v) (admitted l rs))) \<le> pl_max l"
  using assms
proof (induction rs arbitrary: l)
  case Nil
  then show ?case by simp
next
  case (Cons r rs)
  obtain k' t where r: "r = (k', t)"
    by fastforce
  note prems = Cons.prems [unfolded r]
  obtain b l' where run: "Allow l k' t = (b, l')"
    by fastforce
  have win: "ping_window l' = ping_window l" "in_window l' = in_window l" "pl_max l' = pl_max l"
    using Allow_frame(1,2) [OF run] by (auto simp: in_window_def fun_eq_iff)
  have sorted: "sorted (map (\<lambda>r. ping_window l' (snd r)) rs)" and ge: "\<forall>r \<in> set rs. ping_window l t \<le> ping_window l (snd r)"
    using prems(1) win by auto
  have ctr: "\<forall>r \<in> set rs. pw_window c \<le> ping_window l' (snd r)" if "pl_counters l' k = Some c" for c
    using that prems(2) Allow_frame(3) [OF run, of k] Allow_same(4) [OF run] ge win by (cases "k' = k") auto
  note IH = Cons.IH [OF sorted ctr]
  show ?case
  proof (cases "k' = k")
    case False
    then have "used l' k v = used l k v"
      using Allow_frame(3) [OF run, of k] by (simp add: used_def)
    with IH prems(3) r False run win show ?thesis
      by (simp add: in_window_def)
  next
    case True
    show ?thesis
    proof (cases "ping_window l t = v")
      case v: True
      have "length (filter (in_window l k v) (admitted l (r # rs))) =
          (if b then 1 else 0) + length (filter (in_window l k v) (admitted l' rs))"
        using run r v True by (simp add: in_window_def)
      moreover have "used l' k v = used l k v + (if b then 1 else 0)" "used l' k v \<le> pl_max l'"
        using Allow_same(1,2) [OF run] prems(3) v True win by auto
      ultimately show ?thesis
        using IH win by (simp split: if_splits)
    next
      case False
      have zero: "used l' k v = 0"
        using Allow_same(3) [OF run] False True by simp
      show ?thesis
      proof (cases "ping_window l t < v")
        case lt: True
        then have "used l k v = 0"
          using prems(2) by (auto simp: used_def split: option.splits)
        with IH zero prems(3) r run win False True show ?thesis
          by (auto simp: in_window_def)
      next
        case ge': False
        with False ge have "\<forall>r \<in> set rs. v < ping_window l (snd r)"
          by fastforce
        moreover have "\<not> in_window l k v r"
          using False r by (simp add: in_window_def)
        ultimately show ?thesis
          using admitted_later [of rs v l k l'] prems(3) r run by simp
      qed
    qed
  qed
qed

text \<open>
  C12: Whatever the sequence of pings, as long as the clock does not run backwards the limiter admits
  at most \<open>max\<close> of them per slug and window; slugs do not share their budget.
\<close>

theorem ping_limit_per_window:
  assumes "0 \<le> mx" and "sorted (map (\<lambda>r. ping_window (NewPingRateLimiter mx per) (snd r)) rs)"
  shows "int (length (filter (in_window (NewPingRateLimiter mx per) k v) (admitted (NewPingRateLimiter mx per) rs))) \<le> mx"
  using admitted_bound [OF assms(2), of k v] assms(1) by (simp add: NewPingRateLimiter_def used_def)

theorem ping_limit_per_window_witness:
  "int (length (filter (in_window (NewPingRateLimiter 2 Minute) ''a'' 0)
     (admitted (NewPingRateLimiter 2 Minute) [(''a'', 0), (''a'', Second), (''b'', Second), (''a'', 2 * Second)]))) \<le> 2"
proof (rule ping_limit_per_window)
  show "sorted (map (\<lambda>r. ping_window (NewPingRateLimiter 2 Minute) (snd r))
      [(''a'', 0), (''a'', Second), (''b'', Second), (''a'', 2 * Second)])"
    by code_simp
qed simp

section \<open>The life cycle of a heartbeat monitor\<close>

lemma exec_update_frame [keep]:
  "keeps incidents (Resources_UpdateLastPingAt e i t)" "keeps incidents (Resources_UpdateStatus e i st)"
  unfolding Resources_UpdateLastPingAt_def Resources_UpdateStatus_def Resources_execUpdate_def
  by (intro keep; simp)+

lemma active_first:
  assumes "journal_ok t" and "i \<in> set t" and "active i" and "i_ResourceID i = rid" and "0 < l"
  shows "find active (page l 0 (incidents_of rid t)) = Some i"
  using active_is_newest [OF assms(1-4)] assms(3,5) by (cases l) (auto simp: page_def)

lemma find_pick:
  assumes "journal_ok t" and "0 < l"
  shows "find active (page l 0 (incidents_of rid t)) = pick_active None (page l 0 (incidents_of rid t))"
proof (cases "pick_active None (page l 0 (incidents_of rid t))")
  case None
  then have "find active (page l 0 (incidents_of rid t)) = None"
    by (simp add: pick_active_None find_None_iff list_ex_iff)
  with None show ?thesis by simp
next
  case (Some i)
  then have p: "i \<in> set (page l 0 (incidents_of rid t))" and act: "active i"
    using pick_active_Some by fastforce+
  have "i \<in> set t" "i_ResourceID i = rid"
    using subsetD [OF set_page p] by (simp_all add: incidents_of_set)
  with active_first [OF assms(1) _ act _ assms(2)] Some show ?thesis by simp
qed

text \<open>Recovery by a ping closes the one active incident, like \<open>ResolveIncident\<close>.\<close>

lemma hoare_HandleHeartbeatRecovery:
  assumes mono: "strict_mono (clock e)"
  shows "hoare (sinv e) (HandleHeartbeatRecovery e r)
    (\<lambda>x w. sinv e w \<and> (x = None \<longrightarrow> none_active (r_ID r) w))" (is "hoare _ _ ?Q")
proof -
  have m: "strict_mono (clock (ev e))" using mono by simp
  let ?found = "\<lambda>i w. sinv e w \<and> i \<in> set (incidents w) \<and> active i \<and> i_ResourceID i = r_ID r"
  have status: "hoare (sinv e) (Resources_UpdateStatus (ev e) (r_ID r) StatusUp) (\<lambda>_. sinv e)"
    by (rule hoare_keeps [OF exec_update_frame(2) incidents_inv_stable [OF m]])
  have lookup: "hoare (sinv e) (Incidents_FindByResource (ev e) (r_ID r) 10 0) (\<lambda>x w. sinv e w \<and>
      (\<forall>is. x = Inr is \<longrightarrow> (case find active is of None \<Rightarrow> none_active (r_ID r) w | Some i \<Rightarrow> ?found i w)))"
  proof (rule hoareI)
    fix w x w'
    assume inv: "sinv e w" and run: "run_state (Incidents_FindByResource (ev e) (r_ID r) 10 0) w = (x, w')"
    have "find active is = pick_active None is" if "x = Inr is" for "is"
      using run that inv find_pick [of "incidents w" 10 "r_ID r"]
      by (auto simp: run_FindByResource incidents_inv_def split: if_splits)
    with hoareD [OF hoare_FindByResource_active [OF m, of 10] inv run]
    show "sinv e w' \<and> (\<forall>is. x = Inr is \<longrightarrow>
        (case find active is of None \<Rightarrow> none_active (r_ID r) w' | Some i \<Rightarrow> ?found i w'))"
      by (auto split: option.splits)
  qed
  have found: "hoare (?found i) (now (ev e)) (\<lambda>_. ?found i)" for i
    using stable_incidents_inv [OF m] by (intro hoare_keeps [of core] keeps_now) (auto simp: stable_def core_def)
  have close: "hoare (?found i) (do {
        t \<leftarrow> now (ev e);
        u \<leftarrow> Incidents_Update (ev e) (i\<lparr>i_ResolvedAt := Some t\<rparr>);
        State_Monad.return (map_option (Wrapf ''failed to resolve heartbeat incident'') u) }) ?Q" for i
    by (intro hoare_bind [OF found hoare_bind [OF hoare_Incidents_Update [OF m]]] hoare_return) auto
  show ?thesis
    unfolding HandleHeartbeatRecovery_def
    by (intro hoare_bind [OF status] hoare_case_option hoare_return hoare_bind [OF lookup] hoare_case_sum
        hoare_conseq [OF close]) auto
qed

text \<open>
  When the recovery of a heartbeat monitor reports success, the monitor has no active incident,
  and the journal of incidents is still well formed.
\<close>

theorem heartbeat_recovery_resolves:
  assumes "strict_mono (clock e)" and "incidents_inv (ev e) w"
    and "run_state (HandleHeartbeatRecovery e r) w = (x, w')"
  shows "incidents_inv (ev e) w' \<and> (x = None \<longrightarrow> none_active (r_ID r) w')"
  using hoareD [OF hoare_HandleHeartbeatRecovery [OF assms(1)] assms(2,3)] by simp

theorem heartbeat_recovery_resolves_witness:
  "none_active ''r1'' (snd (run_state (HandleHeartbeatRecovery demo_env demo_resource) demo_open))"
proof -
  have "fst (run_state (HandleHeartbeatRecovery demo_env demo_resource) demo_open) = None"
    by code_simp
  then show ?thesis
    using heartbeat_recovery_resolves [OF demo_clock demo_open_inv prod.collapse [symmetric], of demo_resource]
    by (simp add: demo_resource_def)
qed

text \<open>
  No ping answers 403: the lookup only finds active monitors, so a paused monitor is answered
  like an unknown one and the branch for paused monitors is dead.
\<close>

theorem ping_never_forbidden:
  "fst (fst (run_state (Ping e valid l slug) w)) \<noteq> RespondError 403 msg \<and>
   fst (run_state (PingV1 e slug) w) \<noteq> RespondError 403 msg"
proof -
  have found: "r_IsActive r" if "fst (run_state (GetResourceByHeartbeatSlug e slug) v) = Inr r" for v r
    using that by (auto simp: GetResourceByHeartbeatSlug_def Resources_FindByHeartbeatSlug_def run_simps wrap_db_def
        active_heartbeat_def find_Some_iff split: if_splits option.splits sum.splits)
  have "fst (run_state (finish_ping e slug t ok) v) \<noteq> RespondError 403 msg"
    if "\<And>r. ok r \<noteq> RespondError 403 msg" for t ok v
    using that found [of v]
    by (auto simp: finish_ping_def run_simps split_beta split: sum.splits option.splits)
  then show ?thesis
    by (auto simp: Ping_def PingV1_def run_simps split_beta split: prod.splits bool.splits)
qed

lemma Detect_resources:
  assumes "im = incident_service e"
  shows "keeps resources (Detect e im)"
  unfolding Detect_def assms by (intro keep service.create_resources) simp

lemma ping_up_incidents:
  assumes "\<And>r. r \<in> set (resources w) \<Longrightarrow> r_HeartbeatSlug r = Some slug \<Longrightarrow> r_Status r \<noteq> StatusDown"
  shows "incidents (snd (run_state (finish_ping e slug t ok) w)) = incidents w"
proof -
  have found: "r_Status r \<noteq> StatusDown" if "fst (run_state (GetResourceByHeartbeatSlug e slug) w) = Inr r" for r
    using that assms by (auto simp: GetResourceByHeartbeatSlug_def Resources_FindByHeartbeatSlug_def run_simps wrap_db_def
        find_Some_iff in_set_conv_nth split: if_splits option.splits sum.splits)
  have get: "keeps incidents (GetResourceByHeartbeatSlug e slug)"
    unfolding GetResourceByHeartbeatSlug_def by (intro keep)
  have mark: "keeps incidents (MarkHeartbeatPing e i t)" for i
    unfolding MarkHeartbeatPing_def by (intro keep)
  show ?thesis
    using found keepsD [OF get, of w] keepsD [OF mark]
    by (auto simp: finish_ping_def run_simps split_beta split: sum.splits option.splits)
qed

text \<open>
  A heartbeat incident is never closed by the pings that follow. Detection opens incidents but
  leaves the stored status of the monitor alone, so it still reads up; and a ping takes the recovery
  path only for a monitor whose stored status is down. The incidents after the ping are those that
  detection left.
\<close>

theorem heartbeat_incident_survives_ping:
  assumes "\<And>r. r \<in> set (resources w) \<Longrightarrow> r_HeartbeatSlug r = Some slug \<Longrightarrow> r_Status r \<noteq> StatusDown"
    and "run_state (Detect e (incident_service e)) w = (x, w1)"
    and "run_state (PingV1 e slug) w1 = (y, w2)"
  shows "incidents w2 = incidents w1"
proof -
  have "resources w1 = resources w"
    using keepsD [OF Detect_resources [OF refl], of e w] assms(2) by simp
  then have "incidents (snd (run_state (finish_ping e slug (clock e (tick w1)) ok) (bump w1))) = incidents w1" for ok
    using ping_up_incidents [of "bump w1" slug e "clock e (tick w1)"] assms(1) by simp
  moreover have "run_state (PingV1 e slug) w1 =
      run_state (finish_ping e slug (clock e (tick w1)) (\<lambda>_. RespondPingAt (clock e (tick w1)))) (bump w1)"
    by (simp add: PingV1_def run_simps)
  ultimately show ?thesis
    using assms(3) by (metis snd_conv)
qed

definition demo_beat :: resource where
  "demo_beat = demo_resource\<lparr>r_Type := ResourceHeartbeat, r_HeartbeatSlug := Some ''s'', r_HeartbeatInterval := Some 60,
     r_HeartbeatGrace := Some 30, r_LastPingAt := Some 0\<rparr>"

definition demo_missed :: world where
  "demo_missed = demo_world\<lparr>resources := [demo_beat], tick := 200\<rparr>"

definition demo_detected :: world where
  "demo_detected = snd (run_state (Detect demo_env (incident_service demo_env)) demo_missed)"

theorem heartbeat_incident_survives_ping_witness:
  "active_of ''r1'' demo_detected \<noteq> [] \<and> fst (run_state (PingV1 demo_env ''s'') demo_detected) = RespondPingAt (232 * Second) \<and>
   active_of ''r1'' (snd (run_state (PingV1 demo_env ''s'') demo_detected)) = active_of ''r1'' demo_detected"
proof -
  have "r_Status r \<noteq> StatusDown" if "r \<in> set (resources demo_missed)" "r_HeartbeatSlug r = Some ''s''" for r
    using that by (simp add: demo_missed_def demo_beat_def demo_resource_def)
  then have "incidents (snd (run_state (PingV1 demo_env ''s'') demo_detected)) = incidents demo_detected"
    unfolding demo_detected_def
    by (intro heartbeat_incident_survives_ping [OF _ prod.collapse [symmetric] prod.collapse [symmetric]])
  moreover have "active_of ''r1'' demo_detected \<noteq> []"
    and "fst (run_state (PingV1 demo_env ''s'') demo_detected) = RespondPingAt (232 * Second)"
    by code_simp+
  ultimately show ?thesis by (simp add: active_of_def)
qed

text \<open>
  A recorded ping buys the monitor its whole interval plus grace: the monitor is not reported
  missed before that many seconds have passed, and from the next second on it is.
\<close>

theorem ping_buys_interval:
  assumes "\<And>n. \<not> fault e n" and "find (\<lambda>r. r_ID r = rid \<and> active_heartbeat r) (resources w) = Some r"
    and "distinct_keys r_ID (resources w)" and "r_Status r = StatusUp"
    and "r_HeartbeatInterval r = Some i" and "r_HeartbeatGrace r = Some g"
    and "run_state (MarkHeartbeatPing e rid t) w = (x, w')"
  shows "x = None \<and> (\<exists>r'. tbl_find r_ID rid (resources w') = Some r' \<and>
    (\<forall>t'. missed_heartbeat t' r' \<longleftrightarrow> unix t + i + g < unix t'))"
proof -
  have r: "r \<in> set (resources w)" "r_ID r = rid" "active_heartbeat r"
    using assms(2) by (auto simp: find_Some_iff)
  then obtain r' where r': "tbl_find r_ID rid (resources w) = Some r'"
    by (metis image_eqI not_Some_eq tbl_find_None)
  then have "r' = r"
    using r tbl_find_Some_key [OF r'] distinct_keys_same [OF assms(3), of r' r] by simp
  with r' have "tbl_find r_ID rid (resources w) = Some r"
    by simp
  moreover have "list_ex (\<lambda>y. r_ID y = rid \<and> active_heartbeat y) (resources w)"
    using r by (auto simp: list_ex_iff)
  ultimately show ?thesis
    using assms r
    by (auto simp: MarkHeartbeatPing_def Resources_UpdateLastPingAt_def Resources_execUpdate_def run_simps wrap_db_def
        tbl_find_update missed_heartbeat_def active_heartbeat_def)
qed

theorem ping_buys_interval_witness:
  "\<exists>r'. tbl_find r_ID ''r1'' (resources (snd (run_state (MarkHeartbeatPing demo_env ''r1'' (10 * Second)) demo_missed))) = Some r' \<and>
     \<not> missed_heartbeat (100 * Second) r' \<and> missed_heartbeat (101 * Second) r'"
proof -
  have "find (\<lambda>r. r_ID r = ''r1'' \<and> active_heartbeat r) (resources demo_missed) = Some demo_beat"
    and "distinct_keys r_ID (resources demo_missed)" and "r_Status demo_beat = StatusUp"
    and "r_HeartbeatInterval demo_beat = Some 60" and "r_HeartbeatGrace demo_beat = Some 30"
    by code_simp+
  from ping_buys_interval [OF demo_no_fault this prod.collapse [symmetric], of "10 * Second"] show ?thesis
    by (auto simp: unix_def)
qed

text \<open>
  The retry delay doubles from one minute with each attempt and never exceeds an hour; the
  conversion stays in range for the first 28 attempts. The documentation of the function claims the
  maximum from attempt 3 on; the code gives 8 minutes there and reaches the maximum at attempt 6.
\<close>

theorem backoff_delay:
  assumes "n \<le> 27"
  shows "CalculateBackoffDelay ov n = min (Minute * 2 ^ n) (60 * Minute)"
proof -
  have "(2::int) ^ n \<le> 2 ^ 27"
    using assms by (intro power_increasing) auto
  moreover have "- 9223372036854775808 \<le> Minute * (2::int) ^ n"
    by (rule order_trans [of _ 0]) simp_all
  ultimately have "in_int64 (Minute * 2 ^ n)"
    by (simp add: in_int64_def min_int64_def max_int64_def)
  then show ?thesis
    by (simp add: CalculateBackoffDelay_def Let_def)
qed

theorem backoff_delay_witness:
  "CalculateBackoffDelay id 3 = 8 * Minute \<and> CalculateBackoffDelay id 6 = 60 * Minute"
  using backoff_delay [of 3 id] backoff_delay [of 6 id] by simp

end
