(* ===== verification/Timing_Wheel.thy ===== *)
theory Timing_Wheel
  imports Domain
begin

text \<open>
  The in-process scheduler (\<open>src/internal/scheduler/timingwheel.go\<close>), the selection of a scheduler
  (\<open>scheduler.go\<close>) and the adapter through which services schedule resources (\<open>adapter.go\<close>).

  Every method is a function on the state of the wheel. A Go channel with a buffer is a bounded queue
  that can be closed (locale \<open>bounded_queue\<close>). The goroutines are interleaved by an inductive step
  relation: the loop \<open>run\<close> holds the lock only in parts of a \<open>tick\<close>, so other calls can come in
  between; the program counter \<open>pc\<close> marks these points. The order in which Go enumerates a map is
  any order. The state fields read without a lock are read atomically. A restart is taken once the loop
  of the previous run has ended.
\<close>

section \<open>Buffered channels\<close>

record 'a chan =
  ch_items :: "'a list"
  ch_cap :: nat
  ch_closed :: bool

datatype 'a chan_send = Sent "'a chan" | Full | PanicClosed

definition make_chan :: "nat \<Rightarrow> 'a chan" where
  "make_chan n = \<lparr>ch_items = [], ch_cap = n, ch_closed = False\<rparr>"

text \<open>A send in a \<open>select\<close> with a default: it never blocks, and panics on a closed channel.\<close>

definition try_send :: "'a \<Rightarrow> 'a chan \<Rightarrow> 'a chan_send" where
  "try_send x c =
     (if ch_closed c then PanicClosed
      else if length (ch_items c) < ch_cap c then Sent (c\<lparr>ch_items := ch_items c @ [x]\<rparr>)
      else Full)"

definition try_recv :: "'a chan \<Rightarrow> ('a \<times> 'a chan) option" where
  "try_recv c = (case ch_items c of [] \<Rightarrow> None | x # xs \<Rightarrow> Some (x, c\<lparr>ch_items := xs\<rparr>))"

definition close_chan :: "'a chan \<Rightarrow> 'a chan" where
  "close_chan c = c\<lparr>ch_closed := True\<rparr>"

definition chan_ok :: "'a chan \<Rightarrow> bool" where
  "chan_ok c \<longleftrightarrow> length (ch_items c) \<le> ch_cap c"

text \<open>The contract of a bounded first-in first-out queue.\<close>

locale bounded_queue =
  fixes send :: "'a \<Rightarrow> 'q \<Rightarrow> 'q option"
    and recv :: "'q \<Rightarrow> ('a \<times> 'q) option"
    and items :: "'q \<Rightarrow> 'a list"
    and cap :: "'q \<Rightarrow> nat"
  assumes send_items: "send x q = Some q' \<Longrightarrow> items q' = items q @ [x] \<and> cap q' = cap q"
    and send_room: "send x q = Some q' \<Longrightarrow> length (items q) < cap q"
    and recv_items: "recv q = Some (x, q') \<Longrightarrow> items q = x # items q' \<and> cap q' = cap q"
    and recv_none: "recv q = None \<Longrightarrow> items q = []"
begin

lemma send_bound: "send x q = Some q' \<Longrightarrow> length (items q') \<le> cap q'"
  using send_items send_room by fastforce

lemma recv_bound: "recv q = Some (x, q') \<Longrightarrow> length (items q) \<le> cap q \<Longrightarrow> length (items q') \<le> cap q'"
  using recv_items by fastforce

text \<open>Values come out in the order they went in.\<close>

fun send_all :: "'a list \<Rightarrow> 'q \<Rightarrow> 'q option" where
  "send_all [] q = Some q"
| "send_all (x # xs) q = (case send x q of None \<Rightarrow> None | Some q' \<Rightarrow> send_all xs q')"

fun recv_n :: "nat \<Rightarrow> 'q \<Rightarrow> ('a list \<times> 'q) option" where
  "recv_n 0 q = Some ([], q)"
| "recv_n (Suc n) q =
     (case recv q of None \<Rightarrow> None | Some (x, q') \<Rightarrow> map_option (\<lambda>(xs, q''). (x # xs, q'')) (recv_n n q'))"

lemma send_all_items: "send_all xs q = Some q' \<Longrightarrow> items q' = items q @ xs"
  by (induction xs arbitrary: q) (auto dest!: send_items split: option.splits)

lemma recv_n_items: "length (items q) = n \<Longrightarrow> \<exists>q'. recv_n n q = Some (items q, q') \<and> items q' = []"
proof (induction n arbitrary: q)
  case (Suc n)
  then obtain x q1 where r: "recv q = Some (x, q1)"
    using recv_none by (cases "recv q") fastforce+
  with recv_items [OF r] Suc show ?case
    by (auto dest!: Suc.IH [of q1])
qed simp

lemma fifo: "items q = [] \<Longrightarrow> send_all xs q = Some q' \<Longrightarrow> \<exists>q''. recv_n (length xs) q' = Some (xs, q'')"
  using send_all_items recv_n_items by (metis append_Nil)

end

definition sent_chan :: "'a \<Rightarrow> 'a chan \<Rightarrow> 'a chan option" where
  "sent_chan x c = (case try_send x c of Sent c' \<Rightarrow> Some c' | _ \<Rightarrow> None)"

interpretation chan: bounded_queue sent_chan try_recv ch_items ch_cap
  by unfold_locales (auto simp: sent_chan_def try_send_def try_recv_def split: if_splits list.splits)

section \<open>Selecting a scheduler\<close>

datatype schedule_mode = ModeTimingWheel | ModeAsynq | ModeOther string

definition schedule_mode_of :: "string \<Rightarrow> schedule_mode" where
  "schedule_mode_of s = (if s = ''timingwheel'' then ModeTimingWheel else if s = ''asynq'' then ModeAsynq else ModeOther s)"

definition ErrSchedulerAlreadyRunning :: error where
  "ErrSchedulerAlreadyRunning = ErrorNew ''scheduler is already running''"
definition ErrSchedulerNotRunning :: error where
  "ErrSchedulerNotRunning = ErrorNew ''scheduler is not running''"
definition ErrInvalidInterval :: error where
  "ErrInvalidInterval = ErrorNew ''invalid interval: must be > 0''"
definition ErrRedisRequired :: error where
  "ErrRedisRequired = ErrorNew ''Redis is required for Asynq mode''"
definition ErrInvalidMode :: error where
  "ErrInvalidMode = ErrorNew ''invalid scheduler mode''"
definition ErrInvalidNotificationType :: error where
  "ErrInvalidNotificationType = ErrorNew ''invalid notification event type''"

definition ErrShutdownTimeout :: error where
  "ErrShutdownTimeout = ErrorNew ''scheduler shutdown timeout exceeded''"

definition DetectMode :: "string \<Rightarrow> string \<Rightarrow> schedule_mode" where
  "DetectMode explicitMode dbDriver =
     (if explicitMode \<noteq> ''''
      then (if schedule_mode_of explicitMode = ModeAsynq then ModeAsynq else ModeTimingWheel)
      else if dbDriver = ''sqlite'' then ModeTimingWheel
      else if dbDriver = '''' then ModeTimingWheel
      else ModeAsynq)"

definition ValidateSelector :: "schedule_mode \<Rightarrow> string \<Rightarrow> error option" where
  "ValidateSelector mode redisURL = (if mode = ModeAsynq \<and> redisURL = '''' then Some ErrRedisRequired else None)"

definition ValidateNotificationEventType :: "string \<Rightarrow> error option" where
  "ValidateNotificationEventType eventType =
     (if eventType = ''resource_down_alert'' \<or> eventType = ''resource_up_alert'' then None
      else Some (Suffixf ErrInvalidNotificationType eventType))"

record timing_wheel_config =
  wc_TickInterval :: duration
  wc_MaxWorkers :: nat
  wc_NotificationQueueSize :: nat

record scheduler_config =
  sc_Mode :: schedule_mode
  sc_TimingWheel :: timing_wheel_config
  sc_RedisURL :: string

definition default_scheduler_config :: scheduler_config where
  "default_scheduler_config = \<lparr>sc_Mode = ModeTimingWheel,
     sc_TimingWheel = \<lparr>wc_TickInterval = Second, wc_MaxWorkers = 10, wc_NotificationQueueSize = 100\<rparr>, sc_RedisURL = ''''\<rparr>"

datatype new_scheduler = NewTimingWheelScheduler timing_wheel_config | NewAsynqScheduler scheduler_config

definition New :: "scheduler_config option \<Rightarrow> error + new_scheduler" where
  "New cfg0 =
     (let cfg = (case cfg0 of None \<Rightarrow> default_scheduler_config | Some c \<Rightarrow> c);
          mode = (if sc_Mode cfg = ModeOther '''' then ModeTimingWheel else sc_Mode cfg)
      in case mode of
           ModeTimingWheel \<Rightarrow> Inr (NewTimingWheelScheduler (sc_TimingWheel cfg))
         | ModeAsynq \<Rightarrow> if sc_RedisURL cfg = '''' then Inl ErrRedisRequired else Inr (NewAsynqScheduler cfg)
         | ModeOther m \<Rightarrow> Inl (Suffixf ErrInvalidMode m))"

section \<open>The wheel\<close>

datatype wheel_state = StateStopped | StateRunning | StateStopping

record scheduled_resource =
  sr_Interval :: duration
  sr_NextDue :: time

record check_job =
  cj_ResourceID :: string
  cj_Interval :: duration

record notification_job =
  nj_IncidentID :: string
  nj_EventType :: string

text \<open>Where the loop \<open>run\<close> is: waiting, between two due resources of a tick, after a send, or gone.\<close>

datatype pc = NotStarted | Waiting | Dispatching "string list" | Enqueued string duration "string list" | Exited

record wheel =
  tw_config :: timing_wheel_config
  tw_state :: wheel_state
  tw_stop :: bool
  tw_schedules :: "string \<rightharpoonup> scheduled_resource"
  tw_paused :: "string \<rightharpoonup> bool"
  tw_checkQueue :: "check_job chan"
  tw_notifQueue :: "notification_job chan"
  tw_pc :: pc

definition NewTimingWheel :: "timing_wheel_config \<Rightarrow> wheel" where
  "NewTimingWheel cfg = \<lparr>tw_config = cfg, tw_state = StateStopped, tw_stop = False, tw_schedules = Map.empty,
     tw_paused = Map.empty, tw_checkQueue = make_chan (wc_MaxWorkers cfg),
     tw_notifQueue = make_chan (wc_NotificationQueueSize cfg), tw_pc = NotStarted\<rparr>"

record schedule_item =
  si_ResourceID :: string
  si_Interval :: duration
  si_Paused :: bool

fun load_items :: "time \<Rightarrow> schedule_item list \<Rightarrow> (string \<rightharpoonup> scheduled_resource) \<Rightarrow> (string \<rightharpoonup> scheduled_resource)" where
  "load_items t [] m = m"
| "load_items t (i # is) m =
     load_items t is
       (if \<not> si_Paused i \<and> si_Interval i > 0
        then m(si_ResourceID i \<mapsto> \<lparr>sr_Interval = si_Interval i, sr_NextDue = t + si_Interval i\<rparr>) else m)"

text \<open>\<open>Start\<close>; \<open>loaded\<close> is what the repository returned, an error being ignored.\<close>

definition Start :: "time \<Rightarrow> schedule_item list option \<Rightarrow> wheel \<Rightarrow> error + wheel" where
  "Start t loaded tw =
     (if tw_state tw \<noteq> StateStopped then Inl ErrSchedulerAlreadyRunning
      else Inr (tw\<lparr>tw_stop := False,
        tw_checkQueue := make_chan (wc_MaxWorkers (tw_config tw)),
        tw_notifQueue := make_chan (wc_NotificationQueueSize (tw_config tw)),
        tw_schedules := (case loaded of None \<Rightarrow> Map.empty | Some items \<Rightarrow> load_items t items Map.empty),
        tw_paused := Map.empty, tw_state := StateRunning, tw_pc := Waiting\<rparr>))"

definition request_stop :: "wheel \<Rightarrow> error + wheel" where
  "request_stop tw =
     (if tw_state tw \<noteq> StateRunning then Inl ErrSchedulerNotRunning
      else Inr (tw\<lparr>tw_state := StateStopping, tw_stop := True\<rparr>))"

text \<open>The end of \<open>Stop\<close>: both goroutines have ended (\<open>done\<close>), or the context has.\<close>

definition finish_stop :: "bool \<Rightarrow> wheel \<Rightarrow> error option \<times> wheel" where
  "finish_stop finished tw =
     (if finished then None else Some ErrShutdownTimeout, tw\<lparr>tw_state := StateStopped\<rparr>)"

definition Schedule :: "time \<Rightarrow> string \<Rightarrow> duration \<Rightarrow> wheel \<Rightarrow> error + wheel" where
  "Schedule t rid interval tw =
     (if interval \<le> 0 then Inl ErrInvalidInterval
      else Inr (tw\<lparr>tw_schedules := (tw_schedules tw)(rid \<mapsto>
             \<lparr>sr_Interval = interval, sr_NextDue = t + interval + wc_TickInterval (tw_config tw)\<rparr>),
           tw_paused := (tw_paused tw)(rid \<mapsto> False)\<rparr>))"

definition Unschedule :: "string \<Rightarrow> wheel \<Rightarrow> wheel" where
  "Unschedule rid tw = tw\<lparr>tw_schedules := (tw_schedules tw)(rid := None), tw_paused := (tw_paused tw)(rid := None)\<rparr>"

definition Pause :: "string \<Rightarrow> wheel \<Rightarrow> wheel" where
  "Pause rid tw =
     (case tw_schedules tw rid of None \<Rightarrow> tw | Some _ \<Rightarrow> tw\<lparr>tw_paused := (tw_paused tw)(rid \<mapsto> True)\<rparr>)"

definition Resume :: "string \<Rightarrow> wheel \<Rightarrow> wheel" where
  "Resume rid tw =
     (case tw_schedules tw rid of None \<Rightarrow> tw | Some _ \<Rightarrow> tw\<lparr>tw_paused := (tw_paused tw)(rid \<mapsto> False)\<rparr>)"

subsection \<open>One tick\<close>

definition is_paused :: "wheel \<Rightarrow> string \<Rightarrow> bool" where
  "is_paused tw rid \<longleftrightarrow> tw_paused tw rid = Some True"

definition due :: "time \<Rightarrow> wheel \<Rightarrow> string \<Rightarrow> bool" where
  "due t tw rid =
     (case tw_schedules tw rid of None \<Rightarrow> False | Some s \<Rightarrow> \<not> is_paused tw rid \<and> t > sr_NextDue s)"

text \<open>The lookup and the non-blocking send for the next due resource.\<close>

definition dispatch_head :: "wheel \<Rightarrow> error + wheel" where
  "dispatch_head tw =
     (case tw_pc tw of
        Dispatching (rid # ids) \<Rightarrow>
          (case tw_schedules tw rid of
             None \<Rightarrow> Inr (tw\<lparr>tw_pc := Dispatching ids\<rparr>)
           | Some s \<Rightarrow>
               (case try_send \<lparr>cj_ResourceID = rid, cj_Interval = sr_Interval s\<rparr> (tw_checkQueue tw) of
                  Sent q \<Rightarrow> Inr (tw\<lparr>tw_checkQueue := q, tw_pc := Enqueued rid (sr_Interval s) ids\<rparr>)
                | Full \<Rightarrow> Inr (tw\<lparr>tw_pc := Dispatching ids\<rparr>)
                | PanicClosed \<Rightarrow> Inl (Panic ''send on closed channel'')))
      | _ \<Rightarrow> Inr tw)"

text \<open>The write of the next due time, under the lock again. It dereferences the entry of the map.\<close>

definition finish_dispatch :: "time \<Rightarrow> wheel \<Rightarrow> error + wheel" where
  "finish_dispatch t tw =
     (case tw_pc tw of
        Enqueued rid interval ids \<Rightarrow>
          (case tw_schedules tw rid of
             None \<Rightarrow> Inl (Panic ''invalid memory address or nil pointer dereference'')
           | Some s \<Rightarrow> Inr (tw\<lparr>tw_schedules := (tw_schedules tw)(rid \<mapsto> s\<lparr>sr_NextDue := t + interval\<rparr>),
                              tw_pc := Dispatching ids\<rparr>))
      | _ \<Rightarrow> Inr tw)"

text \<open>A tick that nothing interrupts: the due resources in the order \<open>ids\<close>, all at time \<open>t\<close>.\<close>

fun dispatch_all :: "time \<Rightarrow> string list \<Rightarrow> wheel \<Rightarrow> error + wheel" where
  "dispatch_all t [] tw = Inr (tw\<lparr>tw_pc := Waiting\<rparr>)"
| "dispatch_all t (rid # ids) tw =
     (case dispatch_head (tw\<lparr>tw_pc := Dispatching (rid # ids)\<rparr>) of
        Inl err \<Rightarrow> Inl err
      | Inr tw1 \<Rightarrow>
          (case finish_dispatch t tw1 of Inl err \<Rightarrow> Inl err | Inr tw2 \<Rightarrow> dispatch_all t ids tw2))"

definition cleanup :: "wheel \<Rightarrow> wheel" where
  "cleanup tw = tw\<lparr>tw_schedules := Map.empty, tw_paused := Map.empty,
     tw_checkQueue := close_chan (tw_checkQueue tw), tw_notifQueue := close_chan (tw_notifQueue tw)\<rparr>"

definition EnqueueNotification :: "string \<Rightarrow> string \<Rightarrow> wheel \<Rightarrow> error option \<times> wheel" where
  "EnqueueNotification incidentID eventType tw =
     (case ValidateNotificationEventType eventType of
        Some err \<Rightarrow> (Some err, tw)
      | None \<Rightarrow>
          (case try_send \<lparr>nj_IncidentID = incidentID, nj_EventType = eventType\<rparr> (tw_notifQueue tw) of
             Sent q \<Rightarrow> (None, tw\<lparr>tw_notifQueue := q\<rparr>)
           | Full \<Rightarrow> (None, tw)
           | PanicClosed \<Rightarrow> (Some (Panic ''send on closed channel''), tw)))"

section \<open>The adapter\<close>

definition adapter_ScheduleWithInterval :: "time \<Rightarrow> resource \<Rightarrow> duration \<Rightarrow> wheel \<Rightarrow> error option \<times> wheel" where
  "adapter_ScheduleWithInterval t r interval tw =
     (if r_ID r = '''' then (Some (Errorf ''repository scheduler: resource ID is empty''), tw)
      else if interval \<le> 0 then (Some (Errorf ''repository scheduler: interval must be > 0''), tw)
      else case Schedule t (r_ID r) interval tw of Inl err \<Rightarrow> (Some err, tw) | Inr tw' \<Rightarrow> (None, tw'))"

definition adapter_Schedule :: "time \<Rightarrow> resource \<Rightarrow> wheel \<Rightarrow> error option \<times> wheel" where
  "adapter_Schedule t r tw =
     (if r_ID r = '''' then (Some (Errorf ''repository scheduler: resource ID is empty''), tw)
      else if \<not> r_IsActive r then (None, Unschedule (r_ID r) tw)
      else if r_Type r = ResourceHeartbeat then (None, tw)
      else adapter_ScheduleWithInterval t r (dur (if r_Interval r \<le> 0 then 300 else r_Interval r) Second) tw)"

definition adapter_Unschedule :: "string \<Rightarrow> wheel \<Rightarrow> error option \<times> wheel" where
  "adapter_Unschedule rid tw =
     (if rid = '''' then (Some (Errorf ''repository scheduler: resource ID is empty''), tw) else (None, Unschedule rid tw))"

section \<open>A tick that nothing interrupts\<close>

definition job_of :: "wheel \<Rightarrow> string \<Rightarrow> check_job" where
  "job_of tw rid = \<lparr>cj_ResourceID = rid, cj_Interval = sr_Interval (the (tw_schedules tw rid))\<rparr>"

definition room :: "'a chan \<Rightarrow> nat" where
  "room c = ch_cap c - length (ch_items c)"

definition advance_due :: "time \<Rightarrow> string set \<Rightarrow> wheel \<Rightarrow> string \<rightharpoonup> scheduled_resource" where
  "advance_due t R tw = (\<lambda>rid. case tw_schedules tw rid of None \<Rightarrow> None
     | Some s \<Rightarrow> Some (if rid \<in> R then s\<lparr>sr_NextDue := t + sr_Interval s\<rparr> else s))"

lemma dispatch_all_spec:
  assumes "distinct ids" and "\<forall>rid \<in> set ids. tw_schedules tw rid \<noteq> None" and "\<not> ch_closed (tw_checkQueue tw)"
  shows "\<exists>tw'. dispatch_all t ids tw = Inr tw' \<and> tw_pc tw' = Waiting \<and>
    ch_items (tw_checkQueue tw') = ch_items (tw_checkQueue tw) @ map (job_of tw) (take (room (tw_checkQueue tw)) ids) \<and>
    tw_schedules tw' = advance_due t (set (take (room (tw_checkQueue tw)) ids)) tw \<and>
    tw_paused tw' = tw_paused tw \<and> tw_notifQueue tw' = tw_notifQueue tw \<and> tw_config tw' = tw_config tw \<and>
    ch_cap (tw_checkQueue tw') = ch_cap (tw_checkQueue tw)"
  using assms
proof (induction ids arbitrary: tw)
  case Nil
  then show ?case by (auto simp: advance_due_def fun_eq_iff split: option.split)
next
  case (Cons rid ids)
  obtain s where s: "tw_schedules tw rid = Some s"
    using Cons.prems(2) by auto
  have sched: "\<forall>x \<in> set ids. tw_schedules tw x \<noteq> None" and new: "rid \<notin> set ids"
    using Cons.prems by auto
  show ?case
  proof (cases "room (tw_checkQueue tw)")
    case 0
    let ?tw = "tw\<lparr>tw_pc := Dispatching ids\<rparr>"
    have "dispatch_all t (rid # ids) tw = dispatch_all t ids ?tw"
      using 0 s Cons.prems(3)
      by (simp add: dispatch_head_def finish_dispatch_def try_send_def room_def)
    with Cons.IH [of ?tw] Cons.prems sched 0 show ?thesis
      by (auto simp: advance_due_def)
  next
    case (Suc n)
    let ?q = "(tw_checkQueue tw)\<lparr>ch_items := ch_items (tw_checkQueue tw) @ [job_of tw rid]\<rparr>"
    let ?tw = "tw\<lparr>tw_checkQueue := ?q, tw_schedules := (tw_schedules tw)(rid \<mapsto> s\<lparr>sr_NextDue := t + sr_Interval s\<rparr>),
        tw_pc := Dispatching ids\<rparr>"
    have lt: "length (ch_items (tw_checkQueue tw)) < ch_cap (tw_checkQueue tw)"
      using Suc by (simp add: room_def)
    have run: "dispatch_all t (rid # ids) tw = dispatch_all t ids ?tw"
      using lt s Cons.prems(3)
      by (simp add: dispatch_head_def finish_dispatch_def try_send_def room_def job_of_def)
    have n: "room ?q = n"
      using Suc by (simp add: room_def)
    have jobs: "map (job_of ?tw) (take n ids) = map (job_of tw) (take n ids)"
      using new by (auto simp: job_of_def dest: in_set_takeD)
    have adv: "advance_due t (set (take n ids)) ?tw = advance_due t (insert rid (set (take n ids))) tw"
      using new s by (auto simp: advance_due_def fun_eq_iff dest: in_set_takeD split: option.split)
    have "\<forall>x \<in> set ids. tw_schedules ?tw x \<noteq> None"
      using sched by simp
    with Cons.IH [of ?tw] Cons.prems run n jobs adv Suc show ?thesis
      by auto
  qed
qed

text \<open>
  C10: A tick accounts for every due resource. In whatever order the due resources come, the tick
  queues exactly as many as the check queue has room for, each once and in order, and moves their
  next due time one interval ahead of now; every other due resource keeps its entry, so it is still
  due at the next tick, and no resource that was not due is touched.
\<close>

theorem tick_accounts_for_due:
  assumes "distinct ids" and "\<And>rid. rid \<in> set ids \<longleftrightarrow> due t tw rid" and "\<not> ch_closed (tw_checkQueue tw)"
    and "\<And>rid s. tw_schedules tw rid = Some s \<Longrightarrow> 0 < sr_Interval s"
  shows "\<exists>tw' queued. dispatch_all t ids tw = Inr tw' \<and> queued = take (room (tw_checkQueue tw)) ids \<and>
    ch_items (tw_checkQueue tw') = ch_items (tw_checkQueue tw) @ map (job_of tw) queued \<and>
    (\<forall>rid \<in> set ids. due t tw' rid \<longleftrightarrow> rid \<notin> set queued) \<and>
    (\<forall>rid. rid \<notin> set ids \<longrightarrow> tw_schedules tw' rid = tw_schedules tw rid \<and> \<not> due t tw' rid)"
proof -
  let ?queued = "take (room (tw_checkQueue tw)) ids"
  have "\<forall>rid \<in> set ids. tw_schedules tw rid \<noteq> None"
    using assms(2) by (auto simp: due_def split: option.splits)
  from dispatch_all_spec [OF assms(1) this assms(3), of t] obtain tw' where
    tw': "dispatch_all t ids tw = Inr tw'"
      "ch_items (tw_checkQueue tw') = ch_items (tw_checkQueue tw) @ map (job_of tw) ?queued"
      "tw_schedules tw' = advance_due t (set ?queued) tw" "tw_paused tw' = tw_paused tw"
    by blast
  have same: "tw_schedules tw' rid = tw_schedules tw rid" if "rid \<notin> set ?queued" for rid
    using that tw'(3) by (simp add: advance_due_def split: option.split)
  then have undisturbed: "due t tw' rid = due t tw rid" if "rid \<notin> set ?queued" for rid
    using that tw'(4) by (simp add: due_def is_paused_def split: option.split)
  have served: "\<not> due t tw' rid" if "rid \<in> set ?queued" for rid
    using that tw'(3) assms(4) by (auto simp: due_def advance_due_def split: option.splits) (meson order_less_asym')
  have sub: "set ?queued \<subseteq> set ids"
    by (rule set_take_subset)
  show ?thesis
    using tw'(1,2) same undisturbed served sub assms(2) by blast
qed

definition demo_wheel :: wheel where
  "demo_wheel = projr (Start 0 (Some [\<lparr>si_ResourceID = ''a'', si_Interval = Second, si_Paused = False\<rparr>,
       \<lparr>si_ResourceID = ''b'', si_Interval = Second, si_Paused = False\<rparr>,
       \<lparr>si_ResourceID = ''c'', si_Interval = Second, si_Paused = True\<rparr>])
     (NewTimingWheel \<lparr>wc_TickInterval = Second, wc_MaxWorkers = 1, wc_NotificationQueueSize = 2\<rparr>))"

lemma demo_wheel_schedules:
  "tw_schedules demo_wheel = [''a'' \<mapsto> \<lparr>sr_Interval = Second, sr_NextDue = Second\<rparr>, ''b'' \<mapsto> \<lparr>sr_Interval = Second, sr_NextDue = Second\<rparr>]"
  "tw_paused demo_wheel = Map.empty" "tw_checkQueue demo_wheel = make_chan 1"
  by (simp_all add: demo_wheel_def Start_def NewTimingWheel_def)

theorem tick_accounts_for_due_witness:
  "\<exists>tw'. dispatch_all (2 * Second) [''b'', ''a''] demo_wheel = Inr tw' \<and>
     map cj_ResourceID (ch_items (tw_checkQueue tw')) = [''b''] \<and> due (2 * Second) tw' ''a''"
proof -
  have "rid \<in> set [''b'', ''a''] \<longleftrightarrow> due (2 * Second) demo_wheel rid" for rid
    by (auto simp: due_def is_paused_def demo_wheel_schedules)
  moreover have "0 < sr_Interval s" if "tw_schedules demo_wheel rid = Some s" for rid s
    using that by (auto simp: demo_wheel_schedules split: if_splits)
  moreover have "distinct [''b'', ''a'']" "\<not> ch_closed (tw_checkQueue demo_wheel)"
    by (simp_all add: demo_wheel_schedules make_chan_def)
  ultimately obtain tw' queued where "dispatch_all (2 * Second) [''b'', ''a''] demo_wheel = Inr tw'"
    and q: "queued = take (room (tw_checkQueue demo_wheel)) [''b'', ''a'']"
    and "ch_items (tw_checkQueue tw') = ch_items (tw_checkQueue demo_wheel) @ map (job_of demo_wheel) queued"
    and "\<forall>rid \<in> set [''b'', ''a'']. due (2 * Second) tw' rid \<longleftrightarrow> rid \<notin> set queued"
    using tick_accounts_for_due [of "[''b'', ''a'']" "2 * Second" demo_wheel] by blast
  moreover have "queued = [''b'']"
    using q by (simp add: demo_wheel_schedules make_chan_def room_def)
  ultimately show ?thesis
    by (simp add: demo_wheel_schedules make_chan_def job_of_def room_def del: dispatch_all.simps)
qed

text \<open>What a consumer takes is what the loop queued, in that order.\<close>

lemma queue_order:
  assumes "ch_items q = []" "chan.send_all jobs q = Some q'"
  shows "\<exists>q''. chan.recv_n (length jobs) q' = Some (jobs, q'')"
  using assms by (rule chan.fifo)

section \<open>Interleavings\<close>

datatype sys = Sys time wheel | Crashed error

inductive wheel_step :: "sys \<Rightarrow> sys \<Rightarrow> bool" where
  advance: "t \<le> t' \<Longrightarrow> wheel_step (Sys t tw) (Sys t' tw)"
| start: "Start t loaded tw = Inr tw' \<Longrightarrow> tw_pc tw = NotStarted \<or> tw_pc tw = Exited \<Longrightarrow> wheel_step (Sys t tw) (Sys t tw')"
| stop: "request_stop tw = Inr tw' \<Longrightarrow> wheel_step (Sys t tw) (Sys t tw')"
| stop_return: "tw_stop tw \<Longrightarrow> finish_stop (tw_pc tw = Exited) tw = (r, tw') \<Longrightarrow> wheel_step (Sys t tw) (Sys t tw')"
| schedule: "Schedule t rid interval tw = Inr tw' \<Longrightarrow> wheel_step (Sys t tw) (Sys t tw')"
| unschedule: "wheel_step (Sys t tw) (Sys t (Unschedule rid tw))"
| pause: "wheel_step (Sys t tw) (Sys t (Pause rid tw))"
| resume: "wheel_step (Sys t tw) (Sys t (Resume rid tw))"
| tick: "tw_pc tw = Waiting \<Longrightarrow> distinct ids \<Longrightarrow> (\<And>rid. rid \<in> set ids \<longleftrightarrow> due t tw rid) \<Longrightarrow>
    wheel_step (Sys t tw) (Sys t (tw\<lparr>tw_pc := Dispatching ids\<rparr>))"
| dispatch: "tw_pc tw = Dispatching (rid # ids) \<Longrightarrow> dispatch_head tw = Inr tw' \<Longrightarrow> wheel_step (Sys t tw) (Sys t tw')"
| dispatch_panic: "tw_pc tw = Dispatching (rid # ids) \<Longrightarrow> dispatch_head tw = Inl err \<Longrightarrow> wheel_step (Sys t tw) (Crashed err)"
| finish: "tw_pc tw = Enqueued rid i ids \<Longrightarrow> finish_dispatch t tw = Inr tw' \<Longrightarrow> wheel_step (Sys t tw) (Sys t tw')"
| finish_panic: "tw_pc tw = Enqueued rid i ids \<Longrightarrow> finish_dispatch t tw = Inl err \<Longrightarrow> wheel_step (Sys t tw) (Crashed err)"
| tick_done: "tw_pc tw = Dispatching [] \<Longrightarrow> wheel_step (Sys t tw) (Sys t (tw\<lparr>tw_pc := Waiting\<rparr>))"
| exit: "tw_pc tw = Waiting \<Longrightarrow> tw_stop tw \<Longrightarrow>
    wheel_step (Sys t tw) (Sys t ((cleanup tw)\<lparr>tw_state := StateStopped, tw_pc := Exited\<rparr>))"
| take_check: "try_recv (tw_checkQueue tw) = Some (j, q) \<Longrightarrow> wheel_step (Sys t tw) (Sys t (tw\<lparr>tw_checkQueue := q\<rparr>))"
| take_notif: "try_recv (tw_notifQueue tw) = Some (n, q) \<Longrightarrow> wheel_step (Sys t tw) (Sys t (tw\<lparr>tw_notifQueue := q\<rparr>))"
| notify: "EnqueueNotification i ty tw = (r, tw') \<Longrightarrow> (\<And>m. r \<noteq> Some (Panic m)) \<Longrightarrow> wheel_step (Sys t tw) (Sys t tw')"
| notify_panic: "EnqueueNotification i ty tw = (Some (Panic m), tw') \<Longrightarrow> wheel_step (Sys t tw) (Crashed (Panic m))"


inductive wheel_reachable :: "timing_wheel_config \<Rightarrow> sys \<Rightarrow> bool" for cfg where
  initial: "wheel_reachable cfg (Sys t (NewTimingWheel cfg))"
| step: "wheel_reachable cfg s \<Longrightarrow> wheel_step s s' \<Longrightarrow> wheel_reachable cfg s'"

fun pc_ok :: "pc \<Rightarrow> bool" where
  "pc_ok (Dispatching ids) = distinct ids"
| "pc_ok (Enqueued rid i ids) = (distinct (rid # ids) \<and> 0 < i)"
| "pc_ok _ = True"

definition wheel_ok :: "timing_wheel_config \<Rightarrow> wheel \<Rightarrow> bool" where
  "wheel_ok cfg tw \<longleftrightarrow> tw_config tw = cfg \<and>
     chan_ok (tw_checkQueue tw) \<and> ch_cap (tw_checkQueue tw) = wc_MaxWorkers cfg \<and>
     chan_ok (tw_notifQueue tw) \<and> ch_cap (tw_notifQueue tw) = wc_NotificationQueueSize cfg \<and>
     (\<forall>rid s. tw_schedules tw rid = Some s \<longrightarrow> 0 < sr_Interval s) \<and>
     (\<forall>j \<in> set (ch_items (tw_checkQueue tw)). 0 < cj_Interval j) \<and>
     finite (dom (tw_schedules tw)) \<and>
     (ch_closed (tw_checkQueue tw) \<longleftrightarrow> tw_pc tw = Exited) \<and> (ch_closed (tw_notifQueue tw) \<longleftrightarrow> tw_pc tw = Exited) \<and>
     pc_ok (tw_pc tw)"

lemma wheel_okI:
  assumes "tw_config tw = cfg" "chan_ok (tw_checkQueue tw)" "ch_cap (tw_checkQueue tw) = wc_MaxWorkers cfg"
    "chan_ok (tw_notifQueue tw)" "ch_cap (tw_notifQueue tw) = wc_NotificationQueueSize cfg"
    "\<And>rid s. tw_schedules tw rid = Some s \<Longrightarrow> 0 < sr_Interval s"
    "\<And>j. j \<in> set (ch_items (tw_checkQueue tw)) \<Longrightarrow> 0 < cj_Interval j"
    "finite (dom (tw_schedules tw))"
    "ch_closed (tw_checkQueue tw) \<longleftrightarrow> tw_pc tw = Exited" "ch_closed (tw_notifQueue tw) \<longleftrightarrow> tw_pc tw = Exited"
    "pc_ok (tw_pc tw)"
  shows "wheel_ok cfg tw"
  using assms by (simp add: wheel_ok_def)

lemma load_items_pos:
  assumes "\<forall>rid s. m rid = Some s \<longrightarrow> 0 < sr_Interval s"
  shows "\<forall>rid s. load_items t is m rid = Some s \<longrightarrow> 0 < sr_Interval s"
  using assms
proof (induction "is" arbitrary: m)
  case (Cons i "is")
  show ?case
    unfolding load_items.simps using Cons.prems by (intro Cons.IH) simp
qed simp

lemma load_items_finite: "finite (dom m) \<Longrightarrow> finite (dom (load_items t is m))"
  by (induction "is" arbitrary: m) auto

lemma Start_ok:
  assumes "wheel_ok cfg tw" "Start t loaded tw = Inr tw'"
  shows "wheel_ok cfg tw'"
  using assms load_items_pos [of Map.empty t] load_items_finite [of Map.empty t] unfolding Start_def
  by (intro wheel_okI) (auto simp: wheel_ok_def make_chan_def chan_ok_def split: if_splits option.splits)

lemma dispatch_ok:
  assumes "wheel_ok cfg tw" "tw_pc tw = Dispatching (rid # ids)" "dispatch_head tw = Inr tw'"
  shows "wheel_ok cfg tw'"
  using assms
  by (intro wheel_okI)
    (auto simp: wheel_ok_def dispatch_head_def try_send_def chan_ok_def split: option.splits chan_send.splits if_splits)

lemma finish_ok:
  assumes "wheel_ok cfg tw" "tw_pc tw = Enqueued rid i ids" "finish_dispatch t tw = Inr tw'"
  shows "wheel_ok cfg tw'"
  using assms
  by (intro wheel_okI) (auto simp: wheel_ok_def finish_dispatch_def split: option.splits if_splits)

lemma Enqueue_ok:
  assumes "wheel_ok cfg tw" "EnqueueNotification i ty tw = (r, tw')"
  shows "wheel_ok cfg tw'"
  using assms
  by (intro wheel_okI)
    (auto simp: wheel_ok_def EnqueueNotification_def try_send_def chan_ok_def split: option.splits chan_send.splits if_splits)

lemma calls_ok:
  assumes "wheel_ok cfg tw"
  shows "wheel_ok cfg (Unschedule rid tw)" "wheel_ok cfg (Pause rid tw)" "wheel_ok cfg (Resume rid tw)"
    and "Schedule t rid i tw = Inr tw' \<Longrightarrow> wheel_ok cfg tw'" and "request_stop tw = Inr tw' \<Longrightarrow> wheel_ok cfg tw'"
  using assms
  by (auto simp: wheel_ok_def Unschedule_def Pause_def Resume_def Schedule_def request_stop_def split: option.split if_splits)

lemma recv_ok:
  assumes "wheel_ok cfg tw"
  shows "try_recv (tw_checkQueue tw) = Some (j, q) \<Longrightarrow> wheel_ok cfg (tw\<lparr>tw_checkQueue := q\<rparr>)"
    and "try_recv (tw_notifQueue tw) = Some (n, q') \<Longrightarrow> wheel_ok cfg (tw\<lparr>tw_notifQueue := q'\<rparr>)"
  using assms
  by (auto simp: wheel_ok_def try_recv_def chan_ok_def split: list.splits)

lemma wheel_step_ok:
  assumes "wheel_step (Sys t tw) (Sys t' tw')" and ok: "wheel_ok cfg tw"
  shows "wheel_ok cfg tw'"
  using assms(1)
proof (cases rule: wheel_step.cases)
  case exit
  with ok show ?thesis
    by (simp add: wheel_ok_def cleanup_def close_chan_def chan_ok_def)
next
  case start
  with Start_ok [OF ok] show ?thesis by blast
next
  case dispatch
  with dispatch_ok [OF ok] show ?thesis by blast
next
  case finish
  with finish_ok [OF ok] show ?thesis by blast
next
  case notify
  with Enqueue_ok [OF ok] show ?thesis by blast
next
  case take_check
  with recv_ok(1) [OF ok] show ?thesis by blast
next
  case take_notif
  with recv_ok(2) [OF ok] show ?thesis by blast
next
  case schedule
  with calls_ok(4) [OF ok] show ?thesis by blast
next
  case stop_return
  with ok show ?thesis by (auto simp: finish_stop_def wheel_ok_def)
next
  case stop
  with calls_ok(5) [OF ok] show ?thesis by blast
next
  case unschedule
  with calls_ok(1) [OF ok] show ?thesis by simp
next
  case pause
  with calls_ok(2) [OF ok] show ?thesis by simp
next
  case resume
  with calls_ok(3) [OF ok] show ?thesis by simp
qed (use ok in \<open>simp_all add: wheel_ok_def\<close>)

lemma reachable_ok:
  assumes "wheel_reachable cfg (Sys t tw)"
  shows "wheel_ok cfg tw"
proof -
  have "wheel_reachable cfg s \<Longrightarrow> s = Sys t tw \<Longrightarrow> wheel_ok cfg tw" for s t tw
  proof (induction arbitrary: t tw rule: wheel_reachable.induct)
    case (initial t0)
    then show ?case
      by (auto simp: wheel_ok_def NewTimingWheel_def make_chan_def chan_ok_def)
  next
    case (step s s')
    then obtain t1 tw1 where "s = Sys t1 tw1"
      by (cases s) (auto elim: wheel_step.cases)
    with step wheel_step_ok [of t1 tw1] show ?case by blast
  qed
  with assms show ?thesis by blast
qed


definition demo_wheel_config :: timing_wheel_config where
  "demo_wheel_config = \<lparr>wc_TickInterval = Second, wc_MaxWorkers = 1, wc_NotificationQueueSize = 2\<rparr>"

lemma demo_wheel_reachable: "wheel_reachable demo_wheel_config (Sys 0 demo_wheel)"
proof -
  let ?items = "Some [\<lparr>si_ResourceID = ''a'', si_Interval = Second, si_Paused = False\<rparr>,
       \<lparr>si_ResourceID = ''b'', si_Interval = Second, si_Paused = False\<rparr>,
       \<lparr>si_ResourceID = ''c'', si_Interval = Second, si_Paused = True\<rparr>]"
  have "Start 0 ?items (NewTimingWheel demo_wheel_config) = Inr demo_wheel"
    by (simp add: demo_wheel_def demo_wheel_config_def Start_def NewTimingWheel_def)
  moreover have "tw_pc (NewTimingWheel demo_wheel_config) = NotStarted"
    by (simp add: NewTimingWheel_def)
  ultimately show ?thesis
    using wheel_reachable.step [OF wheel_reachable.initial] wheel_step.start by blast
qed


section \<open>Panics\<close>

definition nil_dereference :: error where
  "nil_dereference = Panic ''invalid memory address or nil pointer dereference''"

definition closed_send :: error where
  "closed_send = Panic ''send on closed channel''"


lemma distinct_first:
  assumes "finite A" "x \<in> A"
  obtains xs where "set (x # xs) = A" "distinct (x # xs)"
proof -
  from assms(1) obtain ys where "set ys = A - {x}" "distinct ys"
    using finite_distinct_list [of "A - {x}"] by auto
  with assms(2) that [of ys] show ?thesis by auto
qed

text \<open>
  The first of these panics is a race that the scheduler does not exclude: whenever the loop waits
  with room in the check queue and some resource is due, a tick that is interrupted by a call of
  \<open>Unschedule\<close> for that resource, between the send and the lock, ends in a nil dereference.
\<close>

theorem unschedule_during_tick_crashes:
  assumes "wheel_reachable cfg (Sys t tw)" "tw_pc tw = Waiting" "due t tw rid" "0 < room (tw_checkQueue tw)"
  shows "wheel_step\<^sup>*\<^sup>* (Sys t tw) (Crashed nil_dereference)"
proof -
  have ok: "wheel_ok cfg tw" by (rule reachable_ok [OF assms(1)])
  have "{r. due t tw r} \<subseteq> dom (tw_schedules tw)"
    by (auto simp: due_def split: option.splits)
  with ok have "finite {r. due t tw r}"
    by (auto simp: wheel_ok_def intro: finite_subset)
  with assms(3) obtain ids where ids: "set (rid # ids) = {r. due t tw r}" "distinct (rid # ids)"
    using distinct_first [of "{r. due t tw r}" rid] by auto
  obtain s where s: "tw_schedules tw rid = Some s"
    using assms(3) by (auto simp: due_def split: option.splits)
  let ?tw1 = "tw\<lparr>tw_pc := Dispatching (rid # ids)\<rparr>"
  have open_room: "\<not> ch_closed (tw_checkQueue tw)" "length (ch_items (tw_checkQueue tw)) < ch_cap (tw_checkQueue tw)"
    using ok assms(2,4) by (auto simp: wheel_ok_def room_def)
  then obtain tw2 where tw2: "dispatch_head ?tw1 = Inr tw2" "tw_pc tw2 = Enqueued rid (sr_Interval s) ids"
    using s by (simp add: dispatch_head_def try_send_def)
  let ?tw3 = "Unschedule rid tw2"
  have pc3: "tw_pc ?tw3 = Enqueued rid (sr_Interval s) ids" and gone: "tw_schedules ?tw3 rid = None"
    using tw2 by (simp_all add: Unschedule_def)
  have "wheel_step (Sys t tw) (Sys t ?tw1)"
    using wheel_step.tick [OF assms(2) ids(2)] ids(1) by blast
  moreover have "wheel_step (Sys t ?tw1) (Sys t tw2)"
    using wheel_step.dispatch [of ?tw1 rid ids tw2 t] tw2(1) by simp
  moreover have "wheel_step (Sys t tw2) (Sys t ?tw3)"
    by (rule wheel_step.unschedule)
  moreover have "wheel_step (Sys t ?tw3) (Crashed nil_dereference)"
    using wheel_step.finish_panic [OF pc3] pc3 gone by (simp add: finish_dispatch_def nil_dereference_def)
  ultimately show ?thesis
    by (meson converse_rtranclp_into_rtranclp rtranclp.rtrancl_refl)
qed

theorem unschedule_during_tick_crashes_witness:
  "wheel_step\<^sup>*\<^sup>* (Sys (2 * Second) demo_wheel) (Crashed nil_dereference)"
proof (rule unschedule_during_tick_crashes [of demo_wheel_config _ _ "''a''"])
  show "wheel_reachable demo_wheel_config (Sys (2 * Second) demo_wheel)"
    by (rule wheel_reachable.step [OF demo_wheel_reachable], rule wheel_step.advance) simp
  show "tw_pc demo_wheel = Waiting"
    by (simp add: demo_wheel_def Start_def NewTimingWheel_def)
  show "due (2 * Second) demo_wheel ''a''"
    by (simp add: due_def is_paused_def demo_wheel_schedules)
  show "0 < room (tw_checkQueue demo_wheel)"
    by (simp add: demo_wheel_schedules make_chan_def room_def)
qed

text \<open>
  The second needs no race: once the loop has ended, a call of \<open>EnqueueNotification\<close> with either
  valid event type sends on a closed channel. The call is not guarded by the state of the scheduler.
\<close>

theorem notification_after_stop_panics:
  assumes "wheel_reachable cfg (Sys t tw)" "tw_pc tw = Exited" "ValidateNotificationEventType ty = None"
  shows "EnqueueNotification i ty tw = (Some closed_send, tw)"
  using reachable_ok [OF assms(1)] assms(2,3)
  by (simp add: wheel_ok_def EnqueueNotification_def try_send_def closed_send_def)

definition demo_exited :: wheel where
  "demo_exited = (cleanup (projr (request_stop demo_wheel)))\<lparr>tw_state := StateStopped, tw_pc := Exited\<rparr>"

lemma demo_exited_reachable: "wheel_reachable demo_wheel_config (Sys 0 demo_exited)"
proof -
  have "request_stop demo_wheel = Inr (projr (request_stop demo_wheel))"
    by (simp add: demo_wheel_def Start_def NewTimingWheel_def request_stop_def)
  then have "wheel_reachable demo_wheel_config (Sys 0 (projr (request_stop demo_wheel)))"
    using wheel_reachable.step [OF demo_wheel_reachable] wheel_step.stop by blast
  moreover have "tw_pc (projr (request_stop demo_wheel)) = Waiting" "tw_stop (projr (request_stop demo_wheel))"
    by (simp_all add: demo_wheel_def Start_def NewTimingWheel_def request_stop_def)
  ultimately show ?thesis
    unfolding demo_exited_def by (blast intro: wheel_reachable.step wheel_step.exit)
qed

theorem notification_after_stop_panics_witness:
  "EnqueueNotification ''i'' ''resource_up_alert'' demo_exited = (Some closed_send, demo_exited)"
  by (rule notification_after_stop_panics [OF demo_exited_reachable])
    (simp_all add: demo_exited_def ValidateNotificationEventType_def)


section \<open>Mode selection\<close>

text \<open>
  Whatever the environment asks for, the detected mode is one the factory accepts: \<open>DetectMode\<close>
  yields one of the two known modes, and when \<open>ValidateSelector\<close> accepts it with the Redis address,
  \<open>New\<close> succeeds with the scheduler of that mode; when it does not, \<open>New\<close> fails with the same error.
\<close>

theorem detected_mode_accepted:
  "let mode = DetectMode explicit driver;
       cfg = \<lparr>sc_Mode = mode, sc_TimingWheel = wheel, sc_RedisURL = url\<rparr>
   in mode \<in> {ModeTimingWheel, ModeAsynq} \<and>
      New (Some cfg) = (case ValidateSelector mode url of
          Some err \<Rightarrow> Inl err
        | None \<Rightarrow> Inr (if mode = ModeAsynq then NewAsynqScheduler cfg else NewTimingWheelScheduler wheel))"
  by (simp add: Let_def DetectMode_def New_def ValidateSelector_def)

end
