(* ===== verification/Safenet.thy ===== *)
theory Safenet
  imports Domain "HOL-Library.Word"
begin

text \<open>
  The guard against server-side request forgery (\<open>src/pkg/safenet/safenet.go\<close>, \<open>transport.go\<close>).

  A \<open>net.IP\<close> is a list of bytes, four or sixteen of them. \<open>net.ParseIP\<close> is modelled on strings; its
  result always has sixteen bytes. What the resolver answers and whether a dial succeeds are
  parameters, fresh for each call, so that an answer may change from one call to the next.
  \<open>net.SplitHostPort\<close> is modelled on strings; \<open>url.ParseRequestURI\<close> is a parameter too.
\<close>

unbundle bit_operations_syntax

type_synonym byte = "8 word"
type_synonym ip = "byte list"

section \<open>Addresses\<close>

text \<open>\<open>IP.To4\<close>.\<close>

definition to4 :: "ip \<Rightarrow> ip option" where
  "to4 a =
     (if length a = 4 then Some a
      else if length a = 16 \<and> take 10 a = replicate 10 0 \<and> a ! 10 = 255 \<and> a ! 11 = 255 then Some (drop 12 a)
      else None)"

record ip_net =
  net_ip :: ip
  net_mask :: "byte list"

text \<open>\<open>IPNet.Contains\<close>.\<close>

definition net_contains :: "ip_net \<Rightarrow> ip \<Rightarrow> bool" where
  "net_contains n a0 =
     (let a = (case to4 a0 of Some x \<Rightarrow> x | None \<Rightarrow> a0)
      in length a = length (net_ip n) \<and>
         list_all (\<lambda>((x, m), y). x AND m = y AND m) (zip (zip (net_ip n) (net_mask n)) a))"

text \<open>The mask of a prefix length, \<open>net.CIDRMask\<close>.\<close>

fun cidr_mask :: "nat \<Rightarrow> nat \<Rightarrow> byte list" where
  "cidr_mask 0 n = []"
| "cidr_mask (Suc k) n = (if n \<ge> 8 then 255 # cidr_mask k (n - 8) else NOT (mask (8 - n)) # cidr_mask k 0)"

definition cidr :: "ip \<Rightarrow> nat \<Rightarrow> ip_net" where
  "cidr a n = \<lparr>net_ip = map2 (AND) a (cidr_mask (length a) n), net_mask = cidr_mask (length a) n\<rparr>"

section \<open>The block list\<close>

definition blockedCIDRs :: "ip_net list" where
  "blockedCIDRs = [cidr [127, 0, 0, 0] 8, cidr [10, 0, 0, 0] 8, cidr [172, 16, 0, 0] 12, cidr [192, 168, 0, 0] 16,
     cidr [169, 254, 0, 0] 16, cidr (replicate 15 0 @ [1]) 128, cidr ([0xfe, 0x80] @ replicate 14 0) 10,
     cidr (0xfc # replicate 15 0) 7]"

definition IsBlockedIP :: "ip \<Rightarrow> bool" where
  "IsBlockedIP a0 =
     (let a = (case to4 a0 of Some v4 \<Rightarrow> v4 | None \<Rightarrow> a0)
      in list_ex (\<lambda>n. net_contains n a) blockedCIDRs)"

definition ShouldBlock :: "bool \<Rightarrow> ip \<Rightarrow> bool" where
  "ShouldBlock allowPrivate a \<longleftrightarrow> \<not> allowPrivate \<and> IsBlockedIP a"

section \<open>Parsing addresses\<close>

definition parse_octet :: "string \<Rightarrow> byte option" where
  "parse_octet s =
     (if s = [] \<or> \<not> list_all is_digit s \<or> (length s > 1 \<and> hd s = CHR ''0'') then None
      else case digits_val 0 s of Some n \<Rightarrow> if n \<le> 255 then Some (word_of_nat n) else None | None \<Rightarrow> None)"

definition parse_ipv4 :: "string \<Rightarrow> ip option" where
  "parse_ipv4 s =
     (let parts = split_on CHR ''.'' s in if length parts = 4 then those (map parse_octet parts) else None)"

definition hex_digit :: "char \<Rightarrow> int option" where
  "hex_digit c =
     (if is_digit c then Some (of_char c - 48)
      else if CHR ''a'' \<le> c \<and> c \<le> CHR ''f'' then Some (of_char c - 87)
      else if CHR ''A'' \<le> c \<and> c \<le> CHR ''F'' then Some (of_char c - 55) else None)"

definition hex_prefix :: "string \<Rightarrow> string" where
  "hex_prefix s = takeWhile (\<lambda>c. hex_digit c \<noteq> None) s"

definition hex_val :: "string \<Rightarrow> int" where
  "hex_val s = foldl (\<lambda>acc c. 16 * acc + the (hex_digit c)) 0 s"

text \<open>
  The groups of an IPv6 address: \<open>k\<close> groups may follow, \<open>acc\<close> is what was read, \<open>ell\<close> the position of
  the ellipsis. The result is the bytes with the ellipsis, and the string must be used up.
\<close>

fun ipv6_groups :: "nat \<Rightarrow> ip \<Rightarrow> nat option \<Rightarrow> string \<Rightarrow> (ip \<times> nat option) option" where
  "ipv6_groups 0 acc ell s = (if s = [] then Some (acc, ell) else None)"
| "ipv6_groups (Suc k) acc ell s =
     (let ds = hex_prefix s; rest = drop (length ds) s in
      if ds = [] \<or> length ds > 4 then None
      else if rest \<noteq> [] \<and> hd rest = CHR ''.'' then
        (if (ell = None \<and> length acc \<noteq> 12) \<or> length acc + 4 > 16 then None
         else map_option (\<lambda>v4. (acc @ v4, ell)) (parse_ipv4 s))
      else
        (let acc' = acc @ [word_of_int (hex_val ds div 256), word_of_int (hex_val ds mod 256)] in
         case rest of
           [] \<Rightarrow> Some (acc', ell)
         | c # rest1 \<Rightarrow>
             if c \<noteq> CHR '':'' \<or> rest1 = [] then None
             else if hd rest1 = CHR '':'' then
               (if ell \<noteq> None then None
                else if tl rest1 = [] then Some (acc', Some (length acc'))
                else ipv6_groups k acc' (Some (length acc')) (tl rest1))
             else ipv6_groups k acc' ell rest1))"

definition expand_ellipsis :: "ip \<times> nat option \<Rightarrow> ip option" where
  "expand_ellipsis r =
     (case r of (acc, ell) \<Rightarrow>
        if length acc < 16
        then map_option (\<lambda>e. take e acc @ replicate (16 - length acc) 0 @ drop e acc) ell
        else if ell = None then Some acc else None)"

definition parse_ipv6 :: "string \<Rightarrow> ip option" where
  "parse_ipv6 s =
     (if take 2 s = ''::'' then
        (if drop 2 s = [] then Some (replicate 16 0)
         else Option.bind (ipv6_groups 8 [] (Some 0) (drop 2 s)) expand_ellipsis)
      else Option.bind (ipv6_groups 8 [] None s) expand_ellipsis)"

text \<open>\<open>net.ParseIP\<close>: the first separator decides; an address with a zone is refused.\<close>

definition v4_in_v6 :: "ip \<Rightarrow> ip" where
  "v4_in_v6 a = replicate 10 0 @ [255, 255] @ a"

definition ParseIP :: "string \<Rightarrow> ip option" where
  "ParseIP s =
     (case find (\<lambda>c. c \<in> {CHR ''.'', CHR '':'', CHR ''%''}) s of
        None \<Rightarrow> None
      | Some c \<Rightarrow>
          if c = CHR ''.'' then map_option v4_in_v6 (parse_ipv4 s)
          else if c = CHR '':'' \<and> CHR ''%'' \<notin> set s then parse_ipv6 s else None)"

text \<open>\<open>net.SplitHostPort\<close>: the port follows the last colon; a host with colons stands in brackets.\<close>

definition split_last :: "char \<Rightarrow> string \<Rightarrow> (string \<times> string) option" where
  "split_last c s =
     (case dropWhile (\<lambda>x. x \<noteq> c) (rev s) of [] \<Rightarrow> None | _ # r \<Rightarrow> Some (rev r, rev (takeWhile (\<lambda>x. x \<noteq> c) (rev s))))"

definition SplitHostPort :: "string \<Rightarrow> (string \<times> string) option" where
  "SplitHostPort s =
     (case split_last CHR '':'' s of
        None \<Rightarrow> None
      | Some (before, port) \<Rightarrow>
          if s \<noteq> [] \<and> hd s = CHR ''['' then
            (let host = takeWhile (\<lambda>x. x \<noteq> CHR '']'') (tl s)
             in if before = CHR ''['' # host @ '']'' \<and> CHR ''['' \<notin> set host \<and> CHR ''['' \<notin> set port \<and> CHR '']'' \<notin> set port
                then Some (host, port) else None)
          else if CHR '':'' \<in> set before \<or> CHR ''['' \<in> set s \<or> CHR '']'' \<in> set s then None
          else Some (before, port))"

section \<open>Validation of targets\<close>

record uri =
  u_Scheme :: string
  u_Host :: string
  u_Hostname :: string

record net_env =
  LookupHost :: "string \<Rightarrow> error + string list"
  ParseRequestURI :: "string \<Rightarrow> uri option"
  allow_private :: bool

definition private_error :: error where
  "private_error = Errorf ''internal/private network addresses are not permitted''"

definition ValidateResolvedIPs :: "net_env \<Rightarrow> string \<Rightarrow> error option" where
  "ValidateResolvedIPs ne host =
     (case ParseIP host of
        Some a \<Rightarrow> if ShouldBlock (allow_private ne) a then Some private_error else None
      | None \<Rightarrow>
          (case LookupHost ne host of
             Inl err \<Rightarrow> Some (Wrapf (''failed to resolve hostname '' @ host) err)
           | Inr ips \<Rightarrow>
               if list_ex (\<lambda>s. case ParseIP s of Some a \<Rightarrow> ShouldBlock (allow_private ne) a | None \<Rightarrow> False) ips
               then Some private_error else None))"

definition validateHTTPTarget :: "net_env \<Rightarrow> string \<Rightarrow> error option" where
  "validateHTTPTarget ne target =
     (case ParseRequestURI ne target of
        None \<Rightarrow> Some (Errorf ''invalid URL format'')
      | Some u \<Rightarrow>
          if u_Host u = '''' then Some (Errorf ''invalid URL format'')
          else if to_lower (u_Scheme u) \<noteq> ''http'' \<and> to_lower (u_Scheme u) \<noteq> ''https''
          then Some (Errorf ''only http and https schemes are allowed'')
          else ValidateResolvedIPs ne (u_Hostname u))"

definition validateHostPort :: "net_env \<Rightarrow> string \<Rightarrow> error option" where
  "validateHostPort ne target =
     ValidateResolvedIPs ne (case SplitHostPort target of Some (host, _) \<Rightarrow> host | None \<Rightarrow> target)"

definition ValidateAddress :: "net_env \<Rightarrow> string \<Rightarrow> string \<Rightarrow> error option" where
  "ValidateAddress ne target resourceType =
     (if resourceType \<in> {''http'', ''keyword''} then validateHTTPTarget ne target
      else if resourceType \<in> {''tcp'', ''protocol''} then validateHostPort ne target
      else if resourceType \<in> {''icmp'', ''dns''} then ValidateResolvedIPs ne target
      else None)"

section \<open>Dialling\<close>

definition resolveHost :: "net_env \<Rightarrow> string \<Rightarrow> error + ip list" where
  "resolveHost ne host =
     (case ParseIP host of
        Some a \<Rightarrow> Inr [a]
      | None \<Rightarrow>
          (case LookupHost ne host of
             Inl err \<Rightarrow> Inl (Wrapf (''safenet: failed to resolve '' @ host) err)
           | Inr addrs \<Rightarrow>
               (let ips = List.map_filter ParseIP addrs
                in if ips = [] then Inl (Errorf (''safenet: no valid IPs resolved for '' @ host)) else Inr ips)))"

text \<open>The addresses are dialled in order until one connects; the second component lists the attempts.\<close>

fun dial_loop :: "(ip \<Rightarrow> string \<Rightarrow> bool) \<Rightarrow> string \<Rightarrow> ip list \<Rightarrow> ip option \<times> ip list" where
  "dial_loop connects port [] = (None, [])"
| "dial_loop connects port (a # as) =
     (if connects a port then (Some a, [a])
      else case dial_loop connects port as of (r, tried) \<Rightarrow> (r, a # tried))"

text \<open>\<open>deadline\<close> is the time until the deadline of the context, when it has one.\<close>

definition SafeDial ::
    "net_env \<Rightarrow> (ip \<Rightarrow> string \<Rightarrow> bool) \<Rightarrow> duration option \<Rightarrow> string \<Rightarrow> (error + ip) \<times> ip list" where
  "SafeDial ne connects deadline addr =
     (case SplitHostPort addr of
        None \<Rightarrow> (Inl (Errorf (''safenet: invalid address '' @ addr)), [])
      | Some (host, port) \<Rightarrow>
          (case resolveHost ne host of
             Inl err \<Rightarrow> (Inl err, [])
           | Inr ips \<Rightarrow>
               if list_ex (ShouldBlock (allow_private ne)) ips
               then (Inl (Errorf (''safenet: connection to '' @ addr @
                  '' blocked: internal/private network addresses are not permitted'')), [])
               else if (case deadline of Some d \<Rightarrow> d \<le> 0 | None \<Rightarrow> False)
               then (Inl (ErrorNew ''context deadline exceeded''), [])
               else (case dial_loop connects port ips of
                  (Some a, tried) \<Rightarrow> (Inr a, tried)
                | (None, tried) \<Rightarrow>
                    (Inl (Errorf (''safenet: failed to connect to any resolved IP for '' @ addr)), tried))))"

section \<open>Which addresses are blocked\<close>

text \<open>The documented ranges, stated on the values of the bytes.\<close>

definition blocked_v4 :: "ip \<Rightarrow> bool" where
  "blocked_v4 a \<longleftrightarrow>
     (let x = unat (a ! 0); y = unat (a ! 1)
      in x = 127 \<or> x = 10 \<or> (x = 172 \<and> 16 \<le> y \<and> y \<le> 31) \<or> (x = 192 \<and> y = 168) \<or> (x = 169 \<and> y = 254))"

definition blocked_v6 :: "ip \<Rightarrow> bool" where
  "blocked_v6 a \<longleftrightarrow> length a = 16 \<and>
     (let x = unat (a ! 0); y = unat (a ! 1)
      in a = replicate 15 0 @ [1] \<or> x = 0xfc \<or> x = 0xfd \<or> (x = 0xfe \<and> 0x80 \<le> y \<and> y \<le> 0xbf))"

definition blocked_ranges :: "ip \<Rightarrow> bool" where
  "blocked_ranges a = (case to4 a of Some v4 \<Rightarrow> blocked_v4 v4 | None \<Rightarrow> blocked_v6 a)"

lemma byte_and_prefix:
  fixes b :: byte
  assumes "k \<le> 8"
  shows "b AND NOT (mask k) = push_bit k (drop_bit k b)"
  by (rule bit_eqI) (auto simp: bit_simps)

lemma byte_prefix_eq:
  fixes b :: byte
  assumes "k \<le> 8" "v < 2 ^ (8 - k)"
  shows "b AND NOT (mask k) = push_bit k (word_of_nat v) \<longleftrightarrow> unat b div 2 ^ k = v"
proof -
  have bound: "x * 2 ^ k < 2 ^ 8" if "x < 2 ^ (8 - k)" for x :: nat
  proof -
    have "x * 2 ^ k < 2 ^ (8 - k) * 2 ^ k"
      using that by simp
    then show ?thesis
      using assms(1) by (simp add: power_add [symmetric])
  qed
  have "(2 :: nat) ^ (8 - k) \<le> 2 ^ 8"
    by (rule power_increasing) simp_all
  with assms(2) have v: "v < 2 ^ 8"
    by simp
  have "unat b < 2 ^ 8"
    using unsigned_less [of b, where ?'a = nat] by simp
  then have top: "unat b div 2 ^ k < 2 ^ (8 - k)"
    using assms(1) by (simp add: less_mult_imp_div_less power_add [symmetric])
  have "unat (b AND NOT (mask k)) = unat b div 2 ^ k * 2 ^ k"
    using bound [OF top] \<open>unat b < 2 ^ 8\<close>
    unfolding byte_and_prefix [OF assms(1)] unsigned_push_bit_eq unsigned_drop_bit_eq
    by (simp add: push_bit_eq_mult drop_bit_eq_div take_bit_nat_eq_self)
  moreover have "unat (push_bit k (word_of_nat v) :: byte) = v * 2 ^ k"
    using bound [OF assms(2)] v unfolding unsigned_push_bit_eq unsigned_of_nat
    by (simp add: push_bit_eq_mult take_bit_nat_eq_self)
  ultimately show ?thesis
    by (simp add: word_unat_eq_iff)
qed

lemma byte_prefixes:
  fixes b :: byte
  shows "b AND 240 = 16 \<longleftrightarrow> unat b div 16 = 1"
    and "b AND 192 = 128 \<longleftrightarrow> unat b div 64 = 2"
    and "b AND 254 = 252 \<longleftrightarrow> unat b div 2 = 126"
proof -
  have masks: "NOT (mask 4) = (240 :: byte)" "NOT (mask 6) = (192 :: byte)" "NOT (mask 1) = (254 :: byte)"
    by (simp_all add: mask_eq_exp_minus_1)
  show "b AND 240 = 16 \<longleftrightarrow> unat b div 16 = 1" "b AND 192 = 128 \<longleftrightarrow> unat b div 64 = 2"
    "b AND 254 = 252 \<longleftrightarrow> unat b div 2 = 126"
    using byte_prefix_eq [of 4 1 b] byte_prefix_eq [of 6 2 b] byte_prefix_eq [of 1 126 b] unfolding masks
    by (simp_all add: push_bit_eq_mult)
qed

lemma byte_full [simp]: "b AND 255 = b" for b :: byte
proof -
  have "(255 :: byte) = - 1" by simp
  then show ?thesis by (simp only: and.right_neutral)
qed

lemma blocked_nets:
  "blockedCIDRs = [\<lparr>net_ip = [127, 0, 0, 0], net_mask = [255, 0, 0, 0]\<rparr>,
     \<lparr>net_ip = [10, 0, 0, 0], net_mask = [255, 0, 0, 0]\<rparr>, \<lparr>net_ip = [172, 16, 0, 0], net_mask = [255, 240, 0, 0]\<rparr>,
     \<lparr>net_ip = [192, 168, 0, 0], net_mask = [255, 255, 0, 0]\<rparr>, \<lparr>net_ip = [169, 254, 0, 0], net_mask = [255, 255, 0, 0]\<rparr>,
     \<lparr>net_ip = replicate 15 0 @ [1], net_mask = replicate 16 255\<rparr>,
     \<lparr>net_ip = [0xfe, 0x80] @ replicate 14 0, net_mask = [255, 192] @ replicate 14 0\<rparr>,
     \<lparr>net_ip = 0xfc # replicate 15 0, net_mask = 254 # replicate 15 0\<rparr>]"
  by code_simp

lemma length_4: "length a = 4 \<Longrightarrow> \<exists>w x y z. a = [w, x, y, z]"
  by (auto simp: eval_nat_numeral length_Suc_conv)

lemma length_16: "length a = 16 \<Longrightarrow> \<exists>x0 x1 x2 x3 x4 x5 x6 x7 x8 x9 x10 x11 x12 x13 x14 x15.
    a = [x0, x1, x2, x3, x4, x5, x6, x7, x8, x9, x10, x11, x12, x13, x14, x15]"
  by (auto simp: eval_nat_numeral length_Suc_conv)

lemma byte_eq_unat: "unat b = 127 \<longleftrightarrow> 127 = b" "unat b = 10 \<longleftrightarrow> 10 = b" "unat b = 172 \<longleftrightarrow> 172 = b"
    "unat b = 192 \<longleftrightarrow> 192 = b" "unat b = 168 \<longleftrightarrow> 168 = b" "unat b = 169 \<longleftrightarrow> 169 = b" "unat b = 254 \<longleftrightarrow> 254 = b"
  for b :: byte
  by (auto simp: word_unat_eq_iff)

lemma byte_ranges: "16 = b AND 240 \<longleftrightarrow> 16 \<le> unat b \<and> unat b \<le> 31" "128 = b AND 192 \<longleftrightarrow> 128 \<le> unat b \<and> unat b \<le> 191"
    "252 = b AND 254 \<longleftrightarrow> unat b = 252 \<or> unat b = 253"
  for b :: byte
  using byte_prefixes [of b] by (auto simp: eq_commute [of _ "b AND _"])

lemma net_contains_to4: "to4 a = Some v \<Longrightarrow> net_contains n a = net_contains n v"
  by (auto simp: net_contains_def to4_def split: if_splits)

lemma blocked_4:
  assumes "length a = 4"
  shows "list_ex (\<lambda>n. net_contains n a) blockedCIDRs \<longleftrightarrow> blocked_v4 a"
proof -
  obtain w x y z where a: "a = [w, x, y, z]"
    using length_4 [OF assms] by blast
  show ?thesis
    unfolding a blocked_nets
    by (simp add: net_contains_def to4_def blocked_v4_def byte_ranges byte_eq_unat Let_def)
qed

lemma blocked_16:
  assumes "to4 a = None"
  shows "list_ex (\<lambda>n. net_contains n a) blockedCIDRs \<longleftrightarrow> blocked_v6 a"
proof (cases "length a = 16")
  case True
  obtain x0 x1 x2 x3 x4 x5 x6 x7 x8 x9 x10 x11 x12 x13 x14 x15 where
    a: "a = [x0, x1, x2, x3, x4, x5, x6, x7, x8, x9, x10, x11, x12, x13, x14, x15]"
    using length_16 [OF True] by (elim exE) (rule that)
  have n: "net_contains n a \<longleftrightarrow> length a = length (net_ip n) \<and>
      list_all (\<lambda>((x, m), y). x AND m = y AND m) (zip (zip (net_ip n) (net_mask n)) a)" for n
    using assms by (simp add: net_contains_def)
  have reps: "replicate 14 0 = [0, 0, 0, 0, 0, 0, 0, 0, 0, 0, 0, 0, 0, 0 :: byte]"
      "replicate 15 0 = [0, 0, 0, 0, 0, 0, 0, 0, 0, 0, 0, 0, 0, 0, 0 :: byte]"
      "replicate 16 255 = [255, 255, 255, 255, 255, 255, 255, 255, 255, 255, 255, 255, 255, 255, 255, 255 :: byte]"
    by (simp_all add: numeral_eq_Suc)
  show ?thesis
    unfolding blocked_nets n reps blocked_v6_def Let_def unfolding a
    by (simp add: byte_ranges byte_eq_unat) auto
next
  case False
  with assms show ?thesis
    unfolding blocked_nets by (auto simp: net_contains_def to4_def blocked_v6_def split: if_splits)
qed

lemma IsBlockedIP_iff: "IsBlockedIP a \<longleftrightarrow> blocked_ranges a"
proof (cases "to4 a")
  case None
  then show ?thesis
    using blocked_16 [OF None] by (simp add: IsBlockedIP_def blocked_ranges_def)
next
  case (Some v)
  then have "length v = 4"
    by (auto simp: to4_def split: if_splits)
  then show ?thesis
    using Some blocked_4 by (simp add: IsBlockedIP_def blocked_ranges_def)
qed

lemma ShouldBlock_ranges: "ShouldBlock False = blocked_ranges"
  by (simp add: ShouldBlock_def IsBlockedIP_iff fun_eq_iff)

text \<open>
  C16: The block list covers exactly the documented ranges: the IPv4 loopback, private and link-local
  networks, the IPv6 loopback, link-local and unique local networks, and an IPv4 address written as a
  mapped IPv6 address is treated as that IPv4 address.
\<close>

theorem IsBlockedIP_ranges: "IsBlockedIP a \<longleftrightarrow> blocked_ranges a"
  by (rule IsBlockedIP_iff)

section \<open>No connection to a blocked address\<close>

lemma dial_loop_tried:
  "set (snd (dial_loop connects port as)) \<subseteq> set as"
  "fst (dial_loop connects port as) = Some a \<Longrightarrow> a \<in> set (snd (dial_loop connects port as)) \<and> connects a port"
  by (induction as) (auto split: prod.splits)

text \<open>
  C14: Unless private targets are allowed, no address in a blocked range is ever dialled, whatever the
  resolver answers at the time of the connection; a connection that is returned goes to one of the
  dialled addresses. The check of all addresses comes before the first dial, so that one blocked
  address among the answers prevents every dial.
\<close>

theorem SafeDial_never_blocked:
  assumes "SafeDial ne connects deadline addr = (r, tried)" and "\<not> allow_private ne"
  shows "(\<forall>a \<in> set tried. \<not> blocked_ranges a) \<and> (\<forall>a. r = Inr a \<longrightarrow> a \<in> set tried \<and> connects a (snd (the (SplitHostPort addr)))) \<and>
    (\<forall>host port ips. SplitHostPort addr = Some (host, port) \<longrightarrow> resolveHost ne host = Inr ips \<longrightarrow>
       list_ex blocked_ranges ips \<longrightarrow> tried = [])"
proof -
  note block = ShouldBlock_ranges
  show ?thesis
  proof (cases "SplitHostPort addr")
    case None
    with assms(1) show ?thesis by (auto simp: SafeDial_def)
  next
    case (Some hp)
    obtain host port where hp: "hp = (host, port)" by fastforce
    show ?thesis
    proof (cases "resolveHost ne host")
      case (Inl err)
      with assms(1) Some hp show ?thesis by (auto simp: SafeDial_def)
    next
      case (Inr ips)
      with assms Some hp dial_loop_tried [of connects port ips] show ?thesis
        by (auto simp: SafeDial_def block list_ex_iff split: if_splits option.splits prod.splits)
    qed
  qed
qed

text \<open>
  The check when a target is saved and the check when it is dialled agree: as long as the resolver
  gives the same answer, a target is refused by the one exactly when it is refused by the other.
\<close>

theorem validation_agrees_with_dial:
  assumes "SplitHostPort addr = Some (host, port)" and "resolveHost ne host = Inr ips"
  shows "(validateHostPort ne addr = None) \<longleftrightarrow> \<not> list_ex (ShouldBlock (allow_private ne)) ips"
  using assms
  by (auto simp: validateHostPort_def ValidateResolvedIPs_def resolveHost_def Let_def list_ex_iff map_filter_def image_iff
      split: option.splits sum.splits if_splits) force+

definition demo_net :: net_env where
  "demo_net = \<lparr>LookupHost = (\<lambda>h. if h = ''rebind.test'' then Inr [''93.184.216.34'', ''::ffff:169.254.169.254'']
       else Inr [''93.184.216.34'', ''2606:2800:220:1::34'']),
     ParseRequestURI = (\<lambda>_. None), allow_private = False\<rparr>"

theorem validation_agrees_with_dial_witness:
  "\<exists>ips. resolveHost demo_net ''rebind.test'' = Inr ips \<and>
     ((validateHostPort demo_net ''rebind.test:443'' = None) \<longleftrightarrow> \<not> list_ex (ShouldBlock False) ips)"
proof -
  have "SplitHostPort ''rebind.test:443'' = Some (''rebind.test'', ''443'')"
    and ok: "\<not> isl (resolveHost demo_net ''rebind.test'')"
    by code_simp+
  moreover obtain ips where "resolveHost demo_net ''rebind.test'' = Inr ips"
    using ok by (cases "resolveHost demo_net ''rebind.test''") auto
  ultimately show ?thesis
    using validation_agrees_with_dial [of "''rebind.test:443''"] by (simp add: demo_net_def)
qed

theorem SafeDial_never_blocked_witness:
  "\<exists>r. SafeDial demo_net (\<lambda>_ _. True) None ''rebind.test:443'' = (r, []) \<and>
   (\<exists>a. SafeDial demo_net (\<lambda>_ _. True) None ''example.org:443'' = (Inr a, [a]) \<and> \<not> blocked_ranges a)"
proof -
  let ?bad = "SafeDial demo_net (\<lambda>_ _. True) None ''rebind.test:443''"
  let ?good = "SafeDial demo_net (\<lambda>_ _. True) None ''example.org:443''"
  have priv: "\<not> allow_private demo_net"
    by (simp add: demo_net_def)
  have ips: "case resolveHost demo_net ''rebind.test'' of Inr ips \<Rightarrow> list_ex blocked_ranges ips | Inl _ \<Rightarrow> False"
    and split: "SplitHostPort ''rebind.test:443'' = Some (''rebind.test'', ''443'')"
    and good: "case ?good of (Inr a, [b]) \<Rightarrow> a = b | _ \<Rightarrow> False"
    by code_simp+
  have "snd ?bad = []"
    using SafeDial_never_blocked [of demo_net "\<lambda>_ _. True" None "''rebind.test:443''", OF prod.collapse [symmetric] priv] split ips
    by (auto split: sum.splits)
  moreover obtain a where "?good = (Inr a, [a])"
    using good by (auto split: prod.splits sum.splits list.splits)
  moreover from SafeDial_never_blocked [OF this(1) priv] have "\<not> blocked_ranges a"
    by auto
  ultimately show ?thesis
    by (metis prod.collapse)
qed

end
