(* ===== verification/Resources.thy ===== *)
theory Resources
  imports Components Safenet
begin

text \<open>
  The resource service: creation, update, deletion, pausing and resuming of monitors and their tags
  (\<open>src/internal/service/resource_service.go\<close>, \<open>resource_update.go\<close>, \<open>resource_lifecycle.go\<close>,
  \<open>resource_validation.go\<close>, \<open>resource_tags.go\<close>), the validation of targets
  (\<open>src/internal/domain/validation.go\<close>) and the enrichment of a monitor with certificate and domain
  data (\<open>enrichment_service.go\<close>), over the repositories of resources, tags and channels.

  A resource loaded from the repository carries the identifiers of its tags and channels beside its
  row (\<open>loaded\<close>); the repository writes the links of a monitor back with the row in one transaction.
  The lookups of DNS, TLS and WHOIS are parameters; the goroutine that enriches a monitor is run where
  it is started. Columns hold unbounded integers, as the 64-bit SQLite columns do for the values the
  service accepts.
\<close>

section \<open>Repository methods\<close>

definition ErrSchedulerSync :: error where "ErrSchedulerSync = ErrorNew ''scheduler synchronization failed''"
definition ErrICMPUnavailable :: error where
  "ErrICMPUnavailable = ErrorNew ''ICMP monitoring is unavailable: enable ENABLE_ICMP and ensure raw socket capability''"

record loaded =
  lo_Row :: resource
  lo_Tags :: "string list"
  lo_Channels :: "string list"

definition links_of :: "string \<Rightarrow> (string \<times> string) list \<Rightarrow> string list" where
  "links_of rid links = map snd (filter (\<lambda>(r, _). r = rid) links)"

text \<open>\<open>diffJunctionSets\<close> and the unlink and link statements that follow it.\<close>

definition diffJunctionSets :: "string list \<Rightarrow> string list \<Rightarrow> string list \<times> string list" where
  "diffJunctionSets current target =
     (filter (\<lambda>i. \<not> List.member current i) (remdups target), filter (\<lambda>i. \<not> List.member target i) (remdups current))"

definition relink :: "string \<Rightarrow> string list \<Rightarrow> (string \<times> string) list \<Rightarrow> (string \<times> string) list" where
  "relink rid target links =
     (case diffJunctionSets (links_of rid links) target of (toAdd, toRemove) \<Rightarrow>
        filter (\<lambda>(r, t). \<not> (r = rid \<and> List.member toRemove t)) links @ map (Pair rid) toAdd)"

definition Resources_Load :: "env \<Rightarrow> string \<Rightarrow> (world, error + loaded) state" where
  "Resources_Load e rid = do {
     r \<leftarrow> repo_query e (\<lambda>w. case active_row rid (resources w) of
            None \<Rightarrow> Inl ErrNotFound
          | Some x \<Rightarrow> Inr \<lparr>lo_Row = x, lo_Tags = links_of rid (resource_tags w), lo_Channels = links_of rid (resource_channels w)\<rparr>);
     State_Monad.return (wrap_db ''sqlc: find resource by id'' r)
   }"

definition Resources_Save :: "env \<Rightarrow> loaded \<Rightarrow> (world, error option) state" where
  "Resources_Save e l = do {
     t \<leftarrow> now e;
     let res = lo_Row l;
     r \<leftarrow> repo_call e (\<lambda>w. (Inr (), w\<lparr>resources := tbl_update r_ID (r_ID res) (main_columns res) (resources w),
            resource_tags := relink (r_ID res) (lo_Tags l) (resource_tags w),
            resource_channels := relink (r_ID res) (lo_Channels l) (resource_channels w)\<rparr>));
     State_Monad.return (error_of (wrap_db ''sqlc: update resource'' r))
   }"

definition with_defaults :: "string \<Rightarrow> time \<Rightarrow> resource \<Rightarrow> resource" where
  "with_defaults i t res = res\<lparr>r_ID := i,
     r_CreatedAt := (if r_CreatedAt res = zero_time then t else r_CreatedAt res),
     r_Interval := (if r_Interval res = 0 then 300 else r_Interval res),
     r_Timeout := (if r_Timeout res = 0 then 10 else r_Timeout res)\<rparr>"

definition Resources_Create :: "env \<Rightarrow> loaded \<Rightarrow> (world, error + resource) state" where
  "Resources_Create e l = do {
     i \<leftarrow> EnsureID e (r_ID (lo_Row l));
     t \<leftarrow> now e;
     let res = with_defaults i t (lo_Row l);
     r \<leftarrow> repo_call e (\<lambda>w. if tbl_has r_ID i (resources w) then (Inl ErrDB, w)
            else (Inr res, w\<lparr>resources := resources w @ [res],
                    resource_tags := relink i (lo_Tags l) (resource_tags w),
                    resource_channels := relink i (lo_Channels l) (resource_channels w)\<rparr>));
     State_Monad.return (wrap_db ''sqlc: create resource'' r)
   }"

definition Resources_Delete :: "env \<Rightarrow> string \<Rightarrow> (world, error option) state" where
  "Resources_Delete e rid =
     Resources_execUpdate e ''sqlc: delete resource'' rid r_IsActive (\<lambda>r. r\<lparr>r_IsActive := False\<rparr>)"

definition Resources_UpdateMetadata :: "env \<Rightarrow> string \<Rightarrow> resource_meta_data \<Rightarrow> (world, error option) state" where
  "Resources_UpdateMetadata e rid m =
     Resources_execUpdate e ''sqlc: dynamic update resources'' rid (\<lambda>_. True) (\<lambda>r. r\<lparr>r_Metadata := Some m\<rparr>)"

definition newest_first :: "resource list \<Rightarrow> resource list" where
  "newest_first rs = sort_key (\<lambda>r. - r_CreatedAt r) rs"

definition Resources_FindActive :: "env \<Rightarrow> nat \<Rightarrow> nat \<Rightarrow> (world, error + resource list) state" where
  "Resources_FindActive e limit offset = do {
     r \<leftarrow> repo_query e (\<lambda>w. Inr (page limit offset (newest_first (filter r_IsActive (resources w)))));
     State_Monad.return (wrap_db ''sqlc: list active resources'' r)
   }"

definition Incidents_FindActiveByResourceID :: "env \<Rightarrow> string \<Rightarrow> (world, error + incident) state" where
  "Incidents_FindActiveByResourceID e rid = do {
     r \<leftarrow> repo_query e (\<lambda>w. case filter (\<lambda>i. i_ResolvedAt i = None) (incidents_of rid (incidents w)) of
            [] \<Rightarrow> Inl ErrNotFound | i # _ \<Rightarrow> Inr i);
     State_Monad.return (wrap_db ''sqlc: find active incident by resource'' r)
   }"

definition Tags_FindByID :: "env \<Rightarrow> string \<Rightarrow> (world, error + tag) state" where
  "Tags_FindByID e i = do {
     r \<leftarrow> repo_query e (\<lambda>w. case tbl_find tg_ID i (tags w) of None \<Rightarrow> Inl ErrNotFound | Some t \<Rightarrow> Inr t);
     State_Monad.return (wrap_db ''sqlc: find tag by id'' r)
   }"

definition Tags_FindByName :: "env \<Rightarrow> string \<Rightarrow> (world, error + tag) state" where
  "Tags_FindByName e name = do {
     r \<leftarrow> repo_query e (\<lambda>w. case find (\<lambda>t. tg_Name t = name) (tags w) of None \<Rightarrow> Inl ErrNotFound | Some t \<Rightarrow> Inr t);
     State_Monad.return (wrap_db ''sqlc: find tag by name'' r)
   }"

text \<open>Names of tags are unique.\<close>

definition Tags_Create :: "env \<Rightarrow> tag \<Rightarrow> (world, error + tag) state" where
  "Tags_Create e tg = do {
     i \<leftarrow> EnsureID e (tg_ID tg);
     t \<leftarrow> now e;
     let tg' = tg\<lparr>tg_ID := i, tg_CreatedAt := (if tg_CreatedAt tg = zero_time then t else tg_CreatedAt tg)\<rparr>;
     r \<leftarrow> repo_call e (\<lambda>w. if tbl_has tg_ID i (tags w) \<or> list_ex (\<lambda>x. tg_Name x = tg_Name tg) (tags w) then (Inl ErrDB, w)
            else (Inr tg', w\<lparr>tags := tags w @ [tg']\<rparr>));
     State_Monad.return (wrap_db ''sqlc: create tag'' r)
   }"

definition Channels_List :: "env \<Rightarrow> nat \<Rightarrow> nat \<Rightarrow> (world, error + notification_channel list) state" where
  "Channels_List e limit offset = do {
     r \<leftarrow> repo_query e (\<lambda>w. Inr (page limit offset (sort_key (\<lambda>c. - ch_CreatedAt c) (channels w))));
     State_Monad.return (wrap_db ''sqlc: list notification channels'' r)
   }"

text \<open>A call to the scheduler of the monitors, which may fail.\<close>

definition scheduler_call :: "env \<Rightarrow> monitor_call \<Rightarrow> (world, error option) state" where
  "scheduler_call e c = do {
     r \<leftarrow> repo_call e (\<lambda>w. (Inr (), w\<lparr>monitor_calls := monitor_calls w @ [c]\<rparr>));
     State_Monad.return (error_of r)
   }"

section \<open>Validation of targets (domain/validation.go)\<close>

definition checkHTTPTarget :: "net_env \<Rightarrow> string \<Rightarrow> error option" where
  "checkHTTPTarget ne target =
     (case ParseRequestURI ne target of
        None \<Rightarrow> Some (ErrorNew ''invalid URL format for HTTP target'')
      | Some u \<Rightarrow>
          if u_Host u = '''' then Some (ErrorNew ''invalid URL format for HTTP target'')
          else if u_Scheme u \<noteq> ''http'' \<and> u_Scheme u \<noteq> ''https''
          then Some (ErrorNew ''invalid URL format for HTTP target'')
          else None)"

definition is_ip :: "string \<Rightarrow> bool" where
  "is_ip s \<longleftrightarrow> ParseIP s \<noteq> None"

definition validateTCPTarget :: "string \<Rightarrow> error option" where
  "validateTCPTarget target =
     (case SplitHostPort target of
        None \<Rightarrow> Some (ErrorNew ''invalid TCP target format, expected host:port'')
      | Some (host, portStr) \<Rightarrow>
          if trim_space host = '''' then Some (ErrorNew ''invalid IP address or unresolvable host'')
          else (case atoi portStr of
             None \<Rightarrow> Some (ErrorNew ''invalid port number'')
           | Some port \<Rightarrow>
               if port < 1 \<or> port > 65535 then Some (ErrorNew ''invalid port number'')
               else if \<not> is_ip host \<and> \<not> isValidHostname is_ip host
               then Some (ErrorNew ''invalid IP address or unresolvable host'')
               else None))"

definition validateICMPTarget :: "string \<Rightarrow> error option" where
  "validateICMPTarget target =
     (if trim_space target = '''' then Some (ErrorNew ''ICMP target must not be empty'')
      else if \<not> is_ip target \<and> \<not> isValidHostname is_ip target
      then Some (ErrorNew ''invalid hostname or IP address for ICMP target'')
      else None)"

definition check_format :: "net_env \<Rightarrow> string \<Rightarrow> resource_type \<Rightarrow> error option" where
  "check_format ne target typ =
     (case typ of
        ResourceHTTP \<Rightarrow> checkHTTPTarget ne target
      | ResourceKeyword \<Rightarrow> checkHTTPTarget ne target
      | ResourceTCP \<Rightarrow> validateTCPTarget target
      | ResourceICMP \<Rightarrow> validateICMPTarget target
      | _ \<Rightarrow> None)"

definition ValidateResourceTarget :: "net_env \<Rightarrow> string \<Rightarrow> resource_type \<Rightarrow> error option" where
  "ValidateResourceTarget ne target typ =
     (case check_format ne target typ of
        Some err \<Rightarrow> Some err
      | None \<Rightarrow> ValidateAddress ne target (resource_type_string typ))"

section \<open>Validation of the other fields (resource\_validation.go)\<close>

record resource_config = config +
  cfg_ConfirmationChecks :: int
  cfg_ConfirmationInterval :: int
  cfg_ReminderIntervalMinutes :: int

definition confirmationDefaults :: "resource_config \<Rightarrow> int \<times> int" where
  "confirmationDefaults cfg =
     (if cfg_ConfirmationChecks cfg < 1 then 2 else cfg_ConfirmationChecks cfg,
      if cfg_ConfirmationInterval cfg \<le> 0 then 30 else cfg_ConfirmationInterval cfg)"

definition invalid :: "string \<Rightarrow> error" where
  "invalid msg = Suffixf ErrValidationFailed msg"

definition quoted :: "string \<Rightarrow> string" where
  "quoted s = CHR 0x27 # s @ [CHR 0x27]"

definition validateKeywordFields :: "string option \<Rightarrow> string option \<Rightarrow> error option" where
  "validateKeywordFields keyword keywordMode =
     (if keyword = None \<or> keyword = Some '''' then Some (invalid ''keyword is required for keyword monitor type'')
      else if length (the keyword) > 500 then Some (invalid ''keyword must not exceed 500 characters'')
      else if keywordMode \<noteq> None \<and> keywordMode \<noteq> Some ''contains'' \<and> keywordMode \<noteq> Some ''not_contains''
      then Some (invalid (''keyword_mode must be '' @ quoted ''contains'' @ '' or '' @ quoted ''not_contains''))
      else None)"

definition valid_protocols :: "string list" where
  "valid_protocols = [''redis'', ''mongodb'', ''ftp'', ''ssh'', ''mysql'', ''postgres'', ''rabbitmq'', ''kafka'']"

definition JoinHostPort :: "string \<Rightarrow> string \<Rightarrow> string" where
  "JoinHostPort host port =
     (if CHR '':'' \<in> set host then ''['' @ host @ '']:'' @ port else host @ '':'' @ port)"

fun parse_bootstrap :: "string list \<Rightarrow> error + string list" where
  "parse_bootstrap [] = Inr []"
| "parse_bootstrap (p # ps) =
     (let s = trim_space p in
      if s = '''' then parse_bootstrap ps
      else (case SplitHostPort s of
         None \<Rightarrow> Inl (Errorf (''invalid bootstrap entry '' @ s))
       | Some (host, port) \<Rightarrow>
           if host = '''' \<or> port = '''' then Inl (Errorf (''invalid bootstrap entry '' @ s @ '': host and port required''))
           else (case parse_bootstrap ps of
              Inl err \<Rightarrow> Inl err
            | Inr out \<Rightarrow> Inr (JoinHostPort host port # out))))"

definition parseKafkaBootstrapTargets :: "string \<Rightarrow> error + string list" where
  "parseKafkaBootstrapTargets target =
     (if target = '''' then Inl (Errorf ''target is empty'') else parse_bootstrap (split_on CHR '','' target))"

definition validateProtocolFields :: "string option \<Rightarrow> int option \<Rightarrow> string \<Rightarrow> error option" where
  "validateProtocolFields protocolType protocolPort target =
     (if protocolType = None \<or> protocolType = Some ''''
      then Some (invalid (''protocol_type is required when resource type is '' @ quoted ''protocol''))
      else if \<not> List.member valid_protocols (the protocolType)
      then Some (invalid ''protocol_type must be one of: redis, mongodb, ftp, ssh, mysql, postgres, rabbitmq, kafka'')
      else
        (case (if protocolType = Some ''kafka'' then
                 (if protocolPort \<noteq> None
                  then Some (invalid ''protocol_port must be empty for kafka (encode ports in target as host:port,host:port)'')
                  else (case parseKafkaBootstrapTargets target of
                     Inl err \<Rightarrow> Some (invalid (error_text err))
                   | Inr [] \<Rightarrow> Some (invalid ''kafka requires at least one bootstrap host:port in target'')
                   | Inr _ \<Rightarrow> None))
               else if protocolType = Some ''rabbitmq'' then
                 (if target = '''' then Some (invalid ''target is required for rabbitmq'')
                  else if CHR '','' \<in> set target then Some (invalid ''rabbitmq target must be a single host (no commas)'')
                  else None)
               else None) of
           Some err \<Rightarrow> Some err
         | None \<Rightarrow>
             (case protocolPort of
                Some p \<Rightarrow> if p < 1 \<or> p > 65535 then Some (invalid ''protocol_port must be between 1 and 65535'') else None
              | None \<Rightarrow> None)))"

definition validateSmartAlertingFields :: "int \<Rightarrow> int \<Rightarrow> int \<Rightarrow> int \<Rightarrow> error option" where
  "validateSmartAlertingFields flapThreshold flapWindowSeconds flapMaxDurationMinutes reminderIntervalMinutes =
     (if flapThreshold < 2 then Some (invalid (''flap_threshold must be >= 2 (got '' @ itoa flapThreshold @ '')''))
      else if flapWindowSeconds < 60 \<or> flapWindowSeconds > 3600
      then Some (invalid (''flap_window_seconds must be between 60 and 3600 (got '' @ itoa flapWindowSeconds @ '')''))
      else if flapMaxDurationMinutes < 0
      then Some (invalid (''flap_max_duration_minutes must be >= 0 (got '' @ itoa flapMaxDurationMinutes @ '')''))
      else if reminderIntervalMinutes < 0
      then Some (invalid (''reminder_interval_minutes must be >= 0 (got '' @ itoa reminderIntervalMinutes @ '')''))
      else None)"

section \<open>Enrichment (enrichment\_service.go)\<close>

text \<open>
  \<open>url_host\<close> is the host of a target that parses as a URL; \<open>tls_info\<close> dials port 443 of a host
  with the given timeout and gives the expiry and the issuer of its certificate; \<open>whois_lookup\<close> gives the
  expiry and the registrar of a domain.
\<close>

record lookups =
  url_host :: "string \<Rightarrow> string option"
  tls_info :: "nat \<Rightarrow> string \<Rightarrow> duration \<Rightarrow> (time option \<times> string) option"
  whois_lookup :: "nat \<Rightarrow> string \<Rightarrow> (time option \<times> string) option"

definition extractHostname :: "lookups \<Rightarrow> string \<Rightarrow> string" where
  "extractHostname lu target =
     (case url_host lu target of
        Some (c # cs) \<Rightarrow> (case SplitHostPort (c # cs) of Some (h, _) \<Rightarrow> h | None \<Rightarrow> c # cs)
      | _ \<Rightarrow> (case SplitHostPort target of Some (h, _) \<Rightarrow> h | None \<Rightarrow> target))"

definition ssl_timeout :: "int \<Rightarrow> duration" where
  "ssl_timeout timeout0 =
     (let timeout = (if timeout0 \<le> 0 then 10 * Second else timeout0)
      in wrap64 (timeout * Second))"

definition metadata_zero :: resource_meta_data where
  "metadata_zero = \<lparr>md_SSLExpirationDate = None, md_SSLIssuer = '''', md_DomainExpirationDate = None, md_DomainRegistrar = ''''\<rparr>"

definition Metadata_Enrich :: "lookups \<Rightarrow> nat \<Rightarrow> resource \<Rightarrow> resource_meta_data" where
  "Metadata_Enrich lu n r =
     (let hostname = extractHostname lu (r_Target r) in
      if hostname = '''' then metadata_zero
      else if r_Type r = ResourceHTTP then
        (let m = (case tls_info lu n hostname (ssl_timeout (r_Timeout r)) of
                    None \<Rightarrow> metadata_zero
                  | Some (exp, iss) \<Rightarrow> metadata_zero\<lparr>md_SSLExpirationDate := exp, md_SSLIssuer := iss\<rparr>)
         in (case whois_lookup lu n hostname of
               None \<Rightarrow> m
             | Some (exp, reg) \<Rightarrow> m\<lparr>md_DomainExpirationDate := exp, md_DomainRegistrar := reg\<rparr>))
      else metadata_zero)"

section \<open>The service\<close>

record resource_service =
  s_env :: svc_env
  s_config :: resource_config
  s_net :: net_env
  s_icmp :: bool
  s_enrichment :: "lookups option"
  s_components :: "config option option"
  s_channels :: bool

abbreviation sev :: "resource_service \<Rightarrow> env" where
  "sev s \<equiv> ev (s_env s)"

definition asyncEnrichAndPersist :: "resource_service \<Rightarrow> resource \<Rightarrow> (world, unit) state" where
  "asyncEnrichAndPersist s r =
     (case s_enrichment s of
        None \<Rightarrow> State_Monad.return ()
      | Some lu \<Rightarrow> do {
          w \<leftarrow> State_Monad.get;
          Resources_UpdateMetadata (sev s) (r_ID r) (Metadata_Enrich lu (tick w) r);
          State_Monad.return ()
        })"

definition resolveOrCreateTag :: "resource_service \<Rightarrow> string \<Rightarrow> (world, error + string) state" where
  "resolveOrCreateTag s nameOrID = do {
     byID \<leftarrow> Tags_FindByID (sev s) nameOrID;
     (case byID of
        Inr tg \<Rightarrow> State_Monad.return (Inr (tg_ID tg))
      | Inl err \<Rightarrow>
          if \<not> errors_Is err ErrNotFound
          then State_Monad.return (Inl (Wrapf (''failed to find tag by id '' @ quoted nameOrID) err))
          else do {
            byName \<leftarrow> Tags_FindByName (sev s) nameOrID;
            (case byName of
               Inr tg \<Rightarrow> State_Monad.return (Inr (tg_ID tg))
             | Inl err \<Rightarrow>
                 if \<not> errors_Is err ErrNotFound
                 then State_Monad.return (Inl (Wrapf (''failed to find tag '' @ quoted nameOrID) err))
                 else do {
                   made \<leftarrow> Tags_Create (sev s) \<lparr>tg_ID = '''', tg_Name = nameOrID, tg_Color = None,
                             tg_Description = None, tg_CreatedAt = zero_time\<rparr>;
                   State_Monad.return (case made of
                     Inl err \<Rightarrow> Inl (Wrapf (''failed to create tag '' @ quoted nameOrID) err)
                   | Inr tg \<Rightarrow> Inr (tg_ID tg))
                 })
          })
   }"

fun findOrCreateTags :: "resource_service \<Rightarrow> string list \<Rightarrow> (world, error + string list) state" where
  "findOrCreateTags s [] = State_Monad.return (Inr [])"
| "findOrCreateTags s (rawTag # rest) =
     (let tagName = trim_space rawTag in
      if tagName = '''' then findOrCreateTags s rest
      else and_then (resolveOrCreateTag s tagName) (\<lambda>i.
        and_then (findOrCreateTags s rest) (\<lambda>is. State_Monad.return (Inr (i # is)))))"

text \<open>The map of the channels by name: of several channels with a name, the last of the list is kept.\<close>

fun match_names :: "notification_channel list \<Rightarrow> string list \<Rightarrow> error + string list" where
  "match_names chs [] = Inr []"
| "match_names chs (raw # rest) =
     (let name = trim_space raw in
      if name = '''' then match_names chs rest
      else (case find (\<lambda>c. ch_Name c = name) (rev chs) of
         None \<Rightarrow> Inl (invalid (''notification channel '' @ quoted name @ '' not found''))
       | Some c \<Rightarrow> (case match_names chs rest of Inl err \<Rightarrow> Inl err | Inr is \<Rightarrow> Inr (ch_ID c # is))))"

definition resolveChannelsByName :: "resource_service \<Rightarrow> string list \<Rightarrow> (world, error + string list) state" where
  "resolveChannelsByName s names =
     (if \<not> s_channels s then State_Monad.return (Inl (invalid ''notification channel support is not configured''))
      else do {
        all \<leftarrow> Channels_List (sev s) 10000 0;
        State_Monad.return (case all of
          Inl err \<Rightarrow> Inl (Wrapf ''failed to list notification channels'' err)
        | Inr chs \<Rightarrow> match_names chs names)
      })"

record create_resource_payload =
  crp_Name :: string
  crp_Type :: resource_type
  crp_Interval :: int
  crp_Timeout :: int
  crp_Target :: string
  crp_HeartbeatInterval :: "int option"
  crp_HeartbeatGrace :: "int option"
  crp_Keyword :: "string option"
  crp_KeywordMode :: "string option"
  crp_ProtocolType :: "string option"
  crp_ProtocolPort :: "int option"
  crp_Tags :: "string list"
  crp_NotificationChannelNames :: "string list"
  crp_ComponentID :: "string option"
  crp_ConfirmationChecks :: "int option"
  crp_ConfirmationInterval :: "int option"
  crp_ExpiryAlertThresholds :: "string option"
  crp_FlapDetectionEnabled :: "bool option"
  crp_FlapThreshold :: "int option"
  crp_FlapWindowSeconds :: "int option"
  crp_FlapMaxDurationMinutes :: "int option"
  crp_ReminderIntervalMinutes :: "int option"

record update_resource_payload =
  urp_Name :: "string option"
  urp_Type :: "resource_type option"
  urp_Target :: "string option"
  urp_Interval :: "int option"
  urp_Timeout :: "int option"
  urp_IsActive :: "bool option"
  urp_Tags :: "string list option"
  urp_ComponentID :: "string option"
  urp_ConfirmationChecks :: "int option"
  urp_ConfirmationInterval :: "int option"
  urp_ExpiryAlertThresholds :: "string option"
  urp_FlapDetectionEnabled :: "bool option"
  urp_FlapThreshold :: "int option"
  urp_FlapWindowSeconds :: "int option"
  urp_FlapMaxDurationMinutes :: "int option"
  urp_ReminderIntervalMinutes :: "int option"
  urp_HeartbeatInterval :: "int option"
  urp_HeartbeatGrace :: "int option"
  urp_Keyword :: "string option"
  urp_KeywordMode :: "string option"
  urp_ProtocolType :: "string option"
  urp_ProtocolPort :: "int option"

section \<open>Creation\<close>

definition or_else :: "'a option \<Rightarrow> 'a \<Rightarrow> 'a" where
  "or_else x d = (case x of Some y \<Rightarrow> y | None \<Rightarrow> d)"

text \<open>The gate for ICMP, the check of the target, and the confirmation settings with their defaults.\<close>

definition resolve_confirmation :: "resource_config \<Rightarrow> create_resource_payload \<Rightarrow> int \<times> int" where
  "resolve_confirmation cfg p =
     (case confirmationDefaults cfg of (defaultChecks, defaultInterval) \<Rightarrow>
        (case ResolveConfirmationDefaults (crp_ConfirmationChecks p) (crp_ConfirmationInterval p) defaultChecks defaultInterval of
           (resolvedChecks, resolvedInterval) \<Rightarrow>
             (resolvedChecks,
              if crp_ConfirmationInterval p = None \<and> crp_Interval p > 1 \<and> resolvedInterval \<ge> crp_Interval p
              then crp_Interval p - 1 else resolvedInterval)))"

definition check_request :: "resource_service \<Rightarrow> create_resource_payload \<Rightarrow> error option" where
  "check_request s p =
     (if crp_Type p = ResourceICMP \<and> \<not> (cfg_EnableICMP (s_config s) \<and> s_icmp s) then Some ErrICMPUnavailable
      else
        (case (if crp_Type p \<noteq> ResourceHeartbeat then ValidateResourceTarget (s_net s) (crp_Target p) (crp_Type p) else None) of
           Some err \<Rightarrow> Some (invalid (error_text err))
         | None \<Rightarrow>
             (case resolve_confirmation (s_config s) p of (checks, interval) \<Rightarrow>
                (case ValidateConfirmationSettings (crp_Interval p) checks interval of
                   Some err \<Rightarrow> Some (invalid (error_text err))
                 | None \<Rightarrow> None))))"

definition base_resource :: "resource_config \<Rightarrow> create_resource_payload \<Rightarrow> resource" where
  "base_resource cfg p =
     \<lparr>r_ID = '''', r_CreatedAt = zero_time, r_Name = crp_Name p, r_Type = crp_Type p, r_Interval = crp_Interval p,
      r_Timeout = crp_Timeout p, r_Target = crp_Target p, r_LastChecked = None, r_Status = StatusPending,
      r_IsActive = True, r_FailureCount = 0, r_ConfirmationChecks = fst (resolve_confirmation cfg p),
      r_ConfirmationInterval = snd (resolve_confirmation cfg p),
      r_ExpiryAlertThresholds = crp_ExpiryAlertThresholds p, r_Metadata = None, r_ComponentID = None,
      r_FlapDetectionEnabled = False, r_FlapThreshold = 0, r_FlapWindowSeconds = 0, r_FlapMaxDurationMinutes = 0,
      r_LastStatusTransition = None, r_FlapStartedAt = None, r_ReminderIntervalMinutes = 0, r_HeartbeatSlug = None,
      r_HeartbeatInterval = None, r_HeartbeatGrace = None, r_LastPingAt = None, r_Keyword = None,
      r_KeywordMode = None, r_ProtocolType = None, r_ProtocolPort = None\<rparr>"

text \<open>The fields of the heartbeat, keyword and protocol types.\<close>

definition with_heartbeat ::
    "resource_service \<Rightarrow> create_resource_payload \<Rightarrow> resource \<Rightarrow> (world, error + resource) state" where
  "with_heartbeat s p r =
     (if crp_Type p \<noteq> ResourceHeartbeat then State_Monad.return (Inr r)
      else (case (crp_HeartbeatInterval p, crp_HeartbeatGrace p) of
         (Some i, Some g) \<Rightarrow>
           (case ValidateHeartbeatSettings i g of
              Some err \<Rightarrow> State_Monad.return (Inl err)
            | None \<Rightarrow> do {
                slug \<leftarrow> new_id (sev s);
                State_Monad.return (Inr (r\<lparr>r_HeartbeatSlug := Some slug, r_HeartbeatInterval := Some i,
                  r_HeartbeatGrace := Some g, r_Status := StatusUp,
                  r_Target := (if r_Target r = '''' then ''heartbeat'' else r_Target r)\<rparr>))
              })
       | _ \<Rightarrow> State_Monad.return (Inl (invalid ''heartbeat_interval and heartbeat_grace are required''))))"

definition with_keyword :: "create_resource_payload \<Rightarrow> resource \<Rightarrow> error + resource" where
  "with_keyword p r =
     (if crp_Type p \<noteq> ResourceKeyword then Inr r
      else (case validateKeywordFields (crp_Keyword p) (crp_KeywordMode p) of
         Some err \<Rightarrow> Inl err
       | None \<Rightarrow> Inr (r\<lparr>r_Keyword := crp_Keyword p, r_KeywordMode := Some (or_else (crp_KeywordMode p) ''contains'')\<rparr>)))"

definition with_protocol :: "create_resource_payload \<Rightarrow> resource \<Rightarrow> error + resource" where
  "with_protocol p r =
     (if crp_Type p \<noteq> ResourceProtocol then Inr r
      else (case validateProtocolFields (crp_ProtocolType p) (crp_ProtocolPort p) (crp_Target p) of
         Some err \<Rightarrow> Inl err
       | None \<Rightarrow> Inr (r\<lparr>r_ProtocolType := crp_ProtocolType p, r_ProtocolPort := crp_ProtocolPort p\<rparr>)))"

definition check_smart_alerting :: "resource \<Rightarrow> error + resource" where
  "check_smart_alerting r =
     (case validateSmartAlertingFields (r_FlapThreshold r) (r_FlapWindowSeconds r) (r_FlapMaxDurationMinutes r)
             (r_ReminderIntervalMinutes r) of
        Some err \<Rightarrow> Inl err
      | None \<Rightarrow> Inr r)"

definition with_smart_alerting :: "resource_config \<Rightarrow> create_resource_payload \<Rightarrow> resource \<Rightarrow> error + resource" where
  "with_smart_alerting cfg p r = check_smart_alerting
     (r\<lparr>r_FlapDetectionEnabled := or_else (crp_FlapDetectionEnabled p) (cfg_FlapDetectionEnabled cfg),
        r_FlapThreshold := or_else (crp_FlapThreshold p) (cfg_FlapThreshold cfg),
        r_FlapWindowSeconds := or_else (crp_FlapWindowSeconds p) (cfg_FlapWindowSeconds cfg),
        r_FlapMaxDurationMinutes := or_else (crp_FlapMaxDurationMinutes p) (cfg_FlapMaxDurationMinutes cfg),
        r_ReminderIntervalMinutes := or_else (crp_ReminderIntervalMinutes p) (cfg_ReminderIntervalMinutes cfg)\<rparr>)"

definition with_component ::
    "resource_service \<Rightarrow> create_resource_payload \<Rightarrow> resource \<Rightarrow> (world, error + resource) state" where
  "with_component s p r =
     (case crp_ComponentID p of
        Some (c # cs) \<Rightarrow>
          if s_components s = None then State_Monad.return (Inl (invalid ''component support is not configured''))
          else do {
            got \<leftarrow> GetComponent (s_env s) (c # cs);
            State_Monad.return (case got of
              Inl err \<Rightarrow> Inl (invalid ''invalid component reference'')
            | Inr _ \<Rightarrow> Inr (r\<lparr>r_ComponentID := Some (c # cs)\<rparr>))
          }
      | _ \<Rightarrow> State_Monad.return (Inr r))"

definition resolve_tags :: "resource_service \<Rightarrow> string list \<Rightarrow> (world, error + string list) state" where
  "resolve_tags s names = do {
     r \<leftarrow> findOrCreateTags s names;
     State_Monad.return (case r of Inl err \<Rightarrow> Inl (Wrapf ''failed to process tags'' err) | Inr is \<Rightarrow> Inr is)
   }"

definition prepare_resource ::
    "resource_service \<Rightarrow> create_resource_payload \<Rightarrow> (world, error + loaded) state" where
  "prepare_resource s p =
     and_then (State_Monad.return (failing (check_request s p))) (\<lambda>_.
     and_then (with_heartbeat s p (base_resource (s_config s) p)) (\<lambda>r.
     and_then (State_Monad.return (with_keyword p r)) (\<lambda>r.
     and_then (State_Monad.return (with_protocol p r)) (\<lambda>r.
     and_then (State_Monad.return (with_smart_alerting (s_config s) p r)) (\<lambda>r.
     and_then (with_component s p r) (\<lambda>r.
     and_then (if crp_Tags p = [] then State_Monad.return (Inr []) else resolve_tags s (crp_Tags p)) (\<lambda>tgs.
     and_then (if crp_NotificationChannelNames p = [] then State_Monad.return (Inr [])
               else resolveChannelsByName s (crp_NotificationChannelNames p)) (\<lambda>chs.
     State_Monad.return (Inr \<lparr>lo_Row = r, lo_Tags = tgs, lo_Channels = chs\<rparr>)))))))))"

definition recalculate :: "resource_service \<Rightarrow> string option \<Rightarrow> (world, unit) state" where
  "recalculate s cid =
     (case (cid, s_components s) of
        (Some c, Some cfg) \<Rightarrow> do { RecalculateAndNotify (s_env s) cfg c; State_Monad.return () }
      | _ \<Rightarrow> State_Monad.return ())"

definition CreateResource ::
    "resource_service \<Rightarrow> create_resource_payload \<Rightarrow> (world, resource option \<times> error option) state" where
  "CreateResource s p = do {
     made \<leftarrow> and_then (prepare_resource s p) (Resources_Create (sev s));
     (case made of
        Inl err \<Rightarrow> State_Monad.return (None, Some err)
      | Inr r \<Rightarrow> do {
          planned \<leftarrow> scheduler_call (sev s) (MonitorSchedule (r_ID r));
          (case planned of
             Some err \<Rightarrow> State_Monad.return (Some r, Some (Suffixf ErrSchedulerSync (error_text err)))
           | None \<Rightarrow> do {
               asyncEnrichAndPersist s r;
               recalculate s (r_ComponentID r);
               State_Monad.return (Some r, None)
             })
        })
   }"

section \<open>Update (resource\_update.go)\<close>

definition applyBasicFields :: "update_resource_payload \<Rightarrow> resource \<Rightarrow> resource" where
  "applyBasicFields p r = r\<lparr>r_Name := or_else (urp_Name p) (r_Name r), r_Type := or_else (urp_Type p) (r_Type r),
     r_Interval := or_else (urp_Interval p) (r_Interval r), r_Timeout := or_else (urp_Timeout p) (r_Timeout r)\<rparr>"

definition applyTargetField :: "net_env \<Rightarrow> update_resource_payload \<Rightarrow> resource \<Rightarrow> error + resource" where
  "applyTargetField ne p r =
     (case urp_Target p of
        None \<Rightarrow> Inr r
      | Some target \<Rightarrow>
          (case ValidateResourceTarget ne target (or_else (urp_Type p) (r_Type r)) of
             Some err \<Rightarrow> Inl (invalid (error_text err))
           | None \<Rightarrow> Inr (r\<lparr>r_Target := target\<rparr>)))"

definition applyConfirmationSettings :: "resource_config \<Rightarrow> update_resource_payload \<Rightarrow> resource \<Rightarrow> error + resource" where
  "applyConfirmationSettings cfg p r =
     (case confirmationDefaults cfg of (defaultChecks, defaultInterval) \<Rightarrow>
        (let checks = (if r_ConfirmationChecks r < 1 then defaultChecks else r_ConfirmationChecks r);
             interval = (if r_ConfirmationInterval r \<le> 0 then defaultInterval else r_ConfirmationInterval r);
             r' = r\<lparr>r_ConfirmationChecks := or_else (urp_ConfirmationChecks p) checks,
                    r_ConfirmationInterval := or_else (urp_ConfirmationInterval p) interval\<rparr>
         in (case ValidateConfirmationSettings (r_Interval r') (r_ConfirmationChecks r') (r_ConfirmationInterval r') of
               Some err \<Rightarrow> Inl (invalid (error_text err))
             | None \<Rightarrow> Inr r')))"

definition applyComponentID ::
    "resource_service \<Rightarrow> update_resource_payload \<Rightarrow> resource \<Rightarrow> (world, error + resource) state" where
  "applyComponentID s p r =
     (case urp_ComponentID p of
        None \<Rightarrow> State_Monad.return (Inr r)
      | Some cid \<Rightarrow>
          if s_components s = None then State_Monad.return (Inl (invalid ''component support is not configured''))
          else if cid = '''' then State_Monad.return (Inr (r\<lparr>r_ComponentID := None\<rparr>))
          else do {
            got \<leftarrow> GetComponent (s_env s) cid;
            State_Monad.return (case got of
              Inl err \<Rightarrow> Inl (invalid ''invalid component reference'')
            | Inr _ \<Rightarrow> Inr (r\<lparr>r_ComponentID := Some cid\<rparr>))
          })"

definition applyTags ::
    "resource_service \<Rightarrow> update_resource_payload \<Rightarrow> string list \<Rightarrow> (world, error + string list) state" where
  "applyTags s p current =
     (case urp_Tags p of
        None \<Rightarrow> State_Monad.return (Inr current)
      | Some [] \<Rightarrow> State_Monad.return (Inr [])
      | Some names \<Rightarrow> resolve_tags s names)"

definition applyExpiryThresholds :: "update_resource_payload \<Rightarrow> resource \<Rightarrow> resource" where
  "applyExpiryThresholds p r =
     (case urp_ExpiryAlertThresholds p of
        None \<Rightarrow> r
      | Some t \<Rightarrow> r\<lparr>r_ExpiryAlertThresholds := (if t = '''' then None else Some t)\<rparr>)"

definition applySmartAlertingFields :: "update_resource_payload \<Rightarrow> resource \<Rightarrow> resource" where
  "applySmartAlertingFields p r =
     r\<lparr>r_FlapDetectionEnabled := or_else (urp_FlapDetectionEnabled p) (r_FlapDetectionEnabled r),
       r_FlapThreshold := or_else (urp_FlapThreshold p) (r_FlapThreshold r),
       r_FlapWindowSeconds := or_else (urp_FlapWindowSeconds p) (r_FlapWindowSeconds r),
       r_FlapMaxDurationMinutes := or_else (urp_FlapMaxDurationMinutes p) (r_FlapMaxDurationMinutes r),
       r_ReminderIntervalMinutes := or_else (urp_ReminderIntervalMinutes p) (r_ReminderIntervalMinutes r)\<rparr>"

definition recheck_target :: "net_env \<Rightarrow> resource \<Rightarrow> error + resource" where
  "recheck_target ne r =
     (case ValidateResourceTarget ne (r_Target r) (r_Type r) of
        Some err \<Rightarrow> Inl (invalid (error_text err))
      | None \<Rightarrow> Inr r)"

definition applyResourcePayload ::
    "resource_service \<Rightarrow> update_resource_payload \<Rightarrow> loaded \<Rightarrow> (world, error + loaded) state" where
  "applyResourcePayload s p l =
     and_then (State_Monad.return (applyTargetField (s_net s) p (applyBasicFields p (lo_Row l)))) (\<lambda>r.
     and_then (State_Monad.return (applyConfirmationSettings (s_config s) p r)) (\<lambda>r.
     and_then (applyComponentID s p (r\<lparr>r_IsActive := or_else (urp_IsActive p) (r_IsActive r)\<rparr>)) (\<lambda>r.
     and_then (applyTags s p (lo_Tags l)) (\<lambda>tgs.
     and_then (State_Monad.return (recheck_target (s_net s) r)) (\<lambda>r.
     and_then (State_Monad.return (check_smart_alerting (applySmartAlertingFields p (applyExpiryThresholds p r)))) (\<lambda>r.
     State_Monad.return (Inr (l\<lparr>lo_Row := r, lo_Tags := tgs\<rparr>))))))))"

definition applyAndValidateHeartbeat :: "update_resource_payload \<Rightarrow> resource \<Rightarrow> error + resource" where
  "applyAndValidateHeartbeat p r =
     (let r' = r\<lparr>r_HeartbeatInterval := (if urp_HeartbeatInterval p = None then r_HeartbeatInterval r else urp_HeartbeatInterval p),
                 r_HeartbeatGrace := (if urp_HeartbeatGrace p = None then r_HeartbeatGrace r else urp_HeartbeatGrace p)\<rparr>
      in (case (r_HeartbeatInterval r', r_HeartbeatGrace r') of
            (Some i, Some g) \<Rightarrow>
              (case ValidateHeartbeatSettings i g of
                 Some err \<Rightarrow> Inl (invalid (error_text err))
               | None \<Rightarrow> Inr r')
          | _ \<Rightarrow> Inr r'))"

definition applyAndValidateKeyword :: "update_resource_payload \<Rightarrow> resource \<Rightarrow> error + resource" where
  "applyAndValidateKeyword p r =
     (let r' = r\<lparr>r_Keyword := (if urp_Keyword p = None then r_Keyword r else urp_Keyword p),
                 r_KeywordMode := (if urp_KeywordMode p = None then r_KeywordMode r else urp_KeywordMode p)\<rparr>
      in (case validateKeywordFields (r_Keyword r') (r_KeywordMode r') of Some err \<Rightarrow> Inl err | None \<Rightarrow> Inr r'))"

definition applyAndValidateProtocol :: "update_resource_payload \<Rightarrow> resource \<Rightarrow> error + resource" where
  "applyAndValidateProtocol p r =
     (let r' = r\<lparr>r_ProtocolType := (if urp_ProtocolType p = None then r_ProtocolType r else urp_ProtocolType p),
                 r_ProtocolPort := (if urp_ProtocolPort p = None then r_ProtocolPort r else urp_ProtocolPort p)\<rparr>
      in (case validateProtocolFields (r_ProtocolType r') (r_ProtocolPort r') (r_Target r') of
            Some err \<Rightarrow> Inl err | None \<Rightarrow> Inr r'))"

definition validateTypeSpecificUpdate :: "update_resource_payload \<Rightarrow> loaded \<Rightarrow> error + loaded" where
  "validateTypeSpecificUpdate p l =
     (case (case r_Type (lo_Row l) of
              ResourceHeartbeat \<Rightarrow> applyAndValidateHeartbeat p (lo_Row l)
            | ResourceKeyword \<Rightarrow> applyAndValidateKeyword p (lo_Row l)
            | ResourceProtocol \<Rightarrow> applyAndValidateProtocol p (lo_Row l)
            | _ \<Rightarrow> Inr (lo_Row l)) of
        Inl err \<Rightarrow> Inl err
      | Inr r \<Rightarrow> Inr (l\<lparr>lo_Row := r\<rparr>))"

text \<open>Deleting a component that has lost its last resource, and the recalculation otherwise.\<close>

definition cleanup_component :: "resource_service \<Rightarrow> config option \<Rightarrow> string \<Rightarrow> (world, unit) state" where
  "cleanup_component s cfg cid = do {
     n \<leftarrow> Resources_CountByComponentID (sev s) cid;
     (case n of
        Inl err \<Rightarrow> State_Monad.return ()
      | Inr count \<Rightarrow>
          if count = 0 then do { DeleteComponent (s_env s) cid; State_Monad.return () }
          else do { RecalculateAndNotify (s_env s) cfg cid; State_Monad.return () })
   }"

definition reconcileComponentChange ::
    "resource_service \<Rightarrow> resource \<Rightarrow> string option \<Rightarrow> (world, unit) state" where
  "reconcileComponentChange s r previous = do {
     recalculate s (r_ComponentID r);
     (case (previous, s_components s) of
        (Some old, Some cfg) \<Rightarrow>
          if r_ComponentID r = Some old then State_Monad.return () else cleanup_component s cfg old
      | _ \<Rightarrow> State_Monad.return ())
   }"

definition not_found_as :: "error \<Rightarrow> error + 'a \<Rightarrow> error + 'a" where
  "not_found_as e' r = (case r of Inl err \<Rightarrow> Inl (if errors_Is err ErrNotFound then e' else err) | Inr x \<Rightarrow> Inr x)"

definition load_resource :: "resource_service \<Rightarrow> string \<Rightarrow> (world, error + loaded) state" where
  "load_resource s rid = do {
     found \<leftarrow> Resources_Load (sev s) rid;
     State_Monad.return (not_found_as ErrResourceNotFound found)
   }"

definition store_update :: "resource_service \<Rightarrow> string option \<Rightarrow> loaded \<Rightarrow> (world, error + resource) state" where
  "store_update s previous l = do {
     asyncEnrichAndPersist s (lo_Row l);
     upd \<leftarrow> Resources_Save (sev s) l;
     (case upd of
        Some err \<Rightarrow> State_Monad.return (Inl err)
      | None \<Rightarrow> do {
          planned \<leftarrow> scheduler_call (sev s) (MonitorSchedule (r_ID (lo_Row l)));
          (case planned of
             Some err \<Rightarrow> State_Monad.return (Inl (Suffixf ErrSchedulerSync (error_text err)))
           | None \<Rightarrow> do {
               reconcileComponentChange s (lo_Row l) previous;
               State_Monad.return (Inr (lo_Row l))
             })
        })
   }"

definition UpdateResource ::
    "resource_service \<Rightarrow> string \<Rightarrow> update_resource_payload \<Rightarrow> (world, error + resource) state" where
  "UpdateResource s rid p =
     and_then (load_resource s rid) (\<lambda>l.
     and_then (applyResourcePayload s p l) (\<lambda>l'.
     and_then (State_Monad.return (validateTypeSpecificUpdate p l')) (\<lambda>l''.
     store_update s (r_ComponentID (lo_Row l)) l'')))"

section \<open>Deletion, pausing and resuming\<close>

definition resolve_for_deletion :: "resource_service \<Rightarrow> string \<Rightarrow> (world, unit) state" where
  "resolve_for_deletion s rid = do {
     found \<leftarrow> Incidents_FindActiveByResourceID (sev s) rid;
     (case found of
        Inl err \<Rightarrow> State_Monad.return ()
      | Inr inc \<Rightarrow> do {
          t \<leftarrow> now (sev s);
          Incidents_Update (sev s) (inc\<lparr>i_ResolvedAt := Some t\<rparr>);
          State_Monad.return ()
        })
   }"

definition DeleteResource :: "resource_service \<Rightarrow> string \<Rightarrow> (world, error option) state" where
  "DeleteResource s rid = do {
     found \<leftarrow> Resources_FindByID (sev s) rid;
     let componentID = (case found of Inl _ \<Rightarrow> None | Inr r \<Rightarrow> r_ComponentID r);
     resolve_for_deletion s rid;
     del \<leftarrow> Resources_Delete (sev s) rid;
     (case del of
        Some err \<Rightarrow> State_Monad.return (Some err)
      | None \<Rightarrow> do {
          scheduler_call (sev s) (MonitorUnschedule rid);
          (case (componentID, s_components s) of
             (Some cid, Some cfg) \<Rightarrow> cleanup_component s cfg cid
           | _ \<Rightarrow> State_Monad.return ());
          State_Monad.return None
        })
   }"

definition PauseMonitoring :: "resource_service \<Rightarrow> string \<Rightarrow> (world, error option) state" where
  "PauseMonitoring s rid = do {
     found \<leftarrow> Resources_Load (sev s) rid;
     (case found of
        Inl err \<Rightarrow> State_Monad.return (Some err)
      | Inr l \<Rightarrow>
          if \<not> r_IsActive (lo_Row l) then State_Monad.return None
          else do {
            upd \<leftarrow> Resources_Save (sev s) (l\<lparr>lo_Row := (lo_Row l)\<lparr>r_IsActive := False\<rparr>\<rparr>);
            (case upd of
               Some err \<Rightarrow> State_Monad.return (Some err)
             | None \<Rightarrow> scheduler_call (sev s) (MonitorUnschedule rid))
          })
   }"

definition ResumeMonitoring :: "resource_service \<Rightarrow> string \<Rightarrow> (world, error option) state" where
  "ResumeMonitoring s rid = do {
     found \<leftarrow> Resources_Load (sev s) rid;
     (case found of
        Inl err \<Rightarrow> State_Monad.return (Some err)
      | Inr l \<Rightarrow>
          if r_IsActive (lo_Row l) then State_Monad.return None
          else do {
            upd \<leftarrow> Resources_Save (sev s) (l\<lparr>lo_Row := (lo_Row l)\<lparr>r_IsActive := True\<rparr>\<rparr>);
            (case upd of
               Some err \<Rightarrow> State_Monad.return (Some err)
             | None \<Rightarrow> scheduler_call (sev s) (MonitorSchedule rid))
          })
   }"

section \<open>Reading\<close>

definition GetResourceByID :: "resource_service \<Rightarrow> string \<Rightarrow> (world, error + resource \<times> incident list) state" where
  "GetResourceByID s rid = do {
     found \<leftarrow> Resources_FindByID (sev s) rid;
     (case not_found_as ErrResourceNotFound found of
        Inl err \<Rightarrow> State_Monad.return (Inl err)
      | Inr r \<Rightarrow> do {
          incs \<leftarrow> Incidents_FindByResource (sev s) rid 100 0;
          State_Monad.return (case incs of
            Inl err \<Rightarrow> Inl (Wrapf ''failed to load incidents for resource'' err)
          | Inr is \<Rightarrow> Inr (r, is))
        })
   }"

definition ListActiveResources :: "resource_service \<Rightarrow> nat \<Rightarrow> nat \<Rightarrow> (world, error + resource list) state" where
  "ListActiveResources s limit offset = Resources_FindActive (sev s) limit offset"

definition ListUnresolvedIncidents :: "resource_service \<Rightarrow> string \<Rightarrow> (world, error + incident list) state" where
  "ListUnresolvedIncidents s rid = do {
     found \<leftarrow> Resources_FindByID (sev s) rid;
     (case found of
        Inl err \<Rightarrow> State_Monad.return (Inl err)
      | Inr _ \<Rightarrow> Incidents_FindByResource (sev s) rid 50 0)
   }"

section \<open>Tags of a resource\<close>

fun find_tags :: "resource_service \<Rightarrow> string list \<Rightarrow> (world, error + string list) state" where
  "find_tags s [] = State_Monad.return (Inr [])"
| "find_tags s (tagID # rest) = do {
     found \<leftarrow> Tags_FindByID (sev s) tagID;
     and_then (State_Monad.return (not_found_as (invalid (''tag with ID '' @ quoted tagID @ '' not found'')) found)) (\<lambda>tg.
       and_then (find_tags s rest) (\<lambda>is. State_Monad.return (Inr (tg_ID tg # is))))
   }"

definition AddTagsToResource :: "resource_service \<Rightarrow> string \<Rightarrow> string list \<Rightarrow> (world, error option) state" where
  "AddTagsToResource s rid tagIDs = do {
     found \<leftarrow> Resources_Load (sev s) rid;
     r \<leftarrow> and_then (State_Monad.return (not_found_as (Suffixf ErrResourceNotFound ''resource not found'') found)) (\<lambda>l.
       and_then (find_tags s tagIDs) (\<lambda>is. do {
         upd \<leftarrow> Resources_Save (sev s) (l\<lparr>lo_Tags := lo_Tags l @ is\<rparr>);
         State_Monad.return (failing (map_option (Wrapf ''failed to add tags to resource'') upd))
       }));
     State_Monad.return (error_of r)
   }"

definition RemoveTagFromResource :: "resource_service \<Rightarrow> string \<Rightarrow> string \<Rightarrow> (world, error option) state" where
  "RemoveTagFromResource s rid tagID = do {
     found \<leftarrow> Resources_Load (sev s) rid;
     r \<leftarrow> and_then (State_Monad.return (not_found_as (Suffixf ErrResourceNotFound ''resource not found'') found)) (\<lambda>l. do {
       tg \<leftarrow> Tags_FindByID (sev s) tagID;
       and_then (State_Monad.return (not_found_as (Suffixf ErrResourceNotFound ''tag not found'') tg)) (\<lambda>_.
         if \<not> List.member (lo_Tags l) tagID
         then State_Monad.return (Inl (invalid ''tag not associated with resource''))
         else do {
           upd \<leftarrow> Resources_Save (sev s) (l\<lparr>lo_Tags := filter (\<lambda>t. t \<noteq> tagID) (lo_Tags l)\<rparr>);
           State_Monad.return (failing (map_option (Wrapf ''failed to remove tag from resource'') upd))
         })
     });
     State_Monad.return (error_of r)
   }"

section \<open>Runs of the operations\<close>

text \<open>The reads and the preparation of an operation leave resources and incidents alone.\<close>

lemma core_resource_reads [keep]:
  "keeps core (Resources_Load e rid)" "keeps core (Resources_FindActive e l n)"
  "keeps core (Incidents_FindActiveByResourceID e rid)" "keeps core (Tags_FindByID e i)"
  "keeps core (Tags_FindByName e i)" "keeps core (Channels_List e l n)"
  "keeps core (Resources_CountByComponentID e cid)"
  unfolding Resources_Load_def Resources_FindActive_def Incidents_FindActiveByResourceID_def Tags_FindByID_def
    Tags_FindByName_def Channels_List_def Resources_CountByComponentID_def
  by (intro keep; simp)+

lemma core_tag_create [keep]: "keeps core (Tags_Create e tg)" "keeps core (scheduler_call e c)"
  unfolding Tags_Create_def EnsureID_def scheduler_call_def Let_def by (intro keep; simp add: core_def)+

lemma core_tags [keep]: "keeps core (findOrCreateTags s names)"
proof (induction names)
  case (Cons n ns)
  show ?case
    unfolding findOrCreateTags.simps resolveOrCreateTag_def Let_def by (intro keep Cons)
qed (simp add: keep)

lemma core_find_tags [keep]: "keeps core (find_tags s is)"
  by (induction "is") (auto intro!: keep)

lemma core_GetComponent [keep]: "keeps core (GetComponent e cid)"
  unfolding GetComponent_def toComponentResponse_def by (intro keep)

lemma core_resolve [keep]: "keeps core (resolve_tags s names)" "keeps core (resolveChannelsByName s names)"
  unfolding resolve_tags_def resolveChannelsByName_def by (intro keep)+

lemma core_prepare [keep]: "keeps core (prepare_resource s p)"
  unfolding prepare_resource_def with_heartbeat_def with_component_def by (intro keep; simp)

lemma core_apply [keep]: "keeps core (applyResourcePayload s p l)"
  unfolding applyResourcePayload_def applyComponentID_def applyTags_def by (intro keep)

lemma core_recalculate_of [keep]: "keeps core (recalculate s cid)"
  unfolding recalculate_def by (intro keep)

section \<open>What the settings of a stored monitor satisfy\<close>

definition smart_ok :: "resource \<Rightarrow> bool" where
  "smart_ok r \<longleftrightarrow> 2 \<le> r_FlapThreshold r \<and> 60 \<le> r_FlapWindowSeconds r \<and> r_FlapWindowSeconds r \<le> 3600 \<and>
     0 \<le> r_FlapMaxDurationMinutes r \<and> 0 \<le> r_ReminderIntervalMinutes r"

definition confirmation_ok :: "resource \<Rightarrow> bool" where
  "confirmation_ok r \<longleftrightarrow> 1 \<le> r_ConfirmationChecks r \<and> 0 < r_ConfirmationInterval r \<and>
     (0 < r_Interval r \<longrightarrow> r_ConfirmationInterval r < r_Interval r)"

definition settings_ok :: "resource \<Rightarrow> bool" where
  "settings_ok r \<longleftrightarrow> smart_ok r \<and> confirmation_ok r"

lemmas settings_defs = settings_ok_def smart_ok_def confirmation_ok_def

lemma check_smart_alerting_Inr: "check_smart_alerting r = Inr r' \<longleftrightarrow> r' = r \<and> smart_ok r"
  by (auto simp: check_smart_alerting_def validateSmartAlertingFields_def smart_ok_def split: if_splits)

lemma applyConfirmationSettings_Inr:
  "applyConfirmationSettings cfg p r = Inr r' \<Longrightarrow>
     confirmation_ok r' \<and> r_ID r' = r_ID r \<and> r_Keyword r' = r_Keyword r \<and> r_Target r' = r_Target r \<and> r_Type r' = r_Type r"
  by (auto simp: applyConfirmationSettings_def ValidateConfirmationSettings_def confirmation_ok_def Let_def
      split: prod.splits if_splits)

lemma apply_pure_Inr:
  "applyTargetField ne p r = Inr r' \<Longrightarrow> r_ID r' = r_ID r \<and> r_Type r' = r_Type r \<and> r_Keyword r' = r_Keyword r"
  "recheck_target ne r = Inr r' \<longleftrightarrow> r' = r \<and> ValidateResourceTarget ne (r_Target r) (r_Type r) = None"
  by (auto simp: applyTargetField_def recheck_target_def split: option.splits)

lemma applyComponentID_Inr:
  "run_state (applyComponentID s p r) w = (Inr r', w') \<Longrightarrow> \<exists>c. r' = r\<lparr>r_ComponentID := c\<rparr>"
  by (auto simp: applyComponentID_def run_simps split: option.splits if_splits prod.splits sum.splits)
    (metis resource.surjective resource.update_convs(16))

lemma applyResourcePayload_Inr:
  assumes "run_state (applyResourcePayload s p l) w = (Inr l', w')"
  shows "settings_ok (lo_Row l') \<and> r_ID (lo_Row l') = r_ID (lo_Row l) \<and>
    ValidateResourceTarget (s_net s) (r_Target (lo_Row l')) (r_Type (lo_Row l')) = None"
proof -
  from assms obtain r1 r2 r3 w3 tgs w4 r4 r5 where
    t: "applyTargetField (s_net s) p (applyBasicFields p (lo_Row l)) = Inr r1"
    and c: "applyConfirmationSettings (s_config s) p r1 = Inr r2"
    and d: "run_state (applyComponentID s p (r2\<lparr>r_IsActive := or_else (urp_IsActive p) (r_IsActive r2)\<rparr>)) w = (Inr r3, w3)"
    and g: "run_state (applyTags s p (lo_Tags l)) w3 = (Inr tgs, w4)"
    and v: "recheck_target (s_net s) r3 = Inr r4"
    and a: "check_smart_alerting (applySmartAlertingFields p (applyExpiryThresholds p r4)) = Inr r5"
    and l': "l' = l\<lparr>lo_Row := r5, lo_Tags := tgs\<rparr>"
    by (auto simp: applyResourcePayload_def run_and_then run_simps split: prod.splits sum.splits)
  obtain cid where r3: "r3 = r2\<lparr>r_IsActive := or_else (urp_IsActive p) (r_IsActive r2), r_ComponentID := cid\<rparr>"
    using applyComponentID_Inr [OF d] by auto
  have r5: "r5 = applySmartAlertingFields p (applyExpiryThresholds p r3)" "smart_ok r5"
    "ValidateResourceTarget (s_net s) (r_Target r3) (r_Type r3) = None"
    using a v by (auto simp: check_smart_alerting_Inr apply_pure_Inr)
  have keep: "r_ID r5 = r_ID r3 \<and> r_Target r5 = r_Target r3 \<and> r_Type r5 = r_Type r3 \<and> confirmation_ok r5 = confirmation_ok r3"
    by (simp add: r5(1) applySmartAlertingFields_def applyExpiryThresholds_def confirmation_ok_def split: option.split)
  have "confirmation_ok r3" "r_ID r3 = r_ID (lo_Row l)"
    using applyConfirmationSettings_Inr [OF c] apply_pure_Inr(1) [OF t] r3
    by (simp_all add: confirmation_ok_def applyBasicFields_def)
  with keep r5 l' show ?thesis
    by (simp add: settings_ok_def)
qed

lemma validateTypeSpecificUpdate_Inr:
  assumes "validateTypeSpecificUpdate p l = Inr l'"
  shows "settings_ok (lo_Row l') = settings_ok (lo_Row l) \<and> r_ID (lo_Row l') = r_ID (lo_Row l) \<and>
    r_Target (lo_Row l') = r_Target (lo_Row l) \<and> r_Type (lo_Row l') = r_Type (lo_Row l) \<and>
    (r_Type (lo_Row l) = ResourceKeyword \<longrightarrow> urp_Keyword p \<noteq> None \<longrightarrow> r_Keyword (lo_Row l') = urp_Keyword p)"
  using assms
  by (auto simp: validateTypeSpecificUpdate_def applyAndValidateHeartbeat_def applyAndValidateKeyword_def
      applyAndValidateProtocol_def settings_defs Let_def split: resource_type.splits sum.splits option.splits)

lemma main_columns_settings: "settings_ok (main_columns r x) = settings_ok r"
  by (simp add: main_columns_def settings_defs)

lemma main_columns_kept [simp]:
  "r_ID (main_columns r x) = r_ID x" "r_Keyword (main_columns r x) = r_Keyword x"
  "r_KeywordMode (main_columns r x) = r_KeywordMode x" "r_ProtocolType (main_columns r x) = r_ProtocolType x"
  "r_ProtocolPort (main_columns r x) = r_ProtocolPort x" "main_columns x x = x"
  "main_columns (x\<lparr>r_IsActive := b\<rparr>) x = x\<lparr>r_IsActive := b\<rparr>"
  by (simp_all add: main_columns_def)

text \<open>The row a creation inserts.\<close>

definition new_row :: "create_resource_payload \<Rightarrow> resource \<Rightarrow> bool" where
  "new_row p r \<longleftrightarrow> smart_ok r \<and> 1 \<le> r_ConfirmationChecks r \<and> 0 < r_ConfirmationInterval r \<and>
     (0 < crp_Interval p \<longrightarrow> r_ConfirmationInterval r < r_Interval r) \<and>
     (crp_Interval p \<noteq> 0 \<longrightarrow> r_Interval r = crp_Interval p)"

lemma check_request_None:
  "check_request s p = None \<Longrightarrow>
     ValidateConfirmationSettings (crp_Interval p) (fst (resolve_confirmation (s_config s) p)) (snd (resolve_confirmation (s_config s) p)) = None \<and>
     (crp_Type p \<noteq> ResourceHeartbeat \<longrightarrow> ValidateResourceTarget (s_net s) (crp_Target p) (crp_Type p) = None)"
  by (auto simp: check_request_def split: if_splits option.splits prod.splits)

lemma with_component_Inr:
  "run_state (with_component s p r) w = (Inr r', w') \<Longrightarrow> \<exists>c. r' = r\<lparr>r_ComponentID := c\<rparr>"
  by (auto simp: with_component_def run_simps split: option.splits if_splits prod.splits sum.splits list.splits)
    (metis resource.surjective resource.update_convs(16))+

lemma with_heartbeat_Inr:
  "run_state (with_heartbeat s p r) w = (Inr r', w') \<Longrightarrow>
    r_ID r' = r_ID r \<and> r_Interval r' = r_Interval r \<and> r_Type r' = r_Type r \<and> r_ConfirmationChecks r' = r_ConfirmationChecks r \<and>
    r_ConfirmationInterval r' = r_ConfirmationInterval r \<and> (crp_Type p \<noteq> ResourceHeartbeat \<longrightarrow> r' = r)"
  by (auto simp: with_heartbeat_def run_simps split: option.splits if_splits)

lemma prepare_resource_Inr:
  assumes "run_state (prepare_resource s p) w = (Inr l, w')"
  shows "r_ID (lo_Row l) = '''' \<and> smart_ok (lo_Row l) \<and> r_Interval (lo_Row l) = crp_Interval p \<and>
    ValidateConfirmationSettings (crp_Interval p) (r_ConfirmationChecks (lo_Row l)) (r_ConfirmationInterval (lo_Row l)) = None \<and>
    r_Type (lo_Row l) = crp_Type p \<and>
    (crp_Type p \<noteq> ResourceHeartbeat \<longrightarrow> r_Target (lo_Row l) = crp_Target p \<and>
      ValidateResourceTarget (s_net s) (crp_Target p) (crp_Type p) = None)"
proof -
  from assms obtain r1 w1 r2 r3 r4 r5 w5 tgs w6 chs w7 where
    q: "check_request s p = None"
    and h: "run_state (with_heartbeat s p (base_resource (s_config s) p)) w = (Inr r1, w1)"
    and k: "with_keyword p r1 = Inr r2" and pr: "with_protocol p r2 = Inr r3"
    and a: "with_smart_alerting (s_config s) p r3 = Inr r4"
    and c: "run_state (with_component s p r4) w1 = (Inr r5, w5)"
    and l: "lo_Row l = r5"
    unfolding prepare_resource_def failing_def run_and_then run_simps prod.case
    by (simp split: prod.splits sum.splits option.splits) force
  have r2: "r2 = r1\<lparr>r_Keyword := r_Keyword r2, r_KeywordMode := r_KeywordMode r2\<rparr>"
    using k by (auto simp: with_keyword_def split: if_splits option.splits)
  have r3: "r3 = r2\<lparr>r_ProtocolType := r_ProtocolType r3, r_ProtocolPort := r_ProtocolPort r3\<rparr>"
    using pr by (auto simp: with_protocol_def split: if_splits option.splits)
  have r4: "smart_ok r4 \<and> r_ID r4 = r_ID r3 \<and> r_Interval r4 = r_Interval r3 \<and> r_ConfirmationChecks r4 = r_ConfirmationChecks r3 \<and>
      r_ConfirmationInterval r4 = r_ConfirmationInterval r3 \<and> r_Type r4 = r_Type r3 \<and> r_Target r4 = r_Target r3"
    using a by (auto simp: with_smart_alerting_def check_smart_alerting_Inr)
  obtain cid where r5: "r5 = r4\<lparr>r_ComponentID := cid\<rparr>"
    using with_component_Inr [OF c] by blast
  have flat: "r_ID r3 = r_ID r1 \<and> r_Interval r3 = r_Interval r1 \<and> r_ConfirmationChecks r3 = r_ConfirmationChecks r1 \<and>
      r_ConfirmationInterval r3 = r_ConfirmationInterval r1 \<and> r_Type r3 = r_Type r1 \<and> r_Target r3 = r_Target r1"
    by (subst (1 2 3 4 5 6) r3, subst (1 2 3 4 5 6) r2) simp
  show ?thesis
    using with_heartbeat_Inr [OF h] check_request_None [OF q] r4 r5 l flat
    by (auto simp: base_resource_def smart_ok_def)
qed

lemma with_defaults_ID [simp]: "r_ID (with_defaults i t r) = i"
  by (simp add: with_defaults_def)

lemma Resources_Create_Inr:
  assumes "run_state (Resources_Create e l) w = (Inr r, w')"
  shows "(\<exists>i t. r = with_defaults i t (lo_Row l)) \<and> \<not> tbl_has r_ID (r_ID r) (resources w) \<and> resources w' = resources w @ [r]"
  using assms
  by (auto simp: Resources_Create_def EnsureID_def run_simps Let_def wrap_db_def split: if_splits)

lemma Resources_Create_Inl:
  "run_state (Resources_Create e l) w = (Inl err, w') \<Longrightarrow> resources w' = resources w"
  by (auto simp: Resources_Create_def EnsureID_def run_simps Let_def wrap_db_def split: if_splits)

lemma created_new_row:
  assumes "run_state (prepare_resource s p) w = (Inr l, w1)" and "run_state (Resources_Create e l) w1 = (Inr r, w')"
  shows "new_row p r"
  using prepare_resource_Inr [OF assms(1)] Resources_Create_Inr [OF assms(2)]
  by (auto simp: new_row_def with_defaults_def smart_ok_def ValidateConfirmationSettings_def split: if_splits)

section \<open>Properties of the rows that the service keeps\<close>

text \<open>
  Every operation of the service changes the table of resources in one of five ways: it inserts a
  row, writes the main columns of a row it has found active, sets the metadata, clears the component
  or the flag \<open>is_active\<close>. A property \<open>P\<close> of the rows that these changes keep holds after every
  sequence of calls; \<open>known\<close> are identifiers that are taken from the start, which no insertion uses.
\<close>

definition rows_inv :: "(resource \<Rightarrow> bool) \<Rightarrow> string set \<Rightarrow> world \<Rightarrow> bool" where
  "rows_inv P known w \<longleftrightarrow> distinct_keys r_ID (resources w) \<and> known \<subseteq> r_ID ` set (resources w) \<and>
     (\<forall>r \<in> set (resources w). P r)"

lemma rows_inv_stable: "stable core (rows_inv P known)"
  by (simp add: stable_def core_def rows_inv_def)

lemma rows_inv_map:
  assumes "rows_inv P known w" and "\<And>r. r_ID (f r) = r_ID r"
    and "\<And>r. r \<in> set (resources w) \<Longrightarrow> P r \<Longrightarrow> P (f r)" and "resources w' = map f (resources w)"
  shows "rows_inv P known w'"
proof -
  have "map r_ID (map f (resources w)) = map r_ID (resources w)"
    by (simp add: assms(2))
  then have "distinct_keys r_ID (map f (resources w))" "r_ID ` set (map f (resources w)) = r_ID ` set (resources w)"
    using assms(1) unfolding rows_inv_def distinct_keys_def by (simp only:, metis list.set_map)
  with assms(1,3,4) show ?thesis
    by (auto simp: rows_inv_def)
qed

lemma rows_inv_update:
  assumes "rows_inv P known w" and "\<And>r. r_ID (f r) = r_ID r"
    and "\<And>r. r \<in> set (resources w) \<Longrightarrow> P r \<Longrightarrow> r_ID r = rid \<Longrightarrow> P (f r)" and "resources w' = tbl_update r_ID rid f (resources w)"
  shows "rows_inv P known w'"
  by (rule rows_inv_map [OF assms(1) _ _ assms(4) [unfolded tbl_update_def]]) (simp_all add: assms(2,3))

definition found :: "string \<Rightarrow> error + loaded \<Rightarrow> world \<Rightarrow> bool" where
  "found rid x w \<longleftrightarrow> (\<forall>l. x = Inr l \<longrightarrow> r_ID (lo_Row l) = rid \<and> r_IsActive (lo_Row l) \<and>
     (\<forall>y \<in> set (resources w). r_ID y = rid \<longrightarrow> y = lo_Row l))"

lemma hoare_Load: "hoare (rows_inv P known) (Resources_Load e rid) (\<lambda>x w. rows_inv P known w \<and> found rid x w)"
proof (rule hoareI)
  fix w x w'
  assume inv: "rows_inv P known w" and run: "run_state (Resources_Load e rid) w = (x, w')"
  have w': "w' = bump w"
    using run by (auto simp: Resources_Load_def run_simps)
  have "found rid x w'"
    unfolding found_def
  proof (intro allI impI)
    fix l assume "x = Inr l"
    then have row: "tbl_find r_ID rid (resources w) = Some (lo_Row l)" "r_IsActive (lo_Row l)"
      using run by (auto simp: Resources_Load_def run_simps wrap_db_def active_row_def split: option.splits if_splits)
    have "lo_Row l \<in> set (resources w)" "r_ID (lo_Row l) = rid"
      using tbl_find_Some_key [OF row(1)] by auto
    then show "r_ID (lo_Row l) = rid \<and> r_IsActive (lo_Row l) \<and> (\<forall>y\<in>set (resources w'). r_ID y = rid \<longrightarrow> y = lo_Row l)"
      using row inv distinct_keys_same [of r_ID "resources w"] by (auto simp: w' rows_inv_def)
  qed
  with inv show "rows_inv P known w' \<and> found rid x w'"
    by (simp add: w' rows_inv_def)
qed

lemma hoare_Save:
  "hoare (\<lambda>w. rows_inv P known w \<and> (\<forall>y \<in> set (resources w). r_ID y = r_ID (lo_Row l) \<longrightarrow> P (main_columns (lo_Row l) y)))
     (Resources_Save e l) (\<lambda>_. rows_inv P known)"
proof (rule hoareI, elim conjE)
  fix w x w'
  assume inv: "rows_inv P known w" and ok: "\<forall>y \<in> set (resources w). r_ID y = r_ID (lo_Row l) \<longrightarrow> P (main_columns (lo_Row l) y)"
    and "run_state (Resources_Save e l) w = (x, w')"
  then have "resources w' = resources w \<or> resources w' = tbl_update r_ID (r_ID (lo_Row l)) (main_columns (lo_Row l)) (resources w)"
    unfolding Resources_Save_def run_simps Let_def by (simp split: if_splits) force+
  then show "rows_inv P known w'"
  proof
    assume "resources w' = tbl_update r_ID (r_ID (lo_Row l)) (main_columns (lo_Row l)) (resources w)"
    then show ?thesis
      by (rule rows_inv_update [OF inv, rotated -1]) (simp_all add: ok)
  qed (use inv in \<open>simp add: rows_inv_def\<close>)
qed

lemma preserves_execUpdate:
  assumes "\<And>r. r_ID (f r) = r_ID r" and "\<And>r. P r \<Longrightarrow> cond r \<Longrightarrow> P (f r)"
  shows "preserves (rows_inv P known) (Resources_execUpdate e msg rid cond f)"
proof (rule preservesI)
  fix w assume inv: "rows_inv P known w"
  have "resources (snd (run_state (Resources_execUpdate e msg rid cond f) w)) \<in>
      {resources w, tbl_update r_ID rid (\<lambda>r. if cond r then f r else r) (resources w)}"
    by (auto simp: Resources_execUpdate_def run_simps)
  then show "rows_inv P known (snd (run_state (Resources_execUpdate e msg rid cond f) w))"
  proof (elim insertE emptyE)
    assume "resources (snd (run_state (Resources_execUpdate e msg rid cond f) w)) =
      tbl_update r_ID rid (\<lambda>r. if cond r then f r else r) (resources w)"
    then show ?thesis
      by (rule rows_inv_update [OF inv, rotated -1]) (simp_all add: assms)
  qed (use inv in \<open>simp add: rows_inv_def\<close>)
qed

lemma enrich_inv:
  assumes "\<And>r m. Q r \<Longrightarrow> Q (r\<lparr>r_Metadata := m\<rparr>)"
  shows "preserves (rows_inv Q known) (asyncEnrichAndPersist s r)"
proof -
  have "preserves (rows_inv Q known) (Resources_UpdateMetadata (sev s) rid m)" for rid m
    unfolding Resources_UpdateMetadata_def by (rule preserves_execUpdate) (simp_all add: assms)
  note this [THEN preservesD]
  then show ?thesis
    unfolding asyncEnrichAndPersist_def
    by (auto simp: preserves_def run_simps State_Monad.get_def split_beta split: option.split)
qed

text \<open>The calls a client makes, and a sequence of them.\<close>

datatype service_call =
    CallCreate create_resource_payload
  | CallUpdate string update_resource_payload
  | CallDelete string
  | CallPause string
  | CallResume string
  | CallAddTags string "string list"
  | CallRemoveTag string string

definition run_call :: "resource_service \<Rightarrow> service_call \<Rightarrow> (world, unit) state" where
  "run_call s c =
     (case c of
        CallCreate p \<Rightarrow> do { CreateResource s p; State_Monad.return () }
      | CallUpdate rid p \<Rightarrow> do { UpdateResource s rid p; State_Monad.return () }
      | CallDelete rid \<Rightarrow> do { DeleteResource s rid; State_Monad.return () }
      | CallPause rid \<Rightarrow> do { PauseMonitoring s rid; State_Monad.return () }
      | CallResume rid \<Rightarrow> do { ResumeMonitoring s rid; State_Monad.return () }
      | CallAddTags rid is \<Rightarrow> do { AddTagsToResource s rid is; State_Monad.return () }
      | CallRemoveTag rid i \<Rightarrow> do { RemoveTagFromResource s rid i; State_Monad.return () })"

definition run_calls :: "resource_service \<Rightarrow> service_call list \<Rightarrow> (world, unit) state" where
  "run_calls s cs = for_each (run_call s) cs"

locale row_property =
  fixes P :: "resource \<Rightarrow> bool"
    and known :: "string set"
    and allowed :: "create_resource_payload \<Rightarrow> bool"
  assumes metadata: "P r \<Longrightarrow> P (r\<lparr>r_Metadata := m\<rparr>)"
    and retired: "P r \<Longrightarrow> P (r\<lparr>r_IsActive := False\<rparr>)"
    and detached: "P r \<Longrightarrow> P (r\<lparr>r_ComponentID := None\<rparr>)"
    and edited: "P x \<Longrightarrow> r_IsActive x \<Longrightarrow> settings_ok r \<Longrightarrow> P (main_columns r x)"
    and created: "allowed p \<Longrightarrow> new_row p r \<Longrightarrow> r_ID r \<notin> known \<Longrightarrow> P r"
begin

abbreviation (input) inv :: "world \<Rightarrow> bool" where
  "inv \<equiv> rows_inv P known"

lemma kept: "keeps core m \<Longrightarrow> preserves inv m"
  by (rule keeps_preserves [OF _ rows_inv_stable])

lemma Delete_inv: "preserves inv (Resources_Delete e rid)"
  unfolding Resources_Delete_def by (rule preserves_execUpdate) (simp_all add: retired)

lemma Components_Delete_inv: "preserves inv (Components_Delete e cid)"
proof (rule preservesI)
  fix w assume w: "inv w"
  let ?f = "\<lambda>r. if r_ComponentID r = Some cid then r\<lparr>r_ComponentID := None\<rparr> else r"
  have "resources (snd (run_state (Components_Delete e cid) w)) \<in> {resources w, map ?f (resources w)}"
    by (auto simp: Components_Delete_def run_simps)
  then show "inv (snd (run_state (Components_Delete e cid) w))"
  proof (elim insertE emptyE)
    assume "resources (snd (run_state (Components_Delete e cid) w)) = map ?f (resources w)"
    then show ?thesis
      by (rule rows_inv_map [OF w, rotated -1]) (simp_all add: detached)
  qed (use w in \<open>simp add: rows_inv_def\<close>)
qed

lemma cleanup_inv: "preserves inv (cleanup_component s cfg cid)"
  unfolding cleanup_component_def DeleteComponent_def
  by (intro pres kept core_recalculate core_resource_reads Components_Delete_inv)

end

context row_property
begin

lemma store_update_inv:
  assumes "settings_ok (lo_Row l)" and "r_ID (lo_Row l) = rid"
  shows "hoare (rows_inv (\<lambda>r. P r \<and> (r_ID r = rid \<longrightarrow> r_IsActive r)) known) (store_update s previous l) (\<lambda>_. inv)"
proof -
  let ?Q = "\<lambda>r. P r \<and> (r_ID r = rid \<longrightarrow> r_IsActive r)"
  have "preserves (rows_inv ?Q known) (asyncEnrichAndPersist s (lo_Row l))"
    by (rule enrich_inv) (simp add: metadata)
  note enrich = hoare_preserves [OF this]
  have save: "hoare (rows_inv ?Q known) (Resources_Save (sev s) l) (\<lambda>_. inv)"
    by (rule hoare_conseq [OF hoare_Save]) (auto simp: rows_inv_def edited assms)
  have "preserves inv (case upd of
        Some err \<Rightarrow> State_Monad.return (Inl err)
      | None \<Rightarrow> do {
          planned \<leftarrow> scheduler_call (sev s) (MonitorSchedule (r_ID (lo_Row l)));
          (case planned of
             Some err \<Rightarrow> State_Monad.return (Inl (Suffixf ErrSchedulerSync (error_text err)))
           | None \<Rightarrow> do {
               reconcileComponentChange s (lo_Row l) previous;
               State_Monad.return (Inr (lo_Row l))
             })
        })" for upd
    unfolding reconcileComponentChange_def by (intro pres kept core_tag_create core_recalculate_of cleanup_inv)
  note rest = hoare_preserves [OF this]
  show ?thesis
    unfolding store_update_def by (rule hoare_bind [OF enrich hoare_bind [OF save rest]])
qed

lemma UpdateResource_inv: "preserves inv (UpdateResource s rid p)"
proof (rule preservesI)
  fix w assume w: "inv w"
  obtain x w1 where load: "run_state (Resources_Load (sev s) rid) w = (x, w1)" by fastforce
  have w1: "inv w1 \<and> found rid x w1"
    using hoareD [OF hoare_Load w load] .
  show "inv (snd (run_state (UpdateResource s rid p) w))"
  proof (cases x)
    case (Inl err)
    with load w1 show ?thesis
      by (simp add: UpdateResource_def run_and_then load_resource_def run_simps not_found_as_def)
  next
    case (Inr l)
    obtain y w2 where app: "run_state (applyResourcePayload s p l) w1 = (y, w2)" by fastforce
    have w2: "core w2 = core w1" "inv w2"
      using keepsD [OF core_apply, of s p l w1] preservesD [OF kept [OF core_apply], of w1 s p l] w1 app by auto
    note red = UpdateResource_def run_and_then load_resource_def run_simps not_found_as_def load Inr app
    show ?thesis
    proof (cases y)
      case (Inl err)
      with w2 show ?thesis by (simp add: red)
    next
      case (Inr l1)
      show ?thesis
      proof (cases "validateTypeSpecificUpdate p l1")
        case (Inl err)
        with w2 \<open>y = Inr l1\<close> show ?thesis by (simp add: red)
      next
        case v: (Inr l2)
        have l2: "settings_ok (lo_Row l2)" "r_ID (lo_Row l2) = rid"
          using validateTypeSpecificUpdate_Inr [OF v] applyResourcePayload_Inr [OF app [unfolded Inr]] w1 \<open>x = Inr l\<close>
          by (auto simp: found_def)
        have "rows_inv (\<lambda>r. P r \<and> (r_ID r = rid \<longrightarrow> r_IsActive r)) known w2"
          using w1 w2 \<open>x = Inr l\<close> by (auto simp: rows_inv_def found_def core_def)
        from hoareD [OF store_update_inv [OF l2] this prod.collapse [symmetric]] v Inr show ?thesis
          by (simp add: red)
      qed
    qed
  qed
qed

lemma CreateResource_inv:
  assumes "allowed p"
  shows "preserves inv (CreateResource s p)"
proof -
  have "preserves inv (and_then (prepare_resource s p) (Resources_Create (sev s)))"
  proof (rule preservesI)
    fix w assume w: "inv w"
    obtain x w1 where prep: "run_state (prepare_resource s p) w = (x, w1)" by fastforce
    have w1: "inv w1"
      using preservesD [OF kept [OF core_prepare], of w s p] w prep by simp
    show "inv (snd (run_state (and_then (prepare_resource s p) (Resources_Create (sev s))) w))"
    proof (cases x)
      case (Inl err)
      with prep w1 show ?thesis by (simp add: run_and_then)
    next
      case (Inr l)
      obtain y w2 where ins: "run_state (Resources_Create (sev s) l) w1 = (y, w2)" by fastforce
      have "inv w2"
      proof (cases y)
        case (Inl err)
        with Resources_Create_Inl [of "sev s" l w1] ins w1 show ?thesis by (simp add: rows_inv_def)
      next
        case (Inr r)
        note c = Resources_Create_Inr [OF ins [unfolded Inr]]
        have "r_ID r \<notin> r_ID ` set (resources w1)"
          using c by (auto simp: tbl_has_def list_ex_iff)
        moreover have "new_row p r"
          using created_new_row prep \<open>x = Inr l\<close> ins Inr by blast
        ultimately show ?thesis
          using w1 c created [OF assms, of r] by (auto simp: rows_inv_def distinct_keys_def)
      qed
      with ins prep Inr show ?thesis by (simp add: run_and_then)
    qed
  qed
  then show ?thesis
    unfolding CreateResource_def
    by (rule preserves_bind) (intro pres kept [OF core_tag_create(2)] kept [OF core_recalculate_of] enrich_inv metadata)
qed

end

context row_property
begin

lemma DeleteResource_inv: "preserves inv (DeleteResource s rid)"
proof -
  have "preserves inv (resolve_for_deletion s rid)"
  proof (rule keeps_preserves)
    show "keeps resources (resolve_for_deletion s rid)"
      unfolding resolve_for_deletion_def Incidents_FindActiveByResourceID_def Incidents_Update_def by (intro keep; simp)
    show "stable resources inv"
      by (simp add: stable_def rows_inv_def)
  qed
  then show ?thesis
    unfolding DeleteResource_def Let_def
    by (intro pres kept [OF core_tag_create(2)] kept [OF core_queries(7)] Delete_inv cleanup_inv)
qed

text \<open>Operations that write back the row they have loaded, with its activity cleared or with other links.\<close>

lemma write_back_inv:
  assumes "\<And>l. r_ID (lo_Row (g l)) = r_ID (lo_Row l)"
    and "\<And>l. P (lo_Row l) \<Longrightarrow> P (main_columns (lo_Row (g l)) (lo_Row l))"
  shows "hoare (\<lambda>w. inv w \<and> found rid (Inr l) w) (Resources_Save e (g l)) (\<lambda>_. inv)"
  by (rule hoare_conseq [OF hoare_Save]) (use assms in \<open>auto simp: rows_inv_def found_def\<close>)

lemma PauseMonitoring_inv: "preserves inv (PauseMonitoring s rid)"
proof (rule preserves_hoare)
  have "hoare (\<lambda>w. inv w \<and> found rid (Inr l) w)
      (Resources_Save (sev s) (l\<lparr>lo_Row := (lo_Row l)\<lparr>r_IsActive := False\<rparr>\<rparr>)) (\<lambda>_. inv)" for l
    by (rule write_back_inv) (simp_all add: retired)
  note save = this
  have rest: "hoare inv (case upd of Some err \<Rightarrow> State_Monad.return (Some err)
      | None \<Rightarrow> scheduler_call (sev s) (MonitorUnschedule rid)) (\<lambda>_. inv)" for upd
    by (intro hoare_preserves pres kept [OF core_tag_create(2)])
  show "hoare inv (PauseMonitoring s rid) (\<lambda>_. inv)"
    unfolding PauseMonitoring_def
    by (intro hoare_bind [OF hoare_Load] hoare_case_sum hoare_if hoare_return)
      (auto intro: hoare_conseq [OF hoare_bind [OF save rest]])
qed

text \<open>The repository finds only active rows, so resuming never gets past the lookup.\<close>

lemma ResumeMonitoring_inv: "preserves inv (ResumeMonitoring s rid)"
proof (rule preserves_hoare)
  show "hoare inv (ResumeMonitoring s rid) (\<lambda>_. inv)"
    unfolding ResumeMonitoring_def
    by (intro hoare_bind [OF hoare_Load] hoare_case_sum hoare_if hoare_return) (auto simp: found_def hoare_def)
qed

end

context row_property
begin

lemma found_stable: "stable core (\<lambda>w. inv w \<and> found rid x w)"
  by (simp add: stable_def core_def rows_inv_def found_def)

lemma links_inv: "hoare (\<lambda>w. inv w \<and> found rid (Inr l) w) (Resources_Save e (l\<lparr>lo_Tags := ts\<rparr>)) (\<lambda>_. inv)"
  by (rule write_back_inv) simp_all

lemma AddTagsToResource_inv: "preserves inv (AddTagsToResource s rid is)"
proof (rule preserves_hoare)
  let ?R = "\<lambda>l w. inv w \<and> found rid (Inr l) w"
  have tags: "hoare (?R l) (find_tags s is) (\<lambda>x w. case x of Inl _ \<Rightarrow> inv w | Inr _ \<Rightarrow> ?R l w)" for l
    by (rule hoare_conseq [OF hoare_keeps [OF core_find_tags found_stable]]) (auto split: sum.split)
  have start: "hoare (\<lambda>w. inv w \<and> found rid x w) (State_Monad.return (not_found_as err x))
      (\<lambda>x w. case x of Inl _ \<Rightarrow> inv w | Inr l \<Rightarrow> ?R l w)" for x err
    by (rule hoare_return) (auto simp: not_found_as_def split: sum.split)
  show "hoare inv (AddTagsToResource s rid is) (\<lambda>_. inv)"
    unfolding AddTagsToResource_def
    by (intro hoare_bind [OF hoare_Load] hoare_bind [of _ _ "\<lambda>_. inv"] hoare_return
        hoare_and_then [OF start] hoare_and_then [OF tags] hoare_bind [OF links_inv])
qed

lemma RemoveTagFromResource_inv: "preserves inv (RemoveTagFromResource s rid i)"
proof (rule preserves_hoare)
  let ?R = "\<lambda>l w. inv w \<and> found rid (Inr l) w"
  have tags: "hoare (?R l) (Tags_FindByID (sev s) i) (\<lambda>_. ?R l)" for l
    by (rule hoare_keeps [OF core_resource_reads(4) found_stable])
  have start: "hoare (\<lambda>w. inv w \<and> found rid x w) (State_Monad.return (not_found_as err x))
      (\<lambda>x w. case x of Inl _ \<Rightarrow> inv w | Inr l \<Rightarrow> ?R l w)" for x err
    by (rule hoare_return) (auto simp: not_found_as_def split: sum.split)
  have seen: "hoare (?R l) (State_Monad.return (not_found_as err x))
      (\<lambda>x w. case x of Inl _ \<Rightarrow> inv w | Inr _ \<Rightarrow> ?R l w)" for x :: "error + tag" and err l
    by (rule hoare_return) (auto split: sum.split)
  show "hoare inv (RemoveTagFromResource s rid i) (\<lambda>_. inv)"
    unfolding RemoveTagFromResource_def
    by (intro hoare_bind [OF hoare_Load] hoare_bind [of _ _ "\<lambda>_. inv"] hoare_return
        hoare_and_then [OF start] hoare_bind [OF tags] hoare_and_then [OF seen] hoare_if hoare_bind [OF links_inv]) simp
qed

lemma run_calls_inv:
  assumes "\<And>p. CallCreate p \<in> set cs \<Longrightarrow> allowed p"
  shows "preserves inv (run_calls s cs)"
  unfolding run_calls_def
proof (rule preserves_for_each)
  fix c assume c: "c \<in> set cs"
  show "preserves inv (run_call s c)"
    using assms c unfolding run_call_def
    by (cases c) (auto intro!: preserves_bind preserves_return CreateResource_inv UpdateResource_inv DeleteResource_inv
        PauseMonitoring_inv ResumeMonitoring_inv AddTagsToResource_inv RemoveTagFromResource_inv)
qed

end

section \<open>The properties\<close>

interpretation settings: row_property settings_ok "{}" "\<lambda>p. crp_Interval p \<noteq> 0"
proof
  fix r x p m
  show "settings_ok r \<Longrightarrow> settings_ok (r\<lparr>r_Metadata := m\<rparr>)" "settings_ok r \<Longrightarrow> settings_ok (r\<lparr>r_IsActive := False\<rparr>)"
    "settings_ok r \<Longrightarrow> settings_ok (r\<lparr>r_ComponentID := None\<rparr>)"
    by (simp_all add: settings_defs)
  show "settings_ok x \<Longrightarrow> r_IsActive x \<Longrightarrow> settings_ok r \<Longrightarrow> settings_ok (main_columns r x)"
    by (simp add: main_columns_settings)
  show "crp_Interval p \<noteq> 0 \<Longrightarrow> new_row p r \<Longrightarrow> r_ID r \<notin> {} \<Longrightarrow> settings_ok r"
    by (auto simp: new_row_def settings_ok_def confirmation_ok_def)
qed

text \<open>The row of a monitor is inactive, for the identifier \<open>rid\<close>.\<close>

interpretation paused: row_property "\<lambda>r. r_ID r = rid \<longrightarrow> \<not> r_IsActive r" "{rid}" "\<lambda>_. True" for rid
  by unfold_locales auto

definition type_fields :: "resource \<Rightarrow> string \<times> string option \<times> string option \<times> string option \<times> int option" where
  "type_fields r = (r_ID r, r_Keyword r, r_KeywordMode r, r_ProtocolType r, r_ProtocolPort r)"

interpretation typed: row_property "\<lambda>r. r_ID r \<in> r_ID ` set t \<longrightarrow> type_fields r \<in> type_fields ` set t" "r_ID ` set t" "\<lambda>_. True" for t
  by unfold_locales (auto simp: type_fields_def)

definition demo_lookups :: lookups where
  "demo_lookups = \<lparr>url_host = (\<lambda>_. Some ''example.org''), tls_info = (\<lambda>_ _ _. Some (Some 99, ''CA'')), whois_lookup = (\<lambda>_ _. None)\<rparr>"

definition demo_service :: resource_service where
  "demo_service = \<lparr>s_env = demo_env,
     s_config = \<lparr>cfg_FlapDetectionEnabled = True, cfg_FlapThreshold = 4, cfg_FlapWindowSeconds = 600,
       cfg_FlapMaxDurationMinutes = 30, cfg_GroupingWindowSeconds = 30, cfg_EnableICMP = True,
       cfg_ConfirmationChecks = 3, cfg_ConfirmationInterval = 30, cfg_ReminderIntervalMinutes = 0\<rparr>,
     s_net = \<lparr>LookupHost = (\<lambda>_. Inr [''93.184.216.34'']),
       ParseRequestURI = (\<lambda>_. Some \<lparr>u_Scheme = ''https'', u_Host = ''example.org'', u_Hostname = ''example.org''\<rparr>),
       allow_private = False\<rparr>,
     s_icmp = True, s_enrichment = Some demo_lookups, s_components = None, s_channels = True\<rparr>"

definition demo_create :: create_resource_payload where
  "demo_create = \<lparr>crp_Name = ''shop'', crp_Type = ResourceKeyword, crp_Interval = 60, crp_Timeout = 10,
     crp_Target = ''https://example.org'', crp_HeartbeatInterval = None, crp_HeartbeatGrace = None,
     crp_Keyword = Some ''welcome'', crp_KeywordMode = None, crp_ProtocolType = None, crp_ProtocolPort = None,
     crp_Tags = [], crp_NotificationChannelNames = [], crp_ComponentID = None, crp_ConfirmationChecks = None,
     crp_ConfirmationInterval = None, crp_ExpiryAlertThresholds = None, crp_FlapDetectionEnabled = None,
     crp_FlapThreshold = None, crp_FlapWindowSeconds = None, crp_FlapMaxDurationMinutes = None,
     crp_ReminderIntervalMinutes = None\<rparr>"

definition no_change :: update_resource_payload where
  "no_change = \<lparr>urp_Name = None, urp_Type = None, urp_Target = None, urp_Interval = None, urp_Timeout = None,
     urp_IsActive = None, urp_Tags = None, urp_ComponentID = None, urp_ConfirmationChecks = None,
     urp_ConfirmationInterval = None, urp_ExpiryAlertThresholds = None, urp_FlapDetectionEnabled = None,
     urp_FlapThreshold = None, urp_FlapWindowSeconds = None, urp_FlapMaxDurationMinutes = None,
     urp_ReminderIntervalMinutes = None, urp_HeartbeatInterval = None, urp_HeartbeatGrace = None,
     urp_Keyword = None, urp_KeywordMode = None, urp_ProtocolType = None, urp_ProtocolPort = None\<rparr>"

text \<open>The state after one monitor was created.\<close>

definition demo_created :: world where
  "demo_created = snd (run_state (CreateResource demo_service demo_create) empty_world)"

definition demo_monitor :: string where
  "demo_monitor = (case fst (run_state (CreateResource demo_service demo_create) empty_world) of
     (Some r, None) \<Rightarrow> r_ID r | _ \<Rightarrow> '''')"


text \<open>
  The interval zero escapes the comparison of the two intervals: it stands for the default of 300
  seconds, which the repository fills in after the validation.
\<close>

lemma zero_interval_escapes_validation:
  "\<exists>r. fst (run_state (CreateResource demo_service
      (demo_create\<lparr>crp_Interval := 0, crp_ConfirmationInterval := Some 500\<rparr>)) empty_world) = (Some r, None) \<and>
    r_Interval r = 300 \<and> r_ConfirmationInterval r = 500"
proof -
  let ?res = "fst (run_state (CreateResource demo_service
      (demo_create\<lparr>crp_Interval := 0, crp_ConfirmationInterval := Some 500\<rparr>)) empty_world)"
  have "case ?res of (Some r, None) \<Rightarrow> r_Interval r = 300 \<and> r_ConfirmationInterval r = 500 | _ \<Rightarrow> False"
    by code_simp
  then show ?thesis
    by (auto split: prod.splits option.splits)
qed

text \<open>With a timeout of zero the default of ten seconds is scaled twice and overflows to a negative duration.\<close>

lemma ssl_default_timeout_negative: "t \<le> 0 \<Longrightarrow> ssl_timeout t < 0"
  by (simp add: ssl_timeout_def wrap64_def min_int64_def)


lemma Save_None:
  "run_state (Resources_Save e l) w = (None, w') \<Longrightarrow>
    resources w' = tbl_update r_ID (r_ID (lo_Row l)) (main_columns (lo_Row l)) (resources w)"
  by (auto simp: Resources_Save_def run_simps error_of_def wrap_db_def Let_def split: if_splits)

lemma Pause_None:
  assumes "distinct_keys r_ID (resources w)" and "run_state (PauseMonitoring s rid) w = (None, w')"
  shows "rows_inv (\<lambda>r. r_ID r = rid \<longrightarrow> \<not> r_IsActive r) {rid} w'"
proof -
  let ?P = "\<lambda>r. r_ID r = rid \<longrightarrow> \<not> r_IsActive r"
  have inv: "rows_inv (\<lambda>_. True) {} w"
    using assms(1) by (simp add: rows_inv_def)
  obtain x w1 where load: "run_state (Resources_Load (sev s) rid) w = (x, w1)" by fastforce
  note f = hoareD [OF hoare_Load inv load]
  obtain l where l: "x = Inr l"
    using assms(2) load by (cases x) (auto simp: PauseMonitoring_def run_simps)
  have w1: "resources w1 = resources w" "rid \<in> r_ID ` set (resources w)"
    using load l by (auto simp: Resources_Load_def run_simps wrap_db_def active_row_def image_iff split: option.splits if_splits
        dest!: tbl_find_Some_key)
  let ?row = "(lo_Row l)\<lparr>r_IsActive := False\<rparr>"
  have row: "r_ID (lo_Row l) = rid" "r_IsActive (lo_Row l)"
    using f l by (simp_all add: found_def)
  obtain y w2 where save: "run_state (Resources_Save (sev s) (l\<lparr>lo_Row := ?row\<rparr>)) w1 = (y, w2)" by fastforce
  have y: "y = None" "resources w' = resources w2"
    using assms(2) keepsD [OF core_tag_create(2), of "sev s" "MonitorUnschedule rid" w2]
    by (auto simp: PauseMonitoring_def run_simps load l row save core_def split: option.splits)
  have upd: "resources w' = tbl_update r_ID rid (main_columns ?row) (resources w)"
    using Save_None [OF save [unfolded y(1)]] by (simp add: y w1 row)
  have "rows_inv (\<lambda>_. True) {rid} w"
    using inv w1 by (simp add: rows_inv_def)
  from upd this have "rows_inv (\<lambda>_. True) {rid} w'"
    by (rule rows_inv_update [rotated -1, where f = "main_columns ?row"]) simp_all
  moreover have "?P (if r_ID r = rid then main_columns ?row r else r)" for r
    by (simp add: main_columns_def)
  then have "\<forall>r \<in> set (resources w'). ?P r"
    unfolding upd tbl_update_def set_map by (intro ballI, elim imageE) (simp only:)
  ultimately show ?thesis
    by (simp add: rows_inv_def)
qed

text \<open>
  C37: A monitor that was paused stays paused: after any further calls to the service its row is
  inactive and resuming it returns an error, because the lookup that comes first finds only active rows.
\<close>

theorem paused_monitor_never_resumes:
  assumes "distinct_keys r_ID (resources w)" and "run_state (PauseMonitoring s rid) w = (None, w1)"
    and "run_state (run_calls s cs) w1 = (u, w2)"
  shows "(\<exists>r \<in> set (resources w2). r_ID r = rid) \<and> (\<forall>r \<in> set (resources w2). r_ID r = rid \<longrightarrow> \<not> r_IsActive r) \<and>
    (\<exists>err. fst (run_state (ResumeMonitoring s rid) w2) = Some err)"
proof -
  let ?P = "\<lambda>r. r_ID r = rid \<longrightarrow> \<not> r_IsActive r"
  have "rows_inv ?P {rid} (snd (run_state (run_calls s cs) w1))"
    using paused.run_calls_inv [of cs rid s] Pause_None [OF assms(1,2)] by (simp add: preserves_def)
  with assms(3) have inv: "rows_inv ?P {rid} w2"
    by simp
  then have none: "active_row rid (resources w2) = None"
    by (auto simp: active_row_def rows_inv_def split: option.split dest: tbl_find_Some_key)
  have "\<exists>err. fst (run_state (ResumeMonitoring s rid) w2) = Some err"
    using none by (simp add: ResumeMonitoring_def Resources_Load_def run_simps wrap_db_def)
  with inv show ?thesis
    by (auto simp: rows_inv_def)
qed

theorem paused_monitor_never_resumes_witness:
  "\<exists>err. fst (run_state (ResumeMonitoring demo_service demo_monitor)
     (snd (run_state (run_calls demo_service [CallUpdate demo_monitor (no_change\<lparr>urp_IsActive := Some True\<rparr>)])
       (snd (run_state (PauseMonitoring demo_service demo_monitor) demo_created))))) = Some err"
proof -
  have d: "distinct_keys r_ID (resources demo_created)"
    and "fst (run_state (PauseMonitoring demo_service demo_monitor) demo_created) = None"
    by code_simp+
  then have "run_state (PauseMonitoring demo_service demo_monitor) demo_created =
      (None, snd (run_state (PauseMonitoring demo_service demo_monitor) demo_created))"
    by (metis prod.collapse)
  from paused_monitor_never_resumes [OF d this prod.collapse [symmetric]] show ?thesis
    by blast
qed

lemma UpdateResource_Inr:
  assumes "run_state (UpdateResource s rid p) w = (Inr r, w')"
  obtains l w1 l1 w2 l2 where "run_state (Resources_Load (sev s) rid) w = (Inr l, w1)"
    "run_state (applyResourcePayload s p l) w1 = (Inr l1, w2)" "validateTypeSpecificUpdate p l1 = Inr l2" "r = lo_Row l2"
proof -
  have "r = lo_Row l2" if "run_state (store_update s c l2) w2 = (Inr r, w')" for c l2 w2
    using that by (auto simp: store_update_def run_simps split: prod.splits option.splits)
  then show ?thesis
    using assms that
    by (auto simp: UpdateResource_def run_and_then load_resource_def run_simps not_found_as_def split: prod.splits sum.splits)
qed

text \<open>
  A new keyword is accepted and shown in the answer, but the row keeps the keyword it had: the
  statement that writes the main columns leaves out the keyword, its mode and the protocol fields.
\<close>

theorem keyword_update_is_lost:
  assumes "distinct_keys r_ID (resources w)" and "run_state (UpdateResource s rid p) w = (Inr r, w')"
    and "r_Type r = ResourceKeyword" and "urp_Keyword p = Some k"
  shows "r_Keyword r = Some k \<and>
    (\<forall>row' \<in> set (resources w'). r_ID row' = rid \<longrightarrow> (\<exists>row \<in> set (resources w). type_fields row' = type_fields row))"
proof
  obtain l w1 l1 w2 l2 where u: "run_state (Resources_Load (sev s) rid) w = (Inr l, w1)"
      "run_state (applyResourcePayload s p l) w1 = (Inr l1, w2)" "validateTypeSpecificUpdate p l1 = Inr l2" "r = lo_Row l2"
    using assms(2) by (rule UpdateResource_Inr)
  then show "r_Keyword r = Some k"
    using validateTypeSpecificUpdate_Inr [OF u(3)] assms(3,4) by simp
  have "rid \<in> r_ID ` set (resources w)"
    using u(1) by (auto simp: Resources_Load_def run_simps wrap_db_def active_row_def image_iff split: option.splits if_splits
        dest!: tbl_find_Some_key)
  moreover have "rows_inv (\<lambda>r. r_ID r \<in> r_ID ` set (resources w) \<longrightarrow> type_fields r \<in> type_fields ` set (resources w)) (r_ID ` set (resources w)) w'"
    using preservesD [OF typed.UpdateResource_inv [of "resources w" s rid p], of w] assms(1,2) by (auto simp: rows_inv_def)
  ultimately show "\<forall>row' \<in> set (resources w'). r_ID row' = rid \<longrightarrow> (\<exists>row \<in> set (resources w). type_fields row' = type_fields row)"
    by (auto simp: rows_inv_def)
qed

theorem keyword_update_is_lost_witness:
  "\<exists>r. fst (run_state (UpdateResource demo_service demo_monitor (no_change\<lparr>urp_Keyword := Some ''sold out''\<rparr>)) demo_created) = Inr r \<and>
     r_Keyword r = Some ''sold out'' \<and>
     map r_Keyword (resources (snd (run_state (UpdateResource demo_service demo_monitor
       (no_change\<lparr>urp_Keyword := Some ''sold out''\<rparr>)) demo_created))) = [Some ''welcome'']"
proof -
  let ?run = "run_state (UpdateResource demo_service demo_monitor (no_change\<lparr>urp_Keyword := Some ''sold out''\<rparr>)) demo_created"
  have d: "distinct_keys r_ID (resources demo_created)"
    and ok: "case fst ?run of Inr r \<Rightarrow> r_Type r = ResourceKeyword | Inl _ \<Rightarrow> False"
    and row: "map r_Keyword (resources (snd ?run)) = [Some ''welcome'']"
    by code_simp+
  obtain r where r: "fst ?run = Inr r" "r_Type r = ResourceKeyword"
    using ok by (auto split: sum.splits)
  then have "?run = (Inr r, snd ?run)"
    by (metis prod.collapse)
  from keyword_update_is_lost [OF d this r(2), of "''sold out''"] r row show ?thesis
    by (simp add: no_change_def)
qed

text \<open>The host whose addresses are checked for a target.\<close>

definition target_host :: "net_env \<Rightarrow> resource_type \<Rightarrow> string \<Rightarrow> string option" where
  "target_host ne typ target =
     (case typ of
        ResourceHTTP \<Rightarrow> map_option u_Hostname (ParseRequestURI ne target)
      | ResourceKeyword \<Rightarrow> map_option u_Hostname (ParseRequestURI ne target)
      | ResourceTCP \<Rightarrow> Some (case SplitHostPort target of Some (host, _) \<Rightarrow> host | None \<Rightarrow> target)
      | ResourceProtocol \<Rightarrow> Some (case SplitHostPort target of Some (host, _) \<Rightarrow> host | None \<Rightarrow> target)
      | ResourceICMP \<Rightarrow> Some target
      | ResourceDNS \<Rightarrow> Some target
      | _ \<Rightarrow> None)"

lemma ValidateResolvedIPs_None:
  assumes "ValidateResolvedIPs ne host = None" and "resolveHost ne host = Inr ips" and "\<not> allow_private ne"
  shows "\<not> list_ex blocked_ranges ips"
  using assms ShouldBlock_ranges
  by (auto simp: ValidateResolvedIPs_def resolveHost_def Let_def list_ex_iff map_filter_def
      split: option.splits sum.splits if_splits) force+

lemma ValidateResourceTarget_None:
  assumes "ValidateResourceTarget ne target typ = None" and "target_host ne typ target = Some host"
  shows "ValidateResolvedIPs ne host = None"
  using assms
  by (auto simp: ValidateResourceTarget_def target_host_def ValidateAddress_def validateHTTPTarget_def validateHostPort_def
      split: option.splits resource_type.splits if_splits)

text \<open>
  C15: The target of every monitor the service creates or updates was resolved to permitted addresses only:
  when private targets are not allowed, none of the addresses the resolver gave for its host is in
  a blocked range.
\<close>

theorem accepted_target_is_public:
  assumes "fst (run_state (CreateResource s p) w) = (Some r, e) \<or> fst (run_state (UpdateResource s rid q) w) = Inr r"
    and "target_host (s_net s) (r_Type r) (r_Target r) = Some host" and "resolveHost (s_net s) host = Inr ips"
    and "\<not> allow_private (s_net s)"
  shows "\<not> list_ex blocked_ranges ips"
proof -
  have "ValidateResourceTarget (s_net s) (r_Target r) (r_Type r) = None"
    using assms(1)
  proof
    assume "fst (run_state (CreateResource s p) w) = (Some r, e)"
    then obtain l w1 w2 where c: "run_state (prepare_resource s p) w = (Inr l, w1)" "run_state (Resources_Create (sev s) l) w1 = (Inr r, w2)"
      by (auto simp: CreateResource_def run_and_then run_simps split: prod.splits sum.splits option.splits)
    obtain i t where "r = with_defaults i t (lo_Row l)"
      using Resources_Create_Inr [OF c(2)] by blast
    moreover have "r_Type r \<noteq> ResourceHeartbeat"
      using assms(2) by (auto simp: target_host_def)
    ultimately show ?thesis
      using prepare_resource_Inr [OF c(1)] by (simp add: with_defaults_def)
  next
    assume "fst (run_state (UpdateResource s rid q) w) = Inr r"
    then obtain w' where "run_state (UpdateResource s rid q) w = (Inr r, w')"
      by (metis prod.collapse)
    then obtain l w1 l1 w2 l2 where u: "run_state (applyResourcePayload s q l) w1 = (Inr l1, w2)"
        "validateTypeSpecificUpdate q l1 = Inr l2" "r = lo_Row l2"
      by (rule UpdateResource_Inr)
    then show ?thesis
      using applyResourcePayload_Inr [OF u(1)] validateTypeSpecificUpdate_Inr [OF u(2)] by simp
  qed
  then show ?thesis
    by (rule ValidateResolvedIPs_None [OF ValidateResourceTarget_None [OF _ assms(2)] assms(3,4)])
qed

theorem accepted_target_is_public_witness:
  "\<exists>ips. resolveHost (s_net demo_service) ''example.org'' = Inr ips \<and> ips \<noteq> [] \<and> \<not> list_ex blocked_ranges ips"
proof -
  let ?res = "fst (run_state (CreateResource demo_service demo_create) empty_world)"
  have "case ?res of (Some r, None) \<Rightarrow> target_host (s_net demo_service) (r_Type r) (r_Target r) = Some ''example.org'' | _ \<Rightarrow> False"
    and ips: "case resolveHost (s_net demo_service) ''example.org'' of Inr ips \<Rightarrow> ips \<noteq> [] | _ \<Rightarrow> False"
    by code_simp+
  then obtain r where r: "?res = (Some r, None)" "target_host (s_net demo_service) (r_Type r) (r_Target r) = Some ''example.org''"
    by (auto split: prod.splits option.splits)
  moreover have "\<not> allow_private (s_net demo_service)"
    by (simp add: demo_service_def)
  moreover obtain ips where "resolveHost (s_net demo_service) ''example.org'' = Inr ips" "ips \<noteq> []"
    using ips by (auto split: sum.splits)
  ultimately show ?thesis
    using accepted_target_is_public [OF disjI1 [OF r(1)] r(2)] by blast
qed

text \<open>A list of Kafka brokers passes the check of its format and is then looked up as if it were one host.\<close>

lemma kafka_list_looked_up_whole:
  "parseKafkaBootstrapTargets ''k1:9092,k2:9092'' = Inr [''k1:9092'', ''k2:9092''] \<and>
   target_host ne ResourceProtocol ''k1:9092,k2:9092'' = Some ''k1:9092,k2:9092''"
  by code_simp

text \<open>What the listing of the unresolved incidents returns: the newest fifty, resolved or not.\<close>

lemma ListUnresolvedIncidents_lists_all:
  "fst (run_state (ListUnresolvedIncidents s rid) w) = Inr is \<Longrightarrow> is = page 50 0 (incidents_of rid (incidents w))"
  by (auto simp: ListUnresolvedIncidents_def Incidents_FindByResource_def Resources_FindByID_def run_simps wrap_db_def
      split: if_splits option.splits sum.splits)

end
