(* ===== verification/Notification_Retry.thy ===== *)
theory Notification_Retry
  imports Incidents
begin

text \<open>
  The retry of notification events that were left pending, run once at every start
  (\<open>src/internal/service/pending_notification_retry_service.go\<close>): each event of the oldest pending ones
  is claimed, and then expired, sent to the channels of its resource, or marked as failed. The channels
  are resolved in the same three steps as for a new incident, and one channel is served as there
  (\<open>resolveNotificationChannels\<close>, \<open>dispatchNotification\<close> of the incident service). Durations in the texts
  of errors are printed in nanoseconds.
\<close>

section \<open>The pass\<close>

record retry_summary =
  rs_Retried :: nat
  rs_Expired :: nat
  rs_Failed :: nat
  rs_SkippedClaimed :: nat
  rs_Scanned :: nat

definition empty_summary :: retry_summary where
  "empty_summary = \<lparr>rs_Retried = 0, rs_Expired = 0, rs_Failed = 0, rs_SkippedClaimed = 0, rs_Scanned = 0\<rparr>"

text \<open>What became of one event; \<open>Unsettled\<close> is a \<open>continue\<close> after a failed claim or a failed mark.\<close>

datatype retry_outcome = Retried | Expired | Failed | SkippedClaimed | Unsettled

fun count_outcome :: "retry_outcome \<Rightarrow> retry_summary \<Rightarrow> retry_summary" where
  "count_outcome Retried s = s\<lparr>rs_Retried := Suc (rs_Retried s)\<rparr>"
| "count_outcome Expired s = s\<lparr>rs_Expired := Suc (rs_Expired s)\<rparr>"
| "count_outcome Failed s = s\<lparr>rs_Failed := Suc (rs_Failed s)\<rparr>"
| "count_outcome SkippedClaimed s = s\<lparr>rs_SkippedClaimed := Suc (rs_SkippedClaimed s)\<rparr>"
| "count_outcome Unsettled s = s"

text \<open>The incident with the row of its resource; a resource that is gone leaves the zero value, with no identifier.\<close>

definition Incidents_FindByID :: "env \<Rightarrow> string \<Rightarrow> (world, error + incident \<times> resource option) state" where
  "Incidents_FindByID e i = do {
     r \<leftarrow> repo_query e (\<lambda>w. case tbl_find i_ID i (incidents w) of
            None \<Rightarrow> Inl ErrNotFound
          | Some inc \<Rightarrow> Inr (inc, tbl_find r_ID (i_ResourceID inc) (resources w)));
     State_Monad.return (wrap_db ''sqlc: find incident by id'' r)
   }"

definition channels_for :: "svc_env \<Rightarrow> resource option \<Rightarrow> (world, notification_channel list) state" where
  "channels_for e r =
     (case r of
        Some res \<Rightarrow> resolveNotificationChannels e res
      | None \<Rightarrow> do {
          rcs \<leftarrow> Channels_FindByResourceID (ev e) '''';
          (case rcs of
             Inr (c # cs) \<Rightarrow> State_Monad.return (c # cs)
           | _ \<Rightarrow> do {
               dcs \<leftarrow> Channels_FindDefaultChannels (ev e);
               State_Monad.return (case dcs of Inr (c # cs) \<Rightarrow> c # cs | _ \<Rightarrow> [])
             })
        })"

text \<open>The channels are served in order; the first error ends the dispatch.\<close>

fun dispatch_all_channels :: "svc_env \<Rightarrow> payload \<Rightarrow> notification_channel list \<Rightarrow> (world, error option) state" where
  "dispatch_all_channels e p [] = State_Monad.return None"
| "dispatch_all_channels e p (c # cs) = do {
     r \<leftarrow> dispatchNotification e p c;
     (case r of Some err \<Rightarrow> State_Monad.return (Some err) | None \<Rightarrow> dispatch_all_channels e p cs)
   }"

definition settle :: "retry_outcome \<Rightarrow> (world, error option) state \<Rightarrow> (world, retry_outcome) state" where
  "settle out mark = do {
     r \<leftarrow> mark;
     State_Monad.return (case r of Some err \<Rightarrow> Unsettled | None \<Rightarrow> out)
   }"

definition mark_failed :: "svc_env \<Rightarrow> string \<Rightarrow> string \<Rightarrow> (world, retry_outcome) state" where
  "mark_failed e i reason = settle Failed (do { t \<leftarrow> now (ev e); Notifications_MarkAsFailed (ev e) i reason t })"

definition retry_claimed :: "svc_env \<Rightarrow> duration \<Rightarrow> time \<Rightarrow> notification_event \<Rightarrow> (world, retry_outcome) state" where
  "retry_claimed e staleAfter cutoff event =
     (if ne_CreatedAt event < cutoff
      then settle Expired (do {
        t \<leftarrow> now (ev e);
        Notifications_MarkAsExpired (ev e) (ne_ID event)
          (''expired stale pending notification event older than '' @ itoa staleAfter) t })
      else if ne_Type event \<noteq> NotificationEventTypeDown \<and> ne_Type event \<noteq> NotificationEventTypeUp
      then mark_failed e (ne_ID event) ''unsupported pending notification type''
      else do {
        found \<leftarrow> Incidents_FindByID (ev e) (ne_IncidentID event);
        (case found of
           Inl err \<Rightarrow> mark_failed e (ne_ID event) (''incident lookup failed for '' @ ne_IncidentID event @ '': '' @ error_text err)
         | Inr (incident, res) \<Rightarrow> do {
             chs \<leftarrow> channels_for e res;
             (if chs = [] then mark_failed e (ne_ID event)
                (''no notification channels available for resource '' @ (case res of Some r \<Rightarrow> r_ID r | None \<Rightarrow> ''''))
              else do {
                r \<leftarrow> dispatch_all_channels e (PayloadIncident incident) chs;
                (case r of
                   Some err \<Rightarrow> mark_failed e (ne_ID event) (''retry dispatch failed: '' @ error_text err)
                 | None \<Rightarrow> settle Retried (do { t \<leftarrow> now (ev e); Notifications_MarkAsSent (ev e) (ne_ID event) t }))
              })
           })
      })"

definition retry_event ::
    "svc_env \<Rightarrow> string \<Rightarrow> duration \<Rightarrow> time \<Rightarrow> notification_event \<Rightarrow> (world, retry_outcome) state" where
  "retry_event e claimOwner staleAfter cutoff event = do {
     t \<leftarrow> now (ev e);
     claimed \<leftarrow> Notifications_ClaimPending (ev e) (ne_ID event) claimOwner t;
     (case claimed of
        Inl err \<Rightarrow> State_Monad.return Unsettled
      | Inr False \<Rightarrow> State_Monad.return SkippedClaimed
      | Inr True \<Rightarrow> retry_claimed e staleAfter cutoff event)
   }"

fun retry_loop ::
    "svc_env \<Rightarrow> string \<Rightarrow> duration \<Rightarrow> time \<Rightarrow> notification_event list \<Rightarrow> retry_summary \<Rightarrow> (world, retry_summary) state" where
  "retry_loop e claimOwner staleAfter cutoff [] summary = State_Monad.return summary"
| "retry_loop e claimOwner staleAfter cutoff (event # events) summary = do {
     out \<leftarrow> retry_event e claimOwner staleAfter cutoff event;
     retry_loop e claimOwner staleAfter cutoff events (count_outcome out summary)
   }"

definition RetryPendingNotifications ::
    "svc_env \<Rightarrow> string \<Rightarrow> duration \<Rightarrow> int \<Rightarrow> (world, retry_summary \<times> error option) state" where
  "RetryPendingNotifications e claimOwner staleAfter limit0 = do {
     let limit = (if limit0 \<le> 0 then 1000 else limit0);
     pending \<leftarrow> Notifications_FindPending (ev e) (nat limit) 0;
     (case pending of
        Inl err \<Rightarrow> State_Monad.return (empty_summary, Some (Wrapf ''failed to find pending notification events'' err))
      | Inr events \<Rightarrow>
          if events = [] then State_Monad.return (empty_summary, None)
          else do {
            t \<leftarrow> now (ev e);
            summary \<leftarrow> retry_loop e claimOwner staleAfter (t - staleAfter) events
              (empty_summary\<lparr>rs_Scanned := length events\<rparr>);
            State_Monad.return (summary, None)
          })
   }"

text \<open>The constructor's defaults; the host name and the process id make up the owner of the claims.\<close>

definition stale_after :: "duration \<Rightarrow> duration" where
  "stale_after d = (if d \<le> 0 then 24 * Hour else d)"

definition claim_owner :: "string \<Rightarrow> string option \<Rightarrow> int \<Rightarrow> string" where
  "claim_owner owner hostname pid =
     (if owner = '''' then
        (case hostname of Some (h # hs) \<Rightarrow> h # hs | _ \<Rightarrow> ''unknown-host'') @ ''-'' @ itoa pid
      else owner)"

section \<open>What a pass does to the events\<close>

lemma preserves_case_bool [pres]: "preserves I m \<Longrightarrow> preserves I n \<Longrightarrow> preserves I (case b of True \<Rightarrow> m | False \<Rightarrow> n)"
  by (cases b) auto

text \<open>An event that has left the pending state.\<close>

definition terminal :: "notification_event_status \<Rightarrow> string \<Rightarrow> time \<Rightarrow> notification_event \<Rightarrow> notification_event" where
  "terminal st msg t n = n\<lparr>ne_Status := st, ne_ProcessedAt := Some t, ne_LastError := msg, ne_ClaimOwner := None, ne_ClaimedAt := None\<rparr>"

definition settled_status :: "retry_outcome \<Rightarrow> notification_event_status option" where
  "settled_status out = (case out of Retried \<Rightarrow> Some NotificationEventStatusSent | Expired \<Rightarrow> Some NotificationEventStatusExpired
     | Failed \<Rightarrow> Some NotificationEventStatusFailed | _ \<Rightarrow> None)"

lemma notifications_dispatch [keep]:
  "keeps notifications (dispatchNotification e p c)" "keeps notifications (dispatch_all_channels e p cs)"
proof -
  have "keeps notifications (send e c p)" for c
    by (simp add: keeps_def send_def split: option.split)
  then have "keeps notifications (dispatchNotification e p c)" for c
    unfolding dispatchNotification_def Let_def by (intro keep)
  then show "keeps notifications (dispatchNotification e p c)" "keeps notifications (dispatch_all_channels e p cs)"
    by (induction cs) (auto intro!: keep)
qed

lemma notifications_reads [keep]:
  "keeps notifications (Incidents_FindByID (ev e) i)" "keeps notifications (channels_for e r)"
  unfolding Incidents_FindByID_def channels_for_def resolveNotificationChannels_def component_channels_of_def
    Channels_FindByResourceID_def Channels_FindByComponentID_def Channels_FindDefaultChannels_def Components_FindByID_def
  by (intro keep; simp)+

text \<open>Closing an event succeeds when the database answers and the event exists.\<close>

lemma run_mark:
  assumes "\<And>n. \<not> fault e n" and "i \<noteq> ''''" and "tbl_has ne_ID i (notifications w)"
  shows "run_state (Notifications_markTerminal (ev e) i st msg t) w =
    (None, (bump w)\<lparr>notifications := tbl_update ne_ID i (terminal st msg t) (notifications w)\<rparr>)"
  using assms by (simp add: Notifications_markTerminal_def run_simps wrap_db_def terminal_def [abs_def])

text \<open>From the table \<open>N\<close> of events, the computation closes the event \<open>i\<close> and reports how.\<close>

definition closes :: "string \<Rightarrow> notification_event list \<Rightarrow> (world, retry_outcome) state \<Rightarrow> bool" where
  "closes i N m \<longleftrightarrow> hoare (\<lambda>v. notifications v = N) m (\<lambda>out v. \<exists>st msg t. settled_status out = Some st \<and>
     notifications v = tbl_update ne_ID i (terminal st msg t) N)"

lemma closes_settle:
  assumes "\<And>n. \<not> fault e n" and "i \<noteq> ''''" and "tbl_has ne_ID i N" and "settled_status out = Some st"
  shows "closes i N (settle out (do { t \<leftarrow> now (ev e); Notifications_markTerminal (ev e) i st msg t }))"
  unfolding closes_def
proof (rule hoareI)
  fix w x w'
  assume N: "notifications w = N"
    and run: "run_state (settle out (do { t \<leftarrow> now (ev e); Notifications_markTerminal (ev e) i st msg t })) w = (x, w')"
  have "tbl_has ne_ID i (notifications (bump w))"
    using N assms(3) by simp
  note m = run_mark [OF assms(1,2) this]
  have "settled_status x = Some st \<and> notifications w' = tbl_update ne_ID i (terminal st msg (clock e (tick w))) N"
    using run m N assms(4) by (auto simp: settle_def run_simps)
  then show "\<exists>st msg t. settled_status x = Some st \<and> notifications w' = tbl_update ne_ID i (terminal st msg t) N"
    by blast
qed

lemma closes_bind: "keeps notifications m \<Longrightarrow> (\<And>x. closes i N (f x)) \<Longrightarrow> closes i N (m \<bind> f)"
  unfolding closes_def
  by (erule hoare_bind [OF hoare_keeps, of notifications]) (simp_all add: stable_def)

lemma closes_if: "closes i N m \<Longrightarrow> closes i N n \<Longrightarrow> closes i N (if b then m else n)"
  by simp

lemma closes_case_sum:
  "(\<And>x. closes i N (f x)) \<Longrightarrow> (\<And>y. closes i N (g y)) \<Longrightarrow> closes i N (case s of Inl x \<Rightarrow> f x | Inr y \<Rightarrow> g y)"
  by (cases s) simp_all

lemma closes_case_prod: "(\<And>x y. closes i N (f x y)) \<Longrightarrow> closes i N (case p of (x, y) \<Rightarrow> f x y)"
  by (cases p) simp

lemma closes_retry_claimed:
  assumes "\<And>n. \<not> fault e n" and "ne_ID event \<noteq> ''''" and "tbl_has ne_ID (ne_ID event) N"
  shows "closes (ne_ID event) N (retry_claimed e staleAfter cutoff event)"
proof -
  note c = closes_settle [OF assms]
  have fail: "closes (ne_ID event) N (mark_failed e (ne_ID event) msg)" for msg
    unfolding mark_failed_def Notifications_MarkAsFailed_def by (rule c) (simp add: settled_status_def)
  have exp: "closes (ne_ID event) N (settle Expired (do { t \<leftarrow> now (ev e); Notifications_MarkAsExpired (ev e) (ne_ID event) msg t }))" for msg
    unfolding Notifications_MarkAsExpired_def by (rule c) (simp add: settled_status_def)
  have ok: "closes (ne_ID event) N (settle Retried (do { t \<leftarrow> now (ev e); Notifications_MarkAsSent (ev e) (ne_ID event) t }))"
    unfolding Notifications_MarkAsSent_def by (rule c) (simp add: settled_status_def)
  have send: "closes (ne_ID event) N (do {
        r \<leftarrow> dispatch_all_channels e p chs;
        (case r of
           Some err \<Rightarrow> mark_failed e (ne_ID event) (''retry dispatch failed: '' @ error_text err)
         | None \<Rightarrow> settle Retried (do { t \<leftarrow> now (ev e); Notifications_MarkAsSent (ev e) (ne_ID event) t }))
      })" for p chs
    by (rule closes_bind [OF notifications_dispatch(2)]) (simp add: fail ok split: option.split)
  show ?thesis
    unfolding retry_claimed_def
    by (intro closes_if closes_case_sum closes_case_prod closes_bind [OF notifications_reads(1)]
        closes_bind [OF notifications_reads(2)] send fail exp)
qed

lemma tbl_update_twice:
  "(\<And>r. key (g r) = key r) \<Longrightarrow> tbl_update key k f (tbl_update key k g t) = tbl_update key k (\<lambda>r. f (g r)) t"
  by (simp add: tbl_update_def)

lemma tbl_has_update: "(\<And>r. key (f r) = key r) \<Longrightarrow> tbl_has key k (tbl_update key k' f t) = tbl_has key k t"
  by (induction t) (auto simp: tbl_has_def tbl_update_def)

text \<open>One event: it is closed when it could be claimed, and left as it is otherwise.\<close>

lemma hoare_retry_event:
  assumes nf: "\<And>n. \<not> fault e n" and ids: "ne_ID event \<noteq> ''''" "owner \<noteq> ''''"
    and row: "tbl_find ne_ID (ne_ID event) N = Some n"
  shows "hoare (\<lambda>v. notifications v = N) (retry_event e owner staleAfter cutoff event)
    (\<lambda>out v. if claimable n
       then \<exists>st msg t. settled_status out = Some st \<and> notifications v = tbl_update ne_ID (ne_ID event) (terminal st msg t) N
       else out = SkippedClaimed \<and> notifications v = N)"
proof (rule hoareI)
  fix w x w'
  assume N: "notifications w = N" and run: "run_state (retry_event e owner staleAfter cutoff event) w = (x, w')"
  let ?claim = "\<lambda>r. r\<lparr>ne_ClaimOwner := Some owner, ne_ClaimedAt := Some (clock e (tick w))\<rparr>"
  let ?N = "tbl_update ne_ID (ne_ID event) ?claim N"
  let ?w = "(bump (bump w))\<lparr>notifications := ?N\<rparr>"
  show "if claimable n
       then \<exists>st msg t. settled_status x = Some st \<and> notifications w' = tbl_update ne_ID (ne_ID event) (terminal st msg t) N
       else x = SkippedClaimed \<and> notifications w' = N"
  proof (cases "claimable n")
    case True
    then have "run_state (retry_claimed e staleAfter cutoff event) ?w = (x, w')"
      using run N row ids nf by (simp add: retry_event_def Notifications_ClaimPending_def run_simps wrap_db_def)
    moreover have "tbl_has ne_ID (ne_ID event) ?N"
      using tbl_find_Some_key [OF row] by (subst tbl_has_update) (auto simp: tbl_has_def list_ex_iff)
    ultimately obtain st msg t where "settled_status x = Some st"
        "notifications w' = tbl_update ne_ID (ne_ID event) (terminal st msg t) ?N"
      using closes_retry_claimed [OF nf ids(1), unfolded closes_def, THEN hoareD, of ?N ?w] by fastforce
    moreover have "tbl_update ne_ID (ne_ID event) (terminal st msg t) ?N = tbl_update ne_ID (ne_ID event) (terminal st msg t) N"
      by (subst tbl_update_twice) (simp_all add: terminal_def [abs_def])
    ultimately show ?thesis
      using True by auto
  next
    case False
    then show ?thesis
      using run N row ids nf by (auto simp: retry_event_def Notifications_ClaimPending_def run_simps wrap_db_def)
  qed
qed

definition settled_total :: "retry_summary \<Rightarrow> nat" where
  "settled_total s = rs_Retried s + rs_Expired s + rs_Failed s + rs_SkippedClaimed s"

lemma count_settled:
  "out \<noteq> Unsettled \<Longrightarrow> settled_total (count_outcome out s) = Suc (settled_total s)"
  "rs_Scanned (count_outcome out s) = rs_Scanned s"
  by (cases out; simp add: settled_total_def)+

definition is_pending :: "notification_event \<Rightarrow> bool" where
  "is_pending n \<longleftrightarrow> ne_Status n = NotificationEventStatusPending"

lemma hoare_retry_loop:
  assumes nf: "\<And>n. \<not> fault e n" and owner: "owner \<noteq> ''''"
    and "distinct_keys ne_ID N" and "set events \<subseteq> set N" and "distinct (map ne_ID events)" and "'''' \<notin> ne_ID ` set events"
  shows "hoare (\<lambda>v. notifications v = N) (retry_loop e owner staleAfter cutoff events s)
    (\<lambda>s' v. settled_total s' = settled_total s + length events \<and> rs_Scanned s' = rs_Scanned s \<and>
      (\<forall>n \<in> set (notifications v). is_pending n \<longrightarrow> n \<in> set N \<and> (ne_ID n \<in> ne_ID ` set events \<longrightarrow> \<not> claimable n)))"
  using assms(3-)
proof (induction events arbitrary: N s)
  case Nil
  show ?case
    unfolding retry_loop.simps by (rule hoare_return) simp
next
  case (Cons event events)
  have "event \<in> set N" using Cons.prems(2) by simp
  then have row: "tbl_find ne_ID (ne_ID event) N = Some event"
    using Cons.prems(1) by (simp add: tbl_find_distinct)
  have ids: "ne_ID event \<noteq> ''''" using Cons.prems(4) by auto
  let ?Q = "\<lambda>s' v. settled_total s' = settled_total s + length (event # events) \<and> rs_Scanned s' = rs_Scanned s \<and>
      (\<forall>n \<in> set (notifications v). is_pending n \<longrightarrow> n \<in> set N \<and> (ne_ID n \<in> ne_ID ` set (event # events) \<longrightarrow> \<not> claimable n))"
  show ?case
  proof (rule hoareI)
    fix w x w'
    assume N: "notifications w = N" and run: "run_state (retry_loop e owner staleAfter cutoff (event # events) s) w = (x, w')"
    obtain out w1 where step: "run_state (retry_event e owner staleAfter cutoff event) w = (out, w1)" by fastforce
    note eff = hoareD [OF hoare_retry_event [OF nf ids owner row] N step]
    have rest: "run_state (retry_loop e owner staleAfter cutoff events (count_outcome out s)) w1 = (x, w')"
      using run step by (simp add: run_simps)
    have out: "out \<noteq> Unsettled"
      using eff by (auto simp: settled_status_def split: if_splits)
    show "?Q x w'"
    proof (cases "claimable event")
      case False
      have prems: "distinct_keys ne_ID N" "set events \<subseteq> set N" "distinct (map ne_ID events)" "'''' \<notin> ne_ID ` set events"
        using Cons.prems by auto
      from False eff have w1: "notifications w1 = N" by simp
      from hoareD [OF Cons.IH [OF prems] w1 rest] show ?thesis
        using False Cons.prems(1) \<open>event \<in> set N\<close> out by (auto simp: count_settled dest: distinct_keys_same)
    next
      case True
      from True eff obtain st msg t where st: "settled_status out = Some st"
          and w1: "notifications w1 = tbl_update ne_ID (ne_ID event) (terminal st msg t) N" by auto
      let ?N = "tbl_update ne_ID (ne_ID event) (terminal st msg t) N"
      have np: "st \<noteq> NotificationEventStatusPending"
        using st by (auto simp: settled_status_def split: retry_outcome.splits)
      have prems: "distinct_keys ne_ID ?N" "set events \<subseteq> set ?N" "distinct (map ne_ID events)" "'''' \<notin> ne_ID ` set events"
      proof -
        show "distinct_keys ne_ID ?N"
          using Cons.prems(1) by (rule distinct_keys_update) (simp add: terminal_def)
        have "ne_ID n \<noteq> ne_ID event" if "n \<in> set events" for n
          using that Cons.prems(3) by (metis image_eqI distinct.simps(2) list.simps(9) list.set_map)
        then show "set events \<subseteq> set ?N"
          using Cons.prems(2) by (fastforce simp: tbl_update_def)
      qed (use Cons.prems in auto)
      have old: "n \<in> set N \<and> ne_ID n \<noteq> ne_ID event" if "n \<in> set ?N" "is_pending n" for n
        using that np by (auto simp: tbl_update_def terminal_def is_pending_def split: if_splits)
      from hoareD [OF Cons.IH [OF prems] w1 rest] show ?thesis
        using old out by (auto simp: count_settled)
    qed
  qed
qed

section \<open>Properties\<close>

definition scanned :: "int \<Rightarrow> world \<Rightarrow> notification_event list" where
  "scanned limit w = page (nat (if limit \<le> 0 then 1000 else limit)) 0 (sort_key ne_CreatedAt
     (filter (\<lambda>n. is_pending n \<and> (ne_Type n = NotificationEventTypeDown \<or> ne_Type n = NotificationEventTypeUp)) (notifications w)))"

lemma run_FindPending:
  "\<not> fault e (tick w) \<Longrightarrow>
   run_state (Notifications_FindPending e (nat (if limit \<le> 0 then 1000 else limit)) 0) w = (Inr (scanned limit w), bump w)"
  by (simp add: Notifications_FindPending_def run_simps wrap_db_def scanned_def is_pending_def)

lemma scanned_props:
  "set (scanned limit w) \<subseteq> set (notifications w)"
  "distinct_keys ne_ID (notifications w) \<Longrightarrow> distinct (map ne_ID (scanned limit w))"
proof -
  show "set (scanned limit w) \<subseteq> set (notifications w)"
    using set_page by (fastforce simp: scanned_def)
  assume "distinct_keys ne_ID (notifications w)"
  then have "distinct (map ne_ID (filter P (notifications w)))" for P
    by (simp add: distinct_keys_def distinct_map_filter)
  then have "distinct (map ne_ID (sort_key ne_CreatedAt (filter P (notifications w))))" for P
    by (simp add: distinct_map)
  then show "distinct (map ne_ID (scanned limit w))"
    unfolding scanned_def page_def by (simp add: take_map [symmetric] distinct_take)
qed


definition claimed_by :: "string \<Rightarrow> notification_event \<Rightarrow> bool" where
  "claimed_by o' n \<longleftrightarrow> is_pending n \<and> ne_ClaimOwner n = Some o' \<and> o' \<noteq> ''''"

lemma retry_event_other:
  assumes "ne_ID event \<noteq> ne_ID n"
  shows "preserves (\<lambda>w. n \<in> set (notifications w)) (retry_event e owner staleAfter cutoff event)"
proof -
  let ?I = "\<lambda>w. n \<in> set (notifications w)"
  have st: "stable notifications ?I"
    by (simp add: stable_def)
  note k = keeps_preserves [OF _ st]
  have upd: "preserves ?I (Notifications_ClaimPending (ev e) (ne_ID event) ow t)"
    "preserves ?I (Notifications_markTerminal (ev e) (ne_ID event) s msg t)" for ow t s msg
    using assms
    by (auto simp: preserves_def Notifications_ClaimPending_def Notifications_markTerminal_def run_simps tbl_update_def
        split: option.split)
  have mark: "preserves ?I (settle out (do { t \<leftarrow> now (ev e); Notifications_markTerminal (ev e) (ne_ID event) s (f t) t }))" for out s f
    unfolding settle_def by (intro pres upd k [OF keeps_now]) simp
  have fail: "preserves ?I (mark_failed e (ne_ID event) msg)" for msg
    unfolding mark_failed_def Notifications_MarkAsFailed_def by (rule mark)
  show ?thesis
    unfolding retry_event_def retry_claimed_def Notifications_MarkAsExpired_def Notifications_MarkAsSent_def
    by (intro pres preserves_case_bool upd mark fail k [OF keeps_now] k [OF notifications_reads(1)] k [OF notifications_reads(2)]
        k [OF notifications_dispatch(2)]) simp_all
qed

definition retry_passes :: "svc_env \<Rightarrow> (string \<times> duration \<times> int) list \<Rightarrow> (world, unit) state" where
  "retry_passes e passes = for_each (\<lambda>(owner, staleAfter, limit). do {
     RetryPendingNotifications e owner staleAfter limit;
     State_Monad.return ()
   }) passes"

lemma retry_event_keys:
  "preserves (\<lambda>w. distinct_keys ne_ID (notifications w)) (retry_event e owner staleAfter cutoff event)"
proof -
  let ?I = "\<lambda>w. distinct_keys ne_ID (notifications w)"
  have st: "stable notifications ?I"
    by (simp add: stable_def)
  note k = keeps_preserves [OF _ st]
  have upd: "preserves ?I (Notifications_ClaimPending (ev e) (ne_ID event) ow t)"
    "preserves ?I (Notifications_markTerminal (ev e) (ne_ID event) s msg t)" for ow t s msg
    by (auto simp: preserves_def Notifications_ClaimPending_def Notifications_markTerminal_def run_simps
        intro!: distinct_keys_update split: option.split)
  have mark: "preserves ?I (settle out (do { t \<leftarrow> now (ev e); Notifications_markTerminal (ev e) (ne_ID event) s (f t) t }))" for out s f
    unfolding settle_def by (intro pres upd k [OF keeps_now]) simp
  have fail: "preserves ?I (mark_failed e (ne_ID event) msg)" for msg
    unfolding mark_failed_def Notifications_MarkAsFailed_def by (rule mark)
  show ?thesis
    unfolding retry_event_def retry_claimed_def Notifications_MarkAsExpired_def Notifications_MarkAsSent_def
    by (intro pres upd mark fail k [OF keeps_now] k [OF notifications_reads(1)] k [OF notifications_reads(2)]
        k [OF notifications_dispatch(2)]) simp_all
qed

lemma retry_event_claimed:
  assumes "claimed_by o' n"
  shows "preserves (\<lambda>w. distinct_keys ne_ID (notifications w) \<and> n \<in> set (notifications w)) (retry_event e owner staleAfter cutoff event)"
proof (cases "ne_ID event = ne_ID n")
  case False
  then show ?thesis
    by (intro preserves_conj retry_event_keys retry_event_other)
next
  case True
  show ?thesis
  proof (rule preservesI)
    fix w :: world assume w: "distinct_keys ne_ID (notifications w) \<and> n \<in> set (notifications w)"
    then have "tbl_find ne_ID (ne_ID n) (notifications w) = Some n"
      by (simp add: tbl_find_distinct)
    then have "notifications (snd (run_state (retry_event e owner staleAfter cutoff event) w)) = notifications w"
      using True assms
      by (auto simp: retry_event_def Notifications_ClaimPending_def run_simps wrap_db_def claimable_def claimed_by_def)
    with w show "distinct_keys ne_ID (notifications (snd (run_state (retry_event e owner staleAfter cutoff event) w))) \<and>
        n \<in> set (notifications (snd (run_state (retry_event e owner staleAfter cutoff event) w)))"
      by simp
  qed
qed

lemma retry_loop_preserves:
  assumes "\<And>event. preserves I (retry_event e owner staleAfter cutoff event)"
  shows "preserves I (retry_loop e owner staleAfter cutoff events s)"
  by (induction events arbitrary: s) (auto intro!: pres assms)

text \<open>
  A claim is never given back: an event that carries a claim, for example because the process died between
  the claim and the delivery, stays exactly as it is through every later pass, whatever fails; it is
  counted as skipped at each start and its notification is never sent.
\<close>

theorem claimed_event_is_stuck:
  assumes "distinct_keys ne_ID (notifications w)" and "n \<in> set (notifications w)" and "claimed_by o' n"
    and "run_state (retry_passes e passes) w = (u, w')"
  shows "n \<in> set (notifications w')"
proof -
  let ?I = "\<lambda>w. distinct_keys ne_ID (notifications w) \<and> n \<in> set (notifications w)"
  have "stable notifications ?I"
    by (simp add: stable_def)
  note k = keeps_preserves [OF _ this]
  have "preserves ?I (RetryPendingNotifications e owner staleAfter limit)" for owner staleAfter limit
    unfolding RetryPendingNotifications_def Notifications_FindPending_def Let_def
    by (intro pres retry_loop_preserves retry_event_claimed [OF assms(3)] k [OF keeps_now] k [OF keeps_repo_query]) simp_all
  then have "preserves ?I (retry_passes e passes)"
    unfolding retry_passes_def by (intro pres)
  with assms(1,2,4) show ?thesis
    by (auto simp: preserves_def)
qed

text \<open>The sample resource with an open incident, two default channels and the events a crash has left pending.\<close>

definition crashed_event :: "string \<Rightarrow> notification_event" where
  "crashed_event i = \<lparr>ne_ID = i, ne_CreatedAt = 0, ne_IncidentID = ''i1'', ne_Type = NotificationEventTypeDown,
     ne_Status = NotificationEventStatusPending, ne_ClaimOwner = None, ne_ClaimedAt = None, ne_ProcessedAt = None, ne_LastError = ''''\<rparr>"

definition demo_crashed :: world where
  "demo_crashed = empty_world\<lparr>resources := [demo_resource],
     incidents := [\<lparr>i_ID = ''i1'', i_ResourceID = ''r1'', i_Cause = ''c'', i_ResolvedAt = None, i_StartedAt = 0, i_Details = '''',
       i_CreatedAt = 0, i_UpdatedAt = 0\<rparr>],
     channels := [demo_channel, demo_channel\<lparr>ch_ID := ''ch2''\<rparr>],
     notifications := [crashed_event ''n1'', crashed_event ''n2'', (crashed_event ''n3'')\<lparr>ne_ClaimOwner := Some ''old-77''\<rparr>]\<rparr>"

definition demo_retry :: "(retry_summary \<times> error option) \<times> world" where
  "demo_retry = run_state (RetryPendingNotifications demo_env ''host-1'' (1000 * Hour) 10) demo_crashed"


theorem claimed_event_is_stuck_witness:
  "(crashed_event ''n3'')\<lparr>ne_ClaimOwner := Some ''old-77''\<rparr> \<in>
     set (notifications (snd (run_state (retry_passes demo_env [(''host-1'', Hour, 10), (''host-2'', Hour, 10)]) demo_crashed)))"
proof -
  have d: "distinct_keys ne_ID (notifications demo_crashed)"
    by code_simp
  have n: "(crashed_event ''n3'')\<lparr>ne_ClaimOwner := Some ''old-77''\<rparr> \<in> set (notifications demo_crashed)"
    by (simp add: demo_crashed_def)
  have c: "claimed_by ''old-77'' ((crashed_event ''n3'')\<lparr>ne_ClaimOwner := Some ''old-77''\<rparr>)"
    by code_simp
  show ?thesis
    by (rule claimed_event_is_stuck [OF d n c prod.collapse [symmetric]])
qed

text \<open>
  Every event is sent to all channels of the resource, although the incident service creates one event
  per channel: two events left by two channels give four messages.
\<close>

lemma retry_multiplies_messages: "map fst (sent (snd demo_retry)) = [''ch1'', ''ch2'', ''ch1'', ''ch2'']"
  by code_simp

end
