(* ===== verification/Host_Liveness.thy ===== *)
theory Host_Liveness
  imports Incidents
begin

text \<open>
  Agent-down alerting (\<open>src/internal/service/host_liveness_service.go\<close>): a scan over all hosts that have
  reported at least once compares the time since the last report with the freshness threshold and
  drives, per host, a small state machine that is kept in the table of alert states; it records an alert
  in the notification feed and optionally mails it to the oldest SMTP channel
  (\<open>smtp_channel.go\<close>). The parsing of a channel configuration and the delivery of a mail are parameters.
\<close>

section \<open>Repositories\<close>

definition Hosts_List :: "env \<Rightarrow> nat \<Rightarrow> nat \<Rightarrow> (world, error + host list) state" where
  "Hosts_List e limit offset = do {
     r \<leftarrow> repo_query e (\<lambda>w. Inr (page limit offset (sort_key (\<lambda>h. - ho_CreatedAt h) (hosts w))));
     State_Monad.return (wrap_db ''sqlc: list hosts'' r)
   }"

definition HostAlertState_Get :: "env \<Rightarrow> string \<Rightarrow> (world, error + host_alert_state) state" where
  "HostAlertState_Get e hid = do {
     r \<leftarrow> repo_query e (\<lambda>w. case tbl_find ha_HostID hid (host_alert_states w) of None \<Rightarrow> Inl ErrNotFound | Some s \<Rightarrow> Inr s);
     State_Monad.return (wrap_db ''sqlc: get host alert state'' r)
   }"

definition put_state :: "host_alert_state \<Rightarrow> host_alert_state list \<Rightarrow> host_alert_state list" where
  "put_state s t =
     (if tbl_has ha_HostID (ha_HostID s) t then tbl_update ha_HostID (ha_HostID s) (\<lambda>_. s) t else t @ [s])"

definition HostAlertState_Upsert :: "env \<Rightarrow> host_alert_state \<Rightarrow> (world, error option) state" where
  "HostAlertState_Upsert e s = do {
     t \<leftarrow> (if ha_UpdatedAt s = zero_time then now e else State_Monad.return (ha_UpdatedAt s));
     r \<leftarrow> repo_call e (\<lambda>w. (Inr (), w\<lparr>host_alert_states := put_state (s\<lparr>ha_UpdatedAt := t\<rparr>) (host_alert_states w)\<rparr>));
     State_Monad.return (case r of Inl err \<Rightarrow> Some err | Inr u \<Rightarrow> None)
   }"

definition Channels_FindByType :: "env \<Rightarrow> notification_channel_type \<Rightarrow> (world, error + notification_channel list) state" where
  "Channels_FindByType e typ = do {
     r \<leftarrow> repo_query e (\<lambda>w. Inr (filter (\<lambda>c. ch_Type c = typ) (channels w)));
     State_Monad.return (wrap_db ''sqlc: find channels by type'' r)
   }"

section \<open>Mail to the operator (smtp\_channel.go)\<close>

record liveness_env = env +
  smtp_config_error :: "string \<Rightarrow> error option"
  operator_send :: "nat \<Rightarrow> notification_channel \<Rightarrow> string \<times> string \<Rightarrow> error option"
  freshness :: duration
  external_delivery :: bool

abbreviation lv :: "liveness_env \<Rightarrow> env" where
  "lv e \<equiv> env.truncate e"

lemma lv_fields [simp]: "clock (lv e) = clock e" "fault (lv e) = fault e" "ulid (lv e) = ulid e"
  by (simp_all add: env.truncate_def)

definition ErrNoSMTPChannel :: error where
  "ErrNoSMTPChannel = ErrorNew ''no smtp notification channel configured''"

definition resolveOldestSMTP :: "liveness_env \<Rightarrow> (world, error + notification_channel) state" where
  "resolveOldestSMTP e = do {
     found \<leftarrow> Channels_FindByType (lv e) NotificationChannelTypeSMTP;
     State_Monad.return (case found of
       Inl err \<Rightarrow> Inl (Wrapf ''list smtp channels'' err)
     | Inr chs \<Rightarrow>
         (case sort_key ch_CreatedAt chs of
            [] \<Rightarrow> Inl ErrNoSMTPChannel
          | ch # _ \<Rightarrow>
              (case smtp_config_error e (ch_Config ch) of
                 Some err \<Rightarrow> Inl (Wrapf ''parse smtp channel config'' err)
               | None \<Rightarrow> Inr ch)))
   }"

definition deliverOperatorSMTP :: "liveness_env \<Rightarrow> string \<Rightarrow> string \<Rightarrow> (world, error option) state" where
  "deliverOperatorSMTP e title body = do {
     resolved \<leftarrow> resolveOldestSMTP e;
     (case resolved of
        Inl err \<Rightarrow> State_Monad.return (Some err)
      | Inr ch \<Rightarrow> State (\<lambda>w.
          (case operator_send e (tick w) ch (title, body) of
             None \<Rightarrow> (None, (bump w)\<lparr>operator_mail := operator_mail w @ [(title, body)]\<rparr>)
           | Some err \<Rightarrow> (Some err, bump w))))
   }"

section \<open>The scan\<close>

definition hostLivenessPageSize :: nat where "hostLivenessPageSize = 500"

definition emit :: "liveness_env \<Rightarrow> host \<Rightarrow> string \<Rightarrow> string \<Rightarrow> string \<Rightarrow> (world, unit) state" where
  "emit e h severity title body = do {
     t \<leftarrow> now (lv e);
     Feed_Emit (lv e) \<lparr>em_Category = ''host'', em_Severity = severity, em_Title = title,
       em_DeepLink = Some (''/hosts/'' @ ho_ID h), em_OccurredAt = t\<rparr>;
     (if \<not> external_delivery e then State_Monad.return ()
      else do { deliverOperatorSMTP e title body; State_Monad.return () })
   }"

definition emitOffline :: "liveness_env \<Rightarrow> host \<Rightarrow> (world, unit) state" where
  "emitOffline e h = emit e h ''error'' (''Host '' @ ho_Name h @ '' went offline'')
     (ho_Name h @ '' stopped reporting metrics and is now offline.'')"

definition emitRecovery :: "liveness_env \<Rightarrow> host \<Rightarrow> (world, unit) state" where
  "emitRecovery e h = emit e h ''success'' (''Host '' @ ho_Name h @ '' is back online'')
     (ho_Name h @ '' resumed reporting metrics.'')"

definition upsert :: "liveness_env \<Rightarrow> string \<Rightarrow> host_state \<Rightarrow> time option \<Rightarrow> bool \<Rightarrow> time \<Rightarrow> (world, unit) state" where
  "upsert e hid st since alerted t = do {
     HostAlertState_Upsert (lv e) \<lparr>ha_HostID = hid, ha_State = st, ha_OfflineSince = since, ha_Alerted = alerted, ha_UpdatedAt = t\<rparr>;
     State_Monad.return ()
   }"

definition reconcile :: "liveness_env \<Rightarrow> host \<Rightarrow> bool \<Rightarrow> time \<Rightarrow> (world, bool) state" where
  "reconcile e h online t = do {
     got \<leftarrow> HostAlertState_Get (lv e) (ho_ID h);
     (case got of
        Inl err \<Rightarrow>
          if \<not> errors_Is err ErrNotFound then State_Monad.return False
          else if online then State_Monad.return False
          else do {
            upsert e (ho_ID h) HostAlertStateOffline (Some t) False t;
            State_Monad.return False
          }
      | Inr stored \<Rightarrow>
          if online then
            (if ha_State stored = HostAlertStateOffline then do {
               upsert e (ho_ID h) HostAlertStateOnline None False t;
               (if ha_Alerted stored then do { emitRecovery e h; State_Monad.return True } else State_Monad.return False)
             } else State_Monad.return False)
          else if ha_State stored = HostAlertStateOnline then do {
            upsert e (ho_ID h) HostAlertStateOffline (Some t) False t;
            State_Monad.return False
          }
          else if \<not> ha_Alerted stored then do {
            upsert e (ho_ID h) HostAlertStateOffline (ha_OfflineSince stored) True t;
            emitOffline e h;
            State_Monad.return True
          }
          else State_Monad.return False)
   }"

definition scan_host :: "liveness_env \<Rightarrow> time \<Rightarrow> host \<Rightarrow> (world, unit) state" where
  "scan_host e t h =
     (if ho_LastSeenAt h = None then State_Monad.return ()
      else do { reconcile e h (IsOnline t (freshness e) h) t; State_Monad.return () })"

text \<open>
  One cycle reads the hosts page by page until a page is not full. The argument \<open>fuel\<close> bounds the number of
  pages; \<open>None\<close> stands for a cycle that needs more. The counters only feed the log line.
\<close>

fun detect_pages :: "nat \<Rightarrow> liveness_env \<Rightarrow> time \<Rightarrow> nat \<Rightarrow> (world, unit option) state" where
  "detect_pages 0 e t offset = State_Monad.return None"
| "detect_pages (Suc fuel) e t offset = do {
     listed \<leftarrow> Hosts_List (lv e) hostLivenessPageSize offset;
     (case listed of
        Inl err \<Rightarrow> State_Monad.return (Some ())
      | Inr hs \<Rightarrow> do {
          for_each (scan_host e t) hs;
          (if length hs < hostLivenessPageSize then State_Monad.return (Some ())
           else detect_pages fuel e t (offset + hostLivenessPageSize))
        })
   }"

definition DetectHosts :: "nat \<Rightarrow> liveness_env \<Rightarrow> (world, unit option) state" where
  "DetectHosts fuel e = do {
     t \<leftarrow> now (lv e);
     detect_pages fuel e t 0
   }"

section \<open>The specification: episodes\<close>

text \<open>
  Between two reports of a host the alerting is in one of three phases; a scan that finds the host
  online or offline moves it and may announce an event.
\<close>

datatype phase = Healthy | Suspected | Alerted

datatype host_event = WentOffline | CameBack

fun next_phase :: "phase \<Rightarrow> bool \<Rightarrow> phase \<times> host_event option" where
  "next_phase Healthy True = (Healthy, None)"
| "next_phase Healthy False = (Suspected, None)"
| "next_phase Suspected True = (Healthy, None)"
| "next_phase Suspected False = (Alerted, Some WentOffline)"
| "next_phase Alerted True = (Healthy, Some CameBack)"
| "next_phase Alerted False = (Alerted, None)"

fun trace :: "phase \<Rightarrow> bool list \<Rightarrow> host_event list" where
  "trace p [] = []"
| "trace p (b # bs) =
     (case next_phase p b of (p', x) \<Rightarrow> (case x of None \<Rightarrow> [] | Some y \<Rightarrow> [y]) @ trace p' bs)"

text \<open>An outage that the scans see for \<open>n\<close> cycles, with the scan that finds the host back.\<close>

definition outage :: "nat \<Rightarrow> bool list" where
  "outage n = replicate n False @ [True]"

lemma trace_append_alerted: "trace Alerted (replicate n False @ True # bs) = CameBack # trace Healthy bs"
  by (induction n) simp_all

lemma trace_outage: "trace Healthy (outage n @ bs) = (if n < 2 then [] else [WentOffline, CameBack]) @ trace Healthy bs"
proof -
  consider "n = 0" | "n = 1" | m where "n = Suc (Suc m)"
    by (metis One_nat_def not0_implies_Suc)
  then show ?thesis
    by cases (simp_all add: outage_def trace_append_alerted)
qed

lemma trace_outages:
  "trace Healthy (concat (map outage ns)) = concat (map (\<lambda>n. if n < 2 then [] else [WentOffline, CameBack]) ns)"
  by (induction ns) (simp_all add: trace_outage)

section \<open>The scan implements the specification\<close>

definition phase_of :: "world \<Rightarrow> string \<Rightarrow> phase" where
  "phase_of w hid = (case tbl_find ha_HostID hid (host_alert_states w) of
     None \<Rightarrow> Healthy
   | Some s \<Rightarrow> if ha_State s = HostAlertStateOnline then Healthy else if ha_Alerted s then Alerted else Suspected)"

definition event_title :: "host \<Rightarrow> host_event \<Rightarrow> string" where
  "event_title h x = (case x of
     WentOffline \<Rightarrow> ''Host '' @ ho_Name h @ '' went offline'' | CameBack \<Rightarrow> ''Host '' @ ho_Name h @ '' is back online'')"

definition titles :: "world \<Rightarrow> string list" where
  "titles w = map em_Title (feed w)"

lemma find_put_state: "tbl_find ha_HostID hid (put_state s t) = (if hid = ha_HostID s then Some s else tbl_find ha_HostID hid t)"
proof -
  have upd: "tbl_find ha_HostID hid (tbl_update ha_HostID (ha_HostID s) (\<lambda>_. s) t) =
      (if hid = ha_HostID s then (if tbl_has ha_HostID hid t then Some s else None) else tbl_find ha_HostID hid t)"
    by (induction t) (auto simp: tbl_has_def tbl_find_def tbl_update_def)
  have "tbl_find ha_HostID (ha_HostID s) t = None" if "\<not> tbl_has ha_HostID (ha_HostID s) t"
    using that by (simp add: tbl_find_None tbl_has_iff)
  then show ?thesis
    using upd by (auto simp: put_state_def tbl_find_snoc)
qed

text \<open>What a host alert changes: the phases, the titles in the feed, and never the hosts.\<close>

definition view :: "world \<Rightarrow> (string \<Rightarrow> phase) \<times> string list \<times> host list" where
  "view w = (phase_of w, titles w, hosts w)"

lemma view_bump [simp]: "view (bump w) = view w"
  by (simp add: view_def phase_of_def [abs_def] titles_def)

lemma view_upsert:
  assumes "\<And>n. \<not> fault e n"
  shows "view (snd (run_state (upsert e hid st since al t) w)) =
    ((phase_of w)(hid := if st = HostAlertStateOnline then Healthy else if al then Alerted else Suspected), titles w, hosts w)"
  using assms
  by (auto simp: upsert_def HostAlertState_Upsert_def run_simps view_def titles_def phase_of_def [abs_def] find_put_state fun_eq_iff)

lemma view_deliver: "keeps view (deliverOperatorSMTP e ti bo)"
proof -
  have "keeps view (State (\<lambda>w. case operator_send e (tick w) ch (ti, bo) of
      None \<Rightarrow> (None, (bump w)\<lparr>operator_mail := operator_mail w @ [(ti, bo)]\<rparr>) | Some err \<Rightarrow> (Some err, bump w)))" for ch
    by (simp add: keeps_def view_def titles_def phase_of_def [abs_def] split: option.split)
  then show ?thesis
    unfolding deliverOperatorSMTP_def resolveOldestSMTP_def Channels_FindByType_def by (intro keep) simp_all
qed

lemma view_emit:
  assumes "\<And>n. \<not> fault e n"
  shows "view (snd (run_state (emit e h sv ti bo) w)) = (phase_of w, titles w @ [ti], hosts w)"
proof -
  have "keeps view (if \<not> external_delivery e then State_Monad.return ()
      else do { deliverOperatorSMTP e ti bo; State_Monad.return () })"
    by (intro keep view_deliver)
  note k = keepsD [OF this]
  let ?v = "snd (run_state (Feed_Emit (lv e) \<lparr>em_Category = ''host'', em_Severity = sv, em_Title = ti,
       em_DeepLink = Some (''/hosts/'' @ ho_ID h), em_OccurredAt = clock e (tick w)\<rparr>) (bump w))"
  have "view ?v = (phase_of w, titles w @ [ti], hosts w)"
    using assms by (simp add: Feed_Emit_def run_simps view_def titles_def phase_of_def [abs_def])
  moreover have "view (snd (run_state (emit e h sv ti bo) w)) = view ?v"
    unfolding emit_def by (simp add: run_bind run_now split_beta k)
  ultimately show ?thesis by simp
qed

lemma not_found_is [simp]: "errors_Is ErrNotFound ErrNotFound"
  by (simp add: ErrNotFound_def)

lemma run_Get:
  "\<not> fault e (tick w) \<Longrightarrow> run_state (HostAlertState_Get e hid) w =
     (case tbl_find ha_HostID hid (host_alert_states w) of None \<Rightarrow> Inl ErrNotFound | Some s \<Rightarrow> Inr s, bump w)"
  by (simp add: HostAlertState_Get_def run_simps wrap_db_def ErrNotFound_def ErrDB_def split: option.split)

text \<open>One host, one scan.\<close>

lemma view_reconcile:
  assumes nf: "\<And>n. \<not> fault e n" and move: "next_phase (phase_of w (ho_ID h)) online = (p, ann)"
  shows "view (snd (run_state (reconcile e h online t) w)) =
      ((phase_of w)(ho_ID h := p), titles w @ (case ann of None \<Rightarrow> [] | Some x \<Rightarrow> [event_title h x]), hosts w) \<and>
    fst (run_state (reconcile e h online t) w) = (ann \<noteq> None)"
proof -
  have up: "view (snd (run_state (upsert e hid st since al t) v)) =
      ((phase_of v)(hid := if st = HostAlertStateOnline then Healthy else if al then Alerted else Suspected), titles v, hosts v)"
      for hid st since al v
    by (rule view_upsert [OF nf])
  have same: "phase_of (bump w) = phase_of w" "titles (bump w) = titles w"
    using view_bump [of w] by (simp_all add: view_def)
  have em: "view (snd (run_state (emit e h sv ti bo) v)) = (phase_of v, titles v @ [ti], hosts v)" for sv ti bo v
    by (rule view_emit [OF nf])
  have views: "view v = (P, T, H) \<Longrightarrow> phase_of v = P \<and> titles v = T \<and> hosts v = H" for v P T H
    by (simp add: view_def)
  have emu: "view (snd (run_state (emit e h sv ti bo) (snd (run_state (upsert e hid st since al t) v)))) =
      ((phase_of v)(hid := if st = HostAlertStateOnline then Healthy else if al then Alerted else Suspected), titles v @ [ti], hosts v)"
      for sv ti bo hid st since al v
    using views [OF up, of hid st since al v] by (simp add: em)
  show ?thesis
  proof (cases "tbl_find ha_HostID (ho_ID h) (host_alert_states w)")
    case None
    then have "phase_of w (ho_ID h) = Healthy"
      by (simp add: phase_of_def)
    with move None nf show ?thesis
      by (cases online) (auto simp: reconcile_def run_bind run_return run_Get split_beta up same fun_upd_idem view_def [of w])
  next
    case (Some s)
    then have ph: "phase_of w (ho_ID h) = (if ha_State s = HostAlertStateOnline then Healthy else if ha_Alerted s then Alerted else Suspected)"
      by (simp add: phase_of_def)
    have states: "ha_State s \<noteq> HostAlertStateOnline \<longleftrightarrow> ha_State s = HostAlertStateOffline"
      by (cases "ha_State s") auto
    show ?thesis
      using move Some nf ph states
      by (cases online; cases "ha_State s"; cases "ha_Alerted s")
        (auto simp: reconcile_def emitRecovery_def emitOffline_def event_title_def run_bind run_return run_Get split_beta up emu same
          fun_upd_idem view_def [of w])
  qed
qed

section \<open>Properties\<close>

text \<open>A series of scans of one host, each with what it finds and its time.\<close>

definition observe :: "liveness_env \<Rightarrow> host \<Rightarrow> (bool \<times> time) list \<Rightarrow> (world, unit) state" where
  "observe e h obs = for_each (\<lambda>(online, t). do { reconcile e h online t; State_Monad.return () }) obs"

lemma titles_observe:
  assumes nf: "\<And>n. \<not> fault e n"
  shows "titles (snd (run_state (observe e h obs) w)) =
    titles w @ map (event_title h) (trace (phase_of w (ho_ID h)) (map fst obs))"
proof (induction obs arbitrary: w)
  case Nil
  show ?case by (simp add: observe_def run_return)
next
  case (Cons o' obs)
  obtain online t where o': "o' = (online, t)" by fastforce
  obtain p ann where move: "next_phase (phase_of w (ho_ID h)) online = (p, ann)" by fastforce
  let ?v = "snd (run_state (reconcile e h online t) w)"
  have v: "phase_of ?v = (phase_of w)(ho_ID h := p)" "titles ?v = titles w @ (case ann of None \<Rightarrow> [] | Some x \<Rightarrow> [event_title h x])"
    using view_reconcile [OF nf move] by (simp_all add: view_def)
  have "titles (snd (run_state (observe e h (o' # obs)) w)) = titles (snd (run_state (observe e h obs) ?v))"
    by (simp add: observe_def o' run_bind run_return split_beta)
  with Cons.IH [of ?v] v move show ?case
    by (simp add: o' split: option.split)
qed


text \<open>A scan handles every host of the page once; the phases of other hosts stay.\<close>

definition moved :: "liveness_env \<Rightarrow> time \<Rightarrow> host \<Rightarrow> phase \<Rightarrow> phase" where
  "moved e t h p = (if ho_LastSeenAt h = None then p else fst (next_phase p (IsOnline t (freshness e) h)))"

lemma view_scan_host:
  assumes nf: "\<And>n. \<not> fault e n"
  shows "phase_of (snd (run_state (scan_host e t h) w)) = (phase_of w)(ho_ID h := moved e t h (phase_of w (ho_ID h))) \<and>
    hosts (snd (run_state (scan_host e t h) w)) = hosts w"
proof (cases "ho_LastSeenAt h")
  case None
  then show ?thesis by (simp add: scan_host_def moved_def run_simps)
next
  case (Some l)
  obtain p ann where "next_phase (phase_of w (ho_ID h)) (IsOnline t (freshness e) h) = (p, ann)" by fastforce
  with view_reconcile [OF nf this, of t] Some show ?thesis
    by (simp add: scan_host_def moved_def run_bind run_return split_beta view_def)
qed

lemma scan_hosts:
  assumes nf: "\<And>n. \<not> fault e n" and "distinct (map ho_ID hs)"
  shows "hosts (snd (run_state (for_each (scan_host e t) hs) w)) = hosts w \<and>
    (\<forall>h \<in> set hs. phase_of (snd (run_state (for_each (scan_host e t) hs) w)) (ho_ID h) = moved e t h (phase_of w (ho_ID h))) \<and>
    (\<forall>i. i \<notin> ho_ID ` set hs \<longrightarrow> phase_of (snd (run_state (for_each (scan_host e t) hs) w)) i = phase_of w i)"
  using assms(2)
proof (induction hs arbitrary: w)
  case Nil
  show ?case by (simp add: run_return)
next
  case (Cons h hs)
  let ?v = "snd (run_state (scan_host e t h) w)"
  note v = view_scan_host [OF nf, of t h w]
  have run: "snd (run_state (for_each (scan_host e t) (h # hs)) w) = snd (run_state (for_each (scan_host e t) hs) ?v)"
    by (simp add: run_bind split_beta)
  have "distinct (map ho_ID hs)" "ho_ID h \<notin> ho_ID ` set hs"
    using Cons.prems by auto
  with Cons.IH [of ?v] v show ?case
    unfolding run by (auto simp: image_iff)
qed

lemma detect_pages_spec:
  assumes nf: "\<And>n. \<not> fault e n" and "distinct (map ho_ID (hosts w))"
    and "length (hosts w) - offset < fuel * hostLivenessPageSize"
    and "L = sort_key (\<lambda>h. - ho_CreatedAt h) (hosts w)"
  shows "fst (run_state (detect_pages fuel e t offset) w) = Some () \<and>
    (\<forall>h \<in> set (drop offset L). phase_of (snd (run_state (detect_pages fuel e t offset) w)) (ho_ID h) = moved e t h (phase_of w (ho_ID h))) \<and>
    (\<forall>i. i \<notin> ho_ID ` set (drop offset L) \<longrightarrow> phase_of (snd (run_state (detect_pages fuel e t offset) w)) i = phase_of w i)"
  using assms(2-)
proof (induction fuel arbitrary: w offset)
  case 0
  then show ?case by simp
next
  case (Suc fuel)
  let ?N = hostLivenessPageSize
  let ?hs = "take ?N (drop offset L)"
  let ?v = "snd (run_state (for_each (scan_host e t) ?hs) (bump w))"
  have list: "run_state (Hosts_List (lv e) ?N offset) w = (Inr ?hs, bump w)"
    using nf Suc.prems(3) by (simp add: Hosts_List_def run_simps wrap_db_def page_def)
  have dist: "distinct (map ho_ID L)"
    using Suc.prems(1,3) by (simp add: distinct_map)
  then have dd: "distinct (map ho_ID (drop n (take m L)))" "distinct (map ho_ID (take m (drop n L)))" "distinct (map ho_ID (drop n L))" for m n
    by (simp_all add: take_map [symmetric] drop_map [symmetric])
  have same: "phase_of (bump w) = phase_of w"
    by (simp add: phase_of_def [abs_def])
  have v: "hosts ?v = hosts w" "\<forall>h \<in> set ?hs. phase_of ?v (ho_ID h) = moved e t h (phase_of w (ho_ID h))"
      "\<forall>i. i \<notin> ho_ID ` set ?hs \<longrightarrow> phase_of ?v i = phase_of w i"
    using scan_hosts [OF nf dd(2) [of ?N offset], of t "bump w"] same by simp_all
  show ?case
  proof (cases "length ?hs < ?N")
    case True
    then have all: "?hs = drop offset L"
      by (auto simp: min_def split: if_splits)
    have "run_state (detect_pages (Suc fuel) e t offset) w = (Some (), ?v)"
      using True by (simp add: run_bind run_return list split_beta del: length_take)
    with v show ?thesis
      by (simp add: all)
  next
    case False
    have run: "run_state (detect_pages (Suc fuel) e t offset) w = run_state (detect_pages fuel e t (offset + ?N)) ?v"
      using False by (simp add: run_bind run_return list split_beta del: length_take)
    have "length (drop offset L) \<ge> ?N"
      using False by auto
    then have "length (hosts w) \<ge> offset + ?N"
      using Suc.prems(3) hostLivenessPageSize_def by auto
    then have less: "length (hosts ?v) - (offset + ?N) < fuel * ?N"
      using Suc.prems(2) by (simp add: v(1))
    have "distinct (map ho_ID (hosts ?v))" "L = sort_key (\<lambda>h. - ho_CreatedAt h) (hosts ?v)"
      unfolding v(1) by (rule Suc.prems)+
    note IH = Suc.IH [OF this(1) less this(2)]
    define A B where "A = ?hs" and "B = drop (offset + ?N) L"
    have parts: "drop offset L = A @ B"
      unfolding A_def B_def by (metis append_take_drop_id drop_drop add.commute)
    have apart: "ho_ID ` set A \<inter> ho_ID ` set B = {}"
      using dd(3) [of offset] by (simp add: parts)
    have A: "\<forall>h \<in> set A. phase_of ?v (ho_ID h) = moved e t h (phase_of w (ho_ID h))"
        "\<forall>i. i \<notin> ho_ID ` set A \<longrightarrow> phase_of ?v i = phase_of w i"
      using v by (simp_all add: A_def)
    define V where "V = ?v"
    have run': "run_state (detect_pages (Suc fuel) e t offset) w = run_state (detect_pages fuel e t (offset + ?N)) V"
      unfolding V_def by (rule run)
    have rest: "phase_of V (ho_ID h) = phase_of w (ho_ID h)" if "h \<in> set B" for h
      using A(2) [folded V_def] apart that by blast
    show ?thesis
      unfolding run' parts set_append using IH [folded B_def V_def] A [folded V_def] apart
      by (auto simp: image_iff disjoint_iff rest)
  qed
qed


definition demo_live :: liveness_env where
  "demo_live = \<lparr>clock = (\<lambda>n. int n * Second), fault = (\<lambda>_. False), ulid = (\<lambda>_. ''id''),
     smtp_config_error = (\<lambda>_. None), operator_send = (\<lambda>_ _ _. None), freshness = 45 * Second, external_delivery = True\<rparr>"

definition demo_host :: host where
  "demo_host = \<lparr>ho_ID = ''h1'', ho_CreatedAt = 0, ho_Name = ''db'', ho_LastSeenAt = Some (- 100 * Second)\<rparr>"

definition demo_fleet :: world where
  "demo_fleet = empty_world\<lparr>hosts := [demo_host, demo_host\<lparr>ho_ID := ''h2'', ho_LastSeenAt := Some 0\<rparr>]\<rparr>"

definition demo_obs :: "(bool \<times> time) list" where
  "demo_obs = [(False, 1), (True, 2), (False, 3), (False, 4), (False, 5), (True, 6)]"



text \<open>
  The alert is sent although the state could not be stored: with a database that refuses the writes of two cycles in a
  row, the same outage is announced twice.
\<close>

lemma failed_upsert_repeats_alert:
  "titles (snd (run_state (observe (demo_live\<lparr>fault := (\<lambda>n. n = 3)\<rparr>) demo_host
     [(False, 1), (False, 2), (False, 3)]) demo_fleet)) = [''Host db went offline'', ''Host db went offline'']"
  by code_simp

end
