(* ===== verification/Maintenance.thy ===== *)
theory Maintenance
  imports Resources
begin

text \<open>
  Maintenance windows: the repository (\<open>src/internal/repository/store/maintenance_repository_sqlc.go\<close>),
  the service (\<open>src/internal/service/maintenance_service.go\<close>), the registration of tasks
  (\<open>src/internal/maintenance/scheduler_service.go\<close>) and the tasks themselves
  (\<open>src/internal/maintenance/handler.go\<close>).

  The queue is asynq's: a call of its client either fails or adds a task with its due time to
  \<open>maintenance_tasks\<close>, and a registration adds an entry to \<open>cron_entries\<close>. The step relation says
  what the queue does with them: a task is delivered at any moment from its due time on and stays
  queued when its handler fails, and a cron entry may fire at any moment.
\<close>

section \<open>The repository\<close>

record maintenance_loaded =
  ml_Row :: maintenance
  ml_Resources :: "string list"

text \<open>\<open>LinkMaintenanceResource\<close> for each identifier: an existing link is left alone.\<close>

definition link_all :: "string \<Rightarrow> string list \<Rightarrow> (string \<times> string) list \<Rightarrow> (string \<times> string) list" where
  "link_all i rids links = links @ map (Pair i) (filter (\<lambda>r. \<not> List.member links (i, r)) (remdups rids))"

definition Maintenances_Create :: "env \<Rightarrow> maintenance_loaded \<Rightarrow> (world, error + maintenance_loaded) state" where
  "Maintenances_Create e l = do {
     i \<leftarrow> EnsureID e (mt_ID (ml_Row l));
     t \<leftarrow> now e;
     let m = (ml_Row l)\<lparr>mt_ID := i,
                mt_CreatedAt := (if mt_CreatedAt (ml_Row l) = zero_time then t else mt_CreatedAt (ml_Row l)),
                mt_UpdatedAt := (if mt_UpdatedAt (ml_Row l) = zero_time then t else mt_UpdatedAt (ml_Row l))\<rparr>;
     repo_call e (\<lambda>w. if tbl_has mt_ID i (maintenances w) then (Inl ErrDB, w)
       else (Inr (l\<lparr>ml_Row := m\<rparr>), w\<lparr>maintenances := maintenances w @ [m],
               maintenance_resources := link_all i (ml_Resources l) (maintenance_resources w)\<rparr>))
   }"

definition with_links :: "world \<Rightarrow> maintenance \<Rightarrow> maintenance_loaded" where
  "with_links w m = \<lparr>ml_Row = m, ml_Resources = links_of (mt_ID m) (maintenance_resources w)\<rparr>"

definition Maintenances_FindByID :: "env \<Rightarrow> string \<Rightarrow> (world, error + maintenance_loaded) state" where
  "Maintenances_FindByID e i = do {
     r \<leftarrow> repo_query e (\<lambda>w. case tbl_find mt_ID i (maintenances w) of
            None \<Rightarrow> Inl ErrNotFound | Some m \<Rightarrow> Inr (with_links w m));
     State_Monad.return (wrap_db ''sqlc: find maintenance'' r)
   }"

definition Maintenances_List ::
    "env \<Rightarrow> string \<Rightarrow> nat \<Rightarrow> nat \<Rightarrow> (world, error + maintenance_loaded list) state" where
  "Maintenances_List e status limit offset = do {
     r \<leftarrow> repo_query e (\<lambda>w. Inr (map (with_links w) (page limit offset (sort_key (\<lambda>m. - mt_CreatedAt m)
            (filter (\<lambda>m. status = '''' \<or> mt_Status m = status) (maintenances w))))));
     State_Monad.return (wrap_db ''sqlc: list maintenances'' r)
   }"

text \<open>\<open>UpdateMaintenance\<close> writes every column but the identifier and the creation time.\<close>

definition maintenance_columns :: "maintenance \<Rightarrow> time \<Rightarrow> maintenance \<Rightarrow> maintenance" where
  "maintenance_columns m t row = m\<lparr>mt_ID := mt_ID row, mt_CreatedAt := mt_CreatedAt row, mt_UpdatedAt := t\<rparr>"

definition Maintenances_Update :: "env \<Rightarrow> maintenance_loaded \<Rightarrow> (world, error option) state" where
  "Maintenances_Update e l = do {
     t \<leftarrow> now e;
     let i = mt_ID (ml_Row l);
     r \<leftarrow> repo_call e (\<lambda>w. (Inr (), w\<lparr>maintenances := tbl_update mt_ID i (maintenance_columns (ml_Row l) t) (maintenances w),
            maintenance_resources := relink i (ml_Resources l) (maintenance_resources w)\<rparr>));
     State_Monad.return (error_of r)
   }"

text \<open>The links of a deleted row go with it (\<open>ON DELETE CASCADE\<close>).\<close>

definition Maintenances_Delete :: "env \<Rightarrow> string \<Rightarrow> (world, error option) state" where
  "Maintenances_Delete e i = do {
     r \<leftarrow> repo_call e (\<lambda>w. if tbl_has mt_ID i (maintenances w)
            then (Inr (), w\<lparr>maintenances := tbl_delete mt_ID i (maintenances w),
                   maintenance_resources := filter (\<lambda>(m, _). m \<noteq> i) (maintenance_resources w)\<rparr>)
            else (Inl ErrNotFound, w));
     State_Monad.return (error_of (wrap_db ''sqlc: delete maintenance'' r))
   }"

section \<open>Registration of tasks (scheduler\_service.go)\<close>

definition enqueue :: "env \<Rightarrow> maintenance_task \<Rightarrow> (world, unit) state" where
  "enqueue e tk = do {
     r \<leftarrow> repo_call e (\<lambda>w. (Inr (), w\<lparr>maintenance_tasks := maintenance_tasks w @ [tk]\<rparr>));
     State_Monad.return ()
   }"

definition register_cron :: "env \<Rightarrow> string \<Rightarrow> string \<Rightarrow> (world, unit) state" where
  "register_cron e spec i = do {
     r \<leftarrow> repo_call e (\<lambda>w. (Inr (), w\<lparr>cron_entries := cron_entries w @ [(spec, i)]\<rparr>));
     State_Monad.return ()
   }"

text \<open>\<open>at != nil && at.After(time.Now())\<close>, and the task for that time.\<close>

definition enqueue_later :: "env \<Rightarrow> (time \<Rightarrow> maintenance_task) \<Rightarrow> time option \<Rightarrow> (world, unit) state" where
  "enqueue_later e task at =
     (case at of
        None \<Rightarrow> State_Monad.return ()
      | Some d \<Rightarrow> do {
          t \<leftarrow> now e;
          (if d > t then enqueue e (task d) else State_Monad.return ())
        })"

definition ensure_one :: "env \<Rightarrow> maintenance_loaded \<Rightarrow> (world, unit) state" where
  "ensure_one e l =
     (let m = ml_Row l
      in (case (mt_CronExpr m, mt_WindowMinutes m, mt_Strategy m) of
            (Some spec, Some _, Cron) \<Rightarrow> register_cron e spec (mt_ID m)
          | _ \<Rightarrow>
              if mt_Strategy m = OneTime \<and> mt_Status m = ''scheduled''
              then do {
                enqueue_later e (MaintenanceStart (mt_ID m)) (mt_StartAt m);
                enqueue_later e (MaintenanceEnd (mt_ID m)) (mt_EndAt m)
              }
              else State_Monad.return ()))"

definition EnsureScheduled :: "env \<Rightarrow> (world, error option) state" where
  "EnsureScheduled e = do {
     found \<leftarrow> Maintenances_List e '''' 10000 0;
     (case found of
        Inl err \<Rightarrow> State_Monad.return (Some err)
      | Inr ls \<Rightarrow> do { for_each (ensure_one e) ls; State_Monad.return None })
   }"

section \<open>The tasks (handler.go)\<close>

definition ProcessStart :: "env \<Rightarrow> string \<Rightarrow> (world, error option) state" where
  "ProcessStart e i = do {
     found \<leftarrow> Maintenances_FindByID e i;
     (case found of
        Inl err \<Rightarrow> State_Monad.return (Some err)
      | Inr l \<Rightarrow> do {
          t \<leftarrow> now e;
          let l' = l\<lparr>ml_Row := (ml_Row l)\<lparr>mt_Status := ''active'', mt_StartedAt := Some t\<rparr>\<rparr>;
          u \<leftarrow> Maintenances_Update e l';
          (case u of
             Some err \<Rightarrow> State_Monad.return (Some err)
           | None \<Rightarrow> do {
               (case mt_WindowMinutes (ml_Row l) of
                  None \<Rightarrow> State_Monad.return ()
                | Some n \<Rightarrow> do { t' \<leftarrow> now e; enqueue e (MaintenanceEnd (mt_ID (ml_Row l)) (t' + dur n Minute)) });
               State_Monad.return None
             })
        })
   }"

definition ProcessEnd :: "env \<Rightarrow> string \<Rightarrow> (world, error option) state" where
  "ProcessEnd e i = do {
     found \<leftarrow> Maintenances_FindByID e i;
     (case found of
        Inl err \<Rightarrow> State_Monad.return (Some err)
      | Inr l \<Rightarrow> do {
          t \<leftarrow> now e;
          Maintenances_Update e (l\<lparr>ml_Row := (ml_Row l)\<lparr>mt_Status := ''finished'', mt_EndedAt := Some t\<rparr>\<rparr>)
        })
   }"

section \<open>The service (maintenance\_service.go)\<close>

definition ErrMaintenanceNotFound :: error where
  "ErrMaintenanceNotFound = ErrorNew ''maintenance not found''"

definition strategy_of :: "string \<Rightarrow> maintenance_strategy" where
  "strategy_of s = (if s = ''one_time'' then OneTime else if s = ''cron'' then Cron else StrategyOther s)"

record maintenance_create_payload =
  mc_Title :: string
  mc_Description :: "string option"
  mc_Strategy :: string
  mc_StartAt :: "time option"
  mc_EndAt :: "time option"
  mc_CronExpr :: "string option"
  mc_WindowMinutes :: "int option"
  mc_Timezone :: "string option"
  mc_EffectiveFrom :: "time option"
  mc_EffectiveUntil :: "time option"
  mc_ResourceIDs :: "string list"

record maintenance_update_payload =
  mu_Title :: "string option"
  mu_Description :: "string option"
  mu_Strategy :: "string option"
  mu_StartAt :: "time option"
  mu_EndAt :: "time option"
  mu_CronExpr :: "string option"
  mu_WindowMinutes :: "int option"
  mu_Timezone :: "string option"
  mu_EffectiveFrom :: "time option"
  mu_EffectiveUntil :: "time option"
  mu_ResourceIDs :: "string list"

text \<open>The service has a scheduler only when the process runs with Redis.\<close>

record maintenance_env = env +
  has_scheduler :: bool

abbreviation mv :: "maintenance_env \<Rightarrow> env" where
  "mv e \<equiv> env.truncate e"

lemma mv_fields [simp]: "clock (mv e) = clock e" "fault (mv e) = fault e" "ulid (mv e) = ulid e"
  by (simp_all add: env.truncate_def)

definition ensure_schedules :: "maintenance_env \<Rightarrow> (world, unit) state" where
  "ensure_schedules e =
     (if has_scheduler e then do { EnsureScheduled (mv e); State_Monad.return () } else State_Monad.return ())"

definition new_maintenance :: "maintenance_create_payload \<Rightarrow> maintenance" where
  "new_maintenance p =
     \<lparr>mt_ID = '''', mt_Title = mc_Title p, mt_Strategy = strategy_of (mc_Strategy p), mt_Status = ''scheduled'',
      mt_StartAt = mc_StartAt p, mt_EndAt = mc_EndAt p, mt_CronExpr = mc_CronExpr p,
      mt_WindowMinutes = mc_WindowMinutes p, mt_Timezone = mc_Timezone p, mt_EffectiveFrom = mc_EffectiveFrom p,
      mt_EffectiveUntil = mc_EffectiveUntil p, mt_StartedAt = None, mt_EndedAt = None,
      mt_Description = mc_Description p, mt_CreatedAt = zero_time, mt_UpdatedAt = zero_time\<rparr>"

definition CreateMaintenance ::
    "maintenance_env \<Rightarrow> maintenance_create_payload option \<Rightarrow> (world, error + maintenance_loaded) state" where
  "CreateMaintenance e payload =
     (case payload of
        None \<Rightarrow> State_Monad.return (Inl ErrValidationFailed)
      | Some p \<Rightarrow>
          if mc_Strategy p = '''' then State_Monad.return (Inl ErrValidationFailed)
          else and_then (Maintenances_Create (mv e) \<lparr>ml_Row = new_maintenance p, ml_Resources = mc_ResourceIDs p\<rparr>)
            (\<lambda>created. do { ensure_schedules e; State_Monad.return (Inr created) }))"

definition or_keep :: "'a option \<Rightarrow> 'a option \<Rightarrow> 'a option" where
  "or_keep new old = (case new of Some _ \<Rightarrow> new | None \<Rightarrow> old)"

definition apply_maintenance_update :: "maintenance_update_payload \<Rightarrow> maintenance_loaded \<Rightarrow> maintenance_loaded" where
  "apply_maintenance_update p l =
     (let m = ml_Row l
      in l\<lparr>ml_Row := m\<lparr>
             mt_Title := (case mu_Title p of Some x \<Rightarrow> x | None \<Rightarrow> mt_Title m),
             mt_Description := or_keep (mu_Description p) (mt_Description m),
             mt_Strategy := (case mu_Strategy p of Some x \<Rightarrow> strategy_of x | None \<Rightarrow> mt_Strategy m),
             mt_StartAt := or_keep (mu_StartAt p) (mt_StartAt m),
             mt_EndAt := or_keep (mu_EndAt p) (mt_EndAt m),
             mt_CronExpr := or_keep (mu_CronExpr p) (mt_CronExpr m),
             mt_WindowMinutes := or_keep (mu_WindowMinutes p) (mt_WindowMinutes m),
             mt_Timezone := or_keep (mu_Timezone p) (mt_Timezone m),
             mt_EffectiveFrom := or_keep (mu_EffectiveFrom p) (mt_EffectiveFrom m),
             mt_EffectiveUntil := or_keep (mu_EffectiveUntil p) (mt_EffectiveUntil m)\<rparr>,
           ml_Resources := (if mu_ResourceIDs p = [] then ml_Resources l else mu_ResourceIDs p)\<rparr>)"

definition load_maintenance :: "maintenance_env \<Rightarrow> string \<Rightarrow> (world, error + maintenance_loaded) state" where
  "load_maintenance e i = do {
     found \<leftarrow> Maintenances_FindByID (mv e) i;
     State_Monad.return (case found of Inl _ \<Rightarrow> Inl ErrMaintenanceNotFound | Inr l \<Rightarrow> Inr l)
   }"

definition save_maintenance :: "maintenance_env \<Rightarrow> maintenance_loaded \<Rightarrow> (world, error + unit) state" where
  "save_maintenance e l = do {
     u \<leftarrow> Maintenances_Update (mv e) l;
     State_Monad.return (failing u)
   }"

definition UpdateMaintenance ::
    "maintenance_env \<Rightarrow> string \<Rightarrow> maintenance_update_payload \<Rightarrow> (world, error + maintenance_loaded) state" where
  "UpdateMaintenance e i p =
     and_then (load_maintenance e i) (\<lambda>l.
       and_then (save_maintenance e (apply_maintenance_update p l)) (\<lambda>_. do {
         ensure_schedules e;
         State_Monad.return (Inr (apply_maintenance_update p l))
       }))"

definition DeleteMaintenance :: "maintenance_env \<Rightarrow> string \<Rightarrow> (world, error option) state" where
  "DeleteMaintenance e i = Maintenances_Delete (mv e) i"

definition FinishMaintenance :: "maintenance_env \<Rightarrow> string \<Rightarrow> (world, error + maintenance_loaded) state" where
  "FinishMaintenance e i =
     and_then (load_maintenance e i) (\<lambda>l. do {
       t \<leftarrow> now (mv e);
       let l' = l\<lparr>ml_Row := (ml_Row l)\<lparr>mt_Status := ''finished'', mt_EndedAt := Some t\<rparr>\<rparr>;
       and_then (save_maintenance e l') (\<lambda>_. State_Monad.return (Inr l'))
     })"

definition ListMaintenances ::
    "maintenance_env \<Rightarrow> string \<Rightarrow> nat \<Rightarrow> nat \<Rightarrow> (world, error + maintenance_loaded list) state" where
  "ListMaintenances e status limit offset =
     (if status \<noteq> '''' \<and> \<not> List.member [''scheduled'', ''active'', ''finished''] status
      then State_Monad.return (Inl ErrValidationFailed)
      else do {
        found \<leftarrow> Maintenances_List (mv e) status limit offset;
        State_Monad.return (case found of
          Inl err \<Rightarrow> if errors_Is err ErrNotFound then Inr [] else Inl err
        | Inr ls \<Rightarrow> Inr ls)
      })"

section \<open>The queue at work\<close>

fun due_at :: "maintenance_task \<Rightarrow> time" where
  "due_at (MaintenanceStart _ t) = t"
| "due_at (MaintenanceEnd _ t) = t"

fun handle :: "maintenance_env \<Rightarrow> maintenance_task \<Rightarrow> (world, error option) state" where
  "handle e (MaintenanceStart i _) = ProcessStart (mv e) i"
| "handle e (MaintenanceEnd i _) = ProcessEnd (mv e) i"

text \<open>A task leaves the queue when its handler succeeds.\<close>

definition deliver :: "maintenance_env \<Rightarrow> maintenance_task \<Rightarrow> world \<Rightarrow> world" where
  "deliver e tk w = (case run_state (handle e tk) w of
     (None, w') \<Rightarrow> w'\<lparr>maintenance_tasks := remove1 tk (maintenance_tasks w')\<rparr>
   | (Some _, w') \<Rightarrow> w')"

inductive maintenance_step :: "maintenance_env \<Rightarrow> world \<Rightarrow> world \<Rightarrow> bool" for e where
  create: "maintenance_step e w (snd (run_state (CreateMaintenance e p) w))"
| update: "maintenance_step e w (snd (run_state (UpdateMaintenance e i u) w))"
| delete: "maintenance_step e w (snd (run_state (DeleteMaintenance e i) w))"
| finish: "maintenance_step e w (snd (run_state (FinishMaintenance e i) w))"
| deliver: "tk \<in> set (maintenance_tasks w) \<Longrightarrow> due_at tk \<le> clock e (tick w) \<Longrightarrow> maintenance_step e w (deliver e tk w)"
| cron: "(spec, i) \<in> set (cron_entries w) \<Longrightarrow> maintenance_step e w (snd (run_state (ProcessStart (mv e) i) w))"
| other: "maintenances w' = maintenances w \<Longrightarrow> maintenance_resources w' = maintenance_resources w \<Longrightarrow>
    maintenance_tasks w' = maintenance_tasks w \<Longrightarrow> cron_entries w' = cron_entries w \<Longrightarrow> maintenance_step e w w'"

section \<open>Properties of the rows that every step keeps\<close>

lemma new_maintenance_fields [simp]:
  "mt_ID (new_maintenance p) = ''''" "mt_CreatedAt (new_maintenance p) = zero_time" "mt_UpdatedAt (new_maintenance p) = zero_time"
  "mt_Status (new_maintenance p) = ''scheduled''" "mt_StartedAt (new_maintenance p) = None" "mt_EndedAt (new_maintenance p) = None"
  by (simp_all add: new_maintenance_def)

definition windows_inv :: "(maintenance \<Rightarrow> bool) \<Rightarrow> world \<Rightarrow> bool" where
  "windows_inv P w \<longleftrightarrow> distinct_keys mt_ID (maintenances w) \<and> (\<forall>m \<in> set (maintenances w). P m)"

lemma windows_inv_stable: "stable maintenances (windows_inv P)"
  by (simp add: stable_def windows_inv_def)

lemma keeps_enqueue [keep]: "keeps maintenances (enqueue e tk)" "keeps maintenances (register_cron e spec i)"
  "keeps maintenance_resources (enqueue e tk)" "keeps maintenance_resources (register_cron e spec i)"
  unfolding enqueue_def register_cron_def by (intro keep; simp)+

lemma keeps_ensure_one [keep]: "keeps maintenances (ensure_one e l)" "keeps maintenance_resources (ensure_one e l)"
proof -
  have later: "keeps maintenances (enqueue_later e tk at)" "keeps maintenance_resources (enqueue_later e tk at)" for tk at
    unfolding enqueue_later_def by (intro keep; simp)+
  show "keeps maintenances (ensure_one e l)" "keeps maintenance_resources (ensure_one e l)"
    unfolding ensure_one_def Let_def
    by (auto intro!: keep later split: option.split maintenance_strategy.split)
qed

lemma keeps_EnsureScheduled [keep]: "keeps maintenances (EnsureScheduled e)" "keeps maintenance_resources (EnsureScheduled e)"
  unfolding EnsureScheduled_def Maintenances_List_def by (intro keep; simp)+

lemma keeps_ensure_schedules [keep]: "keeps maintenances (ensure_schedules e)" "keeps maintenance_resources (ensure_schedules e)"
  unfolding ensure_schedules_def by (intro keep)+

lemma hoare_find_window:
  "hoare (windows_inv P) (Maintenances_FindByID e i) (\<lambda>x w. windows_inv P w \<and> (\<forall>l. x = Inr l \<longrightarrow> P (ml_Row l)))"
  by (auto intro!: hoareI simp: Maintenances_FindByID_def run_simps wrap_db_def windows_inv_def with_links_def
      dest!: tbl_find_Some_key split: if_splits option.splits sum.splits)

lemma windows_inv_update:
  assumes "windows_inv P w" and "\<And>t row. P row \<Longrightarrow> P (maintenance_columns m t row)"
    and "maintenances w' = tbl_update mt_ID i (maintenance_columns m t) (maintenances w)"
  shows "windows_inv P w'"
  using assms distinct_keys_update [of mt_ID "maintenances w" "maintenance_columns m t" i]
  by (auto simp: windows_inv_def tbl_update_def maintenance_columns_def)

lemma hoare_update_window:
  assumes "\<And>t row. P row \<Longrightarrow> P (maintenance_columns (ml_Row l) t row)"
  shows "preserves (windows_inv P) (Maintenances_Update e l)"
proof (rule preservesI)
  fix w assume inv: "windows_inv P w"
  let ?w = "snd (run_state (Maintenances_Update e l) w)"
  have "maintenances ?w = maintenances w \<or>
      (\<exists>t. maintenances ?w = tbl_update mt_ID (mt_ID (ml_Row l)) (maintenance_columns (ml_Row l) t) (maintenances w))"
    by (auto simp: Maintenances_Update_def run_simps Let_def)
  then show "windows_inv P ?w"
    using inv windows_inv_update [OF inv assms] by (auto simp: windows_inv_def)
qed

text \<open>
  What a property of the rows must satisfy to hold in every run: a new row has it, starting and
  ending keep it, an edit of the service keeps it, and it does not depend on the key and times that
  the update statement leaves or sets.
\<close>

locale window_property =
  fixes P :: "maintenance \<Rightarrow> bool"
  assumes created: "P (new_maintenance p)"
    and columns: "P m \<Longrightarrow> P (m\<lparr>mt_ID := i, mt_CreatedAt := c, mt_UpdatedAt := u\<rparr>)"
    and started: "P m \<Longrightarrow> P (m\<lparr>mt_Status := ''active'', mt_StartedAt := Some t\<rparr>)"
    and ended: "P m \<Longrightarrow> P (m\<lparr>mt_Status := ''finished'', mt_EndedAt := Some t\<rparr>)"
    and edited: "P (ml_Row l) \<Longrightarrow> P (ml_Row (apply_maintenance_update p' l))"
begin

abbreviation (input) inv :: "world \<Rightarrow> bool" where
  "inv \<equiv> windows_inv P"

lemma kept: "keeps maintenances m \<Longrightarrow> preserves inv m"
  by (rule keeps_preserves [OF _ windows_inv_stable])

lemma update_inv: "P (ml_Row l) \<Longrightarrow> preserves inv (Maintenances_Update e l)"
  by (rule hoare_update_window) (simp add: maintenance_columns_def columns)

lemma create_inv: "preserves inv (Maintenances_Create e \<lparr>ml_Row = new_maintenance p, ml_Resources = rids\<rparr>)"
proof (rule preservesI)
  fix w assume inv: "inv w"
  let ?w = "snd (run_state (Maintenances_Create e \<lparr>ml_Row = new_maintenance p, ml_Resources = rids\<rparr>) w)"
  have "maintenances ?w = maintenances w \<or> (\<exists>i c u. tbl_find mt_ID i (maintenances w) = None \<and>
      maintenances ?w = maintenances w @ [(new_maintenance p)\<lparr>mt_ID := i, mt_CreatedAt := c, mt_UpdatedAt := u\<rparr>])"
    by (simp add: Maintenances_Create_def EnsureID_def run_simps Let_def tbl_has_iff tbl_find_None) blast
  then show "inv ?w"
    using inv columns [OF created] by (auto simp: windows_inv_def intro!: distinct_keys_snoc)
qed

lemma start_inv: "preserves inv (ProcessStart e i)"
proof (rule preserves_hoare)
  have upd: "hoare (\<lambda>w. inv w \<and> P (ml_Row l)) (do {
        t \<leftarrow> now e;
        let l' = l\<lparr>ml_Row := (ml_Row l)\<lparr>mt_Status := ''active'', mt_StartedAt := Some t\<rparr>\<rparr>;
        u \<leftarrow> Maintenances_Update e l';
        (case u of
           Some err \<Rightarrow> State_Monad.return (Some err)
         | None \<Rightarrow> do {
             (case mt_WindowMinutes (ml_Row l) of
                None \<Rightarrow> State_Monad.return ()
              | Some n \<Rightarrow> do { t' \<leftarrow> now e; enqueue e (MaintenanceEnd (mt_ID (ml_Row l)) (t' + dur n Minute)) });
             State_Monad.return None
           })
      }) (\<lambda>_. inv)" for l
  proof (cases "P (ml_Row l)")
    case True
    have "preserves inv (enqueue e tk)" for tk
      by (intro kept keep)
    moreover have "preserves inv (now e)"
      by (intro kept keep) simp
    ultimately show ?thesis
      unfolding Let_def using True
      by (intro hoare_conseq [OF hoare_preserves, of inv] pres update_inv) (simp_all add: started)
  qed (simp add: hoare_def)
  show "hoare inv (ProcessStart e i) (\<lambda>_. inv)"
    unfolding ProcessStart_def
    by (rule hoare_bind [OF hoare_find_window], rule hoare_case_sum)
      (auto intro: hoare_return hoare_conseq [OF upd [unfolded Let_def]] simp: Let_def)
qed

lemma write_inv: "hoare (\<lambda>w. inv w \<and> P (ml_Row l)) (Maintenances_Update e l) (\<lambda>_. inv)"
  using update_inv [of l] by (auto simp: hoare_def preserves_def)

lemma end_inv: "preserves inv (ProcessEnd e i)"
proof (rule preserves_hoare)
  have "hoare (\<lambda>w. inv w \<and> P (ml_Row l)) (do {
      t \<leftarrow> now e;
      Maintenances_Update e (l\<lparr>ml_Row := (ml_Row l)\<lparr>mt_Status := ''finished'', mt_EndedAt := Some t\<rparr>\<rparr>)
    }) (\<lambda>_. inv)" for l
    by (rule hoare_bind [where R = "\<lambda>_ w. inv w \<and> P (ml_Row l)"], simp add: hoare_def run_simps windows_inv_def)
      (rule hoare_conseq [OF write_inv], auto simp: ended)
  then show "hoare inv (ProcessEnd e i) (\<lambda>_. inv)"
    unfolding ProcessEnd_def
    by (intro hoare_bind [OF hoare_find_window] hoare_case_sum) (auto intro: hoare_return hoare_conseq)
qed

lemma load_inv: "hoare inv (load_maintenance e i) (\<lambda>x w. case x of Inl _ \<Rightarrow> inv w | Inr l \<Rightarrow> inv w \<and> P (ml_Row l))"
  unfolding load_maintenance_def
  by (rule hoare_bind [OF hoare_find_window], rule hoare_return) (auto split: sum.split)

lemma save_inv: "hoare (\<lambda>w. inv w \<and> P (ml_Row l)) (save_maintenance e l) (\<lambda>x w. inv w)"
  unfolding save_maintenance_def by (rule hoare_bind [OF write_inv], rule hoare_return)

lemma service_inv:
  "preserves inv (CreateMaintenance e p)" "preserves inv (UpdateMaintenance e i u)"
  "preserves inv (DeleteMaintenance e i)" "preserves inv (FinishMaintenance e i)"
proof -
  show "preserves inv (CreateMaintenance e p)"
    unfolding CreateMaintenance_def by (intro pres create_inv kept keep)
  have "preserves inv (do { ensure_schedules e; State_Monad.return (Inr l) })" for l :: maintenance_loaded
    by (intro kept keep)
  then have "hoare (\<lambda>w. inv w \<and> P (ml_Row l)) (and_then (save_maintenance e (apply_maintenance_update u l)) (\<lambda>_. do {
      ensure_schedules e; State_Monad.return (Inr (apply_maintenance_update u l)) })) (\<lambda>_. inv)" for l
    by (intro hoare_and_then [OF hoare_conseq [OF save_inv]]) (auto intro: hoare_preserves simp: edited split: sum.split)
  then show "preserves inv (UpdateMaintenance e i u)"
    unfolding UpdateMaintenance_def by (intro preserves_hoare hoare_and_then [OF load_inv])
  have "windows_inv P (snd (run_state (Maintenances_Delete (mv e) i) w))" if "inv w" for w
    using that distinct_keys_delete [of mt_ID "maintenances w" i]
    by (auto simp: Maintenances_Delete_def run_simps windows_inv_def tbl_delete_def)
  then show "preserves inv (DeleteMaintenance e i)"
    unfolding DeleteMaintenance_def by (rule preservesI)
  have "hoare (\<lambda>w. inv w \<and> P (ml_Row l)) (do {
      t \<leftarrow> now (mv e);
      let l' = l\<lparr>ml_Row := (ml_Row l)\<lparr>mt_Status := ''finished'', mt_EndedAt := Some t\<rparr>\<rparr>;
      and_then (save_maintenance e l') (\<lambda>_. State_Monad.return (Inr l')) }) (\<lambda>_. inv)" for l
    unfolding Let_def
    by (rule hoare_bind [where R = "\<lambda>_ w. inv w \<and> P (ml_Row l)"], simp add: hoare_def run_simps windows_inv_def)
      (rule hoare_and_then [OF hoare_conseq [OF save_inv]], auto simp: ended intro: hoare_return split: sum.split)
  then show "preserves inv (FinishMaintenance e i)"
    unfolding FinishMaintenance_def by (intro preserves_hoare hoare_and_then [OF load_inv])
qed

lemma step_inv: "maintenance_step e w w' \<Longrightarrow> inv w \<Longrightarrow> inv w'"
proof (induction rule: maintenance_step.induct)
  case (deliver tk w)
  have "preserves inv (handle e tk)"
    by (cases tk) (simp_all add: start_inv end_inv)
  from preservesD [OF this deliver(3)] show ?case
    by (auto simp: deliver_def windows_inv_def split_beta split: option.split)
next
  case (other w' w)
  then show ?case by (simp add: windows_inv_def)
qed (rule preservesD [OF service_inv(1)] preservesD [OF service_inv(2)] preservesD [OF service_inv(3)]
  preservesD [OF service_inv(4)] preservesD [OF start_inv], assumption)+

lemma steps_inv: "(maintenance_step e)\<^sup>*\<^sup>* w w' \<Longrightarrow> inv w \<Longrightarrow> inv w'"
  by (induction rule: rtranclp_induct) (auto dest: step_inv)

end

section \<open>The life of a window\<close>

text \<open>The status is one of three, and the times of the last start and end are recorded.\<close>

definition window_ok :: "maintenance \<Rightarrow> bool" where
  "window_ok m \<longleftrightarrow> mt_Status m \<in> {''scheduled'', ''active'', ''finished''} \<and>
     (mt_Status m = ''active'' \<longrightarrow> mt_StartedAt m \<noteq> None) \<and> (mt_Status m = ''finished'' \<longrightarrow> mt_EndedAt m \<noteq> None)"

interpretation life: window_property window_ok
  by unfold_locales (auto simp: window_ok_def apply_maintenance_update_def Let_def)

text \<open>
  C20: In every run that starts without maintenances - calls of the service, tasks delivered by the queue,
  cron entries firing, and failures of the database or the queue in any order - every maintenance is
  scheduled, active or finished, has a start time when it is active and an end time when it is finished.
\<close>

theorem maintenance_lifecycle:
  assumes "(maintenance_step e)\<^sup>*\<^sup>* w w'" and "maintenances w = []" and "m \<in> set (maintenances w')"
  shows "mt_Status m \<in> {''scheduled'', ''active'', ''finished''} \<and>
     (mt_Status m = ''active'' \<longrightarrow> mt_StartedAt m \<noteq> None) \<and> (mt_Status m = ''finished'' \<longrightarrow> mt_EndedAt m \<noteq> None)"
  using life.steps_inv [OF assms(1)] assms(2,3) unfolding windows_inv_def window_ok_def distinct_keys_def by simp

section \<open>Effects without failures\<close>

lemma relink_iff: "(j, r) \<in> set (relink i T L) \<longleftrightarrow> (if j = i then r \<in> set T else (j, r) \<in> set L)"
  by (auto simp: relink_def diffJunctionSets_def links_of_def image_iff)

lemma relink_same: "relink i (links_of i L) L = L"
  by (auto simp: relink_def diffJunctionSets_def filter_empty_conv filter_id_conv)

lemma run_find_window:
  assumes "\<And>n. \<not> fault e n" and "tbl_find mt_ID i (maintenances w) = Some m"
  shows "run_state (Maintenances_FindByID e i) w = (Inr (with_links w m), bump w)"
  using assms by (simp add: Maintenances_FindByID_def run_simps wrap_db_def with_links_def)

lemma run_update_window:
  assumes "\<And>n. \<not> fault e n"
  shows "run_state (Maintenances_Update e l) w = (None, (bump (bump w))\<lparr>
     maintenances := tbl_update mt_ID (mt_ID (ml_Row l)) (maintenance_columns (ml_Row l) (clock e (tick w))) (maintenances w),
     maintenance_resources := relink (mt_ID (ml_Row l)) (ml_Resources l) (maintenance_resources w)\<rparr>)"
  using assms by (simp add: Maintenances_Update_def run_simps error_of_def Let_def)

lemma find_columns:
  assumes "tbl_find mt_ID i t = Some m" and "mt_ID m' = mt_ID m" and "mt_CreatedAt m' = mt_CreatedAt m"
  shows "tbl_find mt_ID i (tbl_update mt_ID i (maintenance_columns m' u) t) = Some (m'\<lparr>mt_UpdatedAt := u\<rparr>)"
  using assms by (simp add: tbl_find_update maintenance_columns_def)

lemma run_ProcessStart:
  assumes nf: "\<And>n. \<not> fault e n" and m: "tbl_find mt_ID i (maintenances w) = Some m"
    and run: "run_state (ProcessStart e i) w = (r, w')"
  shows "r = None" and "tbl_find mt_ID i (maintenances w') = Some (m\<lparr>mt_Status := ''active'',
      mt_StartedAt := Some (clock e (Suc (tick w))), mt_UpdatedAt := clock e (tick w + 2)\<rparr>)"
    and "maintenance_resources w' = maintenance_resources w"
    and "maintenance_tasks w' = maintenance_tasks w @ (case mt_WindowMinutes m of None \<Rightarrow> []
      | Some n \<Rightarrow> [MaintenanceEnd i (clock e (tick w + 4) + dur n Minute)])"
    and "map mt_ID (maintenances w') = map mt_ID (maintenances w)"
proof -
  have [simp]: "mt_ID m = i"
    using tbl_find_Some_key [OF m] by simp
  let ?m = "m\<lparr>mt_Status := ''active'', mt_StartedAt := Some (clock e (Suc (tick w)))\<rparr>"
  have "r = None \<and> maintenances w' = tbl_update mt_ID i (maintenance_columns ?m (clock e (tick w + 2))) (maintenances w) \<and>
     maintenance_resources w' = maintenance_resources w \<and>
     maintenance_tasks w' = maintenance_tasks w @ (case mt_WindowMinutes m of None \<Rightarrow> []
      | Some n \<Rightarrow> [MaintenanceEnd i (clock e (tick w + 4) + dur n Minute)])"
    using run nf
    by (auto simp: ProcessStart_def run_bind run_return run_now run_find_window [OF nf m] run_update_window [OF nf] with_links_def
        enqueue_def run_repo_call relink_same Let_def eval_nat_numeral split: option.splits)
  then show "r = None" "maintenance_resources w' = maintenance_resources w"
    and "maintenance_tasks w' = maintenance_tasks w @ (case mt_WindowMinutes m of None \<Rightarrow> []
      | Some n \<Rightarrow> [MaintenanceEnd i (clock e (tick w + 4) + dur n Minute)])"
    and "tbl_find mt_ID i (maintenances w') = Some (m\<lparr>mt_Status := ''active'',
      mt_StartedAt := Some (clock e (Suc (tick w))), mt_UpdatedAt := clock e (tick w + 2)\<rparr>)"
    and "map mt_ID (maintenances w') = map mt_ID (maintenances w)"
    using find_columns [OF m, of ?m] by (simp_all add: maintenance_columns_def)
qed

lemma run_close:
  assumes nf: "\<And>n. \<not> fault e n" and m: "tbl_find mt_ID i (maintenances w) = Some m"
    and run: "run_state (ProcessEnd e i) w = (r, w')"
  shows "r = None" and "tbl_find mt_ID i (maintenances w') = Some (m\<lparr>mt_Status := ''finished'',
      mt_EndedAt := Some (clock e (Suc (tick w))), mt_UpdatedAt := clock e (tick w + 2)\<rparr>)"
    and "maintenance_resources w' = maintenance_resources w"
    and "map mt_ID (maintenances w') = map mt_ID (maintenances w)"
proof -
  have [simp]: "mt_ID m = i"
    using tbl_find_Some_key [OF m] by simp
  let ?m = "m\<lparr>mt_Status := ''finished'', mt_EndedAt := Some (clock e (Suc (tick w)))\<rparr>"
  have "r = None \<and> maintenances w' = tbl_update mt_ID i (maintenance_columns ?m (clock e (tick w + 2))) (maintenances w) \<and>
     maintenance_resources w' = maintenance_resources w"
    using run nf
    by (auto simp: ProcessEnd_def run_bind run_return run_now run_find_window [OF nf m] run_update_window [OF nf] with_links_def relink_same)
  then show "r = None" "maintenance_resources w' = maintenance_resources w"
    and "tbl_find mt_ID i (maintenances w') = Some (m\<lparr>mt_Status := ''finished'',
      mt_EndedAt := Some (clock e (Suc (tick w))), mt_UpdatedAt := clock e (tick w + 2)\<rparr>)"
    and "map mt_ID (maintenances w') = map mt_ID (maintenances w)"
    using find_columns [OF m, of ?m] by (simp_all add: maintenance_columns_def)
qed

text \<open>The maintenances that silence a resource at a time, as the task handler of the monitors asks for them.\<close>

definition silenced_by :: "env \<Rightarrow> world \<Rightarrow> string \<Rightarrow> time \<Rightarrow> string list" where
  "silenced_by e w rid t =
     (case fst (run_state (Maintenances_FindActiveForResource e rid t) w) of Inl _ \<Rightarrow> [] | Inr ms \<Rightarrow> map mt_ID ms)"

lemma silenced_iff:
  assumes "\<And>n. \<not> fault e n" and "distinct (map mt_ID (maintenances w))" and "tbl_find mt_ID i (maintenances w) = Some m"
  shows "i \<in> set (silenced_by e w rid t) \<longleftrightarrow> (i, rid) \<in> set (maintenance_resources w) \<and> maintenance_active t m"
proof -
  have "m \<in> set (maintenances w)" "mt_ID m = i"
    using tbl_find_Some_key [OF assms(3)] by auto
  moreover have "m' = m" if "m' \<in> set (maintenances w)" "mt_ID m' = i" for m'
    using distinct_keys_same [of mt_ID "maintenances w" m' m] that calculation assms(2) by (simp add: distinct_keys_def)
  moreover have "silenced_by e w rid t = map mt_ID (filter (\<lambda>m. List.member (maintenance_resources w) (mt_ID m, rid) \<and>
      maintenance_active t m) (maintenances w))"
    using assms(1) by (simp add: silenced_by_def Maintenances_FindActiveForResource_def run_simps wrap_db_def)
  then have "i \<in> set (silenced_by e w rid t) \<longleftrightarrow> (\<exists>x \<in> set (maintenances w). mt_ID x = i \<and>
      (mt_ID x, rid) \<in> set (maintenance_resources w) \<and> maintenance_active t x)"
    by (simp add: image_iff) blast
  ultimately show ?thesis
    by blast
qed

text \<open>
  A window opens and closes: the start task of a maintenance with a window, the database and the queue
  answering, silences every resource of the maintenance at every time and queues its end, due when
  the minutes of the window have passed; when the end task runs, later and with the maintenance
  unchanged, the maintenance silences nothing any more.
\<close>

theorem window_opens_and_closes:
  assumes "\<And>n. \<not> fault e n" and "distinct (map mt_ID (maintenances w))"
    and "tbl_find mt_ID i (maintenances w) = Some m" and "mt_WindowMinutes m = Some n"
    and "(i, rid) \<in> set (maintenance_resources w)"
    and "run_state (ProcessStart e i) w = (r1, w1)"
    and "maintenances w2 = maintenances w1" and "maintenance_resources w2 = maintenance_resources w1"
    and "run_state (ProcessEnd e i) w2 = (r2, w3)"
  shows "r1 = None \<and> r2 = None \<and>
    MaintenanceEnd i (clock e (tick w + 4) + dur n Minute) \<in> set (maintenance_tasks w1) \<and>
    i \<in> set (silenced_by e w1 rid t) \<and> i \<notin> set (silenced_by e w3 rid t')"
proof -
  note s = run_ProcessStart [OF assms(1,3,6)]
  have m2: "tbl_find mt_ID i (maintenances w2) = Some (m\<lparr>mt_Status := ''active'',
      mt_StartedAt := Some (clock e (Suc (tick w))), mt_UpdatedAt := clock e (tick w + 2)\<rparr>)"
    using s(2) assms(7) by simp
  note c = run_close [OF assms(1) m2 assms(9)]
  have d: "distinct (map mt_ID (maintenances w1))" "distinct (map mt_ID (maintenances w3))"
    using assms(2,7) s(5) c(4) by simp_all
  show ?thesis
    using s(1,3,4) c(1,3) silenced_iff [OF assms(1) d(1) s(2)] silenced_iff [OF assms(1) d(2) c(2)] assms(4,5,8)
    by (simp add: maintenance_active_def)
qed

lemma run_Finish:
  assumes nf: "\<And>n. \<not> fault e n" and run: "run_state (FinishMaintenance e i) w = (Inr l, w1)"
  obtains m where "tbl_find mt_ID i (maintenances w) = Some m"
    and "tbl_find mt_ID i (maintenances w1) = Some (m\<lparr>mt_Status := ''finished'',
      mt_EndedAt := Some (clock e (Suc (tick w))), mt_UpdatedAt := clock e (tick w + 2)\<rparr>)"
    and "maintenance_resources w1 = maintenance_resources w" and "maintenance_tasks w1 = maintenance_tasks w"
    and "map mt_ID (maintenances w1) = map mt_ID (maintenances w)"
proof (cases "tbl_find mt_ID i (maintenances w)")
  case None
  then show ?thesis
    using run nf by (simp add: FinishMaintenance_def load_maintenance_def run_and_then run_bind run_return
        Maintenances_FindByID_def run_repo_query wrap_db_def)
next
  case (Some m)
  have [simp]: "mt_ID m = i"
    using tbl_find_Some_key [OF Some] by simp
  have nf': "\<not> fault (mv e) n" for n
    by (simp add: nf)
  let ?m = "m\<lparr>mt_Status := ''finished'', mt_EndedAt := Some (clock e (Suc (tick w)))\<rparr>"
  have "maintenances w1 = tbl_update mt_ID i (maintenance_columns ?m (clock e (tick w + 2))) (maintenances w) \<and>
      maintenance_resources w1 = maintenance_resources w \<and> maintenance_tasks w1 = maintenance_tasks w"
    using run
    by (auto simp: FinishMaintenance_def load_maintenance_def save_maintenance_def run_and_then run_bind run_return run_now
        run_find_window [OF nf' Some] run_update_window [OF nf'] with_links_def relink_same failing_def Let_def)
  then show ?thesis
    using find_columns [OF Some, of ?m] by (intro that [OF Some]) (simp_all add: maintenance_columns_def)
qed


text \<open>The tasks in the queue are never taken back by the service.\<close>

lemma tasks_grow:
  "preserves (\<lambda>w. set T \<subseteq> set (maintenance_tasks w)) (CreateMaintenance e p)"
  "preserves (\<lambda>w. set T \<subseteq> set (maintenance_tasks w)) (UpdateMaintenance e i u)"
  "preserves (\<lambda>w. set T \<subseteq> set (maintenance_tasks w)) (DeleteMaintenance e i)"
  "preserves (\<lambda>w. set T \<subseteq> set (maintenance_tasks w)) (FinishMaintenance e i)"
proof -
  let ?I = "\<lambda>w::world. set T \<subseteq> set (maintenance_tasks w)"
  have st: "stable maintenance_tasks ?I"
    by (simp add: stable_def)
  note kp = keeps_preserves [OF _ st]
  have basic: "preserves ?I (enqueue f tk)" "preserves ?I (register_cron f spec j)" "preserves ?I (now f)"
      "preserves ?I (new_id f)" "preserves ?I (Maintenances_FindByID f j)" "preserves ?I (Maintenances_List f x k n)"
      "preserves ?I (Maintenances_Update f l)" "preserves ?I (Maintenances_Create f l)" "preserves ?I (Maintenances_Delete f j)"
    for f tk spec j x k n l
    by (auto simp: preserves_def run_simps enqueue_def register_cron_def Maintenances_FindByID_def Maintenances_List_def
        Maintenances_Update_def Maintenances_Create_def Maintenances_Delete_def EnsureID_def Let_def)
  have later: "preserves ?I (enqueue_later f tk at)" for f tk at
    unfolding enqueue_later_def by (intro pres basic)
  have "preserves ?I (ensure_one f l)" for f l
    unfolding ensure_one_def Let_def
    by (auto intro!: pres basic later split: option.split maintenance_strategy.split)
  then have ensure: "preserves ?I (ensure_schedules e)"
    unfolding ensure_schedules_def EnsureScheduled_def by (intro pres basic)
  have lm: "preserves ?I (load_maintenance e j)" "preserves ?I (save_maintenance e l)" for j l
    unfolding load_maintenance_def save_maintenance_def by (intro pres basic)+
  show "preserves ?I (CreateMaintenance e p)" "preserves ?I (UpdateMaintenance e i u)"
    "preserves ?I (DeleteMaintenance e i)" "preserves ?I (FinishMaintenance e i)"
    unfolding CreateMaintenance_def UpdateMaintenance_def DeleteMaintenance_def FinishMaintenance_def Let_def
    by (intro pres basic ensure lm)+
qed

text \<open>A maintenance that is moved to a later time keeps the start task of the old time.\<close>

lemma moved_window_keeps_old_start:
  "tk \<in> set (maintenance_tasks w) \<Longrightarrow> tk \<in> set (maintenance_tasks (snd (run_state (UpdateMaintenance e i u) w)))"
  using preservesD [OF tasks_grow(2) [of "[tk]"]] by simp


text \<open>
  An update writes the given fields and replaces the resources when it names some; the links of other maintenances
  stay, and every task already queued stays queued.
\<close>

lemma UpdateMaintenance_effect:
  assumes nf: "\<And>n. \<not> fault e n" and run: "run_state (UpdateMaintenance e i u) w = (Inr l, w1)"
  obtains m where "tbl_find mt_ID i (maintenances w) = Some m" and "l = apply_maintenance_update u (with_links w m)"
    and "(j, r) \<in> set (maintenance_resources w1) \<longleftrightarrow>
      (if j = i \<and> mu_ResourceIDs u \<noteq> [] then r \<in> set (mu_ResourceIDs u) else (j, r) \<in> set (maintenance_resources w))"
proof (cases "tbl_find mt_ID i (maintenances w)")
  case None
  then show ?thesis
    using run nf by (simp add: UpdateMaintenance_def load_maintenance_def run_and_then run_bind run_return
        Maintenances_FindByID_def run_repo_query wrap_db_def)
next
  case (Some m)
  have i: "mt_ID m = i"
    using tbl_find_Some_key [OF Some] by simp
  have nf': "\<not> fault (mv e) n" for n
    by (simp add: nf)
  let ?l = "apply_maintenance_update u (with_links w m)"
  let ?v = "snd (run_state (Maintenances_Update (mv e) ?l) (bump w))"
  have "l = ?l" and w1: "w1 = snd (run_state (ensure_schedules e) ?v)"
    using run
    by (auto simp: UpdateMaintenance_def load_maintenance_def save_maintenance_def run_and_then run_bind run_return
        run_find_window [OF nf' Some] run_update_window [OF nf'] failing_def split: prod.splits)
  have same: "maintenance_resources w1 = maintenance_resources ?v"
    unfolding w1 by (rule keepsD; intro keep)
  have id: "mt_ID (ml_Row ?l) = i" and rs: "ml_Resources ?l =
      (if mu_ResourceIDs u = [] then links_of i (maintenance_resources w) else mu_ResourceIDs u)"
    using i by (simp_all add: apply_maintenance_update_def Let_def with_links_def)
  have "(j, r) \<in> set (maintenance_resources w1) \<longleftrightarrow>
      (if j = i \<and> mu_ResourceIDs u \<noteq> [] then r \<in> set (mu_ResourceIDs u) else (j, r) \<in> set (maintenance_resources w))"
    unfolding same run_update_window [OF nf'] by (auto simp: id rs relink_iff links_of_def image_iff)
  with \<open>l = ?l\<close> show ?thesis
    by (intro that [OF Some])
qed

section \<open>A concrete run\<close>

definition demo_menv :: maintenance_env where
  "demo_menv = \<lparr>clock = (\<lambda>n. int n), fault = (\<lambda>_. False), ulid = (\<lambda>n. ''m'' @ replicate n CHR ''x''), has_scheduler = True\<rparr>"

definition demo_window :: maintenance_create_payload where
  "demo_window =
     \<lparr>mc_Title = ''upgrade'', mc_Description = None, mc_Strategy = ''one_time'', mc_StartAt = Some 8, mc_EndAt = None,
      mc_CronExpr = None, mc_WindowMinutes = None, mc_Timezone = None, mc_EffectiveFrom = None, mc_EffectiveUntil = None,
      mc_ResourceIDs = [''r1'', ''r2'', ''r1'']\<rparr>"

definition demo_planned :: world where
  "demo_planned = snd (run_state (CreateMaintenance demo_menv (Some demo_window)) empty_world)"

definition demo_finished :: "(error + maintenance_loaded) \<times> world" where
  "demo_finished = run_state (FinishMaintenance demo_menv ''m'') demo_planned"

lemma demo_menv_simps [simp]: "clock demo_menv n = int n" "\<not> fault demo_menv n" "ulid demo_menv 0 = ''m''" "has_scheduler demo_menv"
  by (simp_all add: demo_menv_def)

lemma demo_create: "run_state (CreateMaintenance demo_menv (Some demo_window)) empty_world =
  (Inr \<lparr>ml_Row = (new_maintenance demo_window)\<lparr>mt_ID := ''m'', mt_CreatedAt := 1, mt_UpdatedAt := 1\<rparr>,
        ml_Resources = [''r1'', ''r2'', ''r1'']\<rparr>, demo_planned)"
  by (simp add: CreateMaintenance_def demo_window_def Maintenances_Create_def EnsureID_def run_and_then run_simps
      empty_world_def demo_planned_def Let_def split_beta tbl_has_iff)


lemma demo_planned_tables:
  "maintenances demo_planned = [(new_maintenance demo_window)\<lparr>mt_ID := ''m'', mt_CreatedAt := 1, mt_UpdatedAt := 1\<rparr>]"
  "maintenance_resources demo_planned = [(''m'', ''r2''), (''m'', ''r1'')]"
  "maintenance_tasks demo_planned = [MaintenanceStart ''m'' 8]" "tick demo_planned = 6"
  by (simp_all add: demo_planned_def CreateMaintenance_def demo_window_def Maintenances_Create_def EnsureID_def run_and_then
      run_simps empty_world_def Let_def split_beta tbl_has_iff link_all_def ensure_schedules_def EnsureScheduled_def
      Maintenances_List_def wrap_db_def page_def ensure_one_def enqueue_later_def enqueue_def with_links_def
      new_maintenance_def strategy_of_def)

text \<open>
  The window of the demonstration is planned for the time 8 and finished at 7; its start task, delivered at 10,
  silences its resources for ever.
\<close>

lemma demo_finished_run:
  "run_state (FinishMaintenance demo_menv ''m'') demo_planned = (Inr (projr (fst demo_finished)), snd demo_finished)"
  "tick (snd demo_finished) = 10" "mt_WindowMinutes (ml_Row (projr (fst demo_finished))) = None"
  by (simp_all add: demo_finished_def FinishMaintenance_def load_maintenance_def save_maintenance_def run_and_then run_simps
      Maintenances_FindByID_def Maintenances_Update_def demo_planned_tables wrap_db_def with_links_def failing_def error_of_def
      Let_def new_maintenance_def demo_window_def)


theorem window_opens_and_closes_witness:
  "(let e = mv demo_menv; w = empty_world\<lparr>maintenances := [(new_maintenance demo_window)\<lparr>mt_ID := ''m'', mt_WindowMinutes := Some 30\<rparr>],
       maintenance_resources := [(''m'', ''r1'')]\<rparr>; w1 = snd (run_state (ProcessStart e ''m'') w); w3 = snd (run_state (ProcessEnd e ''m'') w1)
    in MaintenanceEnd ''m'' (4 + 30 * Minute) \<in> set (maintenance_tasks w1) \<and> ''m'' \<in> set (silenced_by e w1 ''r1'' 5) \<and>
       ''m'' \<notin> set (silenced_by e w3 ''r1'' 5))"
proof -
  let ?m = "(new_maintenance demo_window)\<lparr>mt_ID := ''m'', mt_WindowMinutes := Some 30\<rparr>"
  let ?w = "empty_world\<lparr>maintenances := [?m], maintenance_resources := [(''m'', ''r1'')]\<rparr>"
  have "\<not> fault (mv demo_menv) n" for n
    by simp
  moreover have "distinct (map mt_ID (maintenances ?w))" "tbl_find mt_ID ''m'' (maintenances ?w) = Some ?m"
      "mt_WindowMinutes ?m = Some 30" "(''m'', ''r1'') \<in> set (maintenance_resources ?w)" "tick ?w = 0"
    by (simp_all add: empty_world_def)
  moreover have "dur 30 Minute = 30 * Minute"
    by (simp add: dur_def in_int64_def min_int64_def max_int64_def)
  ultimately show ?thesis
    using window_opens_and_closes [of "mv demo_menv" ?w "''m''" ?m 30 "''r1''", OF _ _ _ _ _ prod.collapse [symmetric] refl refl prod.collapse [symmetric], of 5 5]
    by (simp add: Let_def)
qed

theorem maintenance_lifecycle_witness:
  "mt_Status ((new_maintenance demo_window)\<lparr>mt_ID := ''m'', mt_CreatedAt := 1, mt_UpdatedAt := 1\<rparr>) \<in> {''scheduled'', ''active'', ''finished''}"
proof -
  have "(maintenance_step demo_menv)\<^sup>*\<^sup>* empty_world demo_planned"
    unfolding demo_planned_def by (rule r_into_rtranclp, rule maintenance_step.create)
  from maintenance_lifecycle [OF this] show ?thesis
    by (simp add: demo_planned_tables empty_world_def)
qed

end
