(* ===== verification/Escalation.thy ===== *)
theory Escalation
  imports Resources "HOL-Library.Multiset"
begin

text \<open>
  Escalation policies: the service (\<open>src/internal/service/escalation_service.go\<close>), the repository
  (\<open>src/internal/repository/store/escalation_repository_sqlc.go\<close>) and the request type of the handler
  (\<open>src/internal/api/handler/v1/escalation_handler.go\<close>).

  The rows of \<open>escalation_policies\<close> have no steps; steps are rows of their own. The table has a unique
  index on the priority of the active policies, the steps one on policy and order: a statement that
  would violate one fails. None of the methods runs in a transaction, so every statement is a call
  that may fail alone. Priorities are unbounded; PostgreSQL keeps them as 32-bit integers.
\<close>

section \<open>The repository\<close>

definition priority_taken :: "string \<Rightarrow> int \<Rightarrow> escalation_policy list \<Rightarrow> bool" where
  "priority_taken i p t = list_ex (\<lambda>q. ep_ID q \<noteq> i \<and> ep_IsActive q \<and> ep_Priority q = p) t"

fun insert_steps :: "env \<Rightarrow> string \<Rightarrow> escalation_step list \<Rightarrow> (world, error option) state" where
  "insert_steps e pid [] = State_Monad.return None"
| "insert_steps e pid (st # sts) = do {
     i \<leftarrow> EnsureID e (st_ID st);
     let row = st\<lparr>st_ID := i, st_PolicyID := pid\<rparr>;
     r \<leftarrow> repo_call e (\<lambda>w. if tbl_has st_ID i (escalation_steps w) \<or> \<not> tbl_has ep_ID pid (escalation_policies w) \<or>
              list_ex (\<lambda>s. st_PolicyID s = pid \<and> st_StepOrder s = st_StepOrder st) (escalation_steps w)
            then (Inl ErrDB, w) else (Inr (), w\<lparr>escalation_steps := escalation_steps w @ [row]\<rparr>));
     (case wrap_db ''sqlc: create escalation step'' r of
        Inl err \<Rightarrow> State_Monad.return (Some err)
      | Inr _ \<Rightarrow> insert_steps e pid sts)
   }"

text \<open>The result has the identifier that the caller's policy is given.\<close>

definition Escalations_Create :: "env \<Rightarrow> escalation_policy \<Rightarrow> (world, error + string) state" where
  "Escalations_Create e p = do {
     i \<leftarrow> EnsureID e (ep_ID p);
     t \<leftarrow> now e;
     let row = p\<lparr>ep_ID := i, ep_Steps := [],
                 ep_CreatedAt := (if ep_CreatedAt p = zero_time then t else ep_CreatedAt p),
                 ep_UpdatedAt := (if ep_UpdatedAt p = zero_time then t else ep_UpdatedAt p)\<rparr>;
     r \<leftarrow> repo_call e (\<lambda>w. if tbl_has ep_ID i (escalation_policies w) \<or>
              (ep_IsActive p \<and> priority_taken i (ep_Priority p) (escalation_policies w))
            then (Inl ErrDB, w) else (Inr (), w\<lparr>escalation_policies := escalation_policies w @ [row]\<rparr>));
     (case wrap_db ''sqlc: create escalation policy'' r of
        Inl err \<Rightarrow> State_Monad.return (Inl err)
      | Inr _ \<Rightarrow> do {
          u \<leftarrow> insert_steps e i (ep_Steps p);
          State_Monad.return (case u of Some err \<Rightarrow> Inl err | None \<Rightarrow> Inr i)
        })
   }"

definition steps_of :: "string \<Rightarrow> escalation_step list \<Rightarrow> escalation_step list" where
  "steps_of pid t = sort_key st_StepOrder (filter (\<lambda>s. st_PolicyID s = pid) t)"

definition attach_steps :: "env \<Rightarrow> escalation_policy \<Rightarrow> (world, error + escalation_policy) state" where
  "attach_steps e p = do {
     r \<leftarrow> repo_query e (\<lambda>w. Inr (p\<lparr>ep_Steps := steps_of (ep_ID p) (escalation_steps w)\<rparr>));
     State_Monad.return (wrap_db ''sqlc: list steps'' r)
   }"

definition Escalations_FindByID :: "env \<Rightarrow> string \<Rightarrow> (world, error + escalation_policy) state" where
  "Escalations_FindByID e i =
     and_then (do {
       r \<leftarrow> repo_query e (\<lambda>w. case tbl_find ep_ID i (escalation_policies w) of None \<Rightarrow> Inl ErrNotFound | Some p \<Rightarrow> Inr p);
       State_Monad.return (wrap_db ''sqlc: find escalation policy'' r)
     }) (attach_steps e)"

fun attach_all :: "env \<Rightarrow> escalation_policy list \<Rightarrow> (world, error + escalation_policy list) state" where
  "attach_all e [] = State_Monad.return (Inr [])"
| "attach_all e (p # ps) =
     and_then (attach_steps e p) (\<lambda>q. and_then (attach_all e ps) (\<lambda>qs. State_Monad.return (Inr (q # qs))))"

text \<open>\<open>ORDER BY priority, created_at\<close>.\<close>

definition by_priority :: "escalation_policy list \<Rightarrow> escalation_policy list" where
  "by_priority t = sort_key ep_Priority (sort_key ep_CreatedAt t)"

definition Escalations_List :: "env \<Rightarrow> (world, error + escalation_policy list) state" where
  "Escalations_List e =
     and_then (do {
       r \<leftarrow> repo_query e (\<lambda>w. Inr (by_priority (escalation_policies w)));
       State_Monad.return (wrap_db ''sqlc: list policies'' r)
     }) (attach_all e)"

definition policy_columns :: "escalation_policy \<Rightarrow> time \<Rightarrow> escalation_policy \<Rightarrow> escalation_policy" where
  "policy_columns p t row = row\<lparr>ep_Name := ep_Name p, ep_Scope := ep_Scope p, ep_IsActive := ep_IsActive p,
     ep_Priority := ep_Priority p, ep_UpdatedAt := t\<rparr>"

definition Escalations_Update :: "env \<Rightarrow> escalation_policy \<Rightarrow> (world, error option) state" where
  "Escalations_Update e p = do {
     t \<leftarrow> now e;
     r \<leftarrow> repo_call e (\<lambda>w. if \<not> tbl_has ep_ID (ep_ID p) (escalation_policies w) then (Inl ErrNotFound, w)
            else if ep_IsActive p \<and> priority_taken (ep_ID p) (ep_Priority p) (escalation_policies w) then (Inl ErrDB, w)
            else (Inr (), w\<lparr>escalation_policies := tbl_update ep_ID (ep_ID p) (policy_columns p t) (escalation_policies w)\<rparr>));
     (case wrap_db ''sqlc: update policy'' r of
        Inl err \<Rightarrow> State_Monad.return (Some err)
      | Inr _ \<Rightarrow> do {
          d \<leftarrow> repo_call e (\<lambda>w. (Inr (), w\<lparr>escalation_steps := filter (\<lambda>s. st_PolicyID s \<noteq> ep_ID p) (escalation_steps w)\<rparr>));
          (case wrap_db ''sqlc: delete old steps'' d of
             Inl err \<Rightarrow> State_Monad.return (Some err)
           | Inr _ \<Rightarrow> insert_steps e (ep_ID p) (ep_Steps p))
        })
   }"

text \<open>The steps of a deleted policy go with it (\<open>ON DELETE CASCADE\<close>).\<close>

definition Escalations_Delete :: "env \<Rightarrow> string \<Rightarrow> (world, error option) state" where
  "Escalations_Delete e i = do {
     r \<leftarrow> repo_call e (\<lambda>w. if tbl_has ep_ID i (escalation_policies w)
            then (Inr (), w\<lparr>escalation_policies := tbl_delete ep_ID i (escalation_policies w),
                   escalation_steps := filter (\<lambda>s. st_PolicyID s \<noteq> i) (escalation_steps w)\<rparr>)
            else (Inl ErrNotFound, w));
     State_Monad.return (error_of (wrap_db ''sqlc: delete policy'' r))
   }"

text \<open>\<open>SetEscalationPolicyPriority\<close>: the number of rows written.\<close>

definition with_priority :: "int \<Rightarrow> time \<Rightarrow> escalation_policy \<Rightarrow> escalation_policy" where
  "with_priority pr t p = p\<lparr>ep_Priority := pr, ep_UpdatedAt := t\<rparr>"

definition SetEscalationPolicyPriority :: "env \<Rightarrow> string \<Rightarrow> int \<Rightarrow> time \<Rightarrow> (world, error + nat) state" where
  "SetEscalationPolicyPriority e i pr t =
     repo_call e (\<lambda>w. case tbl_find ep_ID i (escalation_policies w) of
        None \<Rightarrow> (Inr 0, w)
      | Some p \<Rightarrow>
          if ep_IsActive p \<and> priority_taken i pr (escalation_policies w) then (Inl ErrDB, w)
          else (Inr 1, w\<lparr>escalation_policies := tbl_update ep_ID i (with_priority pr t) (escalation_policies w)\<rparr>))"

abbreviation scratchBase :: int where "scratchBase \<equiv> 100000"

text \<open>One phase: \<open>needed\<close> says whether a missing row is an error.\<close>

fun reorder_phase :: "env \<Rightarrow> string \<Rightarrow> bool \<Rightarrow> time \<Rightarrow> int \<Rightarrow> string list \<Rightarrow> (world, error option) state" where
  "reorder_phase e msg needed t pr [] = State_Monad.return None"
| "reorder_phase e msg needed t pr (i # is) = do {
     r \<leftarrow> SetEscalationPolicyPriority e i pr t;
     (case wrap_db msg r of
        Inl err \<Rightarrow> State_Monad.return (Some err)
      | Inr n \<Rightarrow> if needed \<and> n = 0 then State_Monad.return (Some ErrNotFound) else reorder_phase e msg needed t (pr + 1) is)
   }"

definition Escalations_Reorder :: "env \<Rightarrow> string list \<Rightarrow> (world, error option) state" where
  "Escalations_Reorder e order = do {
     t \<leftarrow> now e;
     u \<leftarrow> reorder_phase e ''sqlc: reorder phase1'' False t scratchBase order;
     (case u of
        Some err \<Rightarrow> State_Monad.return (Some err)
      | None \<Rightarrow> reorder_phase e ''sqlc: reorder phase2'' True t 1 order)
   }"

definition Escalations_NextPriority :: "env \<Rightarrow> (world, error + int) state" where
  "Escalations_NextPriority e = do {
     r \<leftarrow> repo_query e (\<lambda>w. Inr ((case map ep_Priority (filter ep_IsActive (escalation_policies w)) of
            [] \<Rightarrow> 0 | p # ps \<Rightarrow> fold max ps p) + 1));
     State_Monad.return (wrap_db ''sqlc: next priority'' r)
   }"

section \<open>The service\<close>

definition ErrEscalationStepsRange :: error where
  "ErrEscalationStepsRange = ErrorNew ''policy must declare between 1 and 5 steps''"
definition ErrEscalationChannelsEmpty :: error where
  "ErrEscalationChannelsEmpty = ErrorNew ''each step must declare at least one channel''"
definition ErrEscalationDelayRange :: error where
  "ErrEscalationDelayRange = ErrorNew ''step delay must be between 1 and 1440 minutes''"
definition ErrEscalationScopeInvalid :: error where
  "ErrEscalationScopeInvalid = ErrorNew ''scope.kind must be component or tag''"
definition ErrEscalationReorderMissing :: error where
  "ErrEscalationReorderMissing = ErrorNew ''reorder payload missing active policy IDs''"
definition ErrEscalationReorderUnknown :: error where
  "ErrEscalationReorderUnknown = ErrorNew ''reorder payload contains unknown or inactive policy IDs''"

fun validate_steps :: "escalation_step list \<Rightarrow> error option" where
  "validate_steps [] = None"
| "validate_steps (s # ss) =
     (if st_DelayMinutes s < 1 \<or> st_DelayMinutes s > 1440 then Some ErrEscalationDelayRange
      else if st_ChannelIDs s = [] then Some ErrEscalationChannelsEmpty
      else validate_steps ss)"

definition validatePolicy :: "escalation_policy \<Rightarrow> error option" where
  "validatePolicy p =
     (if sc_Kind (ep_Scope p) \<noteq> EscalationScopeComponent \<and> sc_Kind (ep_Scope p) \<noteq> EscalationScopeTag
      then Some ErrEscalationScopeInvalid
      else if length (ep_Steps p) < 1 \<or> length (ep_Steps p) > 5 then Some ErrEscalationStepsRange
      else validate_steps (ep_Steps p))"

definition CreateEscalation :: "env \<Rightarrow> escalation_policy \<Rightarrow> (world, error + escalation_policy) state" where
  "CreateEscalation e p =
     (case validatePolicy p of
        Some err \<Rightarrow> State_Monad.return (Inl err)
      | None \<Rightarrow> do {
          n \<leftarrow> Escalations_NextPriority e;
          (case n of
             Inl err \<Rightarrow> State_Monad.return (Inl (Wrapf ''next priority'' err))
           | Inr pr \<Rightarrow> and_then (Escalations_Create e (p\<lparr>ep_Priority := pr\<rparr>)) (Escalations_FindByID e))
        })"

definition ListEscalations :: "env \<Rightarrow> (world, error + escalation_policy list) state" where
  "ListEscalations e = and_then (Escalations_List e) (\<lambda>ps. State_Monad.return (Inr (sort_key ep_Priority ps)))"

definition GetEscalation :: "env \<Rightarrow> string \<Rightarrow> (world, error + escalation_policy) state" where
  "GetEscalation e i = Escalations_FindByID e i"

definition UpdateEscalation :: "env \<Rightarrow> escalation_policy \<Rightarrow> (world, error + escalation_policy) state" where
  "UpdateEscalation e p =
     (case validatePolicy p of
        Some err \<Rightarrow> State_Monad.return (Inl err)
      | None \<Rightarrow> do {
          u \<leftarrow> Escalations_Update e p;
          (case u of
             Some err \<Rightarrow> State_Monad.return (Inl err)
           | None \<Rightarrow> Escalations_FindByID e (ep_ID p))
        })"

definition DeleteEscalation :: "env \<Rightarrow> string \<Rightarrow> (world, error option) state" where
  "DeleteEscalation e i = Escalations_Delete e i"

fun check_order :: "string list \<Rightarrow> string list \<Rightarrow> string list \<Rightarrow> error option" where
  "check_order live seen [] = None"
| "check_order live seen (i # is) =
     (if \<not> List.member live i \<or> List.member seen i then Some ErrEscalationReorderUnknown
      else check_order live (i # seen) is)"

text \<open>The keys of the map of active identifiers are the identifiers without repetitions.\<close>

definition validate_order :: "escalation_policy list \<Rightarrow> string list \<Rightarrow> error option" where
  "validate_order ps order =
     (let live = remdups (map ep_ID (filter ep_IsActive ps))
      in if length order \<noteq> length live then Some ErrEscalationReorderMissing else check_order live [] order)"

definition ReorderEscalations :: "env \<Rightarrow> string list \<Rightarrow> (world, error option) state" where
  "ReorderEscalations e order = do {
     found \<leftarrow> Escalations_List e;
     (case found of
        Inl err \<Rightarrow> State_Monad.return (Some err)
      | Inr ps \<Rightarrow>
          (case validate_order ps order of
             Some err \<Rightarrow> State_Monad.return (Some err)
           | None \<Rightarrow> Escalations_Reorder e order))
   }"

text \<open>The resource with the tags it is linked to, by identifier and name.\<close>

definition Resources_FindWithTags :: "env \<Rightarrow> string \<Rightarrow> (world, error + resource \<times> tag list) state" where
  "Resources_FindWithTags e rid =
     and_then (Resources_FindByID e rid) (\<lambda>r. do {
       ts \<leftarrow> repo_query e (\<lambda>w. Inr (r, List.map_filter (\<lambda>i. tbl_find tg_ID i (tags w)) (links_of rid (resource_tags w))));
       State_Monad.return (wrap_db ''sqlc: preload tags'' ts)
     })"

definition policy_matches :: "resource \<Rightarrow> tag list \<Rightarrow> escalation_policy \<Rightarrow> bool" where
  "policy_matches r ts p = (ep_IsActive p \<and>
     (case sc_Kind (ep_Scope p) of
        EscalationScopeComponent \<Rightarrow> r_ComponentID r = Some (sc_Value (ep_Scope p))
      | EscalationScopeTag \<Rightarrow> List.member (map tg_ID ts @ map tg_Name ts) (sc_Value (ep_Scope p))
      | EscalationScopeOther _ \<Rightarrow> False))"

definition MatchForResource :: "env \<Rightarrow> string \<Rightarrow> (world, error + escalation_policy option) state" where
  "MatchForResource e rid = do {
     found \<leftarrow> Resources_FindWithTags e rid;
     (case found of
        Inl err \<Rightarrow> State_Monad.return (if errors_Is err ErrNotFound then Inr None else Inl err)
      | Inr (r, ts) \<Rightarrow> and_then (ListEscalations e) (\<lambda>ps. State_Monad.return (Inr (find (policy_matches r ts) ps))))
   }"

section \<open>The request of the handler\<close>

record escalation_step_dto =
  sd_ID :: string
  sd_DelayMinutes :: int
  sd_ChannelIDs :: "string list"

record escalation_policy_dto =
  pd_ID :: string
  pd_Name :: string
  pd_Scope :: escalation_scope
  pd_IsActive :: bool
  pd_Priority :: int
  pd_Steps :: "escalation_step_dto list"

definition toDTO :: "escalation_policy \<Rightarrow> escalation_policy_dto" where
  "toDTO p = \<lparr>pd_ID = ep_ID p, pd_Name = ep_Name p, pd_Scope = ep_Scope p, pd_IsActive = ep_IsActive p,
     pd_Priority = ep_Priority p,
     pd_Steps = map (\<lambda>s. \<lparr>sd_ID = st_ID s, sd_DelayMinutes = st_DelayMinutes s, sd_ChannelIDs = st_ChannelIDs s\<rparr>) (ep_Steps p)\<rparr>"

definition fromDTO :: "escalation_policy_dto \<Rightarrow> escalation_policy" where
  "fromDTO d = \<lparr>ep_ID = '''', ep_CreatedAt = zero_time, ep_UpdatedAt = zero_time, ep_Name = pd_Name d,
     ep_Scope = pd_Scope d, ep_IsActive = pd_IsActive d, ep_Priority = pd_Priority d,
     ep_Steps = map (\<lambda>(i, s). \<lparr>st_ID = sd_ID s, st_PolicyID = '''', st_StepOrder = int i + 1,
       st_DelayMinutes = sd_DelayMinutes s, st_ChannelIDs = sd_ChannelIDs s\<rparr>) (enumerate 0 (pd_Steps d))\<rparr>"

section \<open>The order that is accepted\<close>

text \<open>The identifiers of the active policies depend on identifiers and activity only.\<close>

definition active_ids :: "escalation_policy set \<Rightarrow> string set" where
  "active_ids S = {ep_ID p | p. p \<in> S \<and> ep_IsActive p}"

lemma active_ids_keys: "active_ids S = {i. (i, True) \<in> (\<lambda>p. (ep_ID p, ep_IsActive p)) ` S}"
  by (auto simp: active_ids_def)

lemma active_ids_image: "(\<And>p. ep_ID (f p) = ep_ID p) \<Longrightarrow> (\<And>p. ep_IsActive (f p) = ep_IsActive p) \<Longrightarrow> active_ids (f ` S) = active_ids S"
  by (simp add: active_ids_keys image_image)

lemma active_ids_mono: "S \<subseteq> S' \<Longrightarrow> active_ids S \<subseteq> active_ids S'"
  by (auto simp: active_ids_def)

lemma active_ids_filter: "ep_ID ` set (filter ep_IsActive T) = active_ids (set T)"
  by (auto simp: active_ids_def)

lemma check_order_None: "check_order live seen is = None \<longleftrightarrow> distinct is \<and> set is \<subseteq> set live \<and> set is \<inter> set seen = {}"
  by (induction "is" arbitrary: seen) auto

text \<open>
  C23: The service accepts an order exactly when it names every active policy once and nothing else.
\<close>

theorem reorder_accepts_permutations:
  "validate_order ps order = None \<longleftrightarrow> distinct order \<and> set order = active_ids (set ps)"
proof -
  let ?live = "remdups (map ep_ID (filter ep_IsActive ps))"
  have live: "set ?live = active_ids (set ps)"
    by (auto simp: active_ids_def)
  have "length order = length ?live \<and> distinct order \<and> set order \<subseteq> set ?live \<longleftrightarrow> distinct order \<and> set order = set ?live"
    using card_subset_eq [of "set ?live" "set order"] distinct_card [of order] distinct_card [OF distinct_remdups]
    by (metis List.finite_set order_refl)
  then show ?thesis
    unfolding live [symmetric] by (auto simp: validate_order_def Let_def check_order_None)
qed

section \<open>The two phases of a reordering\<close>

fun assign :: "time \<Rightarrow> int \<Rightarrow> string list \<Rightarrow> escalation_policy \<Rightarrow> escalation_policy" where
  "assign t pr [] p = p"
| "assign t pr (i # is) p = (if ep_ID p = i then with_priority pr t p else assign t (pr + 1) is p)"

lemma with_priority_fields [simp]:
  "ep_ID (with_priority pr t p) = ep_ID p" "ep_IsActive (with_priority pr t p) = ep_IsActive p"
  "ep_Priority (with_priority pr t p) = pr"
  by (simp_all add: with_priority_def)

lemma assign_fields [simp]: "ep_ID (assign t pr is p) = ep_ID p" "ep_IsActive (assign t pr is p) = ep_IsActive p"
  by (induction "is" arbitrary: pr) auto

lemma assign_other: "ep_ID p \<notin> set is \<Longrightarrow> assign t pr is p = p"
  by (induction "is" arbitrary: pr) auto

lemma assign_nth: "distinct is \<Longrightarrow> k < length is \<Longrightarrow> ep_ID p = is ! k \<Longrightarrow> ep_Priority (assign t pr is p) = pr + int k"
  by (induction "is" arbitrary: pr k) (auto simp: nth_Cons split: nat.splits)

lemma assign_step:
  assumes "distinct (i # is)"
  shows "map (assign t (pr + 1) is) (tbl_update ep_ID i (with_priority pr t) T) = map (assign t pr (i # is)) T"
  using assms by (auto simp: tbl_update_def assign_other)

text \<open>
  A phase gives the policies consecutive priorities. It cannot fail when no active policy has one of these
  priorities: each statement then leaves the rest of the range free.
\<close>

lemma run_reorder_phase:
  assumes nf: "\<And>n. \<not> fault e n" and "distinct is" and "set is \<subseteq> ep_ID ` set (escalation_policies w)"
    and "\<forall>q \<in> set (escalation_policies w). ep_IsActive q \<longrightarrow> ep_Priority q < pr \<or> pr + int (length is) \<le> ep_Priority q"
  shows "\<exists>w'. run_state (reorder_phase e msg needed t pr is) w = (None, w') \<and>
     escalation_policies w' = map (assign t pr is) (escalation_policies w)"
  using assms(2-)
proof (induction "is" arbitrary: pr w)
  case Nil
  then show ?case by (simp add: run_simps)
next
  case (Cons i "is")
  let ?T = "escalation_policies w"
  obtain p where p: "tbl_find ep_ID i ?T = Some p"
    using Cons.prems(2) tbl_find_None [of ep_ID i ?T] by (cases "tbl_find ep_ID i ?T") auto
  let ?v = "(bump w)\<lparr>escalation_policies := tbl_update ep_ID i (with_priority pr t) ?T\<rparr>"
  have free: "\<not> priority_taken i pr ?T"
    using Cons.prems(3) by (auto simp: priority_taken_def list_ex_iff)
  have ids: "ep_ID ` set (escalation_policies ?v) = ep_ID ` set ?T"
    using tbl_update_keys [of ep_ID "with_priority pr t" i ?T] by (simp flip: set_map)
  have "\<forall>q \<in> set (escalation_policies ?v). ep_IsActive q \<longrightarrow> ep_Priority q < pr + 1 \<or> pr + 1 + int (length is) \<le> ep_Priority q"
    using Cons.prems(3) by (fastforce simp: tbl_update_def)
  then obtain w' where w': "run_state (reorder_phase e msg needed t (pr + 1) is) ?v = (None, w')"
      "escalation_policies w' = map (assign t (pr + 1) is) (escalation_policies ?v)"
    using Cons.IH [of ?v "pr + 1"] Cons.prems(1,2) ids by auto
  have "run_state (reorder_phase e msg needed t pr (i # is)) w = (None, w')"
    using nf p free w'(1) by (simp add: SetEscalationPolicyPriority_def run_simps wrap_db_def)
  then show ?case
    using w'(2) assign_step [OF Cons.prems(1)] by simp
qed

lemma run_attach_all:
  assumes "\<And>n. \<not> fault e n"
  shows "fst (run_state (attach_all e ps) w) = Inr (map (\<lambda>p. p\<lparr>ep_Steps := steps_of (ep_ID p) (escalation_steps w)\<rparr>) ps)"
proof (induction ps arbitrary: w)
  case (Cons p ps)
  then show ?case
    using assms by (simp add: run_and_then attach_steps_def run_simps wrap_db_def split_beta split: sum.split)
qed (simp add: run_simps)

lemma keeps_attach_all [keep]: "keeps escalation_policies (attach_all e ps)"
proof (induction ps)
  case (Cons p ps)
  then show ?case
    unfolding attach_all.simps attach_steps_def by (intro keep; simp)
qed (simp add: keep)

lemma keeps_Escalations_List [keep]: "keeps escalation_policies (Escalations_List e)"
  unfolding Escalations_List_def by (intro keep; simp)

definition listed :: "world \<Rightarrow> escalation_policy list" where
  "listed w = map (\<lambda>p. p\<lparr>ep_Steps := steps_of (ep_ID p) (escalation_steps w)\<rparr>) (by_priority (escalation_policies w))"

lemma run_Escalations_List:
  assumes "\<And>n. \<not> fault e n"
  shows "fst (run_state (Escalations_List e) w) = Inr (listed w)"
  using assms run_attach_all [OF assms] by (simp add: Escalations_List_def run_and_then run_simps wrap_db_def listed_def)

lemma set_by_priority [simp]: "set (by_priority t) = set t"
  by (simp add: by_priority_def)

text \<open>Rows whose priorities are their positions in a list of identifiers come in the order of the list.\<close>

lemma sorted_by_rank:
  assumes "distinct order" and "distinct (map ep_ID T)" and "set order = active_ids (set T)"
    and "\<And>p k. p \<in> set T \<Longrightarrow> k < length order \<Longrightarrow> ep_ID p = order ! k \<Longrightarrow> ep_Priority p = 1 + int k"
  shows "map ep_ID (filter ep_IsActive (by_priority T)) = order"
proof -
  let ?L = "filter ep_IsActive (by_priority T)"
  let ?n = "length order"
  have mset: "mset ?L = mset (filter ep_IsActive T)"
    by (simp add: by_priority_def)
  then have L: "set ?L = set (filter ep_IsActive T)"
    by (metis set_mset_mset)
  have place: "\<exists>k < ?n. ep_ID p = order ! k \<and> ep_Priority p = 1 + int k" if "p \<in> set ?L" for p
  proof -
    have "ep_ID p \<in> set order" "p \<in> set T"
      using that assms(3) L by (auto simp: active_ids_def)
    then show ?thesis
      using assms(4) by (metis in_set_conv_nth)
  qed
  have "distinct (map ep_ID ?L)"
  proof -
    have "mset (map ep_ID ?L) = mset (map ep_ID (filter ep_IsActive T))"
      using mset by (simp only: mset_map)
    then show ?thesis
      using distinct_map_filter [OF assms(2)] mset_eq_imp_distinct_iff by blast
  qed
  moreover have "mset (map ep_ID ?L) = mset order"
    using calculation assms(1,3) L active_ids_filter [of T] by (intro set_eq_iff_mset_eq_distinct [THEN iffD1]) auto
  then have len: "length ?L = ?n"
    using mset_eq_length by fastforce
  have "sorted (map ep_Priority ?L)"
    unfolding by_priority_def by (rule sorted_filter) simp
  moreover have "inj_on ep_Priority (set ?L)"
  proof (rule inj_onI)
    fix p q assume "p \<in> set ?L" "q \<in> set ?L" "ep_Priority p = ep_Priority q"
    with place [of p] place [of q] have "ep_ID p = ep_ID q"
      by auto
    with \<open>p \<in> set ?L\<close> \<open>q \<in> set ?L\<close> calculation(1) show "p = q"
      by (auto simp: distinct_map inj_on_def)
  qed
  ultimately have d: "distinct (map ep_Priority ?L)" "sorted (map ep_Priority ?L)"
    by (auto simp: distinct_map)
  let ?R = "map (\<lambda>k. 1 + int k) [0..<?n]"
  have "set (map ep_Priority ?L) \<subseteq> set ?R"
    using place by force
  moreover have "card (set ?R) = card (set (map ep_Priority ?L))"
    using distinct_card [OF d(1)] len by (subst distinct_card) (auto simp: distinct_map inj_on_def)
  ultimately have "set (map ep_Priority ?L) = set ?R"
    by (intro card_subset_eq) auto
  then have R: "map ep_Priority ?L = ?R"
    using d by (intro sorted_distinct_set_unique) (auto simp: distinct_map inj_on_def sorted_wrt_map intro!: sorted_wrt_mono_rel [OF _ sorted_upt])
  have "map ep_ID ?L = map (\<lambda>x. order ! nat (x - 1)) (map ep_Priority ?L)"
    using place by (force simp del: set_filter)
  also have "\<dots> = order"
    unfolding R by (simp add: map_nth o_def)
  finally show ?thesis .
qed

lemma listed_keys: "active_ids (set (listed w)) = active_ids (set (escalation_policies w))"
  unfolding listed_def set_map set_by_priority by (rule active_ids_image) simp_all


section \<open>An interrupted reordering\<close>

text \<open>Attaching the steps changes neither the rows nor which of them are active, also when it fails halfway.\<close>

lemma attach_all_keys: "run_state (attach_all e ps) w = (Inr qs, w') \<Longrightarrow> map (\<lambda>p. (ep_ID p, ep_IsActive p)) qs = map (\<lambda>p. (ep_ID p, ep_IsActive p)) ps"
proof (induction ps arbitrary: w qs w')
  case (Cons p ps)
  obtain y w1 where y: "run_state (attach_steps e p) w = (y, w1)"
    by (metis surj_pair)
  obtain z w2 where z: "run_state (attach_all e ps) w1 = (z, w2)"
    by (metis surj_pair)
  from Cons.prems y z obtain q qs' where "y = Inr q" "z = Inr qs'" "qs = q # qs'"
    by (cases y; cases z) (auto simp: run_and_then run_return)
  moreover have "(Inr q :: error + escalation_policy) = Inr (p\<lparr>ep_Steps := steps_of (ep_ID p) (escalation_steps w)\<rparr>)"
    using y calculation(1) by (cases "fault e (tick w)") (simp_all add: attach_steps_def run_simps wrap_db_def)
  ultimately show ?case
    using Cons.IH [of w1 qs' w2] y z by simp
qed (simp add: run_simps)

lemma listed_subset:
  "hoare (\<lambda>v. escalation_policies v = T \<and> set ps \<subseteq> set T) (attach_all e ps)
     (\<lambda>y v. escalation_policies v = T \<and> (\<forall>qs. y = Inr qs \<longrightarrow> active_ids (set qs) \<subseteq>
        active_ids (set T)))"
proof (rule hoareI)
  fix w y w'
  assume pre: "escalation_policies w = T \<and> set ps \<subseteq> set T" and run: "run_state (attach_all e ps) w = (y, w')"
  have "active_ids (set qs) \<subseteq> active_ids (set T)" if "y = Inr qs" for qs
  proof -
    have "map (\<lambda>p. (ep_ID p, ep_IsActive p)) qs = map (\<lambda>p. (ep_ID p, ep_IsActive p)) ps"
      using run that by (intro attach_all_keys) simp
    from arg_cong [OF this, of set] have "active_ids (set qs) = active_ids (set ps)"
      by (simp add: active_ids_keys)
    then show ?thesis
      using pre active_ids_mono by simp
  qed
  moreover have "escalation_policies w' = T"
    using keepsD [OF keeps_attach_all, of e ps w] pre run by simp
  ultimately show "escalation_policies w' = T \<and> (\<forall>qs. y = Inr qs \<longrightarrow> active_ids (set qs) \<subseteq>
        active_ids (set T))"
    by blast
qed

lemma phase_blocked:
  assumes "tbl_find ep_ID i (escalation_policies w) = Some p" and "ep_IsActive p" and "priority_taken i pr (escalation_policies w)"
    and "run_state (reorder_phase e msg needed t pr (i # is)) w = (r, w')"
  shows "r \<noteq> None \<and> escalation_policies w' = escalation_policies w"
  using assms by (auto simp: SetEscalationPolicyPriority_def run_simps wrap_db_def split: if_splits)

text \<open>
  The phases are not in a transaction. A reordering that is interrupted leaves priorities of the scratch range; while an
  active policy has the first of them, every order that does not start with this policy is refused by the
  unique index, whatever else the database does, and changes no row.
\<close>

theorem interrupted_reorder_blocks:
  assumes "distinct (map ep_ID (escalation_policies w))"
    and "x \<in> set (escalation_policies w)" and "ep_IsActive x" and "ep_Priority x = scratchBase"
    and "order = i # is" and "i \<noteq> ep_ID x"
    and "run_state (ReorderEscalations e order) w = (r, w')"
  shows "r \<noteq> None \<and> escalation_policies w' = escalation_policies w"
proof -
  let ?T = "escalation_policies w"
  have "hoare (\<lambda>v. escalation_policies v = ?T) (Escalations_List e)
      (\<lambda>y v. escalation_policies v = ?T \<and> (\<forall>ps. y = Inr ps \<longrightarrow> active_ids (set ps) \<subseteq>
        active_ids (set ?T)))"
    unfolding Escalations_List_def
    by (rule hoare_and_then [OF _ listed_subset], rule hoareI) (auto simp: run_simps wrap_db_def split: if_splits)
  from hoareD [OF this refl] obtain y v where list: "run_state (Escalations_List e) w = (y, v)" "escalation_policies v = ?T"
      "\<And>ps. y = Inr ps \<Longrightarrow> active_ids (set ps) \<subseteq> active_ids (set ?T)"
    by (metis surj_pair)
  show ?thesis
  proof (cases "\<exists>ps. y = Inr ps \<and> validate_order ps order = None")
    case False
    then have "fst (run_state (case y of Inl err \<Rightarrow> State_Monad.return (Some err)
        | Inr ps \<Rightarrow> (case validate_order ps order of Some err \<Rightarrow> State_Monad.return (Some err)
            | None \<Rightarrow> Escalations_Reorder e order)) v) \<noteq> None \<and>
      snd (run_state (case y of Inl err \<Rightarrow> State_Monad.return (Some err)
        | Inr ps \<Rightarrow> (case validate_order ps order of Some err \<Rightarrow> State_Monad.return (Some err)
            | None \<Rightarrow> Escalations_Reorder e order)) v) = v"
      by (cases y) (auto simp: run_return split: option.split)
    then show ?thesis
      using assms(7) list(1,2) by (simp add: ReorderEscalations_def run_bind)
  next
    case True
    then obtain ps where ps: "y = Inr ps" "validate_order ps order = None"
      by blast
    then have "i \<in> active_ids (set ?T)"
      using list(3) [OF ps(1)] assms(5) unfolding reorder_accepts_permutations by auto
    then obtain p where p: "p \<in> set ?T" "ep_IsActive p" "ep_ID p = i"
      by (auto simp: active_ids_def)
    have find: "tbl_find ep_ID i ?T = Some p"
      using p assms(1) tbl_find_distinct [of ep_ID ?T p] by (simp add: distinct_keys_def)
    have taken: "priority_taken i scratchBase ?T"
      using assms(2-4,6) by (auto simp: priority_taken_def list_ex_iff)
    obtain u v' where run: "run_state (reorder_phase e ''sqlc: reorder phase1'' False (clock e (tick v)) scratchBase (i # is)) (bump v) = (u, v')"
      by (metis surj_pair)
    have "u \<noteq> None \<and> escalation_policies v' = ?T"
      using phase_blocked [OF _ p(2) _ run] find taken list(2) by simp
    then show ?thesis
      using assms(5,7) list(1) ps run
      by (auto simp: ReorderEscalations_def Escalations_Reorder_def run_simps simp del: reorder_phase.simps)
  qed
qed

section \<open>The policy of a resource\<close>

lemma matches_steps [simp]: "policy_matches r ts (p\<lparr>ep_Steps := s\<rparr>) = policy_matches r ts p"
  by (simp add: policy_matches_def split: escalation_scope_kind.split)

lemma find_sorted_min:
  assumes "sorted (map f xs)" and "find P xs = Some x"
  shows "P x \<and> x \<in> set xs \<and> (\<forall>y \<in> set xs. P y \<longrightarrow> f x \<le> f y)"
  using assms by (induction xs) (auto split: if_splits)

text \<open>
  The policy found for a resource is active, its scope is the component or a tag of the resource, and no policy
  of that kind has a smaller priority; when none is found there is none.
\<close>

theorem match_is_first:
  assumes nf: "\<And>n. \<not> fault e n" and r: "active_row rid (resources w) = Some r"
    and ts: "ts = List.map_filter (\<lambda>i. tbl_find tg_ID i (tags w)) (links_of rid (resource_tags w))"
    and run: "run_state (MatchForResource e rid) w = (m, w')"
  shows "case m of
      Inl _ \<Rightarrow> False
    | Inr None \<Rightarrow> \<not> list_ex (policy_matches r ts) (escalation_policies w)
    | Inr (Some p) \<Rightarrow> policy_matches r ts p \<and> list_ex (\<lambda>q. ep_ID q = ep_ID p) (escalation_policies w) \<and>
        list_all (\<lambda>q. policy_matches r ts q \<longrightarrow> ep_Priority p \<le> ep_Priority q) (escalation_policies w)"
proof -
  let ?v = "bump (bump w)"
  obtain v' where list: "run_state (Escalations_List e) ?v = (Inr (listed ?v), v')"
    using run_Escalations_List [OF nf, of ?v] by (metis prod.collapse)
  let ?ps = "sort_key ep_Priority (listed ?v)"
  have m: "m = Inr (find (policy_matches r ts) ?ps)"
    using run nf r list
    by (simp add: MatchForResource_def Resources_FindWithTags_def Resources_FindByID_def ListEscalations_def run_and_then
        run_simps wrap_db_def ts)
  let ?f = "\<lambda>p. p\<lparr>ep_Steps := steps_of (ep_ID p) (escalation_steps w)\<rparr>"
  have set: "set ?ps = ?f ` set (escalation_policies w)"
    by (simp add: listed_def)
  show ?thesis
  proof (cases "find (policy_matches r ts) ?ps")
    case None
    then have "\<not> list_ex (policy_matches r ts) (escalation_policies w)"
      unfolding find_None_iff set by (auto simp: list_ex_iff)
    then show ?thesis
      by (simp add: m None)
  next
    case (Some p)
    then have "policy_matches r ts p" "p \<in> ?f ` set (escalation_policies w)"
        "\<And>q. q \<in> ?f ` set (escalation_policies w) \<Longrightarrow> policy_matches r ts q \<Longrightarrow> ep_Priority p \<le> ep_Priority q"
      using find_sorted_min [of ep_Priority ?ps] unfolding set by auto
    moreover from this(3) [OF imageI] have "policy_matches r ts q \<Longrightarrow> ep_Priority p \<le> ep_Priority q"
      if "q \<in> set (escalation_policies w)" for q
      using that by fastforce
    ultimately show ?thesis
      unfolding m Some by (auto simp: list_ex_iff list_all_iff)
  qed
qed

section \<open>Concrete policies\<close>

definition demo_esc :: env where
  "demo_esc = \<lparr>clock = (\<lambda>n. int n), fault = (\<lambda>_. False), ulid = (\<lambda>n. replicate n CHR ''x'')\<rparr>"

definition demo_policy :: "string \<Rightarrow> bool \<Rightarrow> int \<Rightarrow> escalation_policy" where
  "demo_policy i act pr = \<lparr>ep_ID = i, ep_CreatedAt = 0, ep_UpdatedAt = 0, ep_Name = i,
     ep_Scope = \<lparr>sc_Kind = EscalationScopeTag, sc_Value = ''prod''\<rparr>, ep_IsActive = act, ep_Priority = pr, ep_Steps = []\<rparr>"

definition demo_policies :: world where
  "demo_policies = empty_world\<lparr>escalation_policies := [demo_policy ''a'' True 1, demo_policy ''b'' True 2, demo_policy ''c'' False 1]\<rparr>"


text \<open>A reordering that loses the database after the first phase, and the next attempt.\<close>

definition demo_interrupted :: world where
  "demo_interrupted = snd (run_state (ReorderEscalations (demo_esc\<lparr>fault := (\<lambda>n. n = 7)\<rparr>) [''b'', ''a'']) demo_policies)"

lemma demo_interrupted_rows:
  "map (\<lambda>p. (ep_ID p, ep_IsActive p, ep_Priority p)) (escalation_policies demo_interrupted) =
     [(''a'', True, 100001), (''b'', True, 100000), (''c'', False, 1)]"
  by code_simp

theorem interrupted_reorder_blocks_witness:
  "fst (run_state (ReorderEscalations demo_esc [''a'', ''b'']) demo_interrupted) \<noteq> None"
proof -
  let ?T = "escalation_policies demo_interrupted"
  have "map ep_ID ?T = [''a'', ''b'', ''c'']" "(ep_ID (?T ! 1), ep_IsActive (?T ! 1), ep_Priority (?T ! 1)) = (''b'', True, scratchBase)"
      "length ?T = 3"
    by code_simp+
  moreover from this(3) have "?T ! 1 \<in> set ?T"
    by simp
  ultimately show ?thesis
    using interrupted_reorder_blocks [of demo_interrupted "?T ! 1" "[''a'', ''b'']" "''a''" "[''b'']" demo_esc, OF _ _ _ _ _ _ prod.collapse [symmetric]]
    by simp
qed

definition demo_tagged :: world where
  "demo_tagged = demo_policies\<lparr>resources := [demo_resource\<lparr>r_ID := ''r1'', r_IsActive := True\<rparr>],
     tags := [\<lparr>tg_ID = ''t1'', tg_Name = ''prod'', tg_Color = None, tg_Description = None, tg_CreatedAt = 0\<rparr>],
     resource_tags := [(''r1'', ''t1'')]\<rparr>"

theorem match_is_first_witness:
  "fst (run_state (MatchForResource demo_esc ''r1'') demo_tagged) = Inr (Some (demo_policy ''a'' True 1)) \<and>
   ep_Priority (demo_policy ''a'' True 1) \<le> ep_Priority (demo_policy ''b'' True 2)"
proof -
  let ?r = "demo_resource\<lparr>r_ID := ''r1'', r_IsActive := True\<rparr>"
  let ?ts = "List.map_filter (\<lambda>i. tbl_find tg_ID i (tags demo_tagged)) (links_of ''r1'' (resource_tags demo_tagged))"
  have found: "fst (run_state (MatchForResource demo_esc ''r1'') demo_tagged) = Inr (Some (demo_policy ''a'' True 1))"
    by code_simp
  have row: "active_row ''r1'' (resources demo_tagged) = Some ?r"
    by (simp add: active_row_def demo_tagged_def)
  have b: "policy_matches ?r ?ts (demo_policy ''b'' True 2)"
    by (simp add: policy_matches_def demo_policy_def demo_tagged_def links_of_def List.map_filter_def)
  have "\<not> fault demo_esc n" for n
    by (simp add: demo_esc_def)
  from match_is_first [OF this row refl prod.collapse [symmetric]] b found show ?thesis
    by (simp add: demo_tagged_def demo_policies_def)
qed

text \<open>The insertion of a policy and its steps are separate statements: a failure between them leaves an active policy without steps.\<close>

lemma failed_create_leaves_policy_without_steps:
  "(let p = (demo_policy '''' True 0)\<lparr>ep_Steps := [\<lparr>st_ID = '''', st_PolicyID = '''', st_StepOrder = 1, st_DelayMinutes = 5, st_ChannelIDs = [''ch'']\<rparr>]\<rparr>;
        w = snd (run_state (CreateEscalation (demo_esc\<lparr>fault := (\<lambda>n. n = 5)\<rparr>) p) empty_world)
    in (map ep_IsActive (escalation_policies w), escalation_steps w)) = ([True], [])"
  by code_simp

text \<open>An update whose request leaves out the priority sets it to 0; a second one meets the unique index.\<close>

lemma patch_without_priority_collides:
  "(let patch = (\<lambda>i. (fromDTO \<lparr>pd_ID = '''', pd_Name = i, pd_Scope = \<lparr>sc_Kind = EscalationScopeTag, sc_Value = ''prod''\<rparr>, pd_IsActive = True,
          pd_Priority = 0, pd_Steps = [\<lparr>sd_ID = '''', sd_DelayMinutes = 5, sd_ChannelIDs = [''ch'']\<rparr>]\<rparr>)\<lparr>ep_ID := i\<rparr>);
        (r, w) = run_state (UpdateEscalation demo_esc (patch ''a'')) demo_policies
    in (isl r, isl (fst (run_state (UpdateEscalation demo_esc (patch ''b'')) w)))) = (False, True)"
  by code_simp

end
