(* ===== verification/Credentials.thy ===== *)
theory Credentials
  imports Resources
begin

text \<open>
  Bearer credentials of users and agents: the API keys of users
  (\<open>src/internal/service/api_key_service.go\<close>, \<open>src/pkg/apikey/apikey.go\<close>), the credentials of host
  agents (\<open>src/internal/service/host_credential_service.go\<close>, \<open>src/pkg/hostcred/hostcred.go\<close>), the
  sessions of logged-in users (\<open>src/internal/service/session_service.go\<close>) and their repositories with
  the one of the users (\<open>api_key_repository_sqlc.go\<close>, \<open>host_credential_repository_sqlc.go\<close>,
  \<open>session_repository_sqlc.go\<close>, \<open>two_factor_reset_token_repository_sqlc.go\<close> and
  \<open>user_repository_sqlc.go\<close> under \<open>src/internal/repository/store\<close>).

  The state \<open>access\<close> holds the tables and the goroutines that a request leaves behind. Random bytes,
  SHA-256, bcrypt, TOTP and JWT are functions of \<open>crypt\<close>: the theorems hold for every choice of them
  that satisfies what they name as hypotheses. The foreign keys and unique indexes of the schema are
  part of the statements that insert.

  The locale \<open>bearer\<close> is the contract these four tables share: a live row was live before or carries
  a secret that was made since. From it follows that what is revoked, used or never issued stays
  refused; it is interpreted on the operations of the whole subsystem in theory \<open>Accounts\<close>.
\<close>

section \<open>Data\<close>

datatype APIKeyScope = APIKeyScopeRead | APIKeyScopeReadWrite | APIKeyScopeOther string

record api_key =
  ak_ID :: string
  ak_CreatedAt :: time
  ak_UpdatedAt :: time
  ak_UserID :: string
  ak_Name :: string
  ak_KeyHash :: string
  ak_KeyPrefix :: string
  ak_Scope :: APIKeyScope
  ak_ExpiresAt :: "time option"
  ak_LastUsedAt :: "time option"
  ak_LastUsedIP :: string
  ak_IsActive :: bool

record user =
  u_ID :: string
  u_Email :: string
  u_Name :: string
  u_HashedPassword :: string
  u_PasswordInitialized :: bool
  u_ForcePasswordChange :: bool
  u_TwoFactorEnabled :: bool
  u_TwoFactorSecret :: string
  u_TwoFactorBackupCodes :: string
  u_LastLoginAt :: "time option"
  u_CreatedAt :: time
  u_UpdatedAt :: time

record session =
  se_ID :: string
  se_UserID :: string
  se_Browser :: string
  se_OS :: string
  se_IP :: string
  se_Location :: "string option"
  se_LastActiveAt :: time
  se_CreatedAt :: time
  se_RevokedAt :: "time option"

record two_factor_reset_token =
  rt_TokenHash :: string
  rt_UserID :: string
  rt_ExpiresAt :: time
  rt_UsedAt :: "time option"
  rt_CreatedAt :: time

record host_credential =
  hc_ID :: string
  hc_CreatedAt :: time
  hc_UpdatedAt :: time
  hc_HostID :: string
  hc_Hash :: string
  hc_Prefix :: string
  hc_IsActive :: bool
  hc_LastUsedAt :: "time option"

record jwt_claims =
  jc_Email :: string
  jc_UserID :: string
  jc_SessionID :: string
  jc_ExpiresAt :: int
  jc_IssuedAt :: int
  jc_NotBefore :: int
  jc_Issuer :: string

text \<open>The goroutines that the authentication of a request starts.\<close>

datatype background_job = TouchKey string string | TouchSession string

record access = base +
  users :: "user list"
  api_keys :: "api_key list"
  sessions :: "session list"
  host_credentials :: "host_credential list"
  reset_tokens :: "two_factor_reset_token list"
  links_sent :: "(string \<times> string) list"
  background :: "background_job list"

text \<open>
  The n-th interaction draws the n-th random value. \<open>jwt_parse\<close> is the parser of the JWT library with
  the HMAC key of the service, at the time of the call: it checks the signature and the time claims.
\<close>

record crypt =
  ce :: env
  rand_bytes :: "nat \<Rightarrow> nat \<Rightarrow> string option"
  sha256 :: "string \<Rightarrow> string"
  bcrypt_generate :: "nat \<Rightarrow> string \<Rightarrow> string option"
  bcrypt_compare :: "string \<Rightarrow> string \<Rightarrow> bool"
  totp_generate :: "nat \<Rightarrow> string \<Rightarrow> (string \<times> string) option"
  totp_validate :: "time \<Rightarrow> string \<Rightarrow> string \<Rightarrow> bool"
  jwt_sign :: "jwt_claims \<Rightarrow> string option"
  jwt_parse :: "time \<Rightarrow> string \<Rightarrow> jwt_claims option"

definition ErrUnauthorized :: error where "ErrUnauthorized = ErrorNew ''unauthorized: authentication required''"
definition ErrAPIKeyNotFound :: error where "ErrAPIKeyNotFound = ErrorNew ''api key not found''"
definition ErrAPIKeyLimitReached :: error where "ErrAPIKeyLimitReached = ErrorNew ''maximum number of API keys reached''"
definition ErrAPIKeyExpired :: error where "ErrAPIKeyExpired = ErrorNew ''API key has expired''"
definition ErrHostCredentialInvalid :: error where
  "ErrHostCredentialInvalid = ErrorNew ''invalid or revoked host credential''"

text \<open>
  \<open>ErrAPIKeyRevoked\<close> and \<open>ErrAPIKeyInvalid\<close> have the same text and are two values; the model keeps
  them apart by a mark that no caller reads.
\<close>

definition ErrAPIKeyRevoked :: error where "ErrAPIKeyRevoked = ErrorNew ''invalid or revoked API key''"
definition ErrAPIKeyInvalid :: error where "ErrAPIKeyInvalid = Errorf ''invalid or revoked API key''"

definition ErrSessionNotFound :: error where "ErrSessionNotFound = ErrorNew ''session not found''"
definition ErrSessionRevoked :: error where "ErrSessionRevoked = ErrorNew ''session revoked''"
definition ErrCannotRevokeCurrent :: error where
  "ErrCannotRevokeCurrent = ErrorNew ''cannot revoke the current session via this endpoint''"

text \<open>A failing random source.\<close>

definition ErrRand :: error where "ErrRand = Errorf ''crypto/rand: failed to read''"

section \<open>Tokens (apikey.go, hostcred.go)\<close>

definition hex_digit :: "nat \<Rightarrow> char" where
  "hex_digit n = (if n < 10 then char_of (48 + n) else char_of (87 + n))"

definition hex_encode :: "string \<Rightarrow> string" where
  "hex_encode s = concat (map (\<lambda>c. let n = of_char c in [hex_digit (n div 16), hex_digit (n mod 16)]) s)"

definition rand_Read :: "crypt \<Rightarrow> nat \<Rightarrow> (access, error + string) state" where
  "rand_Read c n = State (\<lambda>w. (case rand_bytes c (tick w) n of None \<Rightarrow> Inl ErrRand | Some b \<Rightarrow> Inr b, bump w))"

definition apikey_prefix :: string where "apikey_prefix = ''pk_live_''"
definition hostcred_prefix :: string where "hostcred_prefix = ''ag_live_''"

text \<open>\<open>Hash\<close>, \<open>ExtractPrefix\<close> and the test of the format are the same code in both packages.\<close>

definition token_Hash :: "crypt \<Rightarrow> string \<Rightarrow> string" where
  "token_Hash c raw = hex_encode (sha256 c raw)"

definition ExtractPrefix :: "string \<Rightarrow> string" where
  "ExtractPrefix raw = (if length raw \<le> 12 then raw else take 12 raw)"

definition token_format :: "string \<Rightarrow> string \<Rightarrow> bool" where
  "token_format p token \<longleftrightarrow> length token > length p \<and> take (length p) token = p"

definition IsAPIKeyFormat :: "string \<Rightarrow> bool" where
  "IsAPIKeyFormat token = token_format apikey_prefix token"

definition hostcred_IsFormat :: "string \<Rightarrow> bool" where
  "hostcred_IsFormat token = token_format hostcred_prefix token"

definition generate_token ::
    "crypt \<Rightarrow> string \<Rightarrow> string \<Rightarrow> (access, error + string \<times> string \<times> string) state" where
  "generate_token c p msg = do {
     r \<leftarrow> rand_Read c 16;
     State_Monad.return (case r of
        Inl err \<Rightarrow> Inl (Wrapf msg err)
      | Inr buf \<Rightarrow> let raw = p @ hex_encode buf in Inr (raw, token_Hash c raw, ExtractPrefix raw))
   }"

definition apikey_Generate :: "crypt \<Rightarrow> (access, error + string \<times> string \<times> string) state" where
  "apikey_Generate c = generate_token c apikey_prefix ''generate api key''"

definition hostcred_Generate :: "crypt \<Rightarrow> (access, error + string \<times> string \<times> string) state" where
  "hostcred_Generate c = generate_token c hostcred_prefix ''generate host credential''"

section \<open>Repositories\<close>

subsection \<open>Users\<close>

text \<open>\<open>mapUserCreateErr\<close> and \<open>mapAPIKeyCreateErr\<close> read the text of the driver's error.\<close>

definition mapUserCreateErr :: "error \<Rightarrow> error" where
  "mapUserCreateErr err =
     (let low = error_text err
      in if list_ex (str_contains low) [''UNIQUE'', ''unique'', ''duplicate'', ''Duplicate'', ''23505'']
         then ErrDuplicate else Wrapf ''sqlc: create user'' err)"

definition Users_Create :: "crypt \<Rightarrow> user \<Rightarrow> (access, error + user) state" where
  "Users_Create c u = do {
     i \<leftarrow> EnsureID (ce c) (u_ID u);
     t \<leftarrow> now (ce c);
     let row = u\<lparr>u_ID := i, u_CreatedAt := fresh_stamp t (u_CreatedAt u), u_UpdatedAt := fresh_stamp t (u_UpdatedAt u)\<rparr>;
     r \<leftarrow> repo_call (ce c) (\<lambda>w. if tbl_has u_ID i (users w) \<or> tbl_has u_Email (u_Email u) (users w) then (Inl ErrUnique, w)
            else (Inr row, w\<lparr>users := users w @ [row]\<rparr>));
     State_Monad.return (case r of Inl err \<Rightarrow> Inl (mapUserCreateErr err) | Inr row \<Rightarrow> Inr row)
   }"

definition Users_FindByID :: "crypt \<Rightarrow> string \<Rightarrow> (access, error + user) state" where
  "Users_FindByID c i = do {
     r \<leftarrow> repo_query (ce c) (\<lambda>w. case tbl_find u_ID i (users w) of None \<Rightarrow> Inl ErrNotFound | Some u \<Rightarrow> Inr u);
     State_Monad.return (wrap_db ''sqlc: find user by id'' r)
   }"

definition Users_FindByEmail :: "crypt \<Rightarrow> string \<Rightarrow> (access, error + user) state" where
  "Users_FindByEmail c m = do {
     r \<leftarrow> repo_query (ce c) (\<lambda>w. case tbl_find u_Email m (users w) of None \<Rightarrow> Inl ErrNotFound | Some u \<Rightarrow> Inr u);
     State_Monad.return (wrap_db ''sqlc: find user by email'' r)
   }"

text \<open>
  The statements below report no error for a missing row. \<open>Update\<close> writes every column but the
  creation time, from the caller's copy, whose update time it sets; an email of another user violates
  the index.
\<close>

definition user_columns :: "user \<Rightarrow> time \<Rightarrow> user \<Rightarrow> user" where
  "user_columns u t row = u\<lparr>u_ID := u_ID row, u_CreatedAt := u_CreatedAt row, u_UpdatedAt := t\<rparr>"

definition Users_Update :: "crypt \<Rightarrow> user \<Rightarrow> (access, error + time) state" where
  "Users_Update c u = do {
     t \<leftarrow> now (ce c);
     repo_call (ce c) (\<lambda>w. if tbl_has u_ID (u_ID u) (users w) \<and>
            list_ex (\<lambda>v. u_ID v \<noteq> u_ID u \<and> u_Email v = u_Email u) (users w) then (Inl ErrUnique, w)
          else (Inr t, w\<lparr>users := tbl_update u_ID (u_ID u) (user_columns u t) (users w)\<rparr>))
   }"

definition Users_Delete :: "crypt \<Rightarrow> string \<Rightarrow> (access, error + unit) state" where
  "Users_Delete c i = repo_call (ce c) (\<lambda>w. (Inr (),
     w\<lparr>users := tbl_delete u_ID i (users w),
       api_keys := filter (\<lambda>k. ak_UserID k \<noteq> i) (api_keys w),
       sessions := filter (\<lambda>s. se_UserID s \<noteq> i) (sessions w),
       reset_tokens := filter (\<lambda>t. rt_UserID t \<noteq> i) (reset_tokens w)\<rparr>))"

definition Users_UpdatePassword :: "crypt \<Rightarrow> string \<Rightarrow> string \<Rightarrow> (access, error + unit) state" where
  "Users_UpdatePassword c i h = repo_call (ce c) (\<lambda>w. (Inr (),
     w\<lparr>users := tbl_update u_ID i
        (\<lambda>u. u\<lparr>u_HashedPassword := h, u_PasswordInitialized := True, u_ForcePasswordChange := False\<rparr>) (users w)\<rparr>))"

text \<open>\<open>CURRENT_TIMESTAMP\<close> is read by the database when it runs the statement.\<close>

definition Users_UpdateLastLogin :: "crypt \<Rightarrow> string \<Rightarrow> (access, error + unit) state" where
  "Users_UpdateLastLogin c i = do {
     t \<leftarrow> now (ce c);
     repo_call (ce c) (\<lambda>w. (Inr (), w\<lparr>users := tbl_update u_ID i (\<lambda>u. u\<lparr>u_LastLoginAt := Some t\<rparr>) (users w)\<rparr>))
   }"

definition Users_UpdateTwoFactorSecret :: "crypt \<Rightarrow> string \<Rightarrow> string \<Rightarrow> bool \<Rightarrow> (access, error + unit) state" where
  "Users_UpdateTwoFactorSecret c i secret enabled = repo_call (ce c) (\<lambda>w. (Inr (),
     w\<lparr>users := tbl_update u_ID i (\<lambda>u. u\<lparr>u_TwoFactorSecret := secret, u_TwoFactorEnabled := enabled\<rparr>) (users w)\<rparr>))"

subsection \<open>API keys\<close>

definition mapAPIKeyCreateErr :: "error \<Rightarrow> error" where
  "mapAPIKeyCreateErr err =
     (let low = to_lower (error_text err)
      in if str_contains low ''unique'' \<or> str_contains low ''duplicate'' then ErrDuplicate
         else Wrapf ''sqlc: create api key'' err)"

definition APIKeys_Create :: "crypt \<Rightarrow> api_key \<Rightarrow> (access, error + api_key) state" where
  "APIKeys_Create c k = do {
     i \<leftarrow> EnsureID (ce c) (ak_ID k);
     t \<leftarrow> now (ce c);
     let row = k\<lparr>ak_ID := i, ak_CreatedAt := fresh_stamp t (ak_CreatedAt k), ak_UpdatedAt := fresh_stamp t (ak_UpdatedAt k)\<rparr>;
     r \<leftarrow> repo_call (ce c) (\<lambda>w. if tbl_has ak_ID i (api_keys w) \<or> tbl_has ak_KeyHash (ak_KeyHash k) (api_keys w) then (Inl ErrUnique, w)
            else if \<not> tbl_has u_ID (ak_UserID k) (users w) then (Inl ErrForeignKey, w)
            else (Inr (), w\<lparr>api_keys := api_keys w @ [row]\<rparr>));
     State_Monad.return (case r of Inl err \<Rightarrow> Inl (mapAPIKeyCreateErr err) | Inr _ \<Rightarrow> Inr row)
   }"

definition APIKeys_FindByID :: "crypt \<Rightarrow> string \<Rightarrow> string \<Rightarrow> (access, error + api_key) state" where
  "APIKeys_FindByID c i uid = do {
     r \<leftarrow> repo_query (ce c) (\<lambda>w. case find (\<lambda>k. ak_ID k = i \<and> ak_UserID k = uid) (api_keys w) of
            None \<Rightarrow> Inl ErrNotFound | Some k \<Rightarrow> Inr k);
     State_Monad.return (wrap_db ''sqlc: find api key by id'' r)
   }"

definition APIKeys_FindByKeyHash :: "crypt \<Rightarrow> string \<Rightarrow> (access, error + api_key) state" where
  "APIKeys_FindByKeyHash c h = do {
     r \<leftarrow> repo_query (ce c) (\<lambda>w. case tbl_find ak_KeyHash h (api_keys w) of None \<Rightarrow> Inl ErrNotFound | Some k \<Rightarrow> Inr k);
     State_Monad.return (wrap_db ''sqlc: find api key by hash'' r)
   }"

definition APIKeys_ListByUserID :: "crypt \<Rightarrow> string \<Rightarrow> (access, error + api_key list) state" where
  "APIKeys_ListByUserID c uid = do {
     r \<leftarrow> repo_query (ce c) (\<lambda>w. Inr (sort_key (\<lambda>k. - ak_CreatedAt k) (filter (\<lambda>k. ak_UserID k = uid) (api_keys w))));
     State_Monad.return (wrap_db ''sqlc: list api keys'' r)
   }"

definition APIKeys_UpdateLastUsed :: "crypt \<Rightarrow> string \<Rightarrow> time \<Rightarrow> string \<Rightarrow> (access, error + unit) state" where
  "APIKeys_UpdateLastUsed c i t ip = do {
     r \<leftarrow> repo_call (ce c) (\<lambda>w. if tbl_has ak_ID i (api_keys w)
            then (Inr (), w\<lparr>api_keys := tbl_update ak_ID i (\<lambda>k. k\<lparr>ak_LastUsedAt := Some t, ak_LastUsedIP := ip\<rparr>) (api_keys w)\<rparr>)
            else (Inl ErrNotFound, w));
     State_Monad.return (wrap_db ''sqlc: update last used'' r)
   }"

definition owned_key :: "string \<Rightarrow> string \<Rightarrow> api_key \<Rightarrow> bool" where
  "owned_key i uid k \<longleftrightarrow> ak_ID k = i \<and> ak_UserID k = uid"

definition APIKeys_Revoke :: "crypt \<Rightarrow> string \<Rightarrow> string \<Rightarrow> (access, error + unit) state" where
  "APIKeys_Revoke c i uid = do {
     r \<leftarrow> repo_call (ce c) (\<lambda>w. if list_ex (owned_key i uid) (api_keys w)
            then (Inr (), w\<lparr>api_keys := map (\<lambda>k. if owned_key i uid k then k\<lparr>ak_IsActive := False\<rparr> else k) (api_keys w)\<rparr>)
            else (Inl ErrNotFound, w));
     State_Monad.return (wrap_db ''sqlc: revoke api key'' r)
   }"

definition APIKeys_CountByUserID :: "crypt \<Rightarrow> string \<Rightarrow> (access, error + nat) state" where
  "APIKeys_CountByUserID c uid = do {
     r \<leftarrow> repo_query (ce c) (\<lambda>w. Inr (length (filter (\<lambda>k. ak_UserID k = uid) (api_keys w))));
     State_Monad.return (wrap_db ''sqlc: count api keys'' r)
   }"

subsection \<open>Host credentials\<close>

text \<open>The table has no unique index on the hash and no reference to the host.\<close>

definition HostCredentials_Create :: "crypt \<Rightarrow> host_credential \<Rightarrow> (access, error + unit) state" where
  "HostCredentials_Create c hc = do {
     i \<leftarrow> EnsureID (ce c) (hc_ID hc);
     t \<leftarrow> now (ce c);
     let row = hc\<lparr>hc_ID := i, hc_CreatedAt := fresh_stamp t (hc_CreatedAt hc), hc_UpdatedAt := fresh_stamp t (hc_UpdatedAt hc)\<rparr>;
     repo_call (ce c) (\<lambda>w. if tbl_has hc_ID i (host_credentials w) then (Inl ErrUnique, w)
       else (Inr (), w\<lparr>host_credentials := host_credentials w @ [row]\<rparr>))
   }"

definition HostCredentials_FindActiveByHash :: "crypt \<Rightarrow> string \<Rightarrow> (access, error + host_credential) state" where
  "HostCredentials_FindActiveByHash c h = do {
     r \<leftarrow> repo_query (ce c) (\<lambda>w. case find (\<lambda>r. hc_Hash r = h \<and> hc_IsActive r) (host_credentials w) of
            None \<Rightarrow> Inl ErrNotFound | Some r \<Rightarrow> Inr r);
     State_Monad.return (wrap_db ''sqlc: find active host credential'' r)
   }"

definition HostCredentials_ListByHost :: "crypt \<Rightarrow> string \<Rightarrow> (access, error + host_credential list) state" where
  "HostCredentials_ListByHost c hid = do {
     r \<leftarrow> repo_query (ce c) (\<lambda>w. Inr (sort_key (\<lambda>r. - hc_CreatedAt r) (filter (\<lambda>r. hc_HostID r = hid) (host_credentials w))));
     State_Monad.return (wrap_db ''sqlc: list host credentials'' r)
   }"

definition deactivated :: "time \<Rightarrow> host_credential \<Rightarrow> host_credential" where
  "deactivated t r = r\<lparr>hc_IsActive := False, hc_UpdatedAt := t\<rparr>"

definition HostCredentials_DeactivateByID :: "crypt \<Rightarrow> string \<Rightarrow> (access, error + unit) state" where
  "HostCredentials_DeactivateByID c i = do {
     t \<leftarrow> now (ce c);
     r \<leftarrow> repo_call (ce c) (\<lambda>w. if tbl_has hc_ID i (host_credentials w)
            then (Inr (), w\<lparr>host_credentials := tbl_update hc_ID i (deactivated t) (host_credentials w)\<rparr>)
            else (Inl ErrNotFound, w));
     State_Monad.return (wrap_db ''sqlc: deactivate host credential'' r)
   }"

definition HostCredentials_DeactivateAllForHost :: "crypt \<Rightarrow> string \<Rightarrow> (access, error + unit) state" where
  "HostCredentials_DeactivateAllForHost c hid = do {
     t \<leftarrow> now (ce c);
     repo_call (ce c) (\<lambda>w. (Inr (), w\<lparr>host_credentials :=
       map (\<lambda>r. if hc_HostID r = hid \<and> hc_IsActive r then deactivated t r else r) (host_credentials w)\<rparr>))
   }"

definition HostCredentials_TouchLastUsed :: "crypt \<Rightarrow> string \<Rightarrow> time \<Rightarrow> (access, error + unit) state" where
  "HostCredentials_TouchLastUsed c i t = repo_call (ce c) (\<lambda>w. (Inr (),
     w\<lparr>host_credentials := tbl_update hc_ID i (\<lambda>r. r\<lparr>hc_LastUsedAt := Some t\<rparr>) (host_credentials w)\<rparr>))"

definition HostCredentials_DeleteByHost :: "crypt \<Rightarrow> string \<Rightarrow> (access, error + unit) state" where
  "HostCredentials_DeleteByHost c hid = repo_call (ce c) (\<lambda>w. (Inr (),
     w\<lparr>host_credentials := filter (\<lambda>r. hc_HostID r \<noteq> hid) (host_credentials w)\<rparr>))"

subsection \<open>Sessions\<close>

definition Sessions_Create :: "crypt \<Rightarrow> session \<Rightarrow> (access, error + session) state" where
  "Sessions_Create c s = do {
     i \<leftarrow> EnsureID (ce c) (se_ID s);
     t \<leftarrow> now (ce c);
     let row = s\<lparr>se_ID := i, se_CreatedAt := fresh_stamp t (se_CreatedAt s), se_LastActiveAt := fresh_stamp t (se_LastActiveAt s)\<rparr>;
     r \<leftarrow> repo_call (ce c) (\<lambda>w. if tbl_has se_ID i (sessions w) then (Inl ErrUnique, w)
            else if \<not> tbl_has u_ID (se_UserID s) (users w) then (Inl ErrForeignKey, w)
            else (Inr (), w\<lparr>sessions := sessions w @ [row]\<rparr>));
     State_Monad.return (case r of Inl err \<Rightarrow> Inl (Wrapf ''sqlc: create session'' err) | Inr _ \<Rightarrow> Inr row)
   }"

definition Sessions_FindByID :: "crypt \<Rightarrow> string \<Rightarrow> (access, error + session) state" where
  "Sessions_FindByID c i = do {
     r \<leftarrow> repo_query (ce c) (\<lambda>w. case tbl_find se_ID i (sessions w) of None \<Rightarrow> Inl ErrNotFound | Some s \<Rightarrow> Inr s);
     State_Monad.return (wrap_db ''sqlc: find session'' r)
   }"

definition Sessions_ListActiveByUser :: "crypt \<Rightarrow> string \<Rightarrow> (access, error + session list) state" where
  "Sessions_ListActiveByUser c uid = do {
     r \<leftarrow> repo_query (ce c) (\<lambda>w. Inr (sort_key (\<lambda>s. - se_LastActiveAt s)
            (filter (\<lambda>s. se_UserID s = uid \<and> se_RevokedAt s = None) (sessions w))));
     State_Monad.return (wrap_db ''sqlc: list sessions'' r)
   }"

definition Sessions_UpdateLastActive :: "crypt \<Rightarrow> string \<Rightarrow> time \<Rightarrow> (access, error + unit) state" where
  "Sessions_UpdateLastActive c i t = do {
     r \<leftarrow> repo_call (ce c) (\<lambda>w. (Inr (), w\<lparr>sessions := tbl_update se_ID i (\<lambda>s. s\<lparr>se_LastActiveAt := t\<rparr>) (sessions w)\<rparr>));
     State_Monad.return (wrap_db ''sqlc: update last active'' r)
   }"

definition revoke_where :: "(session \<Rightarrow> bool) \<Rightarrow> time \<Rightarrow> session list \<Rightarrow> session list" where
  "revoke_where P t = map (\<lambda>s. if P s \<and> se_RevokedAt s = None then s\<lparr>se_RevokedAt := Some t\<rparr> else s)"

definition Sessions_Revoke :: "crypt \<Rightarrow> string \<Rightarrow> time \<Rightarrow> (access, error + unit) state" where
  "Sessions_Revoke c i t = do {
     r \<leftarrow> repo_call (ce c) (\<lambda>w. if list_ex (\<lambda>s. se_ID s = i \<and> se_RevokedAt s = None) (sessions w)
            then (Inr (), w\<lparr>sessions := revoke_where (\<lambda>s. se_ID s = i) t (sessions w)\<rparr>)
            else (Inl ErrNotFound, w));
     State_Monad.return (wrap_db ''sqlc: revoke session'' r)
   }"

definition other_session :: "string \<Rightarrow> string \<Rightarrow> session \<Rightarrow> bool" where
  "other_session uid current s \<longleftrightarrow> se_UserID s = uid \<and> se_ID s \<noteq> current"

definition Sessions_RevokeAllExcept :: "crypt \<Rightarrow> string \<Rightarrow> string \<Rightarrow> time \<Rightarrow> (access, error + nat) state" where
  "Sessions_RevokeAllExcept c uid current t = do {
     r \<leftarrow> repo_call (ce c) (\<lambda>w.
            (Inr (length (filter (\<lambda>s. other_session uid current s \<and> se_RevokedAt s = None) (sessions w))),
             w\<lparr>sessions := revoke_where (other_session uid current) t (sessions w)\<rparr>));
     State_Monad.return (wrap_db ''sqlc: revoke all except'' r)
   }"

subsection \<open>Reset tokens of the second factor\<close>

definition ResetTokens_Create :: "crypt \<Rightarrow> two_factor_reset_token \<Rightarrow> (access, error + unit) state" where
  "ResetTokens_Create c t = do {
     at \<leftarrow> (if rt_CreatedAt t = zero_time then now (ce c) else State_Monad.return (rt_CreatedAt t));
     let row = t\<lparr>rt_CreatedAt := at, rt_UsedAt := None\<rparr>;
     repo_call (ce c) (\<lambda>w. if tbl_has rt_TokenHash (rt_TokenHash t) (reset_tokens w) then (Inl ErrUnique, w)
       else if \<not> tbl_has u_ID (rt_UserID t) (users w) then (Inl ErrForeignKey, w)
       else (Inr (), w\<lparr>reset_tokens := reset_tokens w @ [row]\<rparr>))
   }"

text \<open>Two statements: the lookup of an unused, unexpired token, and the write that marks it used.\<close>

definition ResetTokens_ConsumeByHash :: "crypt \<Rightarrow> string \<Rightarrow> time \<Rightarrow> (access, error + two_factor_reset_token) state" where
  "ResetTokens_ConsumeByHash c h at = do {
     found \<leftarrow> repo_query (ce c) (\<lambda>w.
       case find (\<lambda>t. rt_TokenHash t = h \<and> rt_UsedAt t = None \<and> rt_ExpiresAt t > at) (reset_tokens w) of
         None \<Rightarrow> Inl ErrNotFound | Some t \<Rightarrow> Inr t);
     (case wrap_db ''sqlc: find reset token'' found of
        Inl err \<Rightarrow> State_Monad.return (Inl err)
      | Inr row \<Rightarrow> do {
          r \<leftarrow> repo_call (ce c) (\<lambda>w. if list_ex (\<lambda>t. rt_TokenHash t = h \<and> rt_UsedAt t = None) (reset_tokens w)
                 then (Inr (), w\<lparr>reset_tokens :=
                   map (\<lambda>t. if rt_TokenHash t = h \<and> rt_UsedAt t = None then t\<lparr>rt_UsedAt := Some at\<rparr> else t) (reset_tokens w)\<rparr>)
                 else (Inl ErrNotFound, w));
          State_Monad.return (case wrap_db ''sqlc: mark used'' r of
             Inl err \<Rightarrow> Inl err | Inr _ \<Rightarrow> Inr (row\<lparr>rt_UsedAt := Some at\<rparr>))
        })
   }"

definition ResetTokens_CountRecentByUser :: "crypt \<Rightarrow> string \<Rightarrow> time \<Rightarrow> (access, error + nat) state" where
  "ResetTokens_CountRecentByUser c uid since =
     repo_query (ce c) (\<lambda>w. Inr (length (filter (\<lambda>t. rt_UserID t = uid \<and> rt_CreatedAt t > since) (reset_tokens w))))"

definition ResetTokens_DeleteExpired :: "crypt \<Rightarrow> time \<Rightarrow> (access, error + unit) state" where
  "ResetTokens_DeleteExpired c cutoff = repo_call (ce c) (\<lambda>w. (Inr (),
     w\<lparr>reset_tokens := filter (\<lambda>t. \<not> rt_ExpiresAt t < cutoff) (reset_tokens w)\<rparr>))"

section \<open>API key service\<close>

definition maxAPIKeysPerUser :: nat where "maxAPIKeysPerUser = 10"

definition key_request_ok :: "string \<Rightarrow> APIKeyScope \<Rightarrow> bool" where
  "key_request_ok name scope \<longleftrightarrow> trim_space name \<noteq> '''' \<and> length (trim_space name) \<le> 100 \<and>
     (scope = APIKeyScopeRead \<or> scope = APIKeyScopeReadWrite)"

definition not_after_now :: "crypt \<Rightarrow> time option \<Rightarrow> (access, bool) state" where
  "not_after_now c x = (case x of None \<Rightarrow> State_Monad.return False
     | Some t \<Rightarrow> do { n \<leftarrow> now (ce c); State_Monad.return (\<not> t > n) })"

definition new_api_key :: "string \<Rightarrow> string \<Rightarrow> APIKeyScope \<Rightarrow> time option \<Rightarrow> string \<Rightarrow> string \<Rightarrow> api_key" where
  "new_api_key uid name scope expires h p =
     \<lparr>ak_ID = '''', ak_CreatedAt = zero_time, ak_UpdatedAt = zero_time, ak_UserID = uid, ak_Name = name,
      ak_KeyHash = h, ak_KeyPrefix = p, ak_Scope = scope, ak_ExpiresAt = expires, ak_LastUsedAt = None,
      ak_LastUsedIP = '''', ak_IsActive = True\<rparr>"

text \<open>The response repeats the stored key and adds the raw one, which is shown once.\<close>

definition CreateAPIKey ::
    "crypt \<Rightarrow> string \<Rightarrow> string \<Rightarrow> APIKeyScope \<Rightarrow> time option \<Rightarrow> (access, error + string \<times> api_key) state" where
  "CreateAPIKey c uid name scope expires =
     (if \<not> key_request_ok name scope then State_Monad.return (Inl ErrValidationFailed)
      else do {
        past \<leftarrow> not_after_now c expires;
        if past then State_Monad.return (Inl ErrValidationFailed)
        else and_then (APIKeys_CountByUserID c uid) (\<lambda>count.
          if count \<ge> maxAPIKeysPerUser then State_Monad.return (Inl ErrAPIKeyLimitReached)
          else and_then (apikey_Generate c) (\<lambda>(raw, h, p). do {
            r \<leftarrow> APIKeys_Create c (new_api_key uid (trim_space name) scope expires h p);
            State_Monad.return (case r of
               Inl err \<Rightarrow> Inl (if errors_Is err ErrDuplicate then ErrValidationFailed else err)
             | Inr k \<Rightarrow> Inr (raw, k))
          }))
      })"

text \<open>A list item is the key without its hash.\<close>

definition ListAPIKeys :: "crypt \<Rightarrow> string \<Rightarrow> (access, error + api_key list) state" where
  "ListAPIKeys c uid = and_then (APIKeys_ListByUserID c uid)
     (\<lambda>ks. State_Monad.return (Inr (map (\<lambda>k. k\<lparr>ak_KeyHash := ''''\<rparr>) ks)))"

definition RevokeAPIKey :: "crypt \<Rightarrow> string \<Rightarrow> string \<Rightarrow> (access, error + unit) state" where
  "RevokeAPIKey c uid keyID =
     (if trim_space keyID = '''' then State_Monad.return (Inl ErrValidationFailed)
      else do {
        r \<leftarrow> APIKeys_Revoke c keyID uid;
        State_Monad.return (case r of
           Inl err \<Rightarrow> Inl (if errors_Is err ErrNotFound then ErrAPIKeyNotFound else err)
         | Inr u \<Rightarrow> Inr u)
      })"

definition AuthenticateAPIKey :: "crypt \<Rightarrow> string \<Rightarrow> (access, error + api_key \<times> user) state" where
  "AuthenticateAPIKey c raw =
     (if \<not> IsAPIKeyFormat raw then State_Monad.return (Inl ErrUnauthorized)
      else do {
        found \<leftarrow> APIKeys_FindByKeyHash c (token_Hash c raw);
        (case found of
           Inl err \<Rightarrow> State_Monad.return (Inl (if errors_Is err ErrNotFound then ErrAPIKeyInvalid else err))
         | Inr key \<Rightarrow>
             if \<not> ak_IsActive key then State_Monad.return (Inl ErrAPIKeyRevoked)
             else do {
               expired \<leftarrow> not_after_now c (ak_ExpiresAt key);
               if expired then State_Monad.return (Inl ErrAPIKeyExpired)
               else do {
                 u \<leftarrow> Users_FindByID c (ak_UserID key);
                 State_Monad.return (case u of
                    Inl err \<Rightarrow> Inl (if errors_Is err ErrNotFound then ErrUnauthorized else err)
                  | Inr user \<Rightarrow> Inr (key, user))
               }
             })
      })"

definition UpdateLastUsed :: "crypt \<Rightarrow> string \<Rightarrow> string \<Rightarrow> (access, error + unit) state" where
  "UpdateLastUsed c keyID ip =
     (if trim_space keyID = '''' then State_Monad.return (Inl ErrValidationFailed)
      else do {
        t \<leftarrow> now (ce c);
        r \<leftarrow> APIKeys_UpdateLastUsed c keyID t (trim_space ip);
        State_Monad.return (case r of
           Inl err \<Rightarrow> Inl (if errors_Is err ErrNotFound then ErrAPIKeyNotFound else Wrapf ''update api key last used'' err)
         | Inr u \<Rightarrow> Inr u)
      })"

section \<open>Host credential service\<close>

definition IssueHostCredential :: "crypt \<Rightarrow> string \<Rightarrow> (access, error + string \<times> string) state" where
  "IssueHostCredential c hid = and_then (hostcred_Generate c) (\<lambda>(raw, h, p).
     and_then (HostCredentials_Create c
         \<lparr>hc_ID = '''', hc_CreatedAt = zero_time, hc_UpdatedAt = zero_time, hc_HostID = hid, hc_Hash = h,
          hc_Prefix = p, hc_IsActive = True, hc_LastUsedAt = None\<rparr>)
       (\<lambda>_. State_Monad.return (Inr (raw, p))))"

definition RotateHostCredential :: "crypt \<Rightarrow> string \<Rightarrow> (access, error + string \<times> string) state" where
  "RotateHostCredential c hid =
     and_then (HostCredentials_DeactivateAllForHost c hid) (\<lambda>_. IssueHostCredential c hid)"

definition RevokeHostCredential :: "crypt \<Rightarrow> string \<Rightarrow> (access, error + unit) state" where
  "RevokeHostCredential c hid = HostCredentials_DeactivateAllForHost c hid"

definition AuthenticateHost :: "crypt \<Rightarrow> string \<Rightarrow> (access, error + host_credential) state" where
  "AuthenticateHost c raw =
     (if \<not> hostcred_IsFormat raw then State_Monad.return (Inl ErrHostCredentialInvalid)
      else do {
        found \<leftarrow> HostCredentials_FindActiveByHash c (token_Hash c raw);
        (case found of
           Inl err \<Rightarrow> State_Monad.return (Inl (if errors_Is err ErrNotFound then ErrHostCredentialInvalid else err))
         | Inr cred \<Rightarrow> do {
             t \<leftarrow> now (ce c);
             _ \<leftarrow> HostCredentials_TouchLastUsed c (hc_ID cred) t;
             State_Monad.return (Inr cred)
           })
      })"

section \<open>Session service\<close>

definition parse_browser :: "string \<Rightarrow> string" where
  "parse_browser low =
     (if str_contains low ''edg/'' then ''Edge''
      else if str_contains low ''opr/'' \<or> str_contains low ''opera'' then ''Opera''
      else if str_contains low ''firefox/'' then ''Firefox''
      else if str_contains low ''chrome/'' then ''Chrome''
      else if str_contains low ''safari/'' then ''Safari''
      else ''Unknown'')"

definition parse_os :: "string \<Rightarrow> string" where
  "parse_os low =
     (if str_contains low ''windows'' then ''Windows''
      else if str_contains low ''android'' then ''Android''
      else if str_contains low ''iphone'' \<or> str_contains low ''ipad'' \<or> str_contains low ''ios'' then ''iOS''
      else if str_contains low ''mac os'' \<or> str_contains low ''macintosh'' then ''macOS''
      else if str_contains low ''linux'' then ''Linux''
      else ''Unknown'')"

definition parseUserAgent :: "string \<Rightarrow> string \<times> string" where
  "parseUserAgent ua =
     (let s = trim_space ua
      in if s = '''' then (''Unknown'', ''Unknown'') else (parse_browser (to_lower s), parse_os (to_lower s)))"

definition IssueSession :: "crypt \<Rightarrow> string \<Rightarrow> string \<Rightarrow> string \<Rightarrow> (access, error + session) state" where
  "IssueSession c uid ua ip = do {
     t \<leftarrow> now (ce c);
     i \<leftarrow> EnsureID (ce c) '''';
     Sessions_Create c \<lparr>se_ID = i, se_UserID = uid, se_Browser = fst (parseUserAgent ua), se_OS = snd (parseUserAgent ua),
       se_IP = ip, se_Location = None, se_LastActiveAt = t, se_CreatedAt = t, se_RevokedAt = None\<rparr>
   }"

definition ValidateSession :: "crypt \<Rightarrow> string \<Rightarrow> (access, error + unit) state" where
  "ValidateSession c sid =
     (if sid = '''' then State_Monad.return (Inr ())
      else do {
        found \<leftarrow> Sessions_FindByID c sid;
        State_Monad.return (case found of
           Inl err \<Rightarrow> Inl (if errors_Is err ErrNotFound then ErrSessionRevoked else err)
         | Inr row \<Rightarrow> if se_RevokedAt row \<noteq> None then Inl ErrSessionRevoked else Inr ())
      })"

definition TouchLastActive :: "crypt \<Rightarrow> string \<Rightarrow> (access, error + unit) state" where
  "TouchLastActive c sid =
     (if sid = '''' then State_Monad.return (Inr ())
      else do { t \<leftarrow> now (ce c); Sessions_UpdateLastActive c sid t })"

text \<open>The loop keeps the last session with the current identifier and the others in order.\<close>

fun current_first :: "string \<Rightarrow> session option \<Rightarrow> session list \<Rightarrow> session list \<Rightarrow> session option \<times> session list" where
  "current_first sid current ordered [] = (current, ordered)"
| "current_first sid current ordered (r # rows) =
     (if se_ID r = sid then current_first sid (Some r) ordered rows
      else current_first sid current (ordered @ [r]) rows)"

definition ListSessions :: "crypt \<Rightarrow> string \<Rightarrow> string \<Rightarrow> (access, error + session list \<times> bool) state" where
  "ListSessions c uid sid = and_then (Sessions_ListActiveByUser c uid) (\<lambda>rows.
     State_Monad.return (Inr (case current_first sid None [] rows of
        (None, ordered) \<Rightarrow> (ordered, False)
      | (Some s, ordered) \<Rightarrow> (s # ordered, True))))"

definition RevokeSession :: "crypt \<Rightarrow> string \<Rightarrow> string \<Rightarrow> string \<Rightarrow> (access, error + unit) state" where
  "RevokeSession c uid sid current =
     (if sid = current then State_Monad.return (Inl ErrCannotRevokeCurrent)
      else do {
        found \<leftarrow> Sessions_FindByID c sid;
        (case found of
           Inl err \<Rightarrow> State_Monad.return (Inl (if errors_Is err ErrNotFound then ErrSessionNotFound else err))
         | Inr row \<Rightarrow>
             if se_UserID row \<noteq> uid then State_Monad.return (Inl ErrSessionNotFound)
             else do { t \<leftarrow> now (ce c); Sessions_Revoke c sid t })
      })"

definition RevokeAllOthers :: "crypt \<Rightarrow> string \<Rightarrow> string \<Rightarrow> (access, error + nat) state" where
  "RevokeAllOthers c uid current = do { t \<leftarrow> now (ce c); Sessions_RevokeAllExcept c uid current t }"

section \<open>Live rows and their secrets\<close>

text \<open>
  A table of bearer secrets: a row is found by its secret and counts as long as it is live. What an
  operation may do to it is stated once, and the facts about runs follow: a secret that no live row has
  is not revived, and a live secret of a table that was empty has been made in between.
\<close>

locale bearer =
  fixes step :: "'op \<Rightarrow> 'w \<Rightarrow> 'w"
    and ticks :: "'w \<Rightarrow> nat"
    and rows :: "'w \<Rightarrow> 'r list"
    and secret :: "'r \<Rightarrow> string"
    and live :: "'r \<Rightarrow> bool"
    and minted :: "nat \<Rightarrow> string option"
  assumes ticks_mono: "ticks w \<le> ticks (step p w)"
    and live_origin: "r \<in> set (rows (step p w)) \<Longrightarrow> live r \<Longrightarrow>
      (\<exists>r'\<in>set (rows w). live r' \<and> secret r' = secret r) \<or> (\<exists>n\<ge>ticks w. minted n = Some (secret r))"
begin

lemma run_origin:
  "r \<in> set (rows (fold step ps w)) \<Longrightarrow> live r \<Longrightarrow>
   (\<exists>r'\<in>set (rows w). live r' \<and> secret r' = secret r) \<or> (\<exists>n\<ge>ticks w. minted n = Some (secret r))"
proof (induction ps arbitrary: w)
  case (Cons p ps)
  from Cons.IH [of "step p w"] Cons.prems consider (old) r' where "r' \<in> set (rows (step p w))" "live r'" "secret r' = secret r"
    | (made) n where "n \<ge> ticks (step p w)" "minted n = Some (secret r)" by auto
  then show ?case
  proof cases
    case old
    then show ?thesis using live_origin [of r' p w] by auto
  next
    case made
    then show ?thesis using ticks_mono [of w p] le_trans by blast
  qed
qed auto

lemma dead_stays_dead:
  assumes "\<And>r. r \<in> set (rows w) \<Longrightarrow> live r \<Longrightarrow> secret r \<noteq> d"
    and "\<And>n. n \<ge> ticks w \<Longrightarrow> minted n \<noteq> Some d"
    and "r \<in> set (rows (fold step ps w))" and "live r"
  shows "secret r \<noteq> d"
  using run_origin [OF assms(3,4)] assms(1,2) by blast

lemma live_was_made:
  "rows w = [] \<Longrightarrow> r \<in> set (rows (fold step ps w)) \<Longrightarrow> live r \<Longrightarrow> \<exists>n\<ge>ticks w. minted n = Some (secret r)"
  using run_origin [of r ps w] by auto

end

text \<open>The same as a predicate of two versions of a table, with a rule for each kind of statement.\<close>

definition traced ::
    "('r \<Rightarrow> string) \<Rightarrow> ('r \<Rightarrow> bool) \<Rightarrow> (nat \<Rightarrow> string option) \<Rightarrow> nat \<Rightarrow> 'r list \<Rightarrow> 'r list \<Rightarrow> bool" where
  "traced secret live minted n0 old t \<longleftrightarrow> (\<forall>r\<in>set t. live r \<longrightarrow>
     (\<exists>r'\<in>set old. live r' \<and> secret r' = secret r) \<or> (\<exists>n\<ge>n0. minted n = Some (secret r)))"

lemma traced_refl [simp]: "traced secret live minted n0 t t"
  by (auto simp: traced_def)

lemma traced_filter: "traced secret live minted n0 old t \<Longrightarrow> traced secret live minted n0 old (filter P t)"
  by (auto simp: traced_def)

lemma traced_map:
  assumes "traced secret live minted n0 old t"
    and "\<And>r. live (f r) \<Longrightarrow> live r" and "\<And>r. live (f r) \<Longrightarrow> secret (f r) = secret r"
  shows "traced secret live minted n0 old (map f t)"
  using assms by (fastforce simp: traced_def)

lemma traced_snoc:
  "traced secret live minted n0 old t \<Longrightarrow> n0 \<le> n \<Longrightarrow> minted n = Some (secret r) \<Longrightarrow>
   traced secret live minted n0 old (t @ [r])"
  by (auto simp: traced_def)

text \<open>The digests that the n-th interaction can make.\<close>

definition key_at :: "crypt \<Rightarrow> nat \<Rightarrow> string option" where
  "key_at c n = map_option (\<lambda>b. token_Hash c (apikey_prefix @ hex_encode b)) (rand_bytes c n 16)"

definition host_at :: "crypt \<Rightarrow> nat \<Rightarrow> string option" where
  "host_at c n = map_option (\<lambda>b. token_Hash c (hostcred_prefix @ hex_encode b)) (rand_bytes c n 16)"

definition session_at :: "crypt \<Rightarrow> nat \<Rightarrow> string option" where
  "session_at c n = Some (ulid (ce c) n)"

text \<open>A computation of which a fact about its result is known.\<close>

definition gives :: "('w \<Rightarrow> bool) \<Rightarrow> ('w, error + 'a) state \<Rightarrow> ('a \<Rightarrow> bool) \<Rightarrow> bool" where
  "gives I m R \<longleftrightarrow> (\<forall>w. I w \<longrightarrow> I (snd (run_state m w)) \<and> (\<forall>y. fst (run_state m w) = Inr y \<longrightarrow> R y))"

lemma preserves_gives: "gives I m R \<Longrightarrow> (\<And>y. R y \<Longrightarrow> preserves I (f y)) \<Longrightarrow> preserves I (and_then m f)"
  by (fastforce simp: gives_def preserves_def run_and_then split: prod.splits sum.splits)

lemma run_rand_Read [run_simps]:
  "run_state (rand_Read c n) w = (case rand_bytes c (tick w) n of None \<Rightarrow> Inl ErrRand | Some b \<Rightarrow> Inr b, bump w)"
  by (simp add: rand_Read_def)

lemma gives_generate:
  assumes "\<And>w. I w \<Longrightarrow> I (bump w)" and "\<And>w. I w \<Longrightarrow> n0 \<le> tick w"
  shows "gives I (apikey_Generate c) (\<lambda>(raw, h, p). h = token_Hash c raw \<and> (\<exists>n\<ge>n0. key_at c n = Some h))"
    and "gives I (hostcred_Generate c) (\<lambda>(raw, h, p). h = token_Hash c raw \<and> (\<exists>n\<ge>n0. host_at c n = Some h))"
  using assms
  by (auto simp: gives_def apikey_Generate_def hostcred_Generate_def generate_token_def run_simps Let_def key_at_def
      host_at_def split: option.splits)

section \<open>What the statements leave alone\<close>

lemma tables_bump [simp]:
  "users (bump w) = users w" "api_keys (bump w) = api_keys w" "sessions (bump w) = sessions w"
  "host_credentials (bump w) = host_credentials w" "reset_tokens (bump w) = reset_tokens w"
  "links_sent (bump w) = links_sent w" "background (bump w) = background w"
  by (simp_all add: bump_def)

lemmas user_writes = Users_Create_def Users_Update_def Users_UpdatePassword_def Users_UpdateLastLogin_def
  Users_UpdateTwoFactorSecret_def EnsureID_def Let_def

lemmas key_writes = APIKeys_Create_def APIKeys_UpdateLastUsed_def APIKeys_Revoke_def EnsureID_def Let_def

lemmas host_writes = HostCredentials_Create_def HostCredentials_DeactivateAllForHost_def
  HostCredentials_TouchLastUsed_def HostCredentials_DeleteByHost_def EnsureID_def Let_def

lemmas session_writes = Sessions_Create_def Sessions_UpdateLastActive_def Sessions_Revoke_def
  Sessions_RevokeAllExcept_def EnsureID_def Let_def

lemmas reset_writes = ResetTokens_Create_def ResetTokens_ConsumeByHash_def ResetTokens_DeleteExpired_def Let_def

lemmas account_reads = Users_FindByID_def Users_FindByEmail_def APIKeys_FindByID_def APIKeys_FindByKeyHash_def
  APIKeys_ListByUserID_def APIKeys_CountByUserID_def HostCredentials_FindActiveByHash_def HostCredentials_ListByHost_def
  Sessions_FindByID_def Sessions_ListActiveByUser_def ResetTokens_CountRecentByUser_def

lemma account_reads_keep [keep]:
  assumes "\<And>w. f (bump w) = f w"
  shows "keeps f (Users_FindByID c i)" "keeps f (Users_FindByEmail c i)" "keeps f (APIKeys_FindByID c i u)"
    "keeps f (APIKeys_FindByKeyHash c i)" "keeps f (APIKeys_ListByUserID c i)" "keeps f (APIKeys_CountByUserID c i)"
    "keeps f (HostCredentials_FindActiveByHash c i)" "keeps f (HostCredentials_ListByHost c i)"
    "keeps f (Sessions_FindByID c i)" "keeps f (Sessions_ListActiveByUser c i)"
    "keeps f (ResetTokens_CountRecentByUser c i t)"
  unfolding account_reads using assms by (intro keep; simp)+

lemma keeps_rand_Read [keep]: "(\<And>w. f (bump w) = f w) \<Longrightarrow> keeps f (rand_Read c n)"
  by (simp add: keeps_def run_simps)

lemma keeps_users [keep]:
  "keeps users (APIKeys_Create c k)" "keeps users (APIKeys_UpdateLastUsed c i t ip)" "keeps users (APIKeys_Revoke c i j)"
  "keeps users (HostCredentials_Create c hc)" "keeps users (HostCredentials_DeactivateAllForHost c i)"
  "keeps users (HostCredentials_TouchLastUsed c i t)" "keeps users (HostCredentials_DeleteByHost c i)"
  "keeps users (Sessions_Create c s)" "keeps users (Sessions_UpdateLastActive c i t)" "keeps users (Sessions_Revoke c i t)"
  "keeps users (Sessions_RevokeAllExcept c i j t)"
  "keeps users (ResetTokens_Create c tok)" "keeps users (ResetTokens_ConsumeByHash c i t)" "keeps users (ResetTokens_DeleteExpired c t)"
  unfolding key_writes host_writes session_writes reset_writes by (intro keep; simp)+

lemma keeps_api_keys [keep]:
  "keeps api_keys (Users_Create c u)" "keeps api_keys (Users_Update c u)" "keeps api_keys (Users_UpdatePassword c i h)"
  "keeps api_keys (Users_UpdateLastLogin c i)" "keeps api_keys (Users_UpdateTwoFactorSecret c i h b)"
  "keeps api_keys (HostCredentials_Create c hc)" "keeps api_keys (HostCredentials_DeactivateAllForHost c i)"
  "keeps api_keys (HostCredentials_TouchLastUsed c i t)" "keeps api_keys (HostCredentials_DeleteByHost c i)"
  "keeps api_keys (Sessions_Create c s)" "keeps api_keys (Sessions_UpdateLastActive c i t)" "keeps api_keys (Sessions_Revoke c i t)"
  "keeps api_keys (Sessions_RevokeAllExcept c i j t)"
  "keeps api_keys (ResetTokens_Create c tok)" "keeps api_keys (ResetTokens_ConsumeByHash c i t)"
  "keeps api_keys (ResetTokens_DeleteExpired c t)"
  unfolding user_writes host_writes session_writes reset_writes by (intro keep; simp)+

lemma keeps_host_credentials [keep]:
  "keeps host_credentials (Users_Create c u)" "keeps host_credentials (Users_Update c u)"
  "keeps host_credentials (Users_UpdatePassword c i h)" "keeps host_credentials (Users_UpdateLastLogin c i)"
  "keeps host_credentials (Users_UpdateTwoFactorSecret c i h b)" "keeps host_credentials (Users_Delete c i)"
  "keeps host_credentials (APIKeys_Create c k)" "keeps host_credentials (APIKeys_UpdateLastUsed c i t ip)"
  "keeps host_credentials (APIKeys_Revoke c i j)"
  "keeps host_credentials (Sessions_Create c s)" "keeps host_credentials (Sessions_UpdateLastActive c i t)"
  "keeps host_credentials (Sessions_Revoke c i t)" "keeps host_credentials (Sessions_RevokeAllExcept c i j t)"
  "keeps host_credentials (ResetTokens_Create c tok)" "keeps host_credentials (ResetTokens_ConsumeByHash c i t)"
  "keeps host_credentials (ResetTokens_DeleteExpired c t)"
  unfolding user_writes Users_Delete_def key_writes session_writes reset_writes by (intro keep; simp)+

lemma keeps_sessions [keep]:
  "keeps sessions (Users_Create c u)" "keeps sessions (Users_Update c u)" "keeps sessions (Users_UpdatePassword c i h)"
  "keeps sessions (Users_UpdateLastLogin c i)" "keeps sessions (Users_UpdateTwoFactorSecret c i h b)"
  "keeps sessions (APIKeys_Create c k)" "keeps sessions (APIKeys_UpdateLastUsed c i t ip)" "keeps sessions (APIKeys_Revoke c i j)"
  "keeps sessions (HostCredentials_Create c hc)" "keeps sessions (HostCredentials_DeactivateAllForHost c i)"
  "keeps sessions (HostCredentials_TouchLastUsed c i t)" "keeps sessions (HostCredentials_DeleteByHost c i)"
  "keeps sessions (ResetTokens_Create c tok)" "keeps sessions (ResetTokens_ConsumeByHash c i t)"
  "keeps sessions (ResetTokens_DeleteExpired c t)"
  unfolding user_writes key_writes host_writes reset_writes by (intro keep; simp)+

lemma keeps_reset_tokens [keep]:
  "keeps reset_tokens (Users_Create c u)" "keeps reset_tokens (Users_Update c u)" "keeps reset_tokens (Users_UpdatePassword c i h)"
  "keeps reset_tokens (Users_UpdateLastLogin c i)" "keeps reset_tokens (Users_UpdateTwoFactorSecret c i h b)"
  "keeps reset_tokens (APIKeys_Create c k)" "keeps reset_tokens (APIKeys_UpdateLastUsed c i t ip)" "keeps reset_tokens (APIKeys_Revoke c i j)"
  "keeps reset_tokens (HostCredentials_Create c hc)" "keeps reset_tokens (HostCredentials_DeactivateAllForHost c i)"
  "keeps reset_tokens (HostCredentials_TouchLastUsed c i t)" "keeps reset_tokens (HostCredentials_DeleteByHost c i)"
  "keeps reset_tokens (Sessions_Create c s)" "keeps reset_tokens (Sessions_UpdateLastActive c i t)" "keeps reset_tokens (Sessions_Revoke c i t)"
  "keeps reset_tokens (Sessions_RevokeAllExcept c i j t)"
  unfolding user_writes key_writes host_writes session_writes by (intro keep; simp)+

end
