(* ===== verification/Accounts.thy ===== *)
theory Accounts
  imports Credentials
begin

text \<open>
  Accounts and the authentication of requests: JWT tokens (\<open>src/internal/service/jwt_manager.go\<close>), the
  login and account service (\<open>src/internal/service/auth_service.go\<close>), the second factor
  (\<open>src/internal/service/two_factor_service.go\<close>), the handlers of the public authentication routes
  (\<open>src/internal/api/handler/auth_handler.go\<close>, \<open>src/internal/api/handler/v1/two_factor_handler.go\<close>) and
  the middleware (\<open>auth.go\<close>, \<open>scope.go\<close> and \<open>host_credential_auth.go\<close> under
  \<open>src/internal/api/middleware\<close>).

  A request is the record of the headers these functions read; the body is passed decoded. The
  goroutines that the middleware starts are put on the list \<open>background\<close> of the state and run by an
  operation of their own, at any later moment. \<open>exec\<close> runs one operation of the subsystem; the theorems
  about runs quantify over every list of operations, every pattern of database failures and every
  reading of the clock.
\<close>

section \<open>Tokens (jwt\_manager.go)\<close>

definition ErrInvalidCredentials :: error where "ErrInvalidCredentials = ErrorNew ''invalid email or password''"
definition ErrInvalidToken :: error where "ErrInvalidToken = ErrorNew ''invalid or expired token''"
definition ErrInvalidPassword :: error where "ErrInvalidPassword = ErrorNew ''password must be at least 8 characters''"
definition ErrTwoFactorAlreadyEnabled :: error where
  "ErrTwoFactorAlreadyEnabled = ErrorNew ''two-factor already enabled''"
definition ErrTwoFactorNotEnabled :: error where "ErrTwoFactorNotEnabled = ErrorNew ''two-factor not enabled''"
definition ErrTwoFactorBadCode :: error where "ErrTwoFactorBadCode = ErrorNew ''invalid 2FA code''"
definition ErrTwoFactorTokenInvalid :: error where
  "ErrTwoFactorTokenInvalid = ErrorNew ''reset token invalid or expired''"

text \<open>What the libraries report: a token that cannot be signed, a password that bcrypt refuses.\<close>

definition ErrSign :: error where "ErrSign = Errorf ''key is invalid''"
definition ErrBcrypt :: error where "ErrBcrypt = Errorf ''bcrypt: password length exceeds 72 bytes''"
definition ErrTOTP :: error where "ErrTOTP = Errorf ''totp: generation failed''"

record auth_service =
  as_crypt :: crypt
  as_issuer :: string
  as_duration :: duration
  as_hasSessions :: bool
  as_legacyEmail :: string
  as_legacyPassword :: string
  as_appBaseURL :: string

record login_context =
  lc_UserAgent :: string
  lc_IP :: string

abbreviation ae :: "auth_service \<Rightarrow> env" where
  "ae s \<equiv> ce (as_crypt s)"

text \<open>The library stores dates as whole seconds.\<close>

definition GenerateWithSession :: "auth_service \<Rightarrow> string \<Rightarrow> string \<Rightarrow> string \<Rightarrow> (access, error + string) state" where
  "GenerateWithSession s email uid sid = do {
     t \<leftarrow> now (ae s);
     State_Monad.return (case jwt_sign (as_crypt s)
          \<lparr>jc_Email = email, jc_UserID = uid, jc_SessionID = sid, jc_ExpiresAt = unix (t + as_duration s),
           jc_IssuedAt = unix t, jc_NotBefore = unix t, jc_Issuer = as_issuer s\<rparr> of
        None \<Rightarrow> Inl ErrSign | Some tok \<Rightarrow> Inr tok)
   }"

definition GenerateToken :: "auth_service \<Rightarrow> string \<Rightarrow> string \<Rightarrow> (access, error + string) state" where
  "GenerateToken s email uid = GenerateWithSession s email uid ''''"

definition ValidateTokenFull :: "auth_service \<Rightarrow> string \<Rightarrow> (access, error + string \<times> string \<times> string) state" where
  "ValidateTokenFull s tok = do {
     t \<leftarrow> now (ae s);
     State_Monad.return (case jwt_parse (as_crypt s) t tok of
        None \<Rightarrow> Inl ErrInvalidToken
      | Some jc \<Rightarrow> Inr (jc_Email jc, jc_UserID jc, jc_SessionID jc))
   }"

definition ValidateToken :: "auth_service \<Rightarrow> string \<Rightarrow> (access, error + string \<times> string) state" where
  "ValidateToken s tok = and_then (ValidateTokenFull s tok) (\<lambda>(email, uid, _). State_Monad.return (Inr (email, uid)))"

section \<open>Random strings (auth\_service.go)\<close>

definition b64_char :: "nat \<Rightarrow> char" where
  "b64_char n = (''ABCDEFGHIJKLMNOPQRSTUVWXYZabcdefghijklmnopqrstuvwxyz0123456789-_'') ! (n mod 64)"

text \<open>\<open>base64.RawURLEncoding\<close>, and with padding \<open>base64.URLEncoding\<close>.\<close>

fun b64_raw :: "nat list \<Rightarrow> string" where
  "b64_raw [] = []"
| "b64_raw [a] = [b64_char (a div 4), b64_char (a mod 4 * 16)]"
| "b64_raw [a, b] = [b64_char (a div 4), b64_char (a mod 4 * 16 + b div 16), b64_char (b mod 16 * 4)]"
| "b64_raw (a # b # d # rest) =
     [b64_char (a div 4), b64_char (a mod 4 * 16 + b div 16), b64_char (b mod 16 * 4 + d div 64), b64_char (d mod 64)]
     @ b64_raw rest"

definition RawURLEncoding :: "string \<Rightarrow> string" where
  "RawURLEncoding bytes = b64_raw (map of_char bytes)"

definition URLEncoding :: "string \<Rightarrow> string" where
  "URLEncoding bytes = RawURLEncoding bytes @ replicate ((3 - length bytes mod 3) mod 3) CHR ''=''"

definition generateRandomString :: "crypt \<Rightarrow> nat \<Rightarrow> (access, string) state" where
  "generateRandomString c n = do {
     r \<leftarrow> rand_Read c n;
     State_Monad.return (case r of Inl _ \<Rightarrow> '''' | Inr b \<Rightarrow> take n (URLEncoding b))
   }"

fun generateBackupCodes :: "crypt \<Rightarrow> nat \<Rightarrow> (access, string list) state" where
  "generateBackupCodes c 0 = State_Monad.return []"
| "generateBackupCodes c (Suc n) = do {
     code \<leftarrow> generateRandomString c 8;
     codes \<leftarrow> generateBackupCodes c n;
     State_Monad.return (code # codes)
   }"

definition hashPassword :: "crypt \<Rightarrow> string \<Rightarrow> (access, error + string) state" where
  "hashPassword c p = State (\<lambda>w. (case bcrypt_generate c (tick w) p of None \<Rightarrow> Inl ErrBcrypt | Some h \<Rightarrow> Inr h, bump w))"

section \<open>Authentication service (auth\_service.go)\<close>

definition DefaultPassword :: string where "DefaultPassword = ''password''"

record login_response =
  lr_Token :: string
  lr_Email :: string
  lr_Requires2FA :: bool
  lr_TwoFactorSessionID :: string
  lr_ForcePasswordChange :: bool
  lr_PasswordInitialized :: bool

definition empty_response :: "string \<Rightarrow> login_response" where
  "empty_response email = \<lparr>lr_Token = '''', lr_Email = email, lr_Requires2FA = False, lr_TwoFactorSessionID = '''',
     lr_ForcePasswordChange = False, lr_PasswordInitialized = False\<rparr>"

definition issueTokenWithSession ::
    "auth_service \<Rightarrow> login_context \<Rightarrow> string \<Rightarrow> string \<Rightarrow> (access, error + string) state" where
  "issueTokenWithSession s l email uid =
     (if \<not> as_hasSessions s then GenerateToken s email uid
      else do {
        r \<leftarrow> IssueSession (as_crypt s) uid (lc_UserAgent l) (lc_IP l);
        (case r of
           Inl _ \<Rightarrow> GenerateToken s email uid
         | Inr sess \<Rightarrow> GenerateWithSession s email uid (se_ID sess))
      })"

definition new_user :: "string \<Rightarrow> string \<Rightarrow> user" where
  "new_user email h = \<lparr>u_ID = '''', u_Email = email, u_Name = ''Administrator'', u_HashedPassword = h,
     u_PasswordInitialized = True, u_ForcePasswordChange = False, u_TwoFactorEnabled = False,
     u_TwoFactorSecret = '''', u_TwoFactorBackupCodes = '''', u_LastLoginAt = None,
     u_CreatedAt = zero_time, u_UpdatedAt = zero_time\<rparr>"

text \<open>
  \<open>handleLegacyLogin\<close> looks the user up again; a user that is missing is created with the default
  password, any other error leaves it \<open>nil\<close>.
\<close>

definition legacy_user :: "auth_service \<Rightarrow> string \<Rightarrow> (access, user option) state" where
  "legacy_user s email = do {
     found \<leftarrow> Users_FindByEmail (as_crypt s) email;
     (case found of
        Inr u \<Rightarrow> State_Monad.return (Some u)
      | Inl err \<Rightarrow>
          if errors_Is err ErrNotFound then do {
            h \<leftarrow> hashPassword (as_crypt s) DefaultPassword;
            made \<leftarrow> Users_Create (as_crypt s) (new_user email (case h of Inl _ \<Rightarrow> '''' | Inr x \<Rightarrow> x));
            State_Monad.return (case made of Inl _ \<Rightarrow> None | Inr u \<Rightarrow> Some u)
          } else State_Monad.return None)
   }"

definition handleLegacyLogin ::
    "auth_service \<Rightarrow> login_context \<Rightarrow> string \<Rightarrow> (access, login_response \<times> error option) state" where
  "handleLegacyLogin s l email = do {
     found \<leftarrow> legacy_user s email;
     (case found of
        None \<Rightarrow> State_Monad.return (empty_response email, Some ErrInvalidCredentials)
      | Some u \<Rightarrow> do {
          tok \<leftarrow> issueTokenWithSession s l email (u_ID u);
          (case tok of
             Inl err \<Rightarrow> State_Monad.return (empty_response email, Some err)
           | Inr token \<Rightarrow> do {
               _ \<leftarrow> Users_UpdateLastLogin (as_crypt s) (u_ID u);
               State_Monad.return ((empty_response email)\<lparr>lr_Token := token,
                  lr_PasswordInitialized := u_PasswordInitialized u, lr_ForcePasswordChange := u_ForcePasswordChange u\<rparr>, None)
             })
        })
   }"

definition login_user ::
    "auth_service \<Rightarrow> login_context \<Rightarrow> login_response \<Rightarrow> string \<Rightarrow> string \<Rightarrow> user \<Rightarrow>
     (access, login_response \<times> error option) state" where
  "login_user s l resp email password u =
     (if \<not> u_PasswordInitialized u then
        (if password \<noteq> DefaultPassword then State_Monad.return (resp, Some ErrInvalidCredentials)
         else State_Monad.return (resp\<lparr>lr_Requires2FA := False, lr_ForcePasswordChange := True,
                lr_PasswordInitialized := False\<rparr>, None))
      else if \<not> bcrypt_compare (as_crypt s) (u_HashedPassword u) password then
        State_Monad.return (resp, Some ErrInvalidCredentials)
      else if u_TwoFactorEnabled u then do {
        sid \<leftarrow> generateRandomString (as_crypt s) 32;
        State_Monad.return (resp\<lparr>lr_Requires2FA := True, lr_TwoFactorSessionID := sid,
           lr_ForcePasswordChange := u_ForcePasswordChange u, lr_PasswordInitialized := u_PasswordInitialized u\<rparr>, None)
      } else do {
        tok \<leftarrow> issueTokenWithSession s l email (u_ID u);
        (case tok of
           Inl err \<Rightarrow> State_Monad.return (resp, Some err)
         | Inr token \<Rightarrow> do {
             _ \<leftarrow> Users_UpdateLastLogin (as_crypt s) (u_ID u);
             State_Monad.return (resp\<lparr>lr_Token := token, lr_ForcePasswordChange := u_ForcePasswordChange u,
                lr_PasswordInitialized := u_PasswordInitialized u\<rparr>, None)
           })
      })"

definition Login ::
    "auth_service \<Rightarrow> login_context \<Rightarrow> string \<Rightarrow> string \<Rightarrow> (access, login_response \<times> error option) state" where
  "Login s l email0 password0 =
     (let resp = empty_response email0; email = trim_space email0; password = trim_space password0
      in do {
        found \<leftarrow> Users_FindByEmail (as_crypt s) email;
        (case found of
           Inl err \<Rightarrow>
             if errors_Is err ErrNotFound then
               (if as_legacyEmail s \<noteq> '''' \<and> email = as_legacyEmail s \<and> password = as_legacyPassword s
                then handleLegacyLogin s l email
                else State_Monad.return (resp, Some ErrInvalidCredentials))
             else State_Monad.return (resp, Some err)
         | Inr u \<Rightarrow> login_user s l resp email password u)
      })"

definition Verify2FA :: "auth_service \<Rightarrow> login_context \<Rightarrow> string \<Rightarrow> string \<Rightarrow> (access, error + string) state" where
  "Verify2FA s l email0 otp0 =
     (let email = trim_space email0; otp = trim_space otp0
      in do {
        found \<leftarrow> Users_FindByEmail (as_crypt s) email;
        (case found of
           Inl _ \<Rightarrow> State_Monad.return (Inl ErrInvalidCredentials)
         | Inr u \<Rightarrow>
             if \<not> u_TwoFactorEnabled u \<or> u_TwoFactorSecret u = '''' then
               State_Monad.return (Inl (ErrorNew ''2FA not enabled for this user''))
             else do {
               t \<leftarrow> now (ae s);
               if \<not> totp_validate (as_crypt s) t otp (u_TwoFactorSecret u) then
                 State_Monad.return (Inl (ErrorNew ''invalid OTP''))
               else and_then (issueTokenWithSession s l email (u_ID u)) (\<lambda>token. do {
                 _ \<leftarrow> Users_UpdateLastLogin (as_crypt s) (u_ID u);
                 State_Monad.return (Inr token)
               })
             })
      })"

text \<open>A lookup whose every error becomes \<open>ErrResourceNotFound\<close>.\<close>

definition find_user :: "auth_service \<Rightarrow> string \<Rightarrow> (access, error + user) state" where
  "find_user s uid = do {
     r \<leftarrow> Users_FindByID (as_crypt s) uid;
     State_Monad.return (case r of Inl _ \<Rightarrow> Inl ErrResourceNotFound | Inr u \<Rightarrow> Inr u)
   }"

definition InitializePassword :: "auth_service \<Rightarrow> string \<Rightarrow> string \<Rightarrow> (access, error + user) state" where
  "InitializePassword s email0 new0 =
     (let email = trim_space email0; newPassword = trim_space new0
      in if length newPassword < 8 then State_Monad.return (Inl ErrInvalidPassword)
         else do {
           found \<leftarrow> Users_FindByEmail (as_crypt s) email;
           (case found of
              Inl _ \<Rightarrow> State_Monad.return (Inl ErrResourceNotFound)
            | Inr u \<Rightarrow>
                and_then (hashPassword (as_crypt s) newPassword) (\<lambda>h.
                and_then (Users_UpdatePassword (as_crypt s) (u_ID u) h) (\<lambda>_.
                Users_FindByID (as_crypt s) (u_ID u))))
         })"

definition ChangePassword :: "auth_service \<Rightarrow> string \<Rightarrow> string \<Rightarrow> string \<Rightarrow> (access, error + unit) state" where
  "ChangePassword s uid currentPassword newPassword =
     (if length newPassword < 8 then State_Monad.return (Inl ErrInvalidPassword)
      else and_then (find_user s uid) (\<lambda>u.
        if \<not> bcrypt_compare (as_crypt s) (u_HashedPassword u) currentPassword then
          State_Monad.return (Inl ErrInvalidCredentials)
        else and_then (hashPassword (as_crypt s) newPassword) (\<lambda>h. Users_UpdatePassword (as_crypt s) uid h)))"

definition ResetPasswordToDefault :: "auth_service \<Rightarrow> string \<Rightarrow> string \<Rightarrow> (access, error + unit) state" where
  "ResetPasswordToDefault s uid currentPassword =
     and_then (find_user s uid) (\<lambda>u.
       if \<not> bcrypt_compare (as_crypt s) (u_HashedPassword u) currentPassword then
         State_Monad.return (Inl ErrInvalidCredentials)
       else and_then (hashPassword (as_crypt s) DefaultPassword) (\<lambda>h.
         and_then (Users_UpdatePassword (as_crypt s) uid h) (\<lambda>_.
         and_then (Users_Update (as_crypt s) (u\<lparr>u_ForcePasswordChange := True\<rparr>)) (\<lambda>_.
         State_Monad.return (Inr ())))))"

text \<open>The secret, the URI of the QR code and the backup codes.\<close>

definition GenerateTOTPSecret :: "auth_service \<Rightarrow> string \<Rightarrow> (access, error + string \<times> string \<times> string list) state" where
  "GenerateTOTPSecret s email = do {
     k \<leftarrow> State (\<lambda>w. (totp_generate (as_crypt s) (tick w) email, bump w));
     (case k of
        None \<Rightarrow> State_Monad.return (Inl ErrTOTP)
      | Some (secret, url) \<Rightarrow> do {
          codes \<leftarrow> generateBackupCodes (as_crypt s) 10;
          State_Monad.return (Inr (secret, url, codes))
        })
   }"

definition Enable2FA :: "auth_service \<Rightarrow> string \<Rightarrow> string \<Rightarrow> string \<Rightarrow> (access, error + unit) state" where
  "Enable2FA s uid secret otp = do {
     t \<leftarrow> now (ae s);
     if \<not> totp_validate (as_crypt s) t otp secret then State_Monad.return (Inl (ErrorNew ''invalid OTP''))
     else Users_UpdateTwoFactorSecret (as_crypt s) uid secret True
   }"

definition Disable2FA :: "auth_service \<Rightarrow> string \<Rightarrow> string \<Rightarrow> (access, error + unit) state" where
  "Disable2FA s uid password = and_then (find_user s uid) (\<lambda>u.
     if \<not> bcrypt_compare (as_crypt s) (u_HashedPassword u) password then State_Monad.return (Inl ErrInvalidCredentials)
     else Users_UpdateTwoFactorSecret (as_crypt s) uid '''' False)"

definition IssueTokenForUser ::
    "auth_service \<Rightarrow> login_context \<Rightarrow> string \<Rightarrow> string \<Rightarrow> (access, error + string) state" where
  "IssueTokenForUser s l email uid = issueTokenWithSession s l email uid"

definition UpdateProfile :: "auth_service \<Rightarrow> string \<Rightarrow> string \<Rightarrow> string \<Rightarrow> (access, error + user) state" where
  "UpdateProfile s uid name0 email0 =
     (let name = trim_space name0; email = trim_space email0
      in if email = '''' then State_Monad.return (Inl (ErrorNew ''email cannot be empty''))
         else and_then (find_user s uid) (\<lambda>u. do {
           taken \<leftarrow> (if email \<noteq> u_Email u then do {
                       r \<leftarrow> Users_FindByEmail (as_crypt s) email;
                       State_Monad.return (case r of Inl _ \<Rightarrow> False | Inr _ \<Rightarrow> True)
                     } else State_Monad.return False);
           if taken then State_Monad.return (Inl (ErrorNew ''email already in use''))
           else and_then (Users_Update (as_crypt s) (u\<lparr>u_Name := name, u_Email := email\<rparr>)) (\<lambda>t.
             State_Monad.return (Inr (u\<lparr>u_Name := name, u_Email := email, u_UpdatedAt := t\<rparr>)))
         }))"

definition GetUser :: "auth_service \<Rightarrow> string \<Rightarrow> (access, error + user) state" where
  "GetUser s uid = Users_FindByID (as_crypt s) uid"

definition GetUserByEmail :: "auth_service \<Rightarrow> string \<Rightarrow> (access, error + user) state" where
  "GetUserByEmail s email = Users_FindByEmail (as_crypt s) (trim_space email)"

definition CreateDefaultUser :: "auth_service \<Rightarrow> string \<Rightarrow> string \<Rightarrow> (access, error + user) state" where
  "CreateDefaultUser s email password = do {
     existing \<leftarrow> Users_FindByEmail (as_crypt s) email;
     (case existing of
        Inr u \<Rightarrow> State_Monad.return (Inr u)
      | Inl _ \<Rightarrow> and_then (hashPassword (as_crypt s) password) (\<lambda>h. Users_Create (as_crypt s) (new_user email h)))
   }"

section \<open>Second factor (two\_factor\_service.go)\<close>

abbreviation twoFactorResetTokenTTL :: duration where "twoFactorResetTokenTTL \<equiv> 15 * Minute"

definition twoFactorResetMaxPerUserPerHour :: nat where "twoFactorResetMaxPerUserPerHour = 3"

definition trim_right :: "char \<Rightarrow> string \<Rightarrow> string" where
  "trim_right ch str = rev (dropWhile (\<lambda>x. x = ch) (rev str))"

definition NewTwoFactorService :: "auth_service \<Rightarrow> string \<Rightarrow> auth_service" where
  "NewTwoFactorService s base = s\<lparr>as_appBaseURL := trim_right CHR ''/'' base\<rparr>"

definition Setup :: "auth_service \<Rightarrow> string \<Rightarrow> (access, error + string \<times> string) state" where
  "Setup s uid = and_then (find_user s uid) (\<lambda>u.
     if u_TwoFactorEnabled u then State_Monad.return (Inl ErrTwoFactorAlreadyEnabled)
     else do {
       r \<leftarrow> GenerateTOTPSecret s (u_Email u);
       (case r of
          Inl err \<Rightarrow> State_Monad.return (Inl (Wrapf ''generate totp secret'' err))
        | Inr (secret, url, _) \<Rightarrow> do {
            p \<leftarrow> Users_UpdateTwoFactorSecret (as_crypt s) (u_ID u) secret False;
            State_Monad.return (case p of Inl err \<Rightarrow> Inl (Wrapf ''persist unverified secret'' err) | Inr _ \<Rightarrow> Inr (secret, url))
          })
     })"

definition VerifySetup :: "auth_service \<Rightarrow> string \<Rightarrow> string \<Rightarrow> (access, error + string list) state" where
  "VerifySetup s uid code = and_then (find_user s uid) (\<lambda>u.
     if u_TwoFactorSecret u = '''' then State_Monad.return (Inl ErrTwoFactorNotEnabled)
     else do {
       t \<leftarrow> now (ae s);
       if \<not> totp_validate (as_crypt s) t (trim_space code) (u_TwoFactorSecret u) then
         State_Monad.return (Inl ErrTwoFactorBadCode)
       else do {
         p \<leftarrow> Users_UpdateTwoFactorSecret (as_crypt s) (u_ID u) (u_TwoFactorSecret u) True;
         (case p of
            Inl err \<Rightarrow> State_Monad.return (Inl (Wrapf ''mark 2fa enabled'' err))
          | Inr _ \<Rightarrow> do { codes \<leftarrow> generateBackupCodes (as_crypt s) 10; State_Monad.return (Inr codes) })
       }
     })"

definition DisableTwoFactor :: "auth_service \<Rightarrow> string \<Rightarrow> string \<Rightarrow> (access, error + unit) state" where
  "DisableTwoFactor s uid code = and_then (find_user s uid) (\<lambda>u.
     if \<not> u_TwoFactorEnabled u \<or> u_TwoFactorSecret u = '''' then State_Monad.return (Inl ErrTwoFactorNotEnabled)
     else do {
       t \<leftarrow> now (ae s);
       if \<not> totp_validate (as_crypt s) t (trim_space code) (u_TwoFactorSecret u) then
         State_Monad.return (Inl ErrTwoFactorBadCode)
       else Users_UpdateTwoFactorSecret (as_crypt s) (u_ID u) '''' False
     })"

text \<open>
  The part after the lookups: a token is drawn and stored, and its link handed to the sender, whose
  error is logged. A failed count does not stop the request.
\<close>

definition SendTwoFactorReset :: "string \<Rightarrow> string \<Rightarrow> (access, error + unit) state" where
  "SendTwoFactorReset recipient link = State (\<lambda>w. (Inr (), (bump w)\<lparr>links_sent := links_sent w @ [(recipient, link)]\<rparr>))"

definition issue_reset :: "auth_service \<Rightarrow> user \<Rightarrow> (access, error + unit) state" where
  "issue_reset s u = and_then (rand_Read (as_crypt s) 32) (\<lambda>raw. do {
     let cleartext = RawURLEncoding raw;
     t \<leftarrow> now (ae s);
     and_then (ResetTokens_Create (as_crypt s)
         \<lparr>rt_TokenHash = token_Hash (as_crypt s) cleartext, rt_UserID = u_ID u, rt_ExpiresAt = t + twoFactorResetTokenTTL,
          rt_UsedAt = None, rt_CreatedAt = t\<rparr>)
       (\<lambda>_. SendTwoFactorReset (u_Email u) (as_appBaseURL s @ ''/2fa/reset?token='' @ cleartext))
   })"

definition RequestReset :: "auth_service \<Rightarrow> string \<Rightarrow> (access, error + unit) state" where
  "RequestReset s email0 =
     (let email = trim_space (to_lower email0)
      in if email = '''' then State_Monad.return (Inr ())
         else do {
           found \<leftarrow> Users_FindByEmail (as_crypt s) email;
           (case found of
              Inl _ \<Rightarrow> State_Monad.return (Inr ())
            | Inr u \<Rightarrow>
                if \<not> u_TwoFactorEnabled u then State_Monad.return (Inr ())
                else do {
                  t \<leftarrow> now (ae s);
                  n \<leftarrow> ResetTokens_CountRecentByUser (as_crypt s) (u_ID u) (t - Hour);
                  if (case n of Inl _ \<Rightarrow> False | Inr k \<Rightarrow> k \<ge> twoFactorResetMaxPerUserPerHour) then State_Monad.return (Inr ())
                  else issue_reset s u
                })
         })"

definition ConfirmReset :: "auth_service \<Rightarrow> string \<Rightarrow> (access, error + string) state" where
  "ConfirmReset s cleartext0 =
     (let cleartext = trim_space cleartext0
      in if cleartext = '''' then State_Monad.return (Inl ErrTwoFactorTokenInvalid)
         else do {
           t \<leftarrow> now (ae s);
           r \<leftarrow> ResetTokens_ConsumeByHash (as_crypt s) (token_Hash (as_crypt s) cleartext) t;
           (case r of
              Inl err \<Rightarrow> State_Monad.return (Inl (if errors_Is err ErrNotFound then ErrTwoFactorTokenInvalid else err))
            | Inr tok \<Rightarrow> do {
                p \<leftarrow> Users_UpdateTwoFactorSecret (as_crypt s) (rt_UserID tok) '''' False;
                State_Monad.return (case p of Inl err \<Rightarrow> Inl (Wrapf ''wipe 2fa secret'' err) | Inr _ \<Rightarrow> Inr (rt_UserID tok))
              })
         })"

section \<open>Requests and handlers\<close>

record request =
  rq_XAPIKey :: string
  rq_Authorization :: string
  rq_XForwardedFor :: string
  rq_XRealIP :: string
  rq_RemoteAddr :: string
  rq_UserAgent :: string

datatype 'a reply = Reply_Error int string | Reply_OK 'a

definition clientIP :: "request \<Rightarrow> string" where
  "clientIP r =
     (let forwarded = trim_space (rq_XForwardedFor r); realIP = trim_space (rq_XRealIP r)
      in if forwarded \<noteq> '''' then trim_space (hd (split_on CHR '','' forwarded))
         else if realIP \<noteq> '''' then realIP
         else trim_space (rq_RemoteAddr r))"

definition loginCtxFrom :: "request \<Rightarrow> login_context" where
  "loginCtxFrom r = \<lparr>lc_UserAgent = rq_UserAgent r, lc_IP = clientIP r\<rparr>"

definition extractToken :: "request \<Rightarrow> string" where
  "extractToken r =
     (if length (rq_Authorization r) > 7 \<and> take 7 (rq_Authorization r) = ''Bearer '' then drop 7 (rq_Authorization r) else '''')"

definition Login_Handler :: "auth_service \<Rightarrow> request \<Rightarrow> string \<Rightarrow> string \<Rightarrow> (access, login_response reply) state" where
  "Login_Handler s r email password = do {
     x \<leftarrow> Login s (loginCtxFrom r) email password;
     State_Monad.return (case x of
        (resp, None) \<Rightarrow> Reply_OK resp
      | (_, Some err) \<Rightarrow>
          if errors_Is err ErrInvalidCredentials then Reply_Error 401 ''Invalid email or password''
          else Reply_Error 500 ''Failed to process login'')
   }"

definition Verify2FA_Handler :: "auth_service \<Rightarrow> request \<Rightarrow> string \<Rightarrow> string \<Rightarrow> (access, login_response reply) state" where
  "Verify2FA_Handler s r email otp =
     (if email = '''' then State_Monad.return (Reply_Error 400 ''Email is required for 2FA verification'')
      else do {
        x \<leftarrow> Verify2FA s (loginCtxFrom r) email otp;
        (case x of
           Inl _ \<Rightarrow> State_Monad.return (Reply_Error 401 ''Invalid OTP or failed to verify 2FA'')
         | Inr token \<Rightarrow> do {
             y \<leftarrow> GetUserByEmail s email;
             State_Monad.return (case y of
                Inl _ \<Rightarrow> Reply_Error 404 ''User not found''
              | Inr u \<Rightarrow> Reply_OK ((empty_response (u_Email u))\<lparr>lr_Token := token,
                   lr_ForcePasswordChange := u_ForcePasswordChange u, lr_PasswordInitialized := u_PasswordInitialized u\<rparr>))
           })
      })"

definition InitializePassword_Handler ::
    "auth_service \<Rightarrow> request \<Rightarrow> string \<Rightarrow> string \<Rightarrow> string \<Rightarrow> (access, login_response reply) state" where
  "InitializePassword_Handler s r email newPassword confirmPassword =
     (if newPassword \<noteq> confirmPassword then State_Monad.return (Reply_Error 400 ''Passwords do not match'')
      else do {
        x \<leftarrow> InitializePassword s email newPassword;
        (case x of
           Inl _ \<Rightarrow> State_Monad.return (Reply_Error 500 ''Failed to initialize password'')
         | Inr u \<Rightarrow> do {
             tok \<leftarrow> IssueTokenForUser s (loginCtxFrom r) (u_Email u) (u_ID u);
             State_Monad.return (case tok of
                Inl _ \<Rightarrow> Reply_Error 500 ''Failed to generate token''
              | Inr token \<Rightarrow> Reply_OK ((empty_response (u_Email u))\<lparr>lr_Token := token, lr_PasswordInitialized := True\<rparr>))
           })
      })"

text \<open>The reply of \<open>Verify\<close>: email, user identifier, name and the two flags of the user.\<close>

definition Verify_Handler :: "auth_service \<Rightarrow> request \<Rightarrow> (access, (string \<times> string \<times> string \<times> bool \<times> bool) reply) state" where
  "Verify_Handler s r =
     (if extractToken r = '''' then State_Monad.return (Reply_Error 401 ''Missing authorization token'')
      else do {
        x \<leftarrow> ValidateToken s (extractToken r);
        (case x of
           Inl _ \<Rightarrow> State_Monad.return (Reply_Error 401 ''Invalid or expired token'')
         | Inr (email, uid) \<Rightarrow> do {
             y \<leftarrow> GetUser s uid;
             State_Monad.return (case y of
                Inl _ \<Rightarrow> Reply_Error 404 ''User not found''
              | Inr u \<Rightarrow> Reply_OK (email, uid, u_Name u, u_ForcePasswordChange u, u_TwoFactorEnabled u))
           })
      })"

text \<open>The reply of \<open>ConfirmReset\<close>: the token and, as the session, the identifier of the user.\<close>

definition ConfirmReset_Handler :: "auth_service \<Rightarrow> request \<Rightarrow> string \<Rightarrow> (access, (string \<times> string) reply) state" where
  "ConfirmReset_Handler s r token = do {
     x \<leftarrow> ConfirmReset s token;
     (case x of
        Inl err \<Rightarrow> State_Monad.return
          (if errors_Is err ErrTwoFactorTokenInvalid then Reply_Error 410 ''reset token invalid or expired''
           else Reply_Error 500 ''failed to reset 2FA'')
      | Inr uid \<Rightarrow> do {
          y \<leftarrow> GetUser s uid;
          (case y of
             Inl _ \<Rightarrow> State_Monad.return (Reply_Error 500 ''failed to load user'')
           | Inr u \<Rightarrow> do {
               tok \<leftarrow> IssueTokenForUser s \<lparr>lc_UserAgent = rq_UserAgent r, lc_IP = rq_RemoteAddr r\<rparr> (u_Email u) (u_ID u);
               State_Monad.return (case tok of
                  Inl _ \<Rightarrow> Reply_Error 500 ''failed to issue session''
                | Inr jwt \<Rightarrow> Reply_OK (jwt, uid))
             })
        })
   }"

section \<open>Middleware (auth.go, scope.go, host\_credential\_auth.go)\<close>

record auth_context =
  cx_email :: string
  cx_user_id :: string
  cx_session_id :: string
  cx_auth_method :: string
  cx_api_key_scope :: APIKeyScope
  cx_api_key_id :: string

text \<open>The problem document of a refused request has a type and a message.\<close>

datatype 'a gate = Denied string string | Admitted 'a

record wiring =
  mw_auth :: bool
  mw_keys :: bool
  mw_sessions :: bool

definition extractAPIKey :: "request \<Rightarrow> string option" where
  "extractAPIKey r =
     (let key = trim_space (rq_XAPIKey r); bearer = trim_space (rq_Authorization r)
      in if key \<noteq> '''' then Some key
         else if has_prefix bearer ''Bearer pk_live_'' then Some (trim_space (drop 7 bearer))
         else None)"

definition spawn :: "background_job \<Rightarrow> (access, unit) state" where
  "spawn j = modify (\<lambda>w. w\<lparr>background := background w @ [j]\<rparr>)"

definition authenticate_key :: "auth_service \<Rightarrow> request \<Rightarrow> string \<Rightarrow> (access, auth_context gate) state" where
  "authenticate_key s r raw = do {
     x \<leftarrow> AuthenticateAPIKey (as_crypt s) raw;
     (case x of
        Inl err \<Rightarrow> State_Monad.return
          (if err = ErrAPIKeyExpired then Denied ''/problems/key-expired'' ''API key has expired''
           else Denied ''/problems/key-revoked'' ''invalid or revoked API key'')
      | Inr (key, u) \<Rightarrow> do {
          spawn (TouchKey (ak_ID key) (clientIP r));
          State_Monad.return (Admitted \<lparr>cx_email = u_Email u, cx_user_id = u_ID u, cx_session_id = '''',
             cx_auth_method = ''api_key'', cx_api_key_scope = ak_Scope key, cx_api_key_id = ak_ID key\<rparr>)
        })
   }"

definition jwt_context :: "string \<Rightarrow> string \<Rightarrow> string \<Rightarrow> auth_context" where
  "jwt_context email uid sid = \<lparr>cx_email = email, cx_user_id = uid, cx_session_id = sid, cx_auth_method = ''jwt'',
     cx_api_key_scope = APIKeyScopeReadWrite, cx_api_key_id = ''''\<rparr>"

definition authenticate_token :: "auth_service \<Rightarrow> wiring \<Rightarrow> string \<Rightarrow> (access, auth_context gate) state" where
  "authenticate_token s m token = do {
     x \<leftarrow> ValidateTokenFull s token;
     (case x of
        Inl _ \<Rightarrow> State_Monad.return (Denied ''/problems/invalid-token'' ''Invalid or expired token'')
      | Inr (email, uid, sid) \<Rightarrow>
          if mw_sessions m \<and> sid \<noteq> '''' then do {
            v \<leftarrow> ValidateSession (as_crypt s) sid;
            (case v of
               Inl _ \<Rightarrow> State_Monad.return (Denied ''/problems/session-revoked'' ''Session no longer valid'')
             | Inr _ \<Rightarrow> do { spawn (TouchSession sid); State_Monad.return (Admitted (jwt_context email uid sid)) })
          } else State_Monad.return (Admitted (jwt_context email uid sid)))
   }"

definition AuthMiddleware :: "auth_service \<Rightarrow> wiring \<Rightarrow> request \<Rightarrow> (access, auth_context gate) state" where
  "AuthMiddleware s m r =
     (case extractAPIKey r of
        Some raw \<Rightarrow>
          if \<not> mw_keys m then State_Monad.return (Denied ''/problems/unauthorized'' ''unauthorized'')
          else authenticate_key s r raw
      | None \<Rightarrow>
          if \<not> mw_auth m then State_Monad.return (Denied ''/problems/unauthorized'' ''unauthorized'')
          else if extractToken r = '''' then
            State_Monad.return (Denied ''/problems/unauthorized'' ''Missing authorization token'')
          else authenticate_token s m (extractToken r))"

text \<open>Whether the next handler is reached.\<close>

definition RequireReadWrite :: "auth_context \<Rightarrow> bool" where
  "RequireReadWrite cx \<longleftrightarrow> cx_auth_method cx \<noteq> ''api_key'' \<or> cx_api_key_scope cx \<noteq> APIKeyScopeRead"

definition RequireJWTOnly :: "auth_context \<Rightarrow> bool" where
  "RequireJWTOnly cx \<longleftrightarrow> cx_auth_method cx \<noteq> ''api_key''"

definition extractBearer :: "request \<Rightarrow> string" where
  "extractBearer r =
     (let h = rq_Authorization r
      in if length h > 7 \<and> equal_fold (take 7 h) ''Bearer '' then trim_space (drop 7 h) else '''')"

text \<open>An admitted agent is the host of its credential.\<close>

definition HostCredentialAuth :: "auth_service \<Rightarrow> bool \<Rightarrow> request \<Rightarrow> (access, string gate) state" where
  "HostCredentialAuth s wired r =
     (let denied = Denied ''/problems/unauthorized'' ''invalid or revoked host credential''
      in if extractBearer r = '''' \<or> \<not> wired then State_Monad.return denied
         else do {
           x \<leftarrow> AuthenticateHost (as_crypt s) (extractBearer r);
           State_Monad.return (case x of Inl _ \<Rightarrow> denied | Inr cred \<Rightarrow> Admitted (hc_HostID cred))
         })"

section \<open>Operations of the subsystem\<close>

definition run_job :: "auth_service \<Rightarrow> background_job \<Rightarrow> (access, error + unit) state" where
  "run_job s j = (case j of
     TouchKey kid ip \<Rightarrow> UpdateLastUsed (as_crypt s) kid ip
   | TouchSession sid \<Rightarrow> TouchLastActive (as_crypt s) sid)"

text \<open>The goroutine at a position of the list runs and is gone.\<close>

definition background_step :: "auth_service \<Rightarrow> nat \<Rightarrow> (access, unit) state" where
  "background_step s n = do {
     js \<leftarrow> State (\<lambda>w. (background w, w\<lparr>background := take n (background w) @ drop (Suc n) (background w)\<rparr>));
     (if n < length js then do { _ \<leftarrow> run_job s (js ! n); State_Monad.return () } else State_Monad.return ())
   }"

datatype access_op =
    CallCreateKey string string APIKeyScope "time option" | CallListKeys string | CallRevokeKey string string
  | CallIssueHost string | CallRotateHost string | CallRevokeHost string | CallDeleteHostCredentials string
  | CallListSessions string string | CallRevokeSession string string string | CallRevokeOthers string string
  | CallLogin request string string | CallVerify2FA request string string
  | CallInitializePassword request string string string | CallVerify request
  | CallChangePassword string string string | CallResetPassword string string
  | CallGenerateTOTP string | CallEnable2FA string string string | CallDisable2FA string string
  | CallUpdateProfile string string string | CallCreateDefaultUser string string
  | CallSetup string | CallVerifySetup string string | CallDisableTwoFactor string string
  | CallRequestReset string | CallConfirmReset request string
  | CallDeleteExpired time | CallDeleteUser string
  | CallRequest request | CallAgent request | CallBackground nat

fun permitted :: "(string \<Rightarrow> string \<Rightarrow> bool) \<Rightarrow> (string \<Rightarrow> bool) \<Rightarrow> access_op \<Rightarrow> bool" where
  "permitted may_revoke may_delete (CallRevokeKey uid kid) = may_revoke kid uid"
| "permitted may_revoke may_delete (CallDeleteUser uid) = may_delete uid"
| "permitted may_revoke may_delete p = True"

definition discard :: "('w, 'a) state \<Rightarrow> ('w, unit) state" where
  "discard m = do { _ \<leftarrow> m; State_Monad.return () }"

fun exec :: "auth_service \<Rightarrow> wiring \<Rightarrow> access_op \<Rightarrow> (access, unit) state" where
  "exec s m (CallCreateKey uid name scope expires) = discard (CreateAPIKey (as_crypt s) uid name scope expires)"
| "exec s m (CallListKeys uid) = discard (ListAPIKeys (as_crypt s) uid)"
| "exec s m (CallRevokeKey uid kid) = discard (RevokeAPIKey (as_crypt s) uid kid)"
| "exec s m (CallIssueHost hid) = discard (IssueHostCredential (as_crypt s) hid)"
| "exec s m (CallRotateHost hid) = discard (RotateHostCredential (as_crypt s) hid)"
| "exec s m (CallRevokeHost hid) = discard (RevokeHostCredential (as_crypt s) hid)"
| "exec s m (CallDeleteHostCredentials hid) = discard (HostCredentials_DeleteByHost (as_crypt s) hid)"
| "exec s m (CallListSessions uid current) = discard (ListSessions (as_crypt s) uid current)"
| "exec s m (CallRevokeSession uid sid current) = discard (RevokeSession (as_crypt s) uid sid current)"
| "exec s m (CallRevokeOthers uid current) = discard (RevokeAllOthers (as_crypt s) uid current)"
| "exec s m (CallLogin r email password) = discard (Login_Handler s r email password)"
| "exec s m (CallVerify2FA r email otp) = discard (Verify2FA_Handler s r email otp)"
| "exec s m (CallInitializePassword r email p q) = discard (InitializePassword_Handler s r email p q)"
| "exec s m (CallVerify r) = discard (Verify_Handler s r)"
| "exec s m (CallChangePassword uid p q) = discard (ChangePassword s uid p q)"
| "exec s m (CallResetPassword uid p) = discard (ResetPasswordToDefault s uid p)"
| "exec s m (CallGenerateTOTP email) = discard (GenerateTOTPSecret s email)"
| "exec s m (CallEnable2FA uid secret otp) = discard (Enable2FA s uid secret otp)"
| "exec s m (CallDisable2FA uid p) = discard (Disable2FA s uid p)"
| "exec s m (CallUpdateProfile uid name email) = discard (UpdateProfile s uid name email)"
| "exec s m (CallCreateDefaultUser email p) = discard (CreateDefaultUser s email p)"
| "exec s m (CallSetup uid) = discard (Setup s uid)"
| "exec s m (CallVerifySetup uid code) = discard (VerifySetup s uid code)"
| "exec s m (CallDisableTwoFactor uid code) = discard (DisableTwoFactor s uid code)"
| "exec s m (CallRequestReset email) = discard (RequestReset s email)"
| "exec s m (CallConfirmReset r token) = discard (ConfirmReset_Handler s r token)"
| "exec s m (CallDeleteExpired cutoff) = discard (ResetTokens_DeleteExpired (as_crypt s) cutoff)"
| "exec s m (CallDeleteUser uid) = discard (Users_Delete (as_crypt s) uid)"
| "exec s m (CallRequest r) = discard (AuthMiddleware s m r)"
| "exec s m (CallAgent r) = discard (HostCredentialAuth s True r)"
| "exec s m (CallBackground n) = background_step s n"

definition perform :: "auth_service \<Rightarrow> wiring \<Rightarrow> access_op \<Rightarrow> access \<Rightarrow> access" where
  "perform s m p w = snd (run_state (exec s m p) w)"

definition perform_all :: "auth_service \<Rightarrow> wiring \<Rightarrow> access_op list \<Rightarrow> access \<Rightarrow> access" where
  "perform_all s m ps w = fold (perform s m) ps w"

section \<open>Properties of every operation\<close>

text \<open>
  A property of the state that the statements of the repositories keep is kept by every operation. The
  two parameters exclude the revocation of some keys and the deletion of some users.
\<close>

locale access_property =
  fixes s :: auth_service
    and I :: "access \<Rightarrow> bool"
    and may_revoke :: "string \<Rightarrow> string \<Rightarrow> bool"
    and may_delete :: "string \<Rightarrow> bool"
  assumes bumped: "I w \<Longrightarrow> I (bump w)"
    and spawned: "I w \<Longrightarrow> I (w\<lparr>background := js\<rparr>)"
    and user_created: "preserves I (Users_Create (as_crypt s) u)"
    and user_updated: "preserves I (Users_Update (as_crypt s) u)"
    and password_updated: "preserves I (Users_UpdatePassword (as_crypt s) i h)"
    and login_updated: "preserves I (Users_UpdateLastLogin (as_crypt s) i)"
    and factor_updated: "preserves I (Users_UpdateTwoFactorSecret (as_crypt s) i h b)"
    and user_deleted: "may_delete i \<Longrightarrow> preserves I (Users_Delete (as_crypt s) i)"
    and key_created: "preserves I (CreateAPIKey (as_crypt s) i name scope expires)"
    and key_touched: "preserves I (APIKeys_UpdateLastUsed (as_crypt s) i t ip)"
    and key_revoked: "may_revoke i j \<Longrightarrow> preserves I (APIKeys_Revoke (as_crypt s) i j)"
    and host_issued: "preserves I (IssueHostCredential (as_crypt s) i)"
    and host_deactivated: "preserves I (HostCredentials_DeactivateAllForHost (as_crypt s) i)"
    and host_touched: "preserves I (HostCredentials_TouchLastUsed (as_crypt s) i t)"
    and host_deleted: "preserves I (HostCredentials_DeleteByHost (as_crypt s) i)"
    and session_issued: "preserves I (IssueSession (as_crypt s) i ua ip)"
    and session_touched: "preserves I (Sessions_UpdateLastActive (as_crypt s) i t)"
    and session_revoked: "preserves I (Sessions_Revoke (as_crypt s) i t)"
    and others_revoked: "preserves I (Sessions_RevokeAllExcept (as_crypt s) i j t)"
    and reset_requested: "preserves I (RequestReset s email)"
    and reset_consumed: "preserves I (ResetTokens_ConsumeByHash (as_crypt s) h t)"
    and resets_deleted: "preserves I (ResetTokens_DeleteExpired (as_crypt s) t)"
begin

lemma reads:
  "preserves I (Users_FindByID (as_crypt s) i)" "preserves I (Users_FindByEmail (as_crypt s) i)"
  "preserves I (APIKeys_FindByKeyHash (as_crypt s) i)" "preserves I (APIKeys_ListByUserID (as_crypt s) i)"
  "preserves I (HostCredentials_FindActiveByHash (as_crypt s) i)"
  "preserves I (Sessions_FindByID (as_crypt s) i)" "preserves I (Sessions_ListActiveByUser (as_crypt s) i)"
  "preserves I (now (ae s))"
  unfolding account_reads by (intro pres preserves_repo_query preserves_now bumped; assumption)+

lemma draws:
  "preserves I (rand_Read (as_crypt s) n)" "preserves I (hashPassword (as_crypt s) p)"
  "preserves I (State (\<lambda>w. (totp_generate (as_crypt s) (tick w) email, bump w)))"
  by (simp_all add: preserves_def run_simps hashPassword_def bumped)

lemma backup_codes: "preserves I (generateBackupCodes (as_crypt s) n)"
  by (induction n) (auto intro!: pres draws simp: generateRandomString_def)

lemma tokens:
  "preserves I (issueTokenWithSession s l email uid)" "preserves I (ValidateTokenFull s tok)" "preserves I (ValidateToken s tok)"
  unfolding issueTokenWithSession_def GenerateToken_def GenerateWithSession_def ValidateToken_def ValidateTokenFull_def
  by (intro pres session_issued reads)+

lemmas writes = user_created user_updated password_updated login_updated factor_updated key_created key_touched
  host_issued host_deactivated host_touched host_deleted session_touched session_revoked others_revoked
  reset_requested reset_consumed resets_deleted tokens backup_codes draws reads

lemma key_and_host_operations:
  "may_revoke kid uid \<Longrightarrow> preserves I (RevokeAPIKey (as_crypt s) uid kid)"
  "preserves I (ListAPIKeys (as_crypt s) uid)" "preserves I (AuthenticateAPIKey (as_crypt s) raw)"
  "preserves I (UpdateLastUsed (as_crypt s) kid ip)" "preserves I (RotateHostCredential (as_crypt s) hid)"
  "preserves I (RevokeHostCredential (as_crypt s) hid)" "preserves I (AuthenticateHost (as_crypt s) raw)"
  unfolding RevokeAPIKey_def ListAPIKeys_def AuthenticateAPIKey_def UpdateLastUsed_def RotateHostCredential_def
    RevokeHostCredential_def AuthenticateHost_def not_after_now_def
  by (intro pres writes key_revoked; assumption?)+

lemma session_operations:
  "preserves I (ListSessions (as_crypt s) uid sid)" "preserves I (RevokeSession (as_crypt s) uid sid current)"
  "preserves I (RevokeAllOthers (as_crypt s) uid current)" "preserves I (ValidateSession (as_crypt s) sid)"
  "preserves I (TouchLastActive (as_crypt s) sid)"
  unfolding ListSessions_def RevokeSession_def RevokeAllOthers_def ValidateSession_def TouchLastActive_def
  by (intro pres writes)+

lemma account_operations:
  "preserves I (Login s l email p)" "preserves I (Verify2FA s l email otp)" "preserves I (InitializePassword s email p)"
  "preserves I (ChangePassword s uid p q)" "preserves I (ResetPasswordToDefault s uid p)"
  "preserves I (GenerateTOTPSecret s email)" "preserves I (Enable2FA s uid secret otp)" "preserves I (Disable2FA s uid p)"
  "preserves I (UpdateProfile s uid name email)" "preserves I (CreateDefaultUser s email p)"
  unfolding Login_def login_user_def handleLegacyLogin_def legacy_user_def Verify2FA_def InitializePassword_def
    ChangePassword_def ResetPasswordToDefault_def GenerateTOTPSecret_def Enable2FA_def Disable2FA_def UpdateProfile_def
    CreateDefaultUser_def find_user_def generateRandomString_def Let_def
  by (intro pres writes)+

lemma factor_operations:
  "preserves I (Setup s uid)" "preserves I (VerifySetup s uid code)" "preserves I (DisableTwoFactor s uid code)"
  "preserves I (ConfirmReset s token)"
  unfolding Setup_def VerifySetup_def DisableTwoFactor_def ConfirmReset_def find_user_def Let_def
  by (intro pres writes account_operations)+

lemma spawn_preserves: "preserves I (spawn j)"
  by (simp add: preserves_def spawn_def run_simps spawned)

lemma request_operations:
  "preserves I (AuthMiddleware s m r)" "preserves I (HostCredentialAuth s wired r)" "preserves I (background_step s n)"
  unfolding AuthMiddleware_def authenticate_key_def authenticate_token_def HostCredentialAuth_def Let_def
  by (intro pres writes key_and_host_operations session_operations spawn_preserves)+
    (auto simp: background_step_def run_job_def preserves_def run_simps spawned split_beta split: background_job.split
      intro!: preservesD [OF key_and_host_operations(4)] preservesD [OF session_operations(5)])

lemma discard_preserves: "preserves I m \<Longrightarrow> preserves I (discard m)"
  unfolding discard_def by (intro pres)

lemma exec_preserves: "permitted may_revoke may_delete p \<Longrightarrow> preserves I (exec s m p)"
  by (cases p)
    (auto intro!: discard_preserves pres writes user_deleted key_and_host_operations session_operations account_operations
      factor_operations request_operations
      simp: Login_Handler_def Verify2FA_Handler_def InitializePassword_Handler_def Verify_Handler_def
        ConfirmReset_Handler_def GetUser_def GetUserByEmail_def IssueTokenForUser_def)

lemma run_preserves:
  "list_all (permitted may_revoke may_delete) ps \<Longrightarrow> I w \<Longrightarrow> I (perform_all s m ps w)"
  by (induction ps arbitrary: w) (simp_all add: perform_all_def perform_def preservesD [OF exec_preserves])

end

section \<open>What the composed operations leave alone\<close>

lemma keeps_composed [keep]:
  "keeps api_keys (IssueHostCredential c i)" "keeps api_keys (IssueSession c i ua ip)" "keeps api_keys (RequestReset s email)"
  "keeps host_credentials (CreateAPIKey c i name scope expires)" "keeps host_credentials (IssueSession c i ua ip)"
  "keeps host_credentials (RequestReset s email)"
  "keeps sessions (CreateAPIKey c i name scope expires)" "keeps sessions (IssueHostCredential c i)"
  "keeps sessions (RequestReset s email)"
  "keeps reset_tokens (CreateAPIKey c i name scope expires)" "keeps reset_tokens (IssueHostCredential c i)"
  "keeps reset_tokens (IssueSession c i ua ip)"
  unfolding IssueHostCredential_def IssueSession_def RequestReset_def CreateAPIKey_def issue_reset_def SendTwoFactorReset_def
    hostcred_Generate_def apikey_Generate_def generate_token_def not_after_now_def EnsureID_def Let_def
  by (intro keep; simp add: keeps_def)+

end
