(* ===== verification/Access_Runs.thy ===== *)
theory Access_Runs
  imports Accounts
begin

text \<open>
  Runs of the accounts subsystem: what every sequence of its operations, with every pattern of database
  failures, does to API keys, sessions, host credentials, reset links and passwords. The contracts are the
  locales \<open>bearer\<close> (theory \<open>Credentials\<close>) and \<open>access_property\<close> (theory \<open>Accounts\<close>): the first is interpreted
  on the four tables of secrets, the second on each invariant of the tables. The last section evaluates a
  concrete installation.
\<close>

section \<open>Every live secret was issued\<close>

definition reset_at :: "crypt \<Rightarrow> nat \<Rightarrow> string option" where
  "reset_at c n = map_option (\<lambda>b. token_Hash c (RawURLEncoding b)) (rand_bytes c n 32)"

definition keys_since :: "auth_service \<Rightarrow> access \<Rightarrow> access \<Rightarrow> bool" where
  "keys_since s w0 w \<longleftrightarrow> tick w0 \<le> tick w \<and>
     traced ak_KeyHash ak_IsActive (key_at (as_crypt s)) (tick w0) (api_keys w0) (api_keys w)"

definition hosts_since :: "auth_service \<Rightarrow> access \<Rightarrow> access \<Rightarrow> bool" where
  "hosts_since s w0 w \<longleftrightarrow> tick w0 \<le> tick w \<and>
     traced hc_Hash hc_IsActive (host_at (as_crypt s)) (tick w0) (host_credentials w0) (host_credentials w)"

definition open_session :: "session \<Rightarrow> bool" where
  "open_session x \<longleftrightarrow> se_RevokedAt x = None"

definition sessions_since :: "auth_service \<Rightarrow> access \<Rightarrow> access \<Rightarrow> bool" where
  "sessions_since s w0 w \<longleftrightarrow> tick w0 \<le> tick w \<and>
     traced se_ID open_session (session_at (as_crypt s)) (tick w0) (sessions w0) (sessions w)"

definition unused_token :: "two_factor_reset_token \<Rightarrow> bool" where
  "unused_token x \<longleftrightarrow> rt_UsedAt x = None"

definition resets_since :: "auth_service \<Rightarrow> access \<Rightarrow> access \<Rightarrow> bool" where
  "resets_since s w0 w \<longleftrightarrow> tick w0 \<le> tick w \<and>
     traced rt_TokenHash unused_token (reset_at (as_crypt s)) (tick w0) (reset_tokens w0) (reset_tokens w)"

lemma since_stable:
  "stable api_keys (keys_since s w0)" "stable host_credentials (hosts_since s w0)"
  "stable sessions (sessions_since s w0)" "stable reset_tokens (resets_since s w0)"
  by (auto simp: stable_def keys_since_def hosts_since_def sessions_since_def resets_since_def)

lemma since_bump:
  "keys_since s w0 w \<Longrightarrow> keys_since s w0 (bump w)" "hosts_since s w0 w \<Longrightarrow> hosts_since s w0 (bump w)"
  "sessions_since s w0 w \<Longrightarrow> sessions_since s w0 (bump w)" "resets_since s w0 w \<Longrightarrow> resets_since s w0 (bump w)"
  by (simp_all add: keys_since_def hosts_since_def sessions_since_def resets_since_def)

lemma keys_since_writes:
  "preserves (keys_since s w0) (Users_Delete (as_crypt s) i)"
  "preserves (keys_since s w0) (APIKeys_UpdateLastUsed (as_crypt s) i t ip)"
  "preserves (keys_since s w0) (APIKeys_Revoke (as_crypt s) i j)"
  unfolding Users_Delete_def APIKeys_UpdateLastUsed_def APIKeys_Revoke_def
  by (intro pres preserves_repo_call since_bump; simp add: keys_since_def tbl_update_def traced_filter;
      auto intro!: traced_map split: if_splits)+

lemma key_create_since:
  assumes "n \<ge> tick w0" "key_at (as_crypt s) n = Some (ak_KeyHash k)"
  shows "preserves (keys_since s w0) (APIKeys_Create (as_crypt s) k)"
  using assms unfolding APIKeys_Create_def EnsureID_def Let_def
  by (intro pres preserves_repo_call preserves_now preserves_new_id since_bump;
      auto simp: keys_since_def intro: traced_snoc)

lemma create_key_since: "preserves (keys_since s w0) (CreateAPIKey (as_crypt s) i name scope expires)"
  unfolding CreateAPIKey_def not_after_now_def APIKeys_CountByUserID_def
  by (intro pres preserves_repo_query preserves_now since_bump preserves_gives [OF gives_generate(1) [of _ "tick w0"]];
      auto simp: since_bump new_api_key_def keys_since_def intro!: pres key_create_since)

lemma hosts_since_writes:
  "preserves (hosts_since s w0) (HostCredentials_DeactivateAllForHost (as_crypt s) i)"
  "preserves (hosts_since s w0) (HostCredentials_TouchLastUsed (as_crypt s) i t)"
  "preserves (hosts_since s w0) (HostCredentials_DeleteByHost (as_crypt s) i)"
  unfolding HostCredentials_DeactivateAllForHost_def HostCredentials_TouchLastUsed_def HostCredentials_DeleteByHost_def
  by (intro pres preserves_repo_call preserves_now since_bump;
      simp add: hosts_since_def tbl_update_def traced_filter;
      auto intro!: traced_map simp: deactivated_def split: if_splits)+

lemma host_create_since:
  assumes "n \<ge> tick w0" "host_at (as_crypt s) n = Some (hc_Hash hc)"
  shows "preserves (hosts_since s w0) (HostCredentials_Create (as_crypt s) hc)"
  using assms unfolding HostCredentials_Create_def EnsureID_def Let_def
  by (intro pres preserves_repo_call preserves_now preserves_new_id since_bump;
      auto simp: hosts_since_def intro: traced_snoc)

lemma issue_host_since: "preserves (hosts_since s w0) (IssueHostCredential (as_crypt s) i)"
  unfolding IssueHostCredential_def
  by (intro preserves_gives [OF gives_generate(2) [of _ "tick w0"]];
      auto simp: since_bump hosts_since_def intro!: pres host_create_since)

lemma sessions_since_writes:
  "preserves (sessions_since s w0) (Users_Delete (as_crypt s) i)"
  "preserves (sessions_since s w0) (Sessions_UpdateLastActive (as_crypt s) i t)"
  "preserves (sessions_since s w0) (Sessions_Revoke (as_crypt s) i t)"
  "preserves (sessions_since s w0) (Sessions_RevokeAllExcept (as_crypt s) i j t)"
  unfolding Users_Delete_def Sessions_UpdateLastActive_def Sessions_Revoke_def Sessions_RevokeAllExcept_def
  by (intro pres preserves_repo_call since_bump; simp add: sessions_since_def tbl_update_def revoke_where_def traced_filter;
      auto intro!: traced_map simp: open_session_def split: if_splits)+

lemma session_create_since:
  assumes "se_ID x = '''' \<or> (\<exists>n\<ge>tick w0. session_at (as_crypt s) n = Some (se_ID x))"
  shows "preserves (sessions_since s w0) (Sessions_Create (as_crypt s) x)"
proof (rule preservesI)
  fix w assume I: "sessions_since s w0 w"
  then have "tick w0 \<le> tick w" by (simp add: sessions_since_def)
  then have "\<exists>n\<ge>tick w0. session_at (as_crypt s) n = Some (if se_ID x = '''' then ulid (ae s) (tick w) else se_ID x)"
    using assms by (auto simp: session_at_def)
  with I show "sessions_since s w0 (snd (run_state (Sessions_Create (as_crypt s) x) w))"
    by (auto simp: Sessions_Create_def EnsureID_def run_simps Let_def sessions_since_def intro: traced_snoc)
qed

lemma issue_session_since: "preserves (sessions_since s w0) (IssueSession (as_crypt s) i ua ip)"
proof (rule preservesI)
  fix w assume I: "sessions_since s w0 w"
  have "preserves (sessions_since s w0) (Sessions_Create (as_crypt s) (x\<lparr>se_ID := ulid (ae s) (Suc (tick w))\<rparr>))" for x
    by (rule session_create_since, rule disjI2, rule exI [of _ "Suc (tick w)"])
      (use I in \<open>simp add: session_at_def sessions_since_def\<close>)
  then have "sessions_since s w0 (snd (run_state (Sessions_Create (as_crypt s) (x\<lparr>se_ID := ulid (ae s) (Suc (tick w))\<rparr>)) (bump (bump w))))" for x
    by (rule preservesD) (intro since_bump I)
  from this [of "\<lparr>se_ID = '''', se_UserID = i, se_Browser = fst (parseUserAgent ua), se_OS = snd (parseUserAgent ua),
       se_IP = ip, se_Location = None, se_LastActiveAt = clock (ae s) (tick w), se_CreatedAt = clock (ae s) (tick w), se_RevokedAt = None\<rparr>"]
  show "sessions_since s w0 (snd (run_state (IssueSession (as_crypt s) i ua ip) w))"
    by (simp add: IssueSession_def EnsureID_def run_simps)
qed

lemma resets_since_writes:
  "preserves (resets_since s w0) (Users_Delete (as_crypt s) i)"
  "preserves (resets_since s w0) (ResetTokens_ConsumeByHash (as_crypt s) h t)"
  "preserves (resets_since s w0) (ResetTokens_DeleteExpired (as_crypt s) t)"
  unfolding Users_Delete_def ResetTokens_ConsumeByHash_def ResetTokens_DeleteExpired_def
  by (intro pres preserves_repo_call preserves_repo_query since_bump; simp add: resets_since_def traced_filter;
      auto intro!: traced_map simp: unused_token_def split: if_splits)+

lemma reset_create_since:
  assumes "n \<ge> tick w0" "reset_at (as_crypt s) n = Some (rt_TokenHash x)"
  shows "preserves (resets_since s w0) (ResetTokens_Create (as_crypt s) x)"
  using assms unfolding ResetTokens_Create_def Let_def
  by (intro pres preserves_repo_call preserves_now since_bump; auto simp: resets_since_def intro: traced_snoc)

lemma gives_reset:
  assumes "\<And>w. I w \<Longrightarrow> I (bump w)" and "\<And>w. I w \<Longrightarrow> n0 \<le> tick w"
  shows "gives I (rand_Read c 32) (\<lambda>b. \<exists>n\<ge>n0. reset_at c n = Some (token_Hash c (RawURLEncoding b)))"
  using assms by (auto simp: gives_def run_simps reset_at_def split: option.splits)

lemma send_reset_since: "preserves (resets_since s w0) (SendTwoFactorReset recipient link)"
  by (simp add: preserves_def SendTwoFactorReset_def resets_since_def)

lemma request_reset_since: "preserves (resets_since s w0) (RequestReset s email)"
  unfolding RequestReset_def issue_reset_def Users_FindByEmail_def ResetTokens_CountRecentByUser_def Let_def
  by (intro pres preserves_repo_query preserves_now since_bump preserves_gives [OF gives_reset [of _ "tick w0"]];
      auto simp: since_bump resets_since_def intro!: pres preserves_now since_bump reset_create_since send_reset_since)

text \<open>Where a step does not touch the table the property holds because the table is kept.\<close>

interpretation keys: access_property s "keys_since s w0" "\<lambda>_ _. True" "\<lambda>_. True" for s w0
  by unfold_locales
    (rule keys_since_writes create_key_since | erule since_bump
      | rule keeps_preserves [OF _ since_stable(1)], rule keeps_api_keys keeps_composed | simp add: keys_since_def)+

interpretation hosts: access_property s "hosts_since s w0" "\<lambda>_ _. True" "\<lambda>_. True" for s w0
  by unfold_locales
    (rule hosts_since_writes issue_host_since | erule since_bump
      | rule keeps_preserves [OF _ since_stable(2)], rule keeps_host_credentials keeps_composed | simp add: hosts_since_def)+

interpretation sess: access_property s "sessions_since s w0" "\<lambda>_ _. True" "\<lambda>_. True" for s w0
  by unfold_locales
    (rule sessions_since_writes issue_session_since | erule since_bump
      | rule keeps_preserves [OF _ since_stable(3)], rule keeps_sessions keeps_composed | simp add: sessions_since_def)+

interpretation resets: access_property s "resets_since s w0" "\<lambda>_ _. True" "\<lambda>_. True" for s w0
  by unfold_locales
    (rule resets_since_writes request_reset_since | erule since_bump
      | rule keeps_preserves [OF _ since_stable(4)], rule keeps_reset_tokens keeps_composed | simp add: resets_since_def)+

text \<open>The four tables of secrets satisfy the contract of bearer secrets for every operation.\<close>

lemma permitted_True [simp]: "permitted (\<lambda>_ _. True) (\<lambda>_. True) p"
  by (cases p) auto

interpretation key_secrets: bearer "perform s m" tick api_keys ak_KeyHash ak_IsActive "key_at (as_crypt s)" for s m
proof unfold_locales
  fix w p
  have *: "keys_since s w (perform s m p w)"
    using preservesD [OF keys.exec_preserves] by (simp add: perform_def keys_since_def)
  show "tick w \<le> tick (perform s m p w)" using * by (simp add: keys_since_def)
  fix r assume "r \<in> set (api_keys (perform s m p w))" "ak_IsActive r"
  with * show "(\<exists>r'\<in>set (api_keys w). ak_IsActive r' \<and> ak_KeyHash r' = ak_KeyHash r) \<or>
      (\<exists>n\<ge>tick w. key_at (as_crypt s) n = Some (ak_KeyHash r))"
    by (simp add: keys_since_def traced_def)
qed

interpretation host_secrets: bearer "perform s m" tick host_credentials hc_Hash hc_IsActive "host_at (as_crypt s)" for s m
proof unfold_locales
  fix w p
  have *: "hosts_since s w (perform s m p w)"
    using preservesD [OF hosts.exec_preserves] by (simp add: perform_def hosts_since_def)
  show "tick w \<le> tick (perform s m p w)" using * by (simp add: hosts_since_def)
  fix r assume "r \<in> set (host_credentials (perform s m p w))" "hc_IsActive r"
  with * show "(\<exists>r'\<in>set (host_credentials w). hc_IsActive r' \<and> hc_Hash r' = hc_Hash r) \<or>
      (\<exists>n\<ge>tick w. host_at (as_crypt s) n = Some (hc_Hash r))"
    by (simp add: hosts_since_def traced_def)
qed

interpretation session_secrets: bearer "perform s m" tick sessions se_ID open_session "session_at (as_crypt s)" for s m
proof unfold_locales
  fix w p
  have *: "sessions_since s w (perform s m p w)"
    using preservesD [OF sess.exec_preserves] by (simp add: perform_def sessions_since_def)
  show "tick w \<le> tick (perform s m p w)" using * by (simp add: sessions_since_def)
  fix r assume "r \<in> set (sessions (perform s m p w))" "open_session r"
  with * show "(\<exists>r'\<in>set (sessions w). open_session r' \<and> se_ID r' = se_ID r) \<or>
      (\<exists>n\<ge>tick w. session_at (as_crypt s) n = Some (se_ID r))"
    by (simp add: sessions_since_def traced_def)
qed

interpretation reset_secrets: bearer "perform s m" tick reset_tokens rt_TokenHash unused_token "reset_at (as_crypt s)" for s m
proof unfold_locales
  fix w p
  have *: "resets_since s w (perform s m p w)"
    using preservesD [OF resets.exec_preserves] by (simp add: perform_def resets_since_def)
  show "tick w \<le> tick (perform s m p w)" using * by (simp add: resets_since_def)
  fix r assume "r \<in> set (reset_tokens (perform s m p w))" "unused_token r"
  with * show "(\<exists>r'\<in>set (reset_tokens w). unused_token r' \<and> rt_TokenHash r' = rt_TokenHash r) \<or>
      (\<exists>n\<ge>tick w. reset_at (as_crypt s) n = Some (rt_TokenHash r))"
    by (simp add: resets_since_def traced_def)
qed

section \<open>Keys of a user\<close>

definition keys_of :: "string \<Rightarrow> api_key list \<Rightarrow> api_key list" where
  "keys_of uid t = filter (\<lambda>k. ak_UserID k = uid) t"

definition keys_ok :: "access \<Rightarrow> bool" where
  "keys_ok w \<longleftrightarrow> distinct_keys ak_KeyHash (api_keys w) \<and> (\<forall>uid. length (keys_of uid (api_keys w)) \<le> maxAPIKeysPerUser)"

lemma keys_ok_bump: "keys_ok w \<Longrightarrow> keys_ok (bump w)"
  by (simp add: keys_ok_def)

lemma keys_ok_stable: "stable api_keys keys_ok"
  by (simp add: stable_def keys_ok_def)

lemma keys_of_filter: "length (keys_of uid (filter P t)) \<le> length (keys_of uid t)"
  by (induction t) (simp_all add: keys_of_def)

lemma keys_of_map: "(\<And>k. ak_UserID (f k) = ak_UserID k) \<Longrightarrow> length (keys_of uid (map f t)) = length (keys_of uid t)"
  by (induction t) (simp_all add: keys_of_def)

lemma keys_ok_writes:
  "preserves keys_ok (Users_Delete c i)" "preserves keys_ok (APIKeys_UpdateLastUsed c i t ip)" "preserves keys_ok (APIKeys_Revoke c i j)"
  unfolding Users_Delete_def APIKeys_UpdateLastUsed_def APIKeys_Revoke_def
  by (intro pres preserves_repo_call keys_ok_bump; simp add: keys_ok_def tbl_update_def;
      auto simp: keys_of_map distinct_keys_def comp_def distinct_map_filter if_distrib [of ak_KeyHash] cong: if_cong
        intro: le_trans [OF keys_of_filter])+

lemma create_key_run:
  assumes "run_state (CreateAPIKey c uid name scope expires) w = (x, w')"
  shows "(\<forall>y. x \<noteq> Inr y) \<and> api_keys w' = api_keys w \<and> users w' = users w \<or>
    (\<exists>raw k b n. x = Inr (raw, k) \<and> api_keys w' = api_keys w @ [k] \<and> users w' = users w \<and>
       raw = apikey_prefix @ hex_encode b \<and> rand_bytes c n 16 = Some b \<and>
       ak_KeyHash k = token_Hash c raw \<and> token_Hash c raw \<notin> ak_KeyHash ` set (api_keys w) \<and>
       ak_UserID k = uid \<and> uid \<in> u_ID ` set (users w) \<and> ak_Scope k = scope \<and> ak_ExpiresAt k = expires \<and> ak_IsActive k \<and>
       length (keys_of uid (api_keys w)) < maxAPIKeysPerUser)"
  using assms
  by (auto simp: CreateAPIKey_def not_after_now_def APIKeys_CountByUserID_def apikey_Generate_def generate_token_def
      APIKeys_Create_def EnsureID_def run_and_then run_simps Let_def keys_of_def new_api_key_def wrap_db_def tbl_has_iff
      split: if_splits option.splits sum.splits prod.splits)

lemma keys_ok_create: "preserves keys_ok (CreateAPIKey c uid name scope expires)"
proof (rule preservesI)
  fix w assume I: "keys_ok w"
  obtain x w' where run: "run_state (CreateAPIKey c uid name scope expires) w = (x, w')" by fastforce
  from create_key_run [OF run] I show "keys_ok (snd (run_state (CreateAPIKey c uid name scope expires) w))"
    by (auto simp: run keys_ok_def distinct_keys_def keys_of_def)
qed

interpretation limit: access_property s keys_ok "\<lambda>_ _. True" "\<lambda>_. True" for s
  by unfold_locales
    (rule keys_ok_writes keys_ok_create | erule keys_ok_bump
      | rule keeps_preserves [OF _ keys_ok_stable], rule keeps_api_keys keeps_composed | simp add: keys_ok_def)+

lemma reachable_keys_ok: "api_keys w = [] \<Longrightarrow> keys_ok (perform_all s m ps w)"
  by (rule limit.run_preserves) (simp_all add: list_all_iff keys_ok_def distinct_keys_def keys_of_def)

text \<open>A key that nobody revokes, of a user that nobody deletes, stays as it was issued.\<close>

definition same_key :: "api_key \<Rightarrow> api_key \<Rightarrow> bool" where
  "same_key k r \<longleftrightarrow> ak_IsActive r \<and> ak_ID r = ak_ID k \<and> ak_KeyHash r = ak_KeyHash k \<and> ak_UserID r = ak_UserID k \<and>
     ak_Scope r = ak_Scope k \<and> ak_ExpiresAt r = ak_ExpiresAt k"

definition key_held :: "api_key \<Rightarrow> access \<Rightarrow> bool" where
  "key_held k w \<longleftrightarrow> ak_UserID k \<in> u_ID ` set (users w) \<and> list_ex (same_key k) (api_keys w)"

definition key_lives :: "api_key \<Rightarrow> access \<Rightarrow> bool" where
  "key_lives k = (\<lambda>w. keys_ok w \<and> key_held k w)"

lemma list_ex_map_mono: "(\<And>x. P x \<Longrightarrow> P (f x)) \<Longrightarrow> list_ex P t \<Longrightarrow> list_ex P (map f t)"
  by (auto simp: list_ex_iff)

definition key_part :: "access \<Rightarrow> api_key list \<times> string set" where
  "key_part w = (api_keys w, u_ID ` set (users w))"

lemma key_lives_bump: "key_lives k w \<Longrightarrow> key_lives k (bump w)"
  by (simp add: key_lives_def keys_ok_def key_held_def)

lemma key_lives_stable: "stable key_part (key_lives k)"
  by (simp add: stable_def key_lives_def keys_ok_def key_held_def key_part_def)

lemma key_part_bump [simp]: "key_part (bump w) = key_part w"
  by (simp add: key_part_def)

lemma tbl_update_image: "(\<And>r. key (f r) = key r) \<Longrightarrow> key ` set (tbl_update key i f t) = key ` set t"
  by (metis set_map tbl_update_keys)

lemma keeps_key_part [keep]:
  "keeps key_part (Users_Update c u)" "keeps key_part (Users_UpdatePassword c i h)" "keeps key_part (Users_UpdateLastLogin c i)"
  "keeps key_part (Users_UpdateTwoFactorSecret c i h b)"
  "keeps key_part (HostCredentials_Create c hc)" "keeps key_part (HostCredentials_DeactivateAllForHost c i)"
  "keeps key_part (HostCredentials_TouchLastUsed c i t)" "keeps key_part (HostCredentials_DeleteByHost c i)"
  "keeps key_part (Sessions_Create c x)" "keeps key_part (Sessions_UpdateLastActive c i t)" "keeps key_part (Sessions_Revoke c i t)"
  "keeps key_part (Sessions_RevokeAllExcept c i j t)"
  "keeps key_part (ResetTokens_Create c tok)" "keeps key_part (ResetTokens_ConsumeByHash c i t)"
  "keeps key_part (ResetTokens_DeleteExpired c t)"
  unfolding user_writes host_writes session_writes reset_writes
  by (intro keep; simp add: key_part_def tbl_update_image user_columns_def)+

lemma keeps_key_part_composed [keep]:
  "keeps key_part (IssueHostCredential c i)" "keeps key_part (IssueSession c i ua ip)" "keeps key_part (RequestReset s email)"
  unfolding IssueHostCredential_def IssueSession_def RequestReset_def issue_reset_def SendTwoFactorReset_def
    hostcred_Generate_def generate_token_def EnsureID_def Let_def
  by (intro keep; simp add: keeps_def key_part_def)+

lemma key_held_writes:
  "preserves (key_held k) (Users_Create c u)"
  "i \<noteq> ak_UserID k \<Longrightarrow> preserves (key_held k) (Users_Delete c i)"
  "preserves (key_held k) (APIKeys_UpdateLastUsed c i t ip)"
  "\<not> (i = ak_ID k \<and> j = ak_UserID k) \<Longrightarrow> preserves (key_held k) (APIKeys_Revoke c i j)"
proof -
  show "preserves (key_held k) (Users_Create c u)" "i \<noteq> ak_UserID k \<Longrightarrow> preserves (key_held k) (Users_Delete c i)"
    unfolding Users_Create_def Users_Delete_def EnsureID_def Let_def
    by (intro pres preserves_repo_call preserves_now preserves_new_id;
        auto simp: key_held_def tbl_delete_def list_ex_iff same_key_def)+
  show "preserves (key_held k) (APIKeys_UpdateLastUsed c i t ip)"
    "\<not> (i = ak_ID k \<and> j = ak_UserID k) \<Longrightarrow> preserves (key_held k) (APIKeys_Revoke c i j)"
    unfolding APIKeys_UpdateLastUsed_def APIKeys_Revoke_def
    by (intro pres preserves_repo_call; auto simp: key_held_def tbl_update_def intro!: list_ex_map_mono;
        auto simp: same_key_def owned_key_def)+
qed

lemma key_lives_writes:
  "preserves (key_lives k) (Users_Create c u)"
  "i \<noteq> ak_UserID k \<Longrightarrow> preserves (key_lives k) (Users_Delete c i)"
  "preserves (key_lives k) (APIKeys_UpdateLastUsed c i t ip)"
  "\<not> (i = ak_ID k \<and> j = ak_UserID k) \<Longrightarrow> preserves (key_lives k) (APIKeys_Revoke c i j)"
  unfolding key_lives_def
  by (intro preserves_conj key_held_writes keys_ok_writes keeps_preserves [OF keeps_api_keys(1) keys_ok_stable]; assumption)+

lemma key_lives_create: "preserves (key_lives k) (CreateAPIKey c uid name scope expires)"
proof (rule preservesI)
  fix w assume I: "key_lives k w"
  obtain x w' where run: "run_state (CreateAPIKey c uid name scope expires) w = (x, w')" by fastforce
  have "keys_ok w'" using preservesD [OF keys_ok_create] I run by (metis key_lives_def snd_conv)
  with create_key_run [OF run] I show "key_lives k (snd (run_state (CreateAPIKey c uid name scope expires) w))"
    by (auto simp: run key_lives_def key_held_def)
qed

interpretation held: access_property s "key_lives k" "\<lambda>i j. \<not> (i = ak_ID k \<and> j = ak_UserID k)" "\<lambda>i. i \<noteq> ak_UserID k" for s k
  by unfold_locales
    ((rule key_lives_writes key_lives_create; assumption?) | erule key_lives_bump
      | rule keeps_preserves [OF _ key_lives_stable], rule keeps_key_part keeps_key_part_composed
      | simp add: key_lives_def key_held_def keys_ok_def)+

section \<open>Revocation\<close>

lemma admitted_key:
  assumes "extractAPIKey r = Some raw" "fst (run_state (AuthMiddleware s m r) w) = Admitted cx"
  shows "\<exists>k\<in>set (api_keys w). ak_IsActive k \<and> ak_KeyHash k = token_Hash (as_crypt s) raw"
  using assms
  by (auto simp: AuthMiddleware_def authenticate_key_def AuthenticateAPIKey_def APIKeys_FindByKeyHash_def run_simps
      wrap_db_def split: if_splits option.splits sum.splits prod.splits dest: tbl_find_Some_key)

lemma revoke_key_run:
  assumes "run_state (RevokeAPIKey c uid kid) w = (Inr u, w1)"
  shows "api_keys w1 = map (\<lambda>k. if owned_key kid uid k then k\<lparr>ak_IsActive := False\<rparr> else k) (api_keys w) \<and> tick w1 = Suc (tick w)"
  using assms by (auto simp: RevokeAPIKey_def APIKeys_Revoke_def run_simps wrap_db_def split: if_splits sum.splits)

lemma gate_cases: "(\<And>cx. g \<noteq> Admitted cx) \<Longrightarrow> \<exists>ty msg. g = Denied ty msg"
  by (cases g) auto

text \<open>
  C24: A key that was revoked opens nothing any more: in every run from empty tables, after a successful
  revocation of the key and any further operations, a request that presents it is refused - provided that
  no key made later has the same digest.
\<close>

theorem revoked_key_is_refused:
  assumes "api_keys w0 = []" and w: "w = perform_all s m before w0"
    and k: "k \<in> set (api_keys w)" "ak_KeyHash k = token_Hash (as_crypt s) raw"
    and revoked: "run_state (RevokeAPIKey (as_crypt s) (ak_UserID k) (ak_ID k)) w = (Inr u, w1)"
    and fresh: "\<And>n. n \<ge> tick w \<Longrightarrow> key_at (as_crypt s) n \<noteq> Some (token_Hash (as_crypt s) raw)"
    and r: "extractAPIKey r = Some raw"
  shows "\<exists>ty msg. fst (run_state (AuthMiddleware s m r) (perform_all s m after w1)) = Denied ty msg"
proof (rule gate_cases, rule notI)
  fix cx assume "fst (run_state (AuthMiddleware s m r) (perform_all s m after w1)) = Admitted cx"
  then obtain q where q: "q \<in> set (api_keys (perform_all s m after w1))" "ak_IsActive q"
    "ak_KeyHash q = token_Hash (as_crypt s) raw"
    using admitted_key [OF r] by blast
  have inj: "inj_on ak_KeyHash (set (api_keys w))"
    using reachable_keys_ok [OF assms(1)] by (simp add: w keys_ok_def distinct_keys_def distinct_map)
  have dead: "ak_KeyHash k' \<noteq> token_Hash (as_crypt s) raw" if "k' \<in> set (api_keys w1)" "ak_IsActive k'" for k'
  proof
    assume h: "ak_KeyHash k' = token_Hash (as_crypt s) raw"
    from that(1) revoke_key_run [OF revoked] obtain x where x: "x \<in> set (api_keys w)"
      "k' = (if owned_key (ak_ID k) (ak_UserID k) x then x\<lparr>ak_IsActive := False\<rparr> else x)" by auto
    from h x(2) have "ak_KeyHash x = ak_KeyHash k" by (simp add: k(2) split: if_splits)
    then have "x = k" using inj_onD [OF inj _ x(1) k(1)] by blast
    with x(2) that(2) show False by (simp add: owned_key_def)
  qed
  have "\<And>n. n \<ge> tick w1 \<Longrightarrow> key_at (as_crypt s) n \<noteq> Some (token_Hash (as_crypt s) raw)"
    using fresh revoke_key_run [OF revoked] by simp
  from key_secrets.dead_stays_dead [OF dead this] q show False
    unfolding perform_all_def by blast
qed

definition sessions_ok :: "access \<Rightarrow> bool" where
  "sessions_ok w \<longleftrightarrow> distinct_keys se_ID (sessions w)"

lemma sessions_ok_bump: "sessions_ok w \<Longrightarrow> sessions_ok (bump w)"
  by (simp add: sessions_ok_def)

lemma sessions_ok_stable: "stable sessions sessions_ok"
  by (simp add: stable_def sessions_ok_def)

lemma revoke_where_ids [simp]: "map se_ID (revoke_where P t xs) = map se_ID xs"
  by (simp add: revoke_where_def)

lemma sessions_ok_writes:
  "preserves sessions_ok (Users_Delete c i)" "preserves sessions_ok (Sessions_UpdateLastActive c i t)"
  "preserves sessions_ok (Sessions_Revoke c i t)" "preserves sessions_ok (Sessions_RevokeAllExcept c i j t)"
  "preserves sessions_ok (IssueSession c i ua ip)"
  unfolding Users_Delete_def Sessions_UpdateLastActive_def Sessions_Revoke_def Sessions_RevokeAllExcept_def
    IssueSession_def Sessions_Create_def EnsureID_def Let_def
  by (intro pres preserves_repo_call preserves_now preserves_new_id sessions_ok_bump;
      auto simp: sessions_ok_def distinct_keys_def distinct_map_filter tbl_has_iff)+

interpretation once: access_property s sessions_ok "\<lambda>_ _. True" "\<lambda>_. True" for s
  by unfold_locales
    (rule sessions_ok_writes | erule sessions_ok_bump
      | rule keeps_preserves [OF _ sessions_ok_stable], rule keeps_sessions keeps_composed | simp add: sessions_ok_def)+

lemma reachable_sessions_ok: "sessions w = [] \<Longrightarrow> sessions_ok (perform_all s m ps w)"
  by (rule once.run_preserves) (simp_all add: list_all_iff sessions_ok_def distinct_keys_def)

text \<open>A request with a bearer token that names a session.\<close>

definition bound_to :: "auth_service \<Rightarrow> request \<Rightarrow> string \<Rightarrow> bool" where
  "bound_to s r sid \<longleftrightarrow> extractAPIKey r = None \<and>
     (\<forall>t jc. jwt_parse (as_crypt s) t (extractToken r) = Some jc \<longrightarrow> jc_SessionID jc = sid)"

lemma admitted_session:
  assumes "bound_to s r sid" "sid \<noteq> ''''" "mw_sessions m" "fst (run_state (AuthMiddleware s m r) w) = Admitted cx"
  shows "\<exists>x\<in>set (sessions w). open_session x \<and> se_ID x = sid"
  using assms
  by (auto simp: bound_to_def AuthMiddleware_def authenticate_token_def ValidateTokenFull_def ValidateSession_def
      Sessions_FindByID_def run_simps wrap_db_def open_session_def
      split: if_splits option.splits sum.splits prod.splits dest!: tbl_find_Some_key)

lemma revoke_session_run:
  assumes "run_state (RevokeSession c uid sid current) w = (Inr u, w1)"
  shows "\<exists>t. sessions w1 = revoke_where (\<lambda>x. se_ID x = sid) t (sessions w) \<and> tick w \<le> tick w1"
  using assms
  by (auto simp: RevokeSession_def Sessions_FindByID_def Sessions_Revoke_def run_simps wrap_db_def
      split: if_splits option.splits sum.splits)

lemma revoke_others_run:
  assumes "run_state (RevokeAllOthers c uid current) w = (Inr u, w1)"
  shows "\<exists>t. sessions w1 = revoke_where (other_session uid current) t (sessions w) \<and> tick w \<le> tick w1"
  using assms by (auto simp: RevokeAllOthers_def Sessions_RevokeAllExcept_def run_simps wrap_db_def split: if_splits)

lemma revoked_where: "x \<in> set (revoke_where P t xs) \<Longrightarrow> open_session x \<Longrightarrow> x \<in> set xs \<and> \<not> P x"
  by (auto simp: revoke_where_def open_session_def split: if_splits)

text \<open>The session is ended, alone or as one of the other sessions of its user.\<close>

definition session_ended :: "auth_service \<Rightarrow> string \<Rightarrow> access \<Rightarrow> access \<Rightarrow> bool" where
  "session_ended s sid w w1 \<longleftrightarrow>
     (\<exists>uid current. run_state (RevokeSession (as_crypt s) uid sid current) w = (Inr (), w1)) \<or>
     (\<exists>uid current n. run_state (RevokeAllOthers (as_crypt s) uid current) w = (Inr n, w1) \<and> sid \<noteq> current \<and>
        (\<exists>x\<in>set (sessions w). se_ID x = sid \<and> se_UserID x = uid))"

lemma session_ended_tick: "session_ended s sid w w1 \<Longrightarrow> tick w \<le> tick w1"
  unfolding session_ended_def using revoke_session_run revoke_others_run by blast

lemma session_ended_effect:
  assumes "session_ended s sid w w1" "sessions_ok w" "x \<in> set (sessions w1)" "open_session x"
  shows "se_ID x \<noteq> sid"
  using assms(1) unfolding session_ended_def
proof (elim disjE exE conjE bexE)
  fix uid current
  assume "run_state (RevokeSession (as_crypt s) uid sid current) w = (Inr (), w1)"
  from revoke_session_run [OF this] assms(3,4) show ?thesis by (auto dest: revoked_where)
next
  fix uid current n y
  assume run: "run_state (RevokeAllOthers (as_crypt s) uid current) w = (Inr n, w1)"
    and y: "sid \<noteq> current" "y \<in> set (sessions w)" "se_ID y = sid" "se_UserID y = uid"
  from revoke_others_run [OF run] assms(3,4) have x: "x \<in> set (sessions w)" "\<not> other_session uid current x"
    by (auto dest: revoked_where)
  have "inj_on se_ID (set (sessions w))"
    using assms(2) by (simp add: sessions_ok_def distinct_keys_def distinct_map)
  then have "x = y" if "se_ID x = sid"
    using that y(3) x(1) y(2) by (auto dest: inj_onD)
  with x y show ?thesis by (auto simp: other_session_def)
qed

text \<open>
  C26: A session that was ended is over for good: after any further operations, with any database failures,
  no request whose token names it passes the middleware - provided no later session gets its identifier.
\<close>

theorem ended_session_is_refused:
  assumes "sessions w0 = []" and w: "w = perform_all s m before w0" and "mw_sessions m"
    and ended: "session_ended s sid w w1"
    and fresh: "\<And>n. n \<ge> tick w \<Longrightarrow> ulid (ae s) n \<noteq> sid" and "sid \<noteq> ''''"
    and r: "bound_to s r sid"
  shows "\<exists>ty msg. fst (run_state (AuthMiddleware s m r) (perform_all s m after w1)) = Denied ty msg"
proof (rule gate_cases, rule notI)
  fix cx assume "fst (run_state (AuthMiddleware s m r) (perform_all s m after w1)) = Admitted cx"
  then obtain x where x: "x \<in> set (sessions (perform_all s m after w1))" "open_session x" "se_ID x = sid"
    using admitted_session [OF r \<open>sid \<noteq> ''''\<close> \<open>mw_sessions m\<close>] by blast
  have ok: "sessions_ok w" using reachable_sessions_ok [OF assms(1)] by (simp add: w)
  have dead: "se_ID y \<noteq> sid" if "y \<in> set (sessions w1)" "open_session y" for y
    using session_ended_effect [OF ended ok that] by simp
  have "\<And>n. n \<ge> tick w1 \<Longrightarrow> session_at (as_crypt s) n \<noteq> Some sid"
    using fresh session_ended_tick [OF ended] by (simp add: session_at_def)
  from session_secrets.dead_stays_dead [OF dead this] x show False
    unfolding perform_all_def by blast
qed

section \<open>Issued keys\<close>

lemma key_gate_run:
  assumes "mw_keys m" "extractAPIKey r = Some raw" "IsAPIKeyFormat raw"
    and nf: "\<And>n. n \<ge> tick w \<Longrightarrow> \<not> fault (ae s) n"
    and k: "tbl_find ak_KeyHash (token_Hash (as_crypt s) raw) (api_keys w) = Some k" "ak_IsActive k"
    and "\<And>t. ak_ExpiresAt k = Some t \<Longrightarrow> clock (ae s) (Suc (tick w)) < t"
    and u: "tbl_find u_ID (ak_UserID k) (users w) = Some u"
  shows "fst (run_state (AuthMiddleware s m r) w) =
    Admitted \<lparr>cx_email = u_Email u, cx_user_id = u_ID u, cx_session_id = '''', cx_auth_method = ''api_key'',
      cx_api_key_scope = ak_Scope k, cx_api_key_id = ak_ID k\<rparr>"
  using assms
  by (auto simp: AuthMiddleware_def authenticate_key_def AuthenticateAPIKey_def APIKeys_FindByKeyHash_def Users_FindByID_def
      not_after_now_def spawn_def run_simps wrap_db_def split: option.splits)

lemma generated_key_format: "rand_bytes c n 16 = Some b \<Longrightarrow> length b = 16 \<Longrightarrow> IsAPIKeyFormat (apikey_prefix @ hex_encode b)"
  by (cases b) (auto simp: IsAPIKeyFormat_def token_format_def hex_encode_def Let_def)

text \<open>
  C25: A key works until it is revoked, expires or its user is deleted: whatever other operations run after its
  creation, and whatever fails in them, a request with it is admitted as its user with its scope when the
  database answers.
\<close>

theorem issued_key_works_until_revoked:
  assumes "api_keys w0 = []" and w: "w = perform_all s m before w0"
    and made: "run_state (CreateAPIKey (as_crypt s) uid name scope expires) w = (Inr (raw, k), w1)"
    and draws: "\<And>n b. rand_bytes (as_crypt s) n 16 = Some b \<Longrightarrow> length b = 16"
    and ops: "list_all (permitted (\<lambda>i j. \<not> (i = ak_ID k \<and> j = uid)) (\<lambda>i. i \<noteq> uid)) after"
    and w2: "w2 = perform_all s m after w1" and nf: "\<And>n. n \<ge> tick w2 \<Longrightarrow> \<not> fault (ae s) n"
    and valid: "\<And>t. expires = Some t \<Longrightarrow> clock (ae s) (Suc (tick w2)) < t"
    and m: "mw_keys m" "extractAPIKey r = Some raw"
  shows "\<exists>cx. fst (run_state (AuthMiddleware s m r) w2) = Admitted cx \<and> cx_auth_method cx = ''api_key'' \<and>
    cx_user_id cx = uid \<and> cx_api_key_scope cx = scope \<and> cx_api_key_id cx = ak_ID k"
proof -
  have ok: "keys_ok w" using reachable_keys_ok [OF assms(1)] by (simp add: w)
  from create_key_run [OF made] obtain b n where k: "api_keys w1 = api_keys w @ [k]" "users w1 = users w"
    "raw = apikey_prefix @ hex_encode b" "rand_bytes (as_crypt s) n 16 = Some b" "ak_KeyHash k = token_Hash (as_crypt s) raw"
    "ak_UserID k = uid" "uid \<in> u_ID ` set (users w)" "ak_Scope k = scope" "ak_ExpiresAt k = expires" "ak_IsActive k"
    by auto
  have "keys_ok w1" using preservesD [OF keys_ok_create ok] made by (metis snd_conv)
  with k have "key_lives k w1" by (simp add: key_lives_def key_held_def same_key_def)
  with held.run_preserves [of k after w1 s m] ops have lives: "key_lives k w2" by (simp add: w2 k(6))
  then obtain q where q: "q \<in> set (api_keys w2)" "same_key k q" by (auto simp: key_lives_def key_held_def list_ex_iff)
  with lives have find: "tbl_find ak_KeyHash (token_Hash (as_crypt s) raw) (api_keys w2) = Some q"
    using tbl_find_distinct [of ak_KeyHash "api_keys w2" q] by (simp add: key_lives_def keys_ok_def same_key_def k(5))
  obtain u where u: "tbl_find u_ID uid (users w2) = Some u"
    using lives k(6) by (cases "tbl_find u_ID uid (users w2)") (auto simp: key_lives_def key_held_def tbl_find_None)
  have "IsAPIKeyFormat raw" using generated_key_format [OF k(4) draws [OF k(4)]] by (simp add: k(3))
  from key_gate_run [OF m this nf find, of u] q(2) u valid show ?thesis
    by (auto simp: same_key_def k dest!: tbl_find_Some_key)
qed

section \<open>Reset links\<close>

lemma find_SomeD: "find P xs = Some x \<Longrightarrow> x \<in> set xs \<and> P x"
  by (auto simp: find_Some_iff)

lemma confirm_reset_run:
  assumes "run_state (ConfirmReset s tok) w = (Inr uid, w1)"
  shows "\<exists>x\<in>set (reset_tokens w). unused_token x \<and> rt_TokenHash x = token_Hash (as_crypt s) (trim_space tok)"
    and "x \<in> set (reset_tokens w1) \<Longrightarrow> unused_token x \<Longrightarrow> rt_TokenHash x \<noteq> token_Hash (as_crypt s) (trim_space tok)"
    and "tick w \<le> tick w1"
  using assms
  by (auto simp: ConfirmReset_def ResetTokens_ConsumeByHash_def Users_UpdateTwoFactorSecret_def run_simps Let_def wrap_db_def
      unused_token_def split: if_splits option.splits sum.splits prod.splits dest!: find_SomeD)

text \<open>
  C27: A reset link works once: it was drawn by the service, and after it has been used no run of the subsystem
  accepts it again, unless the same token is drawn again.
\<close>

theorem reset_link_works_once:
  assumes "reset_tokens w0 = []" and w: "w = perform_all s m before w0"
    and used: "run_state (ConfirmReset s tok) w = (Inr uid, w1)"
    and fresh: "\<And>n. n \<ge> tick w \<Longrightarrow> reset_at (as_crypt s) n \<noteq> Some (token_Hash (as_crypt s) (trim_space tok))"
  shows "(\<exists>n\<ge>tick w0. reset_at (as_crypt s) n = Some (token_Hash (as_crypt s) (trim_space tok))) \<and>
    (\<exists>err. fst (run_state (ConfirmReset s tok) (perform_all s m after w1)) = Inl err)"
proof
  from confirm_reset_run(1) [OF used] obtain x where "x \<in> set (reset_tokens w)" "unused_token x"
    "rt_TokenHash x = token_Hash (as_crypt s) (trim_space tok)" by blast
  then show "\<exists>n\<ge>tick w0. reset_at (as_crypt s) n = Some (token_Hash (as_crypt s) (trim_space tok))"
    using reset_secrets.live_was_made [OF assms(1), of x s m before] by (simp add: w perform_all_def)
  have dead: "rt_TokenHash y \<noteq> token_Hash (as_crypt s) (trim_space tok)" if "y \<in> set (reset_tokens w1)" "unused_token y" for y
    using confirm_reset_run(2) [OF used that] .
  have "\<And>n. n \<ge> tick w1 \<Longrightarrow> reset_at (as_crypt s) n \<noteq> Some (token_Hash (as_crypt s) (trim_space tok))"
    using fresh confirm_reset_run(3) [OF used] by simp
  note gone = reset_secrets.dead_stays_dead [OF dead this]
  obtain y v where run: "run_state (ConfirmReset s tok) (perform_all s m after w1) = (y, v)" by fastforce
  show "\<exists>err. fst (run_state (ConfirmReset s tok) (perform_all s m after w1)) = Inl err"
    using confirm_reset_run(1) [of s tok "perform_all s m after w1" _ v] run gone
    by (cases y) (auto simp: perform_all_def)
qed

definition recent_resets :: "string \<Rightarrow> time \<Rightarrow> two_factor_reset_token list \<Rightarrow> two_factor_reset_token list" where
  "recent_resets uid since t = filter (\<lambda>x. rt_UserID x = uid \<and> rt_CreatedAt x > since) t"

lemma issue_reset_run:
  assumes "run_state (issue_reset s u) w = (x, w')"
  shows "tick w \<le> tick w' \<and> (reset_tokens w' = reset_tokens w \<or> (\<exists>z. reset_tokens w' = reset_tokens w @ [z] \<and>
    rt_UserID z = u_ID u \<and> (\<exists>n\<ge>tick w. n \<le> tick w' \<and> rt_CreatedAt z = clock (ae s) n)))"
proof -
  have "tick w \<le> tick w' \<and> (reset_tokens w' = reset_tokens w \<or> (reset_tokens w' = reset_tokens w @ [last (reset_tokens w')] \<and>
    rt_UserID (last (reset_tokens w')) = u_ID u \<and>
    rt_CreatedAt (last (reset_tokens w')) \<in> {clock (ae s) (Suc (tick w)), clock (ae s) (Suc (Suc (tick w)))} \<and>
    Suc (Suc (tick w)) \<le> tick w'))"
    using assms
    by (auto simp: issue_reset_def SendTwoFactorReset_def ResetTokens_Create_def run_and_then run_simps Let_def
        split: if_splits option.splits sum.splits prod.splits)
  then show ?thesis by (metis Suc_leD empty_iff insert_iff le_SucI order_refl)
qed

lemma request_reset_run:
  assumes run: "run_state (RequestReset s email) w = (x, w')" and nf: "\<And>n. \<not> fault (ae s) n"
  shows "tick w \<le> tick w' \<and> (reset_tokens w' = reset_tokens w \<or>
    (\<exists>z n1 n2. tick w \<le> n1 \<and> n1 \<le> n2 \<and> n2 \<le> tick w' \<and> reset_tokens w' = reset_tokens w @ [z] \<and>
       rt_CreatedAt z = clock (ae s) n2 \<and>
       length (recent_resets (rt_UserID z) (clock (ae s) n1 - Hour) (reset_tokens w)) < twoFactorResetMaxPerUserPerHour))"
proof -
  consider "reset_tokens w' = reset_tokens w" "tick w \<le> tick w'"
    | u where "run_state (issue_reset s u) (bump (bump (bump w))) = (x, w')"
      "length (recent_resets (u_ID u) (clock (ae s) (Suc (tick w)) - Hour) (reset_tokens w)) < twoFactorResetMaxPerUserPerHour"
    using run nf
    by (auto simp: RequestReset_def Users_FindByEmail_def ResetTokens_CountRecentByUser_def run_simps Let_def wrap_db_def
        recent_resets_def not_le split: if_splits option.splits)
  then show ?thesis
  proof cases
    case 2
    then have t: "tick w \<le> tick w'" using issue_reset_run [OF 2(1)] by simp
    from issue_reset_run [OF 2(1)] consider "reset_tokens w' = reset_tokens w"
      | z n where "reset_tokens w' = reset_tokens w @ [z]" "rt_UserID z = u_ID u" "Suc (Suc (Suc (tick w))) \<le> n" "n \<le> tick w'"
        "rt_CreatedAt z = clock (ae s) n" by auto
    then show ?thesis
    proof cases
      case (2 z n)
      with \<open>length _ < _\<close> have "tick w \<le> Suc (tick w) \<and> Suc (tick w) \<le> n \<and> n \<le> tick w' \<and>
          reset_tokens w' = reset_tokens w @ [z] \<and> rt_CreatedAt z = clock (ae s) n \<and>
          length (recent_resets (rt_UserID z) (clock (ae s) (Suc (tick w)) - Hour) (reset_tokens w)) < twoFactorResetMaxPerUserPerHour"
        by simp
      with t show ?thesis by blast
    qed (simp add: t)
  qed auto
qed

text \<open>The window of an hour that ends with a token, and the order of tokens and clock.\<close>

definition resets_ok :: "auth_service \<Rightarrow> access \<Rightarrow> bool" where
  "resets_ok s w \<longleftrightarrow> mono (clock (ae s)) \<longrightarrow> (\<forall>n. \<not> fault (ae s) n) \<longrightarrow>
     (\<forall>x\<in>set (reset_tokens w). rt_CreatedAt x \<le> clock (ae s) (tick w)) \<and>
     (\<forall>x\<in>set (reset_tokens w). length (filter (\<lambda>y. rt_CreatedAt y \<le> rt_CreatedAt x)
        (recent_resets (rt_UserID x) (rt_CreatedAt x - Hour) (reset_tokens w))) \<le> twoFactorResetMaxPerUserPerHour)"

lemma resets_ok_sub:
  assumes "resets_ok s w" "tick w \<le> tick w'" "reset_tokens w' = filter P (reset_tokens w)"
  shows "resets_ok s w'"
  unfolding resets_ok_def
proof (intro impI conjI ballI)
  assume h: "mono (clock (ae s))" "\<forall>n. \<not> fault (ae s) n"
  fix x assume x: "x \<in> set (reset_tokens w')"
  with assms h have *: "rt_CreatedAt x \<le> clock (ae s) (tick w)"
    "length (filter (\<lambda>y. rt_CreatedAt y \<le> rt_CreatedAt x)
      (recent_resets (rt_UserID x) (rt_CreatedAt x - Hour) (reset_tokens w))) \<le> twoFactorResetMaxPerUserPerHour"
    by (auto simp: resets_ok_def)
  show "rt_CreatedAt x \<le> clock (ae s) (tick w')"
    using *(1) monoD [OF h(1) assms(2)] by linarith
  have "length (filter Q (recent_resets u t (filter P xs))) \<le> length (filter Q (recent_resets u t xs))" for Q u t xs
    by (induction xs) (simp_all add: recent_resets_def)
  then show "length (filter (\<lambda>y. rt_CreatedAt y \<le> rt_CreatedAt x)
      (recent_resets (rt_UserID x) (rt_CreatedAt x - Hour) (reset_tokens w'))) \<le> twoFactorResetMaxPerUserPerHour"
    unfolding assms(3) using *(2) le_trans by blast
qed

lemma resets_ok_stable: "stable reset_tokens (resets_ok s)"
  using resets_ok_sub [of s _ _ "\<lambda>_. True"] by (simp add: stable_def)

lemma resets_ok_bump: "resets_ok s w \<Longrightarrow> resets_ok s (bump w)"
  using resets_ok_stable [of s] by (simp add: stable_def)

lemma resets_ok_map:
  assumes "resets_ok s w" "tick w' = tick w" "reset_tokens w' = map f (reset_tokens w)"
    and f: "\<And>x. rt_CreatedAt (f x) = rt_CreatedAt x" "\<And>x. rt_UserID (f x) = rt_UserID x"
  shows "resets_ok s w'"
proof -
  have "length (filter (\<lambda>y. rt_CreatedAt y \<le> d) (recent_resets u t (map f xs))) =
      length (filter (\<lambda>y. rt_CreatedAt y \<le> d) (recent_resets u t xs))" for d u t xs
    by (induction xs) (simp_all add: recent_resets_def f)
  then show ?thesis using assms(1) by (simp add: resets_ok_def assms(2,3) f)
qed

lemma length_recent_mono: "a \<le> b \<Longrightarrow> length (recent_resets u b xs) \<le> length (recent_resets u a xs)"
  by (induction xs) (auto simp: recent_resets_def)

lemma window_snoc:
  assumes I: "resets_ok s w" and h: "mono (clock (ae s))" "\<And>n. \<not> fault (ae s) n"
    and old: "\<And>y. y \<in> set (reset_tokens w) \<Longrightarrow> rt_CreatedAt y \<le> rt_CreatedAt z"
    and last: "rt_CreatedAt z \<le> clock (ae s) (tick w')"
    and few: "length (recent_resets (rt_UserID z) (rt_CreatedAt z - Hour) (reset_tokens w)) < twoFactorResetMaxPerUserPerHour"
    and z: "reset_tokens w' = reset_tokens w @ [z]"
  shows "resets_ok s w'"
  unfolding resets_ok_def
proof (intro impI conjI ballI)
  fix x assume x: "x \<in> set (reset_tokens w')"
  then show "rt_CreatedAt x \<le> clock (ae s) (tick w')" using old last by (fastforce simp: z)
  let ?in = "\<lambda>t. length (filter (\<lambda>y. rt_CreatedAt y \<le> rt_CreatedAt x) (recent_resets (rt_UserID x) (rt_CreatedAt x - Hour) t))"
  show "?in (reset_tokens w') \<le> twoFactorResetMaxPerUserPerHour"
  proof (cases "rt_CreatedAt x = rt_CreatedAt z \<and> rt_UserID x = rt_UserID z")
    case True
    have "?in (reset_tokens w) \<le> length (recent_resets (rt_UserID x) (rt_CreatedAt x - Hour) (reset_tokens w))"
      by (rule length_filter_le)
    with True few show ?thesis by (auto simp: z recent_resets_def)
  next
    case False
    then have "x \<in> set (reset_tokens w)" and "?in (reset_tokens w') = ?in (reset_tokens w)"
      using x old [of x] by (auto simp: z recent_resets_def)
    with I h show ?thesis by (simp add: resets_ok_def)
  qed
qed

lemma resets_ok_request: "preserves (resets_ok s) (RequestReset s email)"
proof (rule preservesI)
  fix w assume I: "resets_ok s w"
  obtain x w' where run: "run_state (RequestReset s email) w = (x, w')" by fastforce
  have "resets_ok s w'"
  proof (cases "mono (clock (ae s)) \<and> (\<forall>n. \<not> fault (ae s) n)")
    case True
    then have h: "mono (clock (ae s))" "\<And>n. \<not> fault (ae s) n" by auto
    from request_reset_run [OF run h(2)] show ?thesis
    proof (elim conjE disjE exE)
      assume "reset_tokens w' = reset_tokens w" "tick w \<le> tick w'"
      then show ?thesis using resets_ok_stable [of s] I by (simp add: stable_def)
    next
      fix z n1 n2
      assume n: "tick w \<le> n1" "n1 \<le> n2" "n2 \<le> tick w'" and z: "reset_tokens w' = reset_tokens w @ [z]" "rt_CreatedAt z = clock (ae s) n2"
        and few: "length (recent_resets (rt_UserID z) (clock (ae s) n1 - Hour) (reset_tokens w)) < twoFactorResetMaxPerUserPerHour"
      have old: "rt_CreatedAt y \<le> rt_CreatedAt z" if "y \<in> set (reset_tokens w)" for y
        using I h that monoD [OF h(1), of "tick w" n2] n z(2) by (force simp: resets_ok_def)
      have last: "rt_CreatedAt z \<le> clock (ae s) (tick w')" using monoD [OF h(1) n(3)] z(2) by simp
      have sub: "length (recent_resets (rt_UserID z) (rt_CreatedAt z - Hour) (reset_tokens w)) < twoFactorResetMaxPerUserPerHour"
        using few monoD [OF h(1) n(2)] z(2) length_recent_mono by (metis diff_right_mono le_less_trans)
      show ?thesis using window_snoc [OF I h old last sub z(1)] .
    qed
  qed (auto simp: resets_ok_def)
  then show "resets_ok s (snd (run_state (RequestReset s email) w))" by (simp add: run)
qed

lemma resets_ok_writes:
  "preserves (resets_ok s) (Users_Delete c i)" "preserves (resets_ok s) (ResetTokens_ConsumeByHash c h t)"
  "preserves (resets_ok s) (ResetTokens_DeleteExpired c t)"
proof -
  show "preserves (resets_ok s) (Users_Delete c i)" "preserves (resets_ok s) (ResetTokens_DeleteExpired c t)"
    unfolding Users_Delete_def ResetTokens_DeleteExpired_def
    by (rule preserves_repo_call, erule resets_ok_bump, simp, erule resets_ok_sub; simp)+
  show "preserves (resets_ok s) (ResetTokens_ConsumeByHash c h t)"
    unfolding ResetTokens_ConsumeByHash_def
    by (intro pres preserves_repo_call preserves_repo_query resets_ok_bump; (assumption |
        auto elim!: resets_ok_map [where f = "\<lambda>x. if rt_TokenHash x = h \<and> rt_UsedAt x = None then x\<lparr>rt_UsedAt := Some t\<rparr> else x"]))
qed

interpretation hourly: access_property s "resets_ok s" "\<lambda>_ _. True" "\<lambda>_. True" for s
  by unfold_locales
    (rule resets_ok_writes resets_ok_request | erule resets_ok_bump
      | rule keeps_preserves [OF _ resets_ok_stable], rule keeps_reset_tokens keeps_composed | simp add: resets_ok_def)+

text \<open>
  No user is sent more than three reset links within an hour, when the database answers and the clock does
  not go back: at most three tokens of a user were made in the hour that ends with any of them.
\<close>

theorem three_reset_links_per_hour:
  assumes "reset_tokens w0 = []" and "mono (clock (ae s))" and "\<And>n. \<not> fault (ae s) n"
    and "x \<in> set (reset_tokens (perform_all s m ps w0))"
  shows "length (filter (\<lambda>y. rt_UserID y = rt_UserID x \<and> rt_CreatedAt x - Hour < rt_CreatedAt y \<and> rt_CreatedAt y \<le> rt_CreatedAt x)
    (reset_tokens (perform_all s m ps w0))) \<le> 3"
proof -
  have "resets_ok s (perform_all s m ps w0)"
    by (rule hourly.run_preserves) (simp_all add: list_all_iff resets_ok_def assms(1))
  moreover have "filter (\<lambda>y. rt_CreatedAt y \<le> rt_CreatedAt x) (recent_resets (rt_UserID x) (rt_CreatedAt x - Hour) t) =
      filter (\<lambda>y. rt_UserID y = rt_UserID x \<and> rt_CreatedAt x - Hour < rt_CreatedAt y \<and> rt_CreatedAt y \<le> rt_CreatedAt x) t" for t
    by (auto simp: recent_resets_def intro: filter_cong)
  ultimately show ?thesis
    using assms(2-4) by (auto simp: resets_ok_def twoFactorResetMaxPerUserPerHour_def)
qed

text \<open>A user has at most ten keys, in every run from empty tables.\<close>

theorem at_most_ten_keys:
  assumes "api_keys w0 = []"
  shows "length (filter (\<lambda>k. ak_UserID k = uid) (api_keys (perform_all s m ps w0))) \<le> 10"
  using reachable_keys_ok [OF assms, of s m ps] by (simp add: keys_ok_def keys_of_def maxAPIKeysPerUser_def)

section \<open>Host credentials\<close>

text \<open>
  C28: A rotation replaces every credential of the host by the one it returns: the new token is the only active
  one of the host, it authenticates the host when the database answers, and other hosts keep theirs.
\<close>

theorem rotation_replaces_credentials:
  assumes run: "run_state (RotateHostCredential (as_crypt s) hid) w = (Inr (raw, p), w1)"
    and draws: "\<And>n b. rand_bytes (as_crypt s) n 16 = Some b \<Longrightarrow> length b = 16"
    and fresh: "token_Hash (as_crypt s) raw \<notin> hc_Hash ` set (host_credentials w)"
    and nf: "\<And>n. n \<ge> tick w1 \<Longrightarrow> \<not> fault (ae s) n"
  shows "map hc_Hash (filter (\<lambda>r. hc_HostID r = hid \<and> hc_IsActive r) (host_credentials w1)) = [token_Hash (as_crypt s) raw] \<and>
    filter (\<lambda>r. hc_HostID r \<noteq> hid) (host_credentials w1) = filter (\<lambda>r. hc_HostID r \<noteq> hid) (host_credentials w) \<and>
    (\<exists>cred. fst (run_state (AuthenticateHost (as_crypt s) raw) w1) = Inr cred \<and> hc_HostID cred = hid)"
proof -
  let ?d = "\<lambda>t. map (\<lambda>r. if hc_HostID r = hid \<and> hc_IsActive r then deactivated t r else r)"
  from run obtain t b n row where row: "host_credentials w1 = ?d t (host_credentials w) @ [row]"
    "raw = hostcred_prefix @ hex_encode b" "rand_bytes (as_crypt s) n 16 = Some b"
    "hc_Hash row = token_Hash (as_crypt s) raw" "hc_HostID row = hid" "hc_IsActive row"
    by (auto simp: RotateHostCredential_def HostCredentials_DeactivateAllForHost_def IssueHostCredential_def
        hostcred_Generate_def generate_token_def HostCredentials_Create_def EnsureID_def run_and_then run_simps Let_def
        simp del: map_eq_conv split: if_splits option.splits sum.splits prod.splits)
  have dead: "filter (\<lambda>r. hc_HostID r = hid \<and> hc_IsActive r) (?d t xs) = []" for xs
    by (induction xs) (auto simp: deactivated_def)
  have others: "filter (\<lambda>r. hc_HostID r \<noteq> hid) (?d t xs) = filter (\<lambda>r. hc_HostID r \<noteq> hid) xs" for xs
    by (induction xs) (auto simp: deactivated_def)
  have none: "find (\<lambda>r. hc_Hash r = token_Hash (as_crypt s) raw \<and> hc_IsActive r) (?d t xs) = None"
    if "token_Hash (as_crypt s) raw \<notin> hc_Hash ` set xs" for xs
    using that by (induction xs) (auto simp: deactivated_def)
  have find: "find P (xs @ [x]) = Some x" if "find P xs = None" "P x" for P and xs :: "host_credential list" and x
    using that by (induction xs) (auto split: if_splits)
  have "hostcred_IsFormat raw"
    using draws [OF row(3)] by (cases b) (auto simp: row(2) hostcred_IsFormat_def token_format_def hex_encode_def Let_def)
  then show ?thesis
    using find [OF none [OF fresh], of row] nf
    by (auto simp: row dead others AuthenticateHost_def HostCredentials_FindActiveByHash_def run_simps wrap_db_def split: prod.splits)
qed

section \<open>Accounts and passwords\<close>

definition users_ok :: "access \<Rightarrow> bool" where
  "users_ok w \<longleftrightarrow> distinct_keys u_ID (users w) \<and> distinct_keys u_Email (users w)"

lemma users_ok_bump: "users_ok w \<Longrightarrow> users_ok (bump w)"
  by (simp add: users_ok_def)

lemma users_ok_stable: "stable users users_ok"
  by (simp add: stable_def users_ok_def)

lemma keeps_users_composed [keep]:
  "keeps users (CreateAPIKey c i name scope expires)" "keeps users (IssueHostCredential c i)"
  "keeps users (IssueSession c i ua ip)" "keeps users (RequestReset s email)"
  unfolding IssueHostCredential_def IssueSession_def RequestReset_def CreateAPIKey_def issue_reset_def SendTwoFactorReset_def
    hostcred_Generate_def apikey_Generate_def generate_token_def not_after_now_def EnsureID_def Let_def
  by (intro keep; simp add: keeps_def)+

lemma distinct_email_update:
  assumes "distinct_keys u_ID t" "distinct_keys u_Email t" "\<not> list_ex (\<lambda>v. u_ID v \<noteq> i \<and> u_Email v = m) t"
    and f: "\<And>r. u_ID (f r) = u_ID r" "\<And>r. u_Email (f r) = m"
  shows "distinct_keys u_Email (tbl_update u_ID i f t)"
  using assms(1-3)
proof (induction t)
  case (Cons x xs)
  have "u_Email (if u_ID x = i then f x else x) \<notin> u_Email ` set (tbl_update u_ID i f xs)"
  proof (cases "u_ID x = i")
    case True
    then have same: "tbl_update u_ID i f xs = xs" using Cons.prems(1) by (intro tbl_update_id) (simp add: distinct_keys_def)
    have out: "i \<notin> u_ID ` set xs" using True Cons.prems(1) by (simp add: distinct_keys_def)
    have "u_Email v \<noteq> m" if "v \<in> set xs" for v
    proof -
      have "u_ID v \<noteq> i" using that out by (metis imageI)
      with that Cons.prems(3) show ?thesis by (auto simp: list_ex_iff)
    qed
    then show ?thesis using True by (auto simp: f same)
  next
    case False
    then show ?thesis using Cons.prems(2,3) by (auto simp: tbl_update_def f distinct_keys_def list_ex_iff split: if_splits)
  qed
  moreover have "tbl_update u_ID i f (x # xs) = (if u_ID x = i then f x else x) # tbl_update u_ID i f xs"
    by (simp add: tbl_update_def)
  moreover have "distinct_keys u_Email (tbl_update u_ID i f xs)"
    using Cons by (simp add: distinct_keys_def)
  ultimately show ?case by (simp only: distinct_keys_def list.map distinct.simps set_map simp_thms)
qed (simp add: tbl_update_def)

lemma users_ok_writes:
  "preserves users_ok (Users_Create c u)" "preserves users_ok (Users_Update c u)" "preserves users_ok (Users_UpdatePassword c i h)"
  "preserves users_ok (Users_UpdateLastLogin c i)" "preserves users_ok (Users_UpdateTwoFactorSecret c i h b)"
  "preserves users_ok (Users_Delete c i)"
proof -
  show "preserves users_ok (Users_Create c u)"
    unfolding user_writes
    by (intro pres preserves_repo_call preserves_now preserves_new_id users_ok_bump;
        auto simp: users_ok_def distinct_keys_def tbl_has_iff)
  show "preserves users_ok (Users_Update c u)"
  proof (rule preservesI)
    fix w assume I: "users_ok w"
    show "users_ok (snd (run_state (Users_Update c u) w))"
    proof (cases "tbl_has u_ID (u_ID u) (users w)")
      case True
      with I show ?thesis
        by (auto simp: Users_Update_def run_simps users_ok_def user_columns_def distinct_keys_update
            intro: distinct_email_update)
    next
      case False
      with I show ?thesis
        by (simp add: Users_Update_def run_simps users_ok_def tbl_has_iff tbl_update_id)
    qed
  qed
  show "preserves users_ok (Users_UpdatePassword c i h)" "preserves users_ok (Users_UpdateLastLogin c i)"
    "preserves users_ok (Users_UpdateTwoFactorSecret c i h b)" "preserves users_ok (Users_Delete c i)"
    unfolding user_writes Users_Delete_def
    by (intro pres preserves_repo_call preserves_now users_ok_bump;
        auto simp: users_ok_def distinct_keys_delete; simp add: distinct_keys_def tbl_update_def tbl_delete_def
          distinct_map_filter comp_def if_distrib [of u_ID] if_distrib [of u_Email] cong: if_cong)+
qed

interpretation accounts: access_property s users_ok "\<lambda>_ _. True" "\<lambda>_. True" for s
  by unfold_locales
    (rule users_ok_writes | erule users_ok_bump
      | rule keeps_preserves [OF _ users_ok_stable], rule keeps_users keeps_users_composed | simp add: users_ok_def)+

lemma reachable_users_ok: "users w = [] \<Longrightarrow> users_ok (perform_all s m ps w)"
  by (rule accounts.run_preserves) (simp_all add: list_all_iff users_ok_def distinct_keys_def)

text \<open>A token for a user: the library signed claims with the user's identifier.\<close>

definition token_for :: "auth_service \<Rightarrow> string \<Rightarrow> string \<Rightarrow> bool" where
  "token_for s uid tok \<longleftrightarrow> (\<exists>jc. jwt_sign (as_crypt s) jc = Some tok \<and> jc_UserID jc = uid)"

lemma issue_token_run:
  assumes "\<And>jc. jwt_sign (as_crypt s) jc \<noteq> None"
  shows "\<exists>tok w'. run_state (issueTokenWithSession s l email uid) w = (Inr tok, w') \<and> token_for s uid tok \<and> users w' = users w"
proof -
  have gen: "\<exists>tok w'. run_state (GenerateWithSession s email uid sid) v = (Inr tok, w') \<and> token_for s uid tok \<and> users w' = users v" for sid v
    using assms by (fastforce simp: GenerateWithSession_def run_simps token_for_def split: option.split)
  obtain x v where x: "run_state (IssueSession (as_crypt s) uid (lc_UserAgent l) (lc_IP l)) w = (x, v)" by fastforce
  have "users v = users w" using keepsD [OF keeps_users_composed(3)] x by (metis snd_conv)
  then show ?thesis using gen [of _ w] gen [of _ v]
    by (cases x) (simp_all add: issueTokenWithSession_def GenerateToken_def run_simps x)
qed

lemma find_by_email_update:
  assumes "users_ok w" "tbl_find u_Email m (users w) = Some u" "\<And>r. u_ID (f r) = u_ID r" "\<And>r. u_Email (f r) = u_Email r"
  shows "tbl_find u_Email m (tbl_update u_ID (u_ID u) f (users w)) = Some (f u)"
proof -
  have u: "u \<in> set (users w)" "u_Email u = m" using assms(2) by (auto dest: tbl_find_Some_key)
  then have "f u \<in> set (tbl_update u_ID (u_ID u) f (users w))" by (force simp: tbl_update_def)
  moreover have "distinct_keys u_Email (tbl_update u_ID (u_ID u) f (users w))"
    using assms(1) by (simp add: users_ok_def distinct_keys_def tbl_update_def comp_def if_distrib [of u_Email] assms(4) cong: if_cong)
  ultimately show ?thesis using tbl_find_distinct [of u_Email _ "f u"] by (simp add: assms(4) u(2))
qed

text \<open>
  C34: Anyone can take over any account: the public route that sets the first password accepts the email of an
  account that has a password, and even a second factor, replaces the password and returns a token of the
  account. Nothing about the account but its email has to be known.
\<close>

theorem initialize_password_takes_over:
  assumes ok: "users w0 = []" "w = perform_all s m before w0"
    and u: "tbl_find u_Email (trim_space email) (users w) = Some u"
    and p: "length (trim_space p) \<ge> 8" "bcrypt_generate (as_crypt s) (Suc (tick w)) (trim_space p) = Some h"
    and nf: "\<And>n. \<not> fault (ae s) n" and sign: "\<And>jc. jwt_sign (as_crypt s) jc \<noteq> None"
  shows "\<exists>resp w1. run_state (InitializePassword_Handler s r email p p) w = (Reply_OK resp, w1) \<and>
    token_for s (u_ID u) (lr_Token resp) \<and>
    tbl_find u_Email (trim_space email) (users w1) =
      Some (u\<lparr>u_HashedPassword := h, u_PasswordInitialized := True, u_ForcePasswordChange := False\<rparr>)"
proof -
  let ?f = "\<lambda>u. u\<lparr>u_HashedPassword := h, u_PasswordInitialized := True, u_ForcePasswordChange := False\<rparr>"
  let ?v = "bump (bump (bump w)\<lparr>users := tbl_update u_ID (u_ID u) ?f (users w)\<rparr>)"
  have I: "users_ok w" using reachable_users_ok [OF ok(1)] by (simp add: ok(2))
  have "tbl_find u_ID (u_ID u) (users w) = Some u"
    using tbl_find_distinct [of u_ID "users w" u] I u by (auto simp: users_ok_def dest: tbl_find_Some_key)
  then have id: "tbl_find u_ID (u_ID u) (tbl_update u_ID (u_ID u) ?f (users w)) = Some (?f u)"
    by (simp add: tbl_find_update)
  obtain v where "run_state (InitializePassword s email p) w = (Inr (?f u), v)" "users v = tbl_update u_ID (u_ID u) ?f (users w)"
    using p id by (simp add: InitializePassword_def Users_FindByEmail_def hashPassword_def Users_UpdatePassword_def Users_FindByID_def
        run_and_then run_simps nf u wrap_db_def Let_def)
  moreover obtain tok w1 where "run_state (issueTokenWithSession s (loginCtxFrom r) (u_Email u) (u_ID u)) v = (Inr tok, w1)"
    "token_for s (u_ID u) tok" "users w1 = users v" using issue_token_run [OF sign] by blast
  moreover have "tbl_find u_Email (trim_space email) (tbl_update u_ID (u_ID u) ?f (users w)) = Some (?f u)"
    by (rule find_by_email_update [OF I u]) simp_all
  ultimately show ?thesis
    by (simp add: InitializePassword_Handler_def IssueTokenForUser_def run_simps)
qed

text \<open>
  C35: A reset to the default password that reports success leaves the old password in place: the last write
  stores the copy of the user that was read before the password was changed.
\<close>

theorem default_reset_keeps_password:
  assumes u: "tbl_find u_ID uid (users w) = Some u"
    and run: "run_state (ResetPasswordToDefault s uid p) w = (Inr x, w1)"
  shows "\<exists>t. tbl_find u_ID uid (users w1) = Some (u\<lparr>u_ForcePasswordChange := True, u_UpdatedAt := t\<rparr>)"
proof -
  have [simp]: "u_ID u = uid" using u by (auto dest: tbl_find_Some_key)
  have id: "u_ID (user_columns v t r) = u_ID r" for v t r by (simp add: user_columns_def)
  have row: "u_ID r = uid \<Longrightarrow> u_CreatedAt r = u_CreatedAt u \<Longrightarrow>
      user_columns (u\<lparr>u_ForcePasswordChange := True\<rparr>) t r = u\<lparr>u_ForcePasswordChange := True, u_UpdatedAt := t\<rparr>" for t r
    by (rule user.equality) (simp_all add: user_columns_def)
  from run u show ?thesis
    by (auto simp: ResetPasswordToDefault_def find_user_def Users_FindByID_def hashPassword_def Users_UpdatePassword_def
        Users_Update_def run_and_then run_simps wrap_db_def tbl_find_update id row
        split: if_splits option.splits sum.splits prod.splits)
qed

text \<open>What a successful change of the password stores.\<close>

lemma change_password_run:
  assumes "users_ok w" "tbl_find u_ID uid (users w) = Some u" "run_state (ChangePassword s uid old new) w = (Inr x, w1)"
  shows "\<exists>h n. bcrypt_generate (as_crypt s) n new = Some h \<and> tbl_find u_Email (u_Email u) (users w1) =
    Some (u\<lparr>u_HashedPassword := h, u_PasswordInitialized := True, u_ForcePasswordChange := False\<rparr>)"
proof -
  have [simp]: "u_ID u = uid" and in_w: "u \<in> set (users w)" using assms(2) by (auto dest: tbl_find_Some_key)
  have e: "tbl_find u_Email (u_Email u) (users w) = Some u"
    using tbl_find_distinct [of u_Email "users w" u] assms(1) in_w by (simp add: users_ok_def)
  from assms(2,3) obtain h n where h: "bcrypt_generate (as_crypt s) n new = Some h"
    and w1: "users w1 = tbl_update u_ID uid (\<lambda>u. u\<lparr>u_HashedPassword := h, u_PasswordInitialized := True, u_ForcePasswordChange := False\<rparr>) (users w)"
    by (auto simp: ChangePassword_def find_user_def Users_FindByID_def hashPassword_def Users_UpdatePassword_def
        run_and_then run_simps wrap_db_def split: if_splits option.splits sum.splits prod.splits)
  have "tbl_find u_Email (u_Email u) (users w1) = Some (u\<lparr>u_HashedPassword := h, u_PasswordInitialized := True, u_ForcePasswordChange := False\<rparr>)"
    using find_by_email_update [OF assms(1) e, of "\<lambda>u. u\<lparr>u_HashedPassword := h, u_PasswordInitialized := True, u_ForcePasswordChange := False\<rparr>"]
    by (simp add: w1)
  with h show ?thesis by blast
qed

lemma dropWhile_rev_dropWhile:
  "dropWhile P (rev (dropWhile P (rev (dropWhile P xs)))) = rev (dropWhile P (rev (dropWhile P xs)))" (is "dropWhile P ?z = ?z")
proof (cases ?z)
  case Nil
  then show ?thesis by (simp only: dropWhile.simps)
next
  case (Cons a z)
  have "dropWhile P xs = rev (takeWhile P (rev (dropWhile P xs)) @ dropWhile P (rev (dropWhile P xs)))"
    by (simp only: takeWhile_dropWhile_id rev_rev_ident)
  then have "dropWhile P xs = a # z @ rev (takeWhile P (rev (dropWhile P xs)))"
    by (simp only: rev_append Cons append_Cons)
  then have "\<not> P a" by (metis hd_dropWhile list.distinct(1) list.sel(1))
  then show ?thesis by (simp add: Cons)
qed

lemma trim_space_idem: "trim_space (trim_space x) = trim_space x"
  unfolding trim_space_def by (simp add: dropWhile_rev_dropWhile)

definition bcrypt_correct :: "crypt \<Rightarrow> bool" where
  "bcrypt_correct c \<longleftrightarrow> (\<forall>n p h q. bcrypt_generate c n p = Some h \<longrightarrow> bcrypt_compare c h q = (p = q))"

lemma login_run:
  assumes "tbl_find u_Email (trim_space email) (users w) = Some u" "u_PasswordInitialized u" "\<not> fault (ae s) (tick w)"
  shows "\<not> bcrypt_compare (as_crypt s) (u_HashedPassword u) (trim_space p) \<Longrightarrow>
      fst (run_state (Login s l email p) w) = (empty_response email, Some ErrInvalidCredentials)"
    and "bcrypt_compare (as_crypt s) (u_HashedPassword u) (trim_space p) \<Longrightarrow> \<not> u_TwoFactorEnabled u \<Longrightarrow>
      (\<And>jc. jwt_sign (as_crypt s) jc \<noteq> None) \<Longrightarrow>
      \<exists>resp. fst (run_state (Login s l email p) w) = (resp, None) \<and> token_for s (u_ID u) (lr_Token resp)"
proof -
  show "fst (run_state (Login s l email p) w) = (empty_response email, Some ErrInvalidCredentials)"
    if "\<not> bcrypt_compare (as_crypt s) (u_HashedPassword u) (trim_space p)"
    using assms that by (simp add: Login_def Users_FindByEmail_def login_user_def run_simps wrap_db_def Let_def)
  assume a: "bcrypt_compare (as_crypt s) (u_HashedPassword u) (trim_space p)" "\<not> u_TwoFactorEnabled u"
    and sign: "\<And>jc. jwt_sign (as_crypt s) jc \<noteq> None"
  obtain tok w' where "run_state (issueTokenWithSession s l (trim_space email) (u_ID u)) (bump w) = (Inr tok, w')"
    "token_for s (u_ID u) tok" using issue_token_run [OF sign] by blast
  with assms a show "\<exists>resp. fst (run_state (Login s l email p) w) = (resp, None) \<and> token_for s (u_ID u) (lr_Token resp)"
    by (simp add: Login_def Users_FindByEmail_def login_user_def run_simps wrap_db_def Let_def split_beta)
qed

text \<open>
  After a successful change of the password the new password logs in and gives a token of the user, and
  every other one is refused - for a new password without surrounding blanks and a user without a second
  factor, when bcrypt recognises exactly the password it hashed.
\<close>

theorem changed_password_logs_in:
  assumes ok: "users w0 = []" "w = perform_all s m before w0"
    and u: "tbl_find u_ID uid (users w) = Some u" "trim_space (u_Email u) = u_Email u" "\<not> u_TwoFactorEnabled u"
    and run: "run_state (ChangePassword s uid old new) w = (Inr x, w1)" and "trim_space new = new"
    and bcrypt: "bcrypt_correct (as_crypt s)"
    and nf: "\<And>n. \<not> fault (ae s) n" and sign: "\<And>jc. jwt_sign (as_crypt s) jc \<noteq> None"
  shows "(\<exists>resp. fst (run_state (Login s l (u_Email u) new) w1) = (resp, None) \<and> token_for s uid (lr_Token resp)) \<and>
    (\<forall>p. trim_space p \<noteq> new \<longrightarrow> snd (fst (run_state (Login s l (u_Email u) p) w1)) = Some ErrInvalidCredentials)"
proof -
  have "users_ok w" using reachable_users_ok [OF ok(1)] by (simp add: ok(2))
  from change_password_run [OF this u(1) run] obtain h n where h: "bcrypt_generate (as_crypt s) n new = Some h"
    and f: "tbl_find u_Email (u_Email u) (users w1) =
      Some (u\<lparr>u_HashedPassword := h, u_PasswordInitialized := True, u_ForcePasswordChange := False\<rparr>)" by blast
  have "u_ID u = uid" using u(1) by (auto dest: tbl_find_Some_key)
  let ?u = "u\<lparr>u_HashedPassword := h, u_PasswordInitialized := True, u_ForcePasswordChange := False\<rparr>"
  have cmp: "bcrypt_compare (as_crypt s) h q = (new = q)" for q
    using bcrypt h by (simp add: bcrypt_correct_def)
  show ?thesis
    using login_run [of "u_Email u" w1 ?u s _ l] f u(2,3) nf sign \<open>trim_space new = new\<close> \<open>u_ID u = uid\<close> by (auto simp: cmp)
qed

text \<open>
  A new password with a blank at either end is accepted and locks the account: no password at all logs in
  afterwards, because the login trims what it is given and the change does not.
\<close>

theorem padded_password_locks_out:
  assumes ok: "users w0 = []" "w = perform_all s m before w0"
    and u: "tbl_find u_ID uid (users w) = Some u" "trim_space (u_Email u) = u_Email u"
    and run: "run_state (ChangePassword s uid old new) w = (Inr x, w1)" and padded: "trim_space new \<noteq> new"
    and bcrypt: "bcrypt_correct (as_crypt s)" and nf: "\<And>n. \<not> fault (ae s) n"
  shows "snd (fst (run_state (Login s l (u_Email u) p) w1)) = Some ErrInvalidCredentials"
proof -
  have "users_ok w" using reachable_users_ok [OF ok(1)] by (simp add: ok(2))
  from change_password_run [OF this u(1) run] obtain h n where h: "bcrypt_generate (as_crypt s) n new = Some h"
    and f: "tbl_find u_Email (u_Email u) (users w1) =
      Some (u\<lparr>u_HashedPassword := h, u_PasswordInitialized := True, u_ForcePasswordChange := False\<rparr>)" by blast
  have "trim_space p \<noteq> new" using padded trim_space_idem by metis
  with login_run(1) [of "u_Email u" w1 _ s p l] f u(2) nf bcrypt h show ?thesis
    by (auto simp: bcrypt_correct_def)
qed

section \<open>A concrete installation\<close>

text \<open>
  Identifiers are the number of the interaction in unary, random values are drawn by the interactions below
  a bound, every digest is the same, a token is its session identifier.
\<close>

definition demo_crypt :: "nat \<Rightarrow> crypt" where
  "demo_crypt lim = \<lparr>ce = \<lparr>clock = int, fault = (\<lambda>_. False), ulid = (\<lambda>n. replicate n CHR ''i'')\<rparr>,
     rand_bytes = (\<lambda>n k. if n < lim then Some (replicate k CHR ''x'') else None),
     sha256 = (\<lambda>_. ''h''), bcrypt_generate = (\<lambda>_. Some), bcrypt_compare = (=),
     totp_generate = (\<lambda>_ _. Some (''secret'', ''otpauth'')), totp_validate = (\<lambda>_ otp secret. otp = secret),
     jwt_sign = (\<lambda>jc. Some (jc_SessionID jc)),
     jwt_parse = (\<lambda>t tok. Some \<lparr>jc_Email = ''a@b'', jc_UserID = ''ii'', jc_SessionID = tok, jc_ExpiresAt = t + 1,
        jc_IssuedAt = t, jc_NotBefore = t, jc_Issuer = ''ogoune''\<rparr>)\<rparr>"

definition demo_auth :: "nat \<Rightarrow> auth_service" where
  "demo_auth lim = \<lparr>as_crypt = demo_crypt lim, as_issuer = ''ogoune'', as_duration = Hour, as_hasSessions = True,
     as_legacyEmail = '''', as_legacyPassword = '''', as_appBaseURL = ''''\<rparr>"

definition demo_wiring :: wiring where
  "demo_wiring = \<lparr>mw_auth = True, mw_keys = True, mw_sessions = True\<rparr>"

definition demo_access :: access where
  "demo_access = \<lparr>tick = 0, users = [], api_keys = [], sessions = [], host_credentials = [], reset_tokens = [],
     links_sent = [], background = []\<rparr>"

definition demo_request :: "string \<Rightarrow> string \<Rightarrow> request" where
  "demo_request key auth = \<lparr>rq_XAPIKey = key, rq_Authorization = auth, rq_XForwardedFor = '''', rq_XRealIP = '''',
     rq_RemoteAddr = ''10.0.0.7'', rq_UserAgent = ''curl''\<rparr>"

definition demo_run :: "nat \<Rightarrow> access_op list \<Rightarrow> access" where
  "demo_run lim ps = perform_all (demo_auth lim) demo_wiring (CallCreateDefaultUser ''a@b'' ''longenough'' # ps) demo_access"

lemma demo_laws [simp]:
  "as_crypt (demo_auth lim) = demo_crypt lim" "\<not> fault (ce (demo_crypt lim)) n" "ulid (ce (demo_crypt lim)) n = replicate n CHR ''i''"
  "clock (ce (demo_crypt lim)) n = int n"
  "jwt_sign (demo_crypt lim) jc = Some (jc_SessionID jc)" "bcrypt_correct (demo_crypt lim)" "mono (clock (ce (demo_crypt lim)))"
  "api_keys demo_access = []" "sessions demo_access = []" "reset_tokens demo_access = []" "users demo_access = []"
  "mw_keys demo_wiring" "mw_sessions demo_wiring"
  by (simp_all add: demo_auth_def demo_crypt_def demo_access_def demo_wiring_def bcrypt_correct_def mono_def)

lemma demo_draws: "rand_bytes (demo_crypt lim) n k = Some b \<Longrightarrow> length b = k" "lim \<le> n \<Longrightarrow> key_at (demo_crypt lim) n = None"
  by (auto simp: demo_crypt_def key_at_def split: if_splits)

lemmas demo_eval = perform_all_def perform_def discard_def CreateDefaultUser_def Users_FindByEmail_def Users_FindByID_def
  hashPassword_def Users_Create_def EnsureID_def run_and_then run_simps wrap_db_def new_user_def fresh_stamp_def bump_def
  tbl_has_def ErrNotFound_def Let_def demo_auth_def demo_crypt_def demo_access_def

definition demo_user :: user where
  "demo_user = (new_user ''a@b'' ''longenough'')\<lparr>u_ID := ''ii'', u_CreatedAt := 3, u_UpdatedAt := 3\<rparr>"

lemma demo_run_start: "demo_run lim [] = demo_access\<lparr>tick := 5, users := [demo_user]\<rparr>"
  by (simp add: demo_run_def demo_eval demo_user_def)

definition demo_raw :: string where
  "demo_raw = apikey_prefix @ hex_encode (replicate 16 CHR ''x'')"

definition demo_key :: api_key where
  "demo_key = (new_api_key ''ii'' ''ci'' APIKeyScopeRead None (hex_encode ''h'') (ExtractPrefix demo_raw))\<lparr>ak_ID := replicate 7 CHR ''i'',
     ak_CreatedAt := 8, ak_UpdatedAt := 8\<rparr>"

lemma demo_made: "run_state (CreateAPIKey (demo_crypt 7) ''ii'' ''ci'' APIKeyScopeRead None) (demo_run 7 []) =
    (Inr (demo_raw, demo_key), demo_access\<lparr>tick := 10, users := [demo_user], api_keys := [demo_key]\<rparr>)"
  by (simp add: demo_run_start CreateAPIKey_def key_request_ok_def not_after_now_def APIKeys_CountByUserID_def
      apikey_Generate_def generate_token_def APIKeys_Create_def token_Hash_def demo_raw_def demo_key_def new_api_key_def
      maxAPIKeysPerUser_def trim_space_def is_space_def demo_user_def hex_encode_def hex_digit_def demo_eval)

definition demo_keyed :: access where
  "demo_keyed = demo_access\<lparr>tick := 10, users := [demo_user], api_keys := [demo_key]\<rparr>"

lemma demo_run_key: "demo_run 7 [CallCreateKey ''ii'' ''ci'' APIKeyScopeRead None] = demo_keyed"
proof -
  have "demo_run 7 [CallCreateKey ''ii'' ''ci'' APIKeyScopeRead None] =
      snd (run_state (CreateAPIKey (demo_crypt 7) ''ii'' ''ci'' APIKeyScopeRead None) (demo_run 7 []))"
    by (simp add: demo_run_def perform_all_def perform_def discard_def run_simps split_beta)
  then show ?thesis by (simp add: demo_made demo_keyed_def)
qed

lemma trim_space_id: "list_all (\<lambda>c. \<not> is_space c) x \<Longrightarrow> trim_space x = x"
proof -
  assume a: "list_all (\<lambda>c. \<not> is_space c) x"
  then have "dropWhile is_space x = x" by (cases x) simp_all
  moreover have "dropWhile is_space (rev x) = rev x" using a by (cases "rev x") (auto simp: list_all_iff dest: arg_cong [of _ _ rev])
  ultimately show ?thesis by (simp add: trim_space_def)
qed

lemma demo_key_header: "extractAPIKey (demo_request demo_raw '''') = Some demo_raw"
proof -
  have "\<not> is_space (hex_digit 7)" "\<not> is_space (hex_digit 8)" by code_simp+
  then have "list_all (\<lambda>c. \<not> is_space c) demo_raw"
    by (simp add: demo_raw_def apikey_prefix_def hex_encode_def list_all_iff) (simp add: is_space_def less_eq_char_def)
  then show ?thesis
    by (simp add: extractAPIKey_def demo_request_def trim_space_id) (simp add: demo_raw_def apikey_prefix_def)
qed

theorem issued_key_works_until_revoked_witness:
  "\<exists>cx. fst (run_state (AuthMiddleware (demo_auth 7) demo_wiring (demo_request demo_raw ''''))
      (perform_all (demo_auth 7) demo_wiring [CallRevokeKey ''ii'' ''other'', CallRevokeOthers ''ii'' ''''] demo_keyed)) = Admitted cx \<and>
    cx_auth_method cx = ''api_key'' \<and> cx_user_id cx = ''ii'' \<and> cx_api_key_scope cx = APIKeyScopeRead \<and> cx_api_key_id cx = ak_ID demo_key"
proof -
  have "list_all (permitted (\<lambda>i j. \<not> (i = ak_ID demo_key \<and> j = ''ii'')) (\<lambda>i. i \<noteq> ''ii''))
      [CallRevokeKey ''ii'' ''other'', CallRevokeOthers ''ii'' '''']"
    by (simp add: demo_key_def numeral_eq_Suc)
  moreover have "run_state (CreateAPIKey (as_crypt (demo_auth 7)) ''ii'' ''ci'' APIKeyScopeRead None) (demo_run 7 []) =
      (Inr (demo_raw, demo_key), demo_keyed)"
    by (simp add: demo_made demo_keyed_def)
  ultimately show ?thesis
    using issued_key_works_until_revoked [of demo_access "demo_run 7 []" "demo_auth 7" demo_wiring
      "[CallCreateDefaultUser ''a@b'' ''longenough'']" "''ii''" "''ci''" APIKeyScopeRead None demo_raw demo_key demo_keyed
      "[CallRevokeKey ''ii'' ''other'', CallRevokeOthers ''ii'' '''']" _ "demo_request demo_raw ''''"]
    by (simp add: demo_run_def demo_key_header demo_draws(1))
qed

definition demo_revoked :: access where
  "demo_revoked = demo_access\<lparr>tick := 11, users := [demo_user], api_keys := [demo_key\<lparr>ak_IsActive := False\<rparr>]\<rparr>"

theorem revoked_key_is_refused_witness:
  "\<exists>ty msg. fst (run_state (AuthMiddleware (demo_auth 7) demo_wiring (demo_request demo_raw ''''))
      (perform_all (demo_auth 7) demo_wiring [CallLogin (demo_request '''' '''') ''a@b'' ''longenough''] demo_revoked)) = Denied ty msg"
proof -
  have "run_state (RevokeAPIKey (as_crypt (demo_auth 7)) (ak_UserID demo_key) (ak_ID demo_key)) demo_keyed = (Inr (), demo_revoked)"
    by (simp add: RevokeAPIKey_def APIKeys_Revoke_def owned_key_def demo_keyed_def demo_revoked_def demo_key_def new_api_key_def
        trim_space_def is_space_def demo_eval)
  moreover have "demo_keyed = perform_all (demo_auth 7) demo_wiring
      [CallCreateDefaultUser ''a@b'' ''longenough'', CallCreateKey ''ii'' ''ci'' APIKeyScopeRead None] demo_access"
    using demo_run_key by (simp add: demo_run_def)
  moreover have "demo_key \<in> set (api_keys demo_keyed)" "ak_KeyHash demo_key = token_Hash (as_crypt (demo_auth 7)) demo_raw"
    by (simp_all add: demo_keyed_def demo_key_def new_api_key_def token_Hash_def demo_crypt_def)
  moreover have "key_at (as_crypt (demo_auth 7)) n \<noteq> Some h" if "n \<ge> tick demo_keyed" for n h
    using that demo_draws(2) [of 7 n] by (simp add: demo_keyed_def)
  ultimately show ?thesis
    using revoked_key_is_refused [of demo_access demo_keyed "demo_auth 7" demo_wiring _ demo_key demo_raw "()" demo_revoked]
    by (simp add: demo_key_header)
qed

definition demo_session :: session where
  "demo_session = \<lparr>se_ID = replicate 7 CHR ''i'', se_UserID = ''ii'', se_Browser = fst (parseUserAgent ''curl''),
     se_OS = snd (parseUserAgent ''curl''), se_IP = ''10.0.0.7'', se_Location = None, se_LastActiveAt = 6, se_CreatedAt = 6,
     se_RevokedAt = None\<rparr>"

lemma demo_logged: "sessions (demo_run lim [CallLogin (demo_request '''' '''') ''a@b'' ''longenough'']) = [demo_session] \<and>
    tick (demo_run lim [CallLogin (demo_request '''' '''') ''a@b'' ''longenough'']) = 13"
proof -
  have "demo_run lim [CallLogin (demo_request '''' '''') ''a@b'' ''longenough''] =
      snd (run_state (Login_Handler (demo_auth lim) (demo_request '''' '''') ''a@b'' ''longenough'') (demo_run lim []))"
    by (simp add: demo_run_def perform_all_def perform_def discard_def run_simps split_beta)
  moreover have "sessions (snd (run_state (Login_Handler (demo_auth lim) (demo_request '''' '''') ''a@b'' ''longenough'') (demo_run lim []))) =
      [demo_session] \<and>
      tick (snd (run_state (Login_Handler (demo_auth lim) (demo_request '''' '''') ''a@b'' ''longenough'') (demo_run lim []))) = 13"
    by (simp add: demo_run_start Login_Handler_def Login_def login_user_def issueTokenWithSession_def IssueSession_def
        Sessions_Create_def GenerateWithSession_def Users_UpdateLastLogin_def loginCtxFrom_def clientIP_def demo_request_def
        demo_session_def demo_user_def trim_space_def is_space_def zero_time_def demo_eval)
      (simp add: numeral_eq_Suc)
  ultimately show ?thesis by simp
qed

theorem ended_session_is_refused_witness:
  "\<exists>ty msg. fst (run_state (AuthMiddleware (demo_auth 7) demo_wiring (demo_request '''' (''Bearer '' @ se_ID demo_session)))
      (perform_all (demo_auth 7) demo_wiring [CallLogin (demo_request '''' '''') ''a@b'' ''longenough'']
        (snd (run_state (RevokeAllOthers (demo_crypt 7) ''ii'' '''')
          (demo_run 7 [CallLogin (demo_request '''' '''') ''a@b'' ''longenough'']))))) = Denied ty msg"
proof -
  let ?w = "demo_run 7 [CallLogin (demo_request '''' '''') ''a@b'' ''longenough'']"
  let ?w1 = "snd (run_state (RevokeAllOthers (demo_crypt 7) ''ii'' '''') ?w)"
  have "run_state (RevokeAllOthers (as_crypt (demo_auth 7)) ''ii'' '''') ?w = (Inr 1, ?w1)"
    using demo_logged [of 7] by (simp add: RevokeAllOthers_def Sessions_RevokeAllExcept_def run_simps wrap_db_def other_session_def demo_session_def)
  then have "session_ended (demo_auth 7) (se_ID demo_session) ?w ?w1"
    unfolding session_ended_def using demo_logged [of 7] by (auto simp: demo_session_def)
  moreover have "extractAPIKey (demo_request '''' (''Bearer '' @ se_ID demo_session)) = None"
    "extractToken (demo_request '''' (''Bearer '' @ se_ID demo_session)) = se_ID demo_session"
    by code_simp+
  then have "bound_to (demo_auth 7) (demo_request '''' (''Bearer '' @ se_ID demo_session)) (se_ID demo_session)"
    by (simp add: bound_to_def demo_crypt_def)
  moreover have "replicate n CHR ''i'' \<noteq> se_ID demo_session" if "n \<ge> tick ?w" for n
    using that demo_logged [of 7] by (auto simp: demo_session_def dest: arg_cong [of _ _ length])
  ultimately show ?thesis
    using ended_session_is_refused [of demo_access ?w "demo_auth 7" demo_wiring
      "[CallCreateDefaultUser ''a@b'' ''longenough'', CallLogin (demo_request '''' '''') ''a@b'' ''longenough'']"
      "se_ID demo_session" ?w1]
    by (simp add: demo_run_def) (simp add: demo_session_def)
qed

definition demo_two_factor :: access where
  "demo_two_factor = demo_access\<lparr>users := [demo_user\<lparr>u_TwoFactorEnabled := True\<rparr>]\<rparr>"

definition demo_token :: two_factor_reset_token where
  "demo_token = \<lparr>rt_TokenHash = hex_encode ''h'', rt_UserID = ''ii'', rt_ExpiresAt = 4 + twoFactorResetTokenTTL, rt_UsedAt = None, rt_CreatedAt = 4\<rparr>"

lemma demo_requested: "reset_tokens (perform_all (demo_auth 7) demo_wiring [CallRequestReset ''a@b''] demo_two_factor) = [demo_token] \<and>
    tick (perform_all (demo_auth 7) demo_wiring [CallRequestReset ''a@b''] demo_two_factor) = 7 \<and>
    users (perform_all (demo_auth 7) demo_wiring [CallRequestReset ''a@b''] demo_two_factor) = users demo_two_factor"
proof -
  have "trim_space (to_lower ''a@b'') = ''a@b''" by code_simp
  then show ?thesis
    by (simp add: RequestReset_def ResetTokens_CountRecentByUser_def issue_reset_def ResetTokens_Create_def SendTwoFactorReset_def
        rand_Read_def token_Hash_def demo_two_factor_def demo_user_def demo_token_def twoFactorResetMaxPerUserPerHour_def
        zero_time_def demo_eval)
qed

theorem three_reset_links_per_hour_witness:
  "length (filter (\<lambda>y. rt_UserID y = rt_UserID demo_token \<and> rt_CreatedAt demo_token - Hour < rt_CreatedAt y \<and>
      rt_CreatedAt y \<le> rt_CreatedAt demo_token)
    (reset_tokens (perform_all (demo_auth 7) demo_wiring [CallRequestReset ''a@b''] demo_two_factor))) \<le> 3"
  by (rule three_reset_links_per_hour) (simp_all add: demo_requested, simp add: demo_two_factor_def)

theorem reset_link_works_once_witness:
  "(\<exists>n\<ge>tick demo_two_factor. reset_at (demo_crypt 7) n = Some (hex_encode ''h'')) \<and>
    (\<exists>err. fst (run_state (ConfirmReset (demo_auth 7) ''tok'') (perform_all (demo_auth 7) demo_wiring [CallConfirmReset (demo_request '''' '''') ''tok'']
      (snd (run_state (ConfirmReset (demo_auth 7) ''tok'') (perform_all (demo_auth 7) demo_wiring [CallRequestReset ''a@b''] demo_two_factor))))) = Inl err)"
proof -
  let ?w = "perform_all (demo_auth 7) demo_wiring [CallRequestReset ''a@b''] demo_two_factor"
  let ?r = "run_state (ConfirmReset (demo_auth 7) ''tok'') ?w"
  have t: "trim_space ''tok'' = ''tok''" by code_simp
  have h: "token_Hash (demo_crypt 7) x = hex_encode ''h''" for x by (simp add: token_Hash_def demo_crypt_def)
  have "fst ?r = Inr ''ii''"
    using demo_requested
    by (simp add: ConfirmReset_def ResetTokens_ConsumeByHash_def Users_UpdateTwoFactorSecret_def t h run_simps wrap_db_def
        demo_token_def Let_def)
  then have run: "?r = (Inr ''ii'', snd ?r)" by (metis prod.collapse)
  have "reset_at (demo_crypt 7) n = None" if "n \<ge> tick ?w" for n
    using that demo_requested by (simp add: reset_at_def demo_crypt_def)
  then show ?thesis
    using reset_link_works_once [OF _ refl run] by (simp add: t h) (simp add: demo_two_factor_def)
qed

theorem initialize_password_takes_over_witness:
  "\<exists>resp w1. run_state (InitializePassword_Handler (demo_auth 7) (demo_request '''' '''') ''a@b'' ''attacker1'' ''attacker1'') (demo_run 7 []) =
      (Reply_OK resp, w1) \<and> token_for (demo_auth 7) ''ii'' (lr_Token resp) \<and>
    tbl_find u_Email ''a@b'' (users w1) = Some (demo_user\<lparr>u_HashedPassword := ''attacker1'', u_PasswordInitialized := True, u_ForcePasswordChange := False\<rparr>)"
proof -
  have "trim_space ''a@b'' = ''a@b''" "trim_space ''attacker1'' = ''attacker1''" by code_simp+
  moreover have "bcrypt_generate (demo_crypt 7) n p = Some p" for n p by (simp add: demo_crypt_def)
  moreover have "tbl_find u_Email ''a@b'' (users (demo_run 7 [])) = Some demo_user" "u_ID demo_user = ''ii''"
    by (simp_all add: demo_run_start demo_user_def new_user_def)
  ultimately show ?thesis
    using initialize_password_takes_over [of demo_access "demo_run 7 []" "demo_auth 7" demo_wiring
      "[CallCreateDefaultUser ''a@b'' ''longenough'']" "''a@b''" demo_user "''attacker1''" "''attacker1''" "demo_request '''' ''''"]
    by (simp add: demo_run_def)
qed

theorem default_reset_keeps_password_witness:
  "\<exists>t. tbl_find u_ID ''ii'' (users (snd (run_state (ResetPasswordToDefault (demo_auth 7) ''ii'' ''longenough'') (demo_run 7 [])))) =
    Some (demo_user\<lparr>u_ForcePasswordChange := True, u_UpdatedAt := t\<rparr>)"
proof -
  let ?r = "run_state (ResetPasswordToDefault (demo_auth 7) ''ii'' ''longenough'') (demo_run 7 [])"
  have "fst ?r = Inr ()"
    by (simp add: demo_run_start ResetPasswordToDefault_def find_user_def Users_UpdatePassword_def Users_Update_def demo_user_def tbl_update_def demo_eval)
  then have "?r = (Inr (), snd ?r)" by (metis prod.collapse)
  moreover have "tbl_find u_ID ''ii'' (users (demo_run 7 [])) = Some demo_user" by (simp add: demo_run_start demo_user_def)
  ultimately show ?thesis by (intro default_reset_keeps_password)
qed

theorem rotation_replaces_credentials_witness:
  "\<exists>cred. fst (run_state (AuthenticateHost (demo_crypt 7) (hostcred_prefix @ hex_encode (replicate 16 CHR ''x'')))
    (snd (run_state (RotateHostCredential (demo_crypt 7) ''web1'') demo_access))) = Inr cred \<and> hc_HostID cred = ''web1''"
proof -
  let ?r = "run_state (RotateHostCredential (as_crypt (demo_auth 7)) ''web1'') demo_access"
  have "\<exists>p. fst ?r = Inr (hostcred_prefix @ hex_encode (replicate 16 CHR ''x''), p)"
    by (simp add: RotateHostCredential_def HostCredentials_DeactivateAllForHost_def IssueHostCredential_def
        hostcred_Generate_def generate_token_def HostCredentials_Create_def demo_eval)
  then obtain p where "?r = (Inr (hostcred_prefix @ hex_encode (replicate 16 CHR ''x''), p), snd ?r)" by (metis prod.collapse)
  from rotation_replaces_credentials [OF this] show ?thesis by (simp add: demo_draws(1)) (simp add: demo_access_def)
qed

end
