(* ===== verification/Extended_State.thy ===== *)
theory Extended_State
  imports Store
begin

text \<open>
  Components with tables of their own extend the record \<open>world\<close>. \<open>on_world\<close> runs an operation of the shared
  repositories on the \<open>world\<close> part of such a state and leaves the other tables alone.
\<close>

definition on_world :: "(world, 'a) state \<Rightarrow> ('b world_scheme, 'a) state" where
  "on_world m = State (\<lambda>w. case run_state m (world.truncate w) of (x, v) \<Rightarrow> (x, world.extend v (world.more w)))"

lemma truncate_fields [simp]:
  "tick (world.truncate w) = tick w" "resources (world.truncate w) = resources w" "incidents (world.truncate w) = incidents w"
  "components (world.truncate w) = components w" "activities (world.truncate w) = activities w"
  "maintenances (world.truncate w) = maintenances w" "maintenance_resources (world.truncate w) = maintenance_resources w"
  "incident_updates (world.truncate w) = incident_updates w"
  by (simp_all add: world.truncate_def)

lemma extend_fields [simp]:
  "tick (world.extend v x) = tick v" "resources (world.extend v x) = resources v" "incidents (world.extend v x) = incidents v"
  "components (world.extend v x) = components v" "activities (world.extend v x) = activities v"
  "world.more (world.extend v x) = x" "world.truncate (world.extend v x) = v"
  by (simp_all add: world.extend_def world.truncate_def)

lemma extend_truncate [simp]: "world.extend (world.truncate w) (world.more w) = w"
  by (simp add: world.extend_def world.truncate_def)

lemma truncate_bump: "world.truncate (bump w) = bump (world.truncate w)"
  by (simp add: world.truncate_def bump_def)

lemma run_on_world:
  "run_state (on_world m) w = (fst (run_state m (world.truncate w)), world.extend (snd (run_state m (world.truncate w))) (world.more w))"
  by (simp add: on_world_def split: prod.splits)

text \<open>A query of the shared tables leaves everything but the counter.\<close>

lemma run_on_world_query [simp]:
  "run_state (on_world (repo_query e f)) w = (if fault e (tick w) then Inl ErrDB else f (bump (world.truncate w)), bump w)"
proof -
  have "world.extend (bump (world.truncate w)) (world.more w) = bump w"
    by (simp add: world.extend_def world.truncate_def bump_def)
  then show ?thesis by (simp add: run_on_world run_simps)
qed

lemma on_world_bind: "on_world (m \<bind> f) = on_world m \<bind> (\<lambda>x. on_world (f x))"
  by (rule state.expand) (auto simp: fun_eq_iff run_on_world run_simps split_beta)

lemma on_world_return: "on_world (State_Monad.return x) = State_Monad.return x"
  by (rule state.expand) (auto simp: fun_eq_iff run_on_world run_simps)

lemma keeps_more_on_world: "keeps g m \<Longrightarrow> (\<And>w. f w = h (world.more w)) \<Longrightarrow> keeps f (on_world m)"
  unfolding keeps_def by (simp add: run_on_world) (metis truncate_fields(1))

end
