(* ===== verification/Expiry.thy ===== *)
theory Expiry
  imports Resources Extended_State
begin

text \<open>
  Expiry alerts: \<open>service/expiry_notification_service.go\<close>, \<open>worker/handler_expiry.go\<close> and
  \<open>repository/store/expiry_notification_log_sqlc.go\<close>.

  A daily task looks up the certificate and the domain of every active HTTP resource, stores the dates, and
  alerts the channels of the resource when a threshold of remaining days is reached. A table of what was
  sent keeps an alert from being repeated; a date later than the stored one clears it.

  The state is \<open>world\<close> with the table of sent alerts and the delivered messages; operations on the
  other tables are those of \<open>Store\<close> and \<open>Resources\<close>, lifted. The number of remaining days is the
  quotient of the duration and a day; the program computes it in floating point, which may differ within a
  few nanoseconds of a full day.
\<close>

section \<open>State\<close>

record expiry_notification_log =
  el_ID :: string
  el_ResourceID :: string
  el_ExpiryType :: string
  el_Threshold :: int
  el_SentAt :: time
  el_CreatedAt :: time
  el_UpdatedAt :: time

record expiry_notification =
  xn_Resource :: resource
  xn_ExpiryType :: string
  xn_DaysRemaining :: int
  xn_ExpiresAt :: time
  xn_Issuer :: string
  xn_Threshold :: int
  xn_TriggeredAt :: time

record expiry_env = env +
  xe_build :: "notification_channel \<Rightarrow> error option"
  xe_send :: "nat \<Rightarrow> notification_channel \<Rightarrow> expiry_notification \<Rightarrow> error option"
  xe_lookups :: lookups
  xe_globalThresholds :: "int list"

abbreviation xv :: "expiry_env \<Rightarrow> env" where
  "xv e \<equiv> env.truncate e"

record expiry_world = world +
  expiry_logs :: "expiry_notification_log list"
  expiry_sent :: "(string \<times> expiry_notification) list"

section \<open>Repository of sent alerts\<close>

definition log_key :: "string \<Rightarrow> string \<Rightarrow> int \<Rightarrow> expiry_notification_log \<Rightarrow> bool" where
  "log_key rid ty t l \<longleftrightarrow> el_ResourceID l = rid \<and> el_ExpiryType l = ty \<and> el_Threshold l = t"

definition Logs_CountByKey :: "expiry_env \<Rightarrow> string \<Rightarrow> string \<Rightarrow> int \<Rightarrow> (expiry_world, error + nat) state" where
  "Logs_CountByKey e rid ty t = repo_query (xv e) (\<lambda>w. Inr (length (filter (log_key rid ty t) (expiry_logs w))))"

text \<open>The table is unique in its key, and its rows refer to a resource.\<close>

definition Logs_Create :: "expiry_env \<Rightarrow> expiry_notification_log \<Rightarrow> (expiry_world, error + unit) state" where
  "Logs_Create e l = do {
     i \<leftarrow> EnsureID (xv e) (el_ID l);
     t \<leftarrow> now (xv e);
     let row = l\<lparr>el_ID := i, el_CreatedAt := fresh_stamp t (el_CreatedAt l), el_UpdatedAt := fresh_stamp t (el_UpdatedAt l),
       el_SentAt := fresh_stamp t (el_SentAt l)\<rparr>;
     repo_call (xv e) (\<lambda>w.
       if tbl_has el_ID i (expiry_logs w) then (Inl ErrUnique, w)
       else if list_ex (log_key (el_ResourceID l) (el_ExpiryType l) (el_Threshold l)) (expiry_logs w) then (Inl ErrUnique, w)
       else if \<not> tbl_has r_ID (el_ResourceID l) (resources w) then (Inl ErrForeignKey, w)
       else (Inr (), w\<lparr>expiry_logs := expiry_logs w @ [row]\<rparr>))
   }"

definition Logs_DeleteByResourceIDAndType :: "expiry_env \<Rightarrow> string \<Rightarrow> string \<Rightarrow> (expiry_world, error + unit) state" where
  "Logs_DeleteByResourceIDAndType e rid ty = repo_call (xv e) (\<lambda>w. (Inr (),
     w\<lparr>expiry_logs := filter (\<lambda>l. \<not> (el_ResourceID l = rid \<and> el_ExpiryType l = ty)) (expiry_logs w)\<rparr>))"

definition Logs_DeleteOlderThan :: "expiry_env \<Rightarrow> time \<Rightarrow> (expiry_world, error + unit) state" where
  "Logs_DeleteOlderThan e cutoff = repo_call (xv e) (\<lambda>w. (Inr (),
     w\<lparr>expiry_logs := filter (\<lambda>l. \<not> el_SentAt l < cutoff) (expiry_logs w)\<rparr>))"

section \<open>Service\<close>

definition ParseGlobalThresholds :: "string \<Rightarrow> int list" where
  "ParseGlobalThresholds s =
     (if s = '''' then DefaultExpiryThresholds
      else (let result = parse_threshold_parts (split_on CHR '','' s)
            in if length result = 0 then DefaultExpiryThresholds else result))"

definition expiry_Send :: "expiry_env \<Rightarrow> notification_channel \<Rightarrow> expiry_notification \<Rightarrow> (expiry_world, error option) state" where
  "expiry_Send e c p = State (\<lambda>w.
     (case xe_send e (tick w) c p of
        None \<Rightarrow> (None, (bump w)\<lparr>expiry_sent := expiry_sent w @ [(ch_ID c, p)]\<rparr>)
      | Some err \<Rightarrow> (Some err, bump w)))"

definition expiry_dispatch :: "expiry_env \<Rightarrow> expiry_notification \<Rightarrow> notification_channel \<Rightarrow> (expiry_world, error option) state" where
  "expiry_dispatch e p c =
     (let dispatch = (\<lambda>msg. case xe_build e c of
            Some err \<Rightarrow> State_Monad.return (Some (Wrapf msg err))
          | None \<Rightarrow> do {
              r \<leftarrow> expiry_Send e c p;
              State_Monad.return (map_option (Wrapf ''failed to send expiry notification'') r)
            })
      in if channel_type_string (ch_Type c) = ''smtp'' then dispatch ''failed to build SMTP notifier''
         else if channel_type_string (ch_Type c) = ''webhook'' then dispatch ''failed to build webhook notifier''
         else State_Monad.return (Some (Errorf (''unknown notification channel type: '' @ channel_type_string (ch_Type c)))))"

definition recordNotified :: "expiry_env \<Rightarrow> string \<Rightarrow> string \<Rightarrow> int \<Rightarrow> (expiry_world, error + unit) state" where
  "recordNotified e rid ty threshold = do {
     t \<leftarrow> now (xv e);
     Logs_Create e \<lparr>el_ID = '''', el_ResourceID = rid, el_ExpiryType = ty, el_Threshold = threshold, el_SentAt = t,
       el_CreatedAt = zero_time, el_UpdatedAt = zero_time\<rparr>
   }"

fun dispatch_channels ::
    "expiry_env \<Rightarrow> expiry_notification \<Rightarrow> notification_channel list \<Rightarrow> (expiry_world, error option) state" where
  "dispatch_channels e p [] = State_Monad.return None"
| "dispatch_channels e p (c # cs) = do {
     r \<leftarrow> expiry_dispatch e p c;
     (case r of Some err \<Rightarrow> State_Monad.return (Some err) | None \<Rightarrow> dispatch_channels e p cs)
   }"

definition sendExpiryNotification ::
    "expiry_env \<Rightarrow> resource \<Rightarrow> notification_channel list \<Rightarrow> expiry_notification \<Rightarrow> int \<Rightarrow> (expiry_world, error + unit) state" where
  "sendExpiryNotification e r cs p threshold = do {
     failed \<leftarrow> dispatch_channels e p cs;
     (case failed of
        Some err \<Rightarrow> State_Monad.return (Inl err)
      | None \<Rightarrow> recordNotified e (r_ID r) (xn_ExpiryType p) threshold)
   }"

definition days_remaining :: "time \<Rightarrow> time \<Rightarrow> int" where
  "days_remaining t expiresAt = go_div (time_sub expiresAt t) (24 * Hour)"

fun pick_threshold ::
    "expiry_env \<Rightarrow> string \<Rightarrow> string \<Rightarrow> int \<Rightarrow> int option \<Rightarrow> int list \<Rightarrow> (expiry_world, error + int option) state" where
  "pick_threshold e rid ty days best [] = State_Monad.return (Inr best)"
| "pick_threshold e rid ty days best (t # ts) =
     (if days \<le> t then do {
        r \<leftarrow> Logs_CountByKey e rid ty t;
        (case r of
           Inl err \<Rightarrow> State_Monad.return (Inl (Wrapf (''failed to count log entries for threshold '' @ itoa t) err))
         | Inr count \<Rightarrow>
             if count = 0 \<and> (case best of None \<Rightarrow> True | Some target \<Rightarrow> t < target)
             then pick_threshold e rid ty days (Some t) ts
             else pick_threshold e rid ty days best ts)
      } else pick_threshold e rid ty days best ts)"

definition checkExpiry ::
    "expiry_env \<Rightarrow> resource \<Rightarrow> string \<Rightarrow> time \<Rightarrow> string \<Rightarrow> int list \<Rightarrow> notification_channel list \<Rightarrow>
     (expiry_world, error + unit) state" where
  "checkExpiry e r ty expiresAt issuer thresholds cs = do {
     t0 \<leftarrow> now (xv e);
     let days = days_remaining t0 expiresAt;
     target \<leftarrow> pick_threshold e (r_ID r) ty days None thresholds;
     (case target of
        Inl err \<Rightarrow> State_Monad.return (Inl err)
      | Inr None \<Rightarrow> State_Monad.return (Inr ())
      | Inr (Some threshold) \<Rightarrow> do {
          t \<leftarrow> now (xv e);
          sendExpiryNotification e r cs
            \<lparr>xn_Resource = r, xn_ExpiryType = ty, xn_DaysRemaining = days, xn_ExpiresAt = expiresAt, xn_Issuer = issuer,
             xn_Threshold = threshold, xn_TriggeredAt = t\<rparr> threshold
        })
   }"

definition check_ssl :: "expiry_env \<Rightarrow> resource \<Rightarrow> int list \<Rightarrow> notification_channel list \<Rightarrow> (expiry_world, unit) state" where
  "check_ssl e r thresholds cs =
     (case r_Metadata r of
        None \<Rightarrow> State_Monad.return ()
      | Some m \<Rightarrow> (case md_SSLExpirationDate m of
          None \<Rightarrow> State_Monad.return ()
        | Some d \<Rightarrow> do { _ \<leftarrow> checkExpiry e r ''ssl'' d (md_SSLIssuer m) thresholds cs; State_Monad.return () }))"

definition check_domain :: "expiry_env \<Rightarrow> resource \<Rightarrow> int list \<Rightarrow> notification_channel list \<Rightarrow> (expiry_world, unit) state" where
  "check_domain e r thresholds cs =
     (case r_Metadata r of
        None \<Rightarrow> State_Monad.return ()
      | Some m \<Rightarrow> (case md_DomainExpirationDate m of
          None \<Rightarrow> State_Monad.return ()
        | Some d \<Rightarrow> do { _ \<leftarrow> checkExpiry e r ''domain'' d (md_DomainRegistrar m) thresholds cs; State_Monad.return () }))"

definition CheckAndNotify :: "expiry_env \<Rightarrow> resource \<Rightarrow> notification_channel list \<Rightarrow> (expiry_world, unit) state" where
  "CheckAndNotify e r cs =
     (let thresholds = ExpiryThresholds r (xe_globalThresholds e)
      in do { check_ssl e r thresholds cs; check_domain e r thresholds cs })"

definition ResetLogs :: "expiry_env \<Rightarrow> string \<Rightarrow> string \<Rightarrow> (expiry_world, error + unit) state" where
  "ResetLogs e rid ty = Logs_DeleteByResourceIDAndType e rid ty"

definition CleanupOldLogs :: "expiry_env \<Rightarrow> (expiry_world, error + unit) state" where
  "CleanupOldLogs e = do { t \<leftarrow> now (xv e); Logs_DeleteOlderThan e (t - 365 * 24 * Hour) }"

section \<open>The daily task\<close>

definition sslRenewed :: "resource_meta_data \<Rightarrow> resource_meta_data \<Rightarrow> bool" where
  "sslRenewed stored fresh =
     (case (md_SSLExpirationDate stored, md_SSLExpirationDate fresh) of (Some a, Some b) \<Rightarrow> a < b | _ \<Rightarrow> False)"

definition domainRenewed :: "resource_meta_data \<Rightarrow> resource_meta_data \<Rightarrow> bool" where
  "domainRenewed stored fresh =
     (case (md_DomainExpirationDate stored, md_DomainExpirationDate fresh) of (Some a, Some b) \<Rightarrow> a < b | _ \<Rightarrow> False)"

definition reset_renewed :: "expiry_env \<Rightarrow> resource \<Rightarrow> resource_meta_data \<Rightarrow> (expiry_world, unit) state" where
  "reset_renewed e r fresh =
     (case r_Metadata r of
        None \<Rightarrow> State_Monad.return ()
      | Some stored \<Rightarrow> do {
          (if sslRenewed stored fresh then do { _ \<leftarrow> ResetLogs e (r_ID r) ''ssl''; State_Monad.return () } else State_Monad.return ());
          (if domainRenewed stored fresh then do { _ \<leftarrow> ResetLogs e (r_ID r) ''domain''; State_Monad.return () } else State_Monad.return ())
        })"

definition processResource :: "expiry_env \<Rightarrow> resource \<Rightarrow> (expiry_world, unit) state" where
  "processResource e r = do {
     w \<leftarrow> State_Monad.get;
     let fresh = Metadata_Enrich (xe_lookups e) (tick w) r;
     reset_renewed e r fresh;
     _ \<leftarrow> on_world (Resources_UpdateMetadata (xv e) (r_ID r) fresh);
     found \<leftarrow> on_world (Channels_FindByResourceID (xv e) (r_ID r));
     CheckAndNotify e (r\<lparr>r_Metadata := Some fresh\<rparr>) (case found of Inl _ \<Rightarrow> [] | Inr cs \<Rightarrow> cs)
   }"

definition Expiry_ProcessTask :: "expiry_env \<Rightarrow> (expiry_world, error + unit) state" where
  "Expiry_ProcessTask e = do {
     all \<leftarrow> on_world (Resources_FindActive (xv e) 10000 0);
     (case all of
        Inl err \<Rightarrow> State_Monad.return (Inl err)
      | Inr rs \<Rightarrow> do {
          for_each (\<lambda>r. if r_Type r \<noteq> ResourceHTTP then State_Monad.return () else processResource e r) rs;
          _ \<leftarrow> CleanupOldLogs e;
          State_Monad.return (Inr ())
        })
   }"

fun expiry_days :: "expiry_env \<Rightarrow> nat \<Rightarrow> (expiry_world, unit) state" where
  "expiry_days e 0 = State_Monad.return ()"
| "expiry_days e (Suc n) = do { _ \<leftarrow> Expiry_ProcessTask e; expiry_days e n }"

section \<open>What a check sends and records\<close>

definition expiry_part :: "expiry_world \<Rightarrow> expiry_notification_log list \<times> (string \<times> expiry_notification) list \<times> resource list" where
  "expiry_part w = (expiry_logs w, expiry_sent w, resources w)"

lemma expiry_part_bump [simp]: "expiry_part (bump w) = expiry_part w"
  by (simp add: expiry_part_def bump_def)

lemma bump_parts [simp]: "expiry_logs (bump w) = expiry_logs w" "expiry_sent (bump w) = expiry_sent w" "resources (bump w) = resources w"
  by (simp_all add: bump_def)

definition is_logged :: "expiry_world \<Rightarrow> string \<Rightarrow> string \<Rightarrow> int \<Rightarrow> bool" where
  "is_logged w rid ty t \<longleftrightarrow> list_ex (log_key rid ty t) (expiry_logs w)"

text \<open>The reference: the smallest threshold that is reached and not recorded.\<close>

definition due_thresholds :: "expiry_world \<Rightarrow> string \<Rightarrow> string \<Rightarrow> int \<Rightarrow> int list \<Rightarrow> int list" where
  "due_thresholds w rid ty days ts = filter (\<lambda>t. days \<le> t \<and> \<not> is_logged w rid ty t) ts"

definition smallest :: "int list \<Rightarrow> int option" where
  "smallest ts = (if ts = [] then None else Some (Min (set ts)))"

lemma smallest_Cons: "smallest (t # ts) = Some (case smallest ts of None \<Rightarrow> t | Some m \<Rightarrow> min t m)"
  by (simp add: smallest_def)

definition better :: "int option \<Rightarrow> int option \<Rightarrow> int option" where
  "better a b = (case a of None \<Rightarrow> b | Some x \<Rightarrow> (case b of None \<Rightarrow> a | Some y \<Rightarrow> Some (min x y)))"

lemma count_by_key_zero: "length (filter (log_key rid ty t) ls) = 0 \<longleftrightarrow> \<not> list_ex (log_key rid ty t) ls"
  by (auto simp: list_ex_iff filter_empty_conv)

lemma keeps_count [keep]: "(\<And>w. f (bump w) = f w) \<Longrightarrow> keeps f (Logs_CountByKey e rid ty t)"
  unfolding Logs_CountByKey_def by (intro keep)

lemma keeps_pick [keep]: "(\<And>w. f (bump w) = f w) \<Longrightarrow> keeps f (pick_threshold e rid ty days best ts)"
  by (induction ts arbitrary: best) (auto intro!: keep)

lemma is_logged_bump [simp]: "is_logged (bump w) rid ty t = is_logged w rid ty t"
  by (simp add: is_logged_def)

lemma due_bump [simp]: "due_thresholds (bump w) rid ty days ts = due_thresholds w rid ty days ts"
  by (simp add: due_thresholds_def)

lemma due_Cons: "due_thresholds w rid ty days (t # ts) =
    (if days \<le> t \<and> \<not> is_logged w rid ty t then t # due_thresholds w rid ty days ts else due_thresholds w rid ty days ts)"
  by (simp add: due_thresholds_def)

lemma filter_key_Nil: "filter (log_key rid ty t) (expiry_logs w) = [] \<longleftrightarrow> \<not> is_logged w rid ty t"
  by (auto simp: is_logged_def list_ex_iff filter_empty_conv)

lemma better_step:
  "case best of None \<Rightarrow> True | Some b \<Rightarrow> t < b \<Longrightarrow> better (Some t) m = better best (Some (case m of None \<Rightarrow> t | Some y \<Rightarrow> min t y))"
  "\<not> (case best of None \<Rightarrow> True | Some b \<Rightarrow> t < b) \<Longrightarrow>
   better best m = better best (Some (case m of None \<Rightarrow> t | Some y \<Rightarrow> min t y))"
  by (auto simp: better_def split: option.splits)

lemma pick_run:
  "fst (run_state (pick_threshold e rid ty days best ts) w) = Inr x \<Longrightarrow> x = better best (smallest (due_thresholds w rid ty days ts))"
proof (induction ts arbitrary: best w)
  case Nil
  then show ?case by (auto simp: run_simps due_thresholds_def smallest_def better_def split: option.splits)
next
  case (Cons t ts)
  show ?case
  proof (cases "days \<le> t")
    case True
    then have ok: "\<not> fault (xv e) (tick w)"
      using Cons.prems by (auto simp: run_simps Logs_CountByKey_def)
    consider "is_logged w rid ty t" | "\<not> is_logged w rid ty t" "case best of None \<Rightarrow> True | Some b \<Rightarrow> t < b"
      | "\<not> is_logged w rid ty t" "\<not> (case best of None \<Rightarrow> True | Some b \<Rightarrow> t < b)" by blast
    then show ?thesis
    proof cases
      case 1
      with Cons.prems ok True Cons.IH [of best "bump w"] show ?thesis
        by (simp add: run_simps Logs_CountByKey_def filter_key_Nil due_Cons)
    next
      case 2
      with Cons.prems ok True have "x = better (Some t) (smallest (due_thresholds w rid ty days ts))"
        using Cons.IH [of "Some t" "bump w"] by (simp add: run_simps Logs_CountByKey_def filter_key_Nil)
      then show ?thesis using True 2 better_step(1) [OF 2(2)] by (simp add: due_Cons smallest_Cons)
    next
      case 3
      with Cons.prems ok True have "x = better best (smallest (due_thresholds w rid ty days ts))"
        using Cons.IH [of best "bump w"] by (simp add: run_simps Logs_CountByKey_def filter_key_Nil)
      then show ?thesis using True 3 better_step(2) [OF 3(2)] by (simp add: due_Cons smallest_Cons)
    qed
  next
    case False
    with Cons show ?thesis by (simp add: due_Cons)
  qed
qed

lemma pick_total: "(\<And>n. \<not> fault (xv e) n) \<Longrightarrow> \<exists>x. fst (run_state (pick_threshold e rid ty days best ts) w) = Inr x"
  by (induction ts arbitrary: best w) (auto simp: run_simps Logs_CountByKey_def)

lemma pick_parts:
  assumes "run_state (pick_threshold e rid ty days best ts) w = (x, w')"
  shows "expiry_logs w' = expiry_logs w" "expiry_sent w' = expiry_sent w" "resources w' = resources w" "tick w \<le> tick w'"
  using keeps_pick [of expiry_part e rid ty days best ts] assms by (auto simp: keeps_def expiry_part_def bump_def dest: spec [of _ w])

lemma dispatch_run:
  assumes "run_state (expiry_dispatch e p c) w = (x, w')"
  shows "expiry_sent w' = expiry_sent w @ (if x = None then [(ch_ID c, p)] else []) \<and>
    expiry_logs w' = expiry_logs w \<and> resources w' = resources w \<and> tick w \<le> tick w'"
  using assms
  by (auto simp: expiry_dispatch_def expiry_Send_def run_simps Let_def split: if_splits option.splits prod.splits)

lemma dispatch_channels_run:
  assumes "run_state (dispatch_channels e p cs) w = (x, w')"
  shows "\<exists>k\<le>length cs. expiry_sent w' = expiry_sent w @ map (\<lambda>c. (ch_ID c, p)) (take k cs) \<and> (x = None \<longrightarrow> k = length cs) \<and>
    expiry_logs w' = expiry_logs w \<and> resources w' = resources w \<and> tick w \<le> tick w'"
  using assms
proof (induction cs arbitrary: w)
  case (Cons c cs)
  obtain y v where d: "run_state (expiry_dispatch e p c) w = (y, v)" by fastforce
  note one = dispatch_run [OF d]
  show ?case
  proof (cases y)
    case None
    then have "run_state (dispatch_channels e p cs) v = (x, w')" using Cons.prems d by (simp add: run_simps)
    from Cons.IH [OF this] obtain k where k: "k \<le> length cs"
      "expiry_sent w' = expiry_sent v @ map (\<lambda>c. (ch_ID c, p)) (take k cs)" "x = None \<longrightarrow> k = length cs"
      "expiry_logs w' = expiry_logs v" "resources w' = resources v" "tick v \<le> tick w'" by blast
    then show ?thesis using one None by (intro exI [of _ "Suc k"]) auto
  next
    case (Some err)
    then show ?thesis using Cons.prems d one by (intro exI [of _ 0]) (auto simp: run_simps)
  qed
qed (simp add: run_simps)

lemma log_create_run:
  assumes "run_state (Logs_Create e l) w = (x, w')"
  shows "expiry_sent w' = expiry_sent w \<and> resources w' = resources w \<and> tick w \<le> tick w' \<and>
    (if x = Inr () then \<exists>row. expiry_logs w' = expiry_logs w @ [row] \<and> log_key (el_ResourceID l) (el_ExpiryType l) (el_Threshold l) row
     else expiry_logs w' = expiry_logs w)"
  using assms
  by (auto simp: Logs_Create_def EnsureID_def run_simps Let_def log_key_def split: if_splits)

definition alert_for :: "resource \<Rightarrow> string \<Rightarrow> time \<Rightarrow> string \<Rightarrow> int \<Rightarrow> int \<Rightarrow> expiry_notification \<Rightarrow> bool" where
  "alert_for r ty d issuer days t p \<longleftrightarrow> xn_Resource p = r \<and> xn_ExpiryType p = ty \<and> xn_ExpiresAt p = d \<and> xn_Issuer p = issuer \<and>
     xn_DaysRemaining p = days \<and> xn_Threshold p = t"

text \<open>
  A check of an expiry date: when no threshold is due it sends and records nothing; otherwise it alerts the
  channels in order for the smallest threshold that is reached and not recorded, and records the threshold
  exactly when it succeeds, that is after every channel got the alert.
\<close>

lemma check_outcome:
  "case run_state (checkExpiry e r ty d issuer ts cs) w of (x, w') \<Rightarrow>
     (case smallest (due_thresholds w (r_ID r) ty (days_remaining (clock (xv e) (tick w)) d) ts) of
        None \<Rightarrow> expiry_sent w' = expiry_sent w \<and> expiry_logs w' = expiry_logs w
      | Some t \<Rightarrow> \<exists>p k. alert_for r ty d issuer (days_remaining (clock (xv e) (tick w)) d) t p \<and>
          expiry_sent w' = expiry_sent w @ map (\<lambda>c. (ch_ID c, p)) (take k cs) \<and>
          (if x = Inr () then length cs \<le> k \<and> (\<exists>row. expiry_logs w' = expiry_logs w @ [row] \<and> log_key (r_ID r) ty t row)
           else expiry_logs w' = expiry_logs w))"
proof -
  obtain x w' where run: "run_state (checkExpiry e r ty d issuer ts cs) w = (x, w')" by fastforce
  let ?days = "days_remaining (clock (xv e) (tick w)) d"
  obtain y v where pick: "run_state (pick_threshold e (r_ID r) ty ?days None ts) (bump w) = (y, v)" by fastforce
  note same = pick_parts [OF pick]
  show ?thesis
  proof (cases y)
    case (Inl err)
    then have "x = Inl err" "w' = v" using run pick by (simp_all add: checkExpiry_def run_simps Let_def)
    then show ?thesis using run same
      by (auto simp: alert_for_def split: option.splits intro!: exI [of _ "\<lparr>xn_Resource = r, xn_ExpiryType = ty, xn_DaysRemaining = ?days, xn_ExpiresAt = d, xn_Issuer = issuer,
             xn_Threshold = t, xn_TriggeredAt = 0\<rparr>" for t] exI [of _ 0])
  next
    case (Inr best)
    then have best: "best = smallest (due_thresholds w (r_ID r) ty ?days ts)"
      using pick_run [of e "r_ID r" ty ?days None ts "bump w" best] pick by (simp add: better_def)
    show ?thesis
    proof (cases best)
      case None
      then have "w' = v" using run pick Inr by (simp add: checkExpiry_def run_simps Let_def)
      then show ?thesis using run same best None by simp
    next
      case (Some t)
      let ?p = "\<lparr>xn_Resource = r, xn_ExpiryType = ty, xn_DaysRemaining = ?days, xn_ExpiresAt = d, xn_Issuer = issuer,
             xn_Threshold = t, xn_TriggeredAt = clock (xv e) (tick v)\<rparr>"
      have send: "run_state (sendExpiryNotification e r cs ?p t) (bump v) = (x, w')"
        using run pick Inr Some by (simp add: checkExpiry_def run_simps Let_def)
      obtain z u where disp: "run_state (dispatch_channels e ?p cs) (bump v) = (z, u)" by fastforce
      from dispatch_channels_run [OF disp] obtain k where k: "k \<le> length cs"
        "expiry_sent u = expiry_sent w @ map (\<lambda>c. (ch_ID c, ?p)) (take k cs)" "z = None \<longrightarrow> k = length cs"
        "expiry_logs u = expiry_logs w" using same by auto
      have "expiry_sent w' = expiry_sent u \<and> (if x = Inr () then z = None \<and> (\<exists>row. expiry_logs w' = expiry_logs w @ [row] \<and> log_key (r_ID r) ty t row)
           else expiry_logs w' = expiry_logs w)"
      proof (cases z)
        case None
        obtain l where "run_state (Logs_Create e l) (bump u) = (x, w')" "el_ResourceID l = r_ID r" "el_ExpiryType l = ty" "el_Threshold l = t"
          using send disp None by (simp add: sendExpiryNotification_def recordNotified_def run_simps)
        from log_create_run [OF this(1)] this(2-4) k None show ?thesis by auto
      next
        case (Some err)
        then show ?thesis using send disp k by (auto simp: sendExpiryNotification_def run_simps)
      qed
      then show ?thesis using run k Some best
        by (auto simp: alert_for_def intro!: exI [of _ ?p] exI [of _ k])
    qed
  qed
qed

section \<open>A recorded threshold is not alerted again\<close>

definition about_log :: "expiry_notification_log \<Rightarrow> string \<times> expiry_notification \<Rightarrow> bool" where
  "about_log l = (\<lambda>(c, p). log_key (r_ID (xn_Resource p)) (xn_ExpiryType p) (xn_Threshold p) l)"

definition alerts_for :: "expiry_notification_log \<Rightarrow> expiry_world \<Rightarrow> (string \<times> expiry_notification) list" where
  "alerts_for l w = filter (about_log l) (expiry_sent w)"

definition silent :: "expiry_notification_log \<Rightarrow> (string \<times> expiry_notification) list \<Rightarrow> expiry_world \<Rightarrow> bool" where
  "silent l past w \<longleftrightarrow> l \<in> set (expiry_logs w) \<and> alerts_for l w = past"

lemma silent_cong: "expiry_logs w' = expiry_logs w \<Longrightarrow> expiry_sent w' = expiry_sent w \<Longrightarrow> silent l past w' = silent l past w"
  by (simp add: silent_def alerts_for_def)

lemma extend_parts [simp]:
  "expiry_logs (world.extend v (world.more w)) = expiry_logs w" "expiry_sent (world.extend v (world.more w)) = expiry_sent w"
  by (cases w; simp add: world.extend_def)+

lemma on_world_parts [simp]:
  "expiry_logs (snd (run_state (on_world m) w)) = expiry_logs w" "expiry_sent (snd (run_state (on_world m) w)) = expiry_sent w"
  "resources (snd (run_state (on_world m) w)) = resources (snd (run_state m (world.truncate w)))"
  "tick (snd (run_state (on_world m) w)) = tick (snd (run_state m (world.truncate w)))"
  "fst (run_state (on_world m) w) = fst (run_state m (world.truncate w))"
  by (simp_all add: run_on_world)

lemma on_world_silent: "preserves (silent l past) (on_world m)"
  by (simp add: preserves_def silent_def alerts_for_def)

lemma not_logged: "l \<in> set (expiry_logs w) \<Longrightarrow> log_key rid ty t l \<Longrightarrow> is_logged w rid ty t"
  by (auto simp: is_logged_def list_ex_iff)

lemma smallest_mem: "smallest ts = Some t \<Longrightarrow> t \<in> set ts"
  by (auto simp: smallest_def split: if_splits)

lemma check_silent: "preserves (silent l past) (checkExpiry e r ty d issuer ts cs)"
proof (rule preservesI)
  fix w assume s: "silent l past w"
  obtain x w' where run: "run_state (checkExpiry e r ty d issuer ts cs) w = (x, w')" by fastforce
  let ?due = "due_thresholds w (r_ID r) ty (days_remaining (clock (xv e) (tick w)) d) ts"
  note out = check_outcome [where e = e and r = r and ty = ty and d = d and issuer = issuer and ts = ts and cs = cs and w = w, unfolded run prod.case]
  show "silent l past (snd (run_state (checkExpiry e r ty d issuer ts cs) w))"
  proof (cases "smallest ?due")
    case None
    then show ?thesis using out s run by (simp add: silent_cong [of w' w])
  next
    case (Some t)
    from smallest_mem [OF this] have fresh: "\<not> log_key (r_ID r) ty t l"
      using not_logged [of l w] s by (auto simp: due_thresholds_def silent_def)
    from out [unfolded Some option.case] obtain p k where p: "alert_for r ty d issuer (days_remaining (clock (xv e) (tick w)) d) t p"
      "expiry_sent w' = expiry_sent w @ map (\<lambda>c. (ch_ID c, p)) (take k cs)"
      "if x = Inr () then length cs \<le> k \<and> (\<exists>row. expiry_logs w' = expiry_logs w @ [row] \<and> log_key (r_ID r) ty t row)
       else expiry_logs w' = expiry_logs w" by blast
    from p(3) have logs: "set (expiry_logs w) \<subseteq> set (expiry_logs w')" by (auto split: if_splits)
    have "filter (about_log l) (map (\<lambda>c. (ch_ID c, p)) (take k cs)) = []"
      using fresh p(1) by (auto simp: filter_empty_conv about_log_def alert_for_def)
    then show ?thesis using p(2) logs s run by (auto simp: silent_def alerts_for_def)
  qed
qed

lemma notify_silent: "preserves (silent l past) (CheckAndNotify e r cs)"
  unfolding CheckAndNotify_def check_ssl_def check_domain_def Let_def by (intro pres check_silent)

lemma bump_silent: "silent l past w \<Longrightarrow> silent l past (bump w)"
  by (simp add: silent_cong [of "bump w" w])

lemma reset_silent: "(el_ResourceID l, el_ExpiryType l) \<noteq> (rid, ty) \<Longrightarrow> preserves (silent l past) (ResetLogs e rid ty)"
  unfolding ResetLogs_def Logs_DeleteByResourceIDAndType_def
  by (rule preserves_repo_call) (auto simp: bump_silent, auto simp: silent_def alerts_for_def)

lemma cleanup_silent:
  assumes "\<And>n. clock (xv e) n \<le> el_SentAt l + 365 * 24 * Hour"
  shows "preserves (silent l past) (CleanupOldLogs e)"
proof -
  have "\<not> el_SentAt l < clock (xv e) n - 365 * 24 * Hour" for n using assms [of n] by simp
  then have "silent l past w \<Longrightarrow> silent l past (w\<lparr>expiry_logs := filter (\<lambda>l. \<not> el_SentAt l < clock (xv e) n - 365 * 24 * Hour) (expiry_logs w)\<rparr>)"
    for w n by (simp add: silent_def alerts_for_def)
  note gone = this [of "bump (bump w)" n for w n, simplified]
  show ?thesis
    unfolding CleanupOldLogs_def Logs_DeleteOlderThan_def preserves_def by (simp add: run_simps bump_silent gone)
qed

definition date_of :: "string \<Rightarrow> resource_meta_data \<Rightarrow> time option" where
  "date_of ty m = (if ty = ''ssl'' then md_SSLExpirationDate m else md_DomainExpirationDate m)"

definition renewed :: "string \<Rightarrow> resource \<Rightarrow> resource_meta_data \<Rightarrow> bool" where
  "renewed ty r fresh \<longleftrightarrow> (\<exists>m a b. r_Metadata r = Some m \<and> date_of ty m = Some a \<and> date_of ty fresh = Some b \<and> a < b)"

lemma renewed_cases:
  "r_Metadata r = Some m \<Longrightarrow> sslRenewed m fresh = renewed ''ssl'' r fresh"
  "r_Metadata r = Some m \<Longrightarrow> domainRenewed m fresh = renewed ''domain'' r fresh"
  by (auto simp: sslRenewed_def domainRenewed_def renewed_def date_of_def split: option.splits)

lemma reset_renewed_silent:
  "\<not> (r_ID r = el_ResourceID l \<and> renewed (el_ExpiryType l) r fresh) \<Longrightarrow> preserves (silent l past) (reset_renewed e r fresh)"
  unfolding reset_renewed_def by (intro pres reset_silent) (auto simp: renewed_cases)

lemma process_silent:
  assumes "\<And>n. \<not> (r_ID r = el_ResourceID l \<and> renewed (el_ExpiryType l) r (Metadata_Enrich (xe_lookups e) n r))"
  shows "preserves (silent l past) (processResource e r)"
  unfolding processResource_def Let_def
  by (intro pres notify_silent on_world_silent reset_renewed_silent assms) (simp add: preserves_def State_Monad.get_def)

definition unrenewed :: "expiry_env \<Rightarrow> expiry_notification_log \<Rightarrow> expiry_world \<Rightarrow> bool" where
  "unrenewed e l w \<longleftrightarrow> (\<forall>r\<in>set (resources w). r_ID r = el_ResourceID l \<longrightarrow>
     (\<forall>n. \<not> renewed (el_ExpiryType l) r (Metadata_Enrich (xe_lookups e) n r)))"

lemma find_active_run:
  assumes "run_state (on_world (Resources_FindActive e k j)) w = (Inr rs, w')"
  shows "set rs \<subseteq> set (resources w)" "expiry_part w' = expiry_part w" "tick w \<le> tick w'"
proof -
  have w': "w' = snd (run_state (on_world (Resources_FindActive e k j)) w)" using assms by simp
  show "expiry_part w' = expiry_part w" "tick w \<le> tick w'"
    by (simp_all add: w' expiry_part_def Resources_FindActive_def run_simps bump_def)
  have "fst (run_state (Resources_FindActive e k j) (world.truncate w)) = Inr rs"
    using assms on_world_parts(5) [of "Resources_FindActive e k j" w] by simp
  then show "set rs \<subseteq> set (resources w)"
    by (auto simp: Resources_FindActive_def run_simps wrap_db_def page_def newest_first_def bump_def split: if_splits
        dest!: in_set_takeD in_set_dropD)
qed

lemma day_silent:
  assumes "silent l past w" "unrenewed e l w" "\<And>n. clock (xv e) n \<le> el_SentAt l + 365 * 24 * Hour"
  shows "silent l past (snd (run_state (Expiry_ProcessTask e) w))"
proof -
  obtain x v where find: "run_state (on_world (Resources_FindActive (xv e) 10000 0)) w = (x, v)" by fastforce
  show ?thesis
  proof (cases x)
    case (Inl err)
    with find preservesD [OF on_world_silent assms(1), of "Resources_FindActive (xv e) 10000 0"] show ?thesis
      by (simp add: Expiry_ProcessTask_def run_simps)
  next
    case (Inr rs)
    note rs = find_active_run [OF find [unfolded Inr]]
    have v: "silent l past v" using assms(1) rs(2) by (simp add: expiry_part_def silent_cong [of v w])
    have "preserves (silent l past) (for_each (\<lambda>r. if r_Type r \<noteq> ResourceHTTP then State_Monad.return () else processResource e r) rs)"
      using assms(2) rs(1) by (intro pres process_silent) (auto simp: unrenewed_def)
    from preservesD [OF cleanup_silent [OF assms(3)] preservesD [OF this v]] show ?thesis
      using find Inr by (simp add: Expiry_ProcessTask_def run_simps split_beta)
  qed
qed


definition dates_in :: "time option set \<Rightarrow> expiry_notification_log \<Rightarrow> expiry_world \<Rightarrow> bool" where
  "dates_in S l w \<longleftrightarrow> (\<forall>r\<in>set (resources w). r_ID r = el_ResourceID l \<longrightarrow>
     (case r_Metadata r of None \<Rightarrow> True | Some m \<Rightarrow> date_of (el_ExpiryType l) m \<in> S))"

lemma dates_in_stable: "stable resources (dates_in S l)"
  by (simp add: stable_def dates_in_def)

lemma keeps_resources_check [keep]: "keeps resources (checkExpiry e r ty d issuer ts cs)"
proof -
  have [keep]: "keeps resources (expiry_dispatch e p c)" for p c
    unfolding keeps_def using dispatch_run by (metis prod.collapse)
  have [keep]: "keeps resources (dispatch_channels e p cs)" for p
    by (induction cs) (auto intro!: keep)
  have [keep]: "keeps resources (Logs_Create e l)" for l
    unfolding keeps_def using log_create_run by (metis prod.collapse)
  show ?thesis
    unfolding checkExpiry_def sendExpiryNotification_def recordNotified_def Let_def by (intro keep; simp)
qed

lemma keeps_resources [keep]:
  "keeps resources (CheckAndNotify e r cs)" "keeps resources (reset_renewed e r fresh)" "keeps resources (CleanupOldLogs e)"
  "keeps resources (on_world (Channels_FindByResourceID (xv e) rid))"
  unfolding CheckAndNotify_def check_ssl_def check_domain_def reset_renewed_def ResetLogs_def CleanupOldLogs_def
    Logs_DeleteByResourceIDAndType_def Logs_DeleteOlderThan_def Let_def
     apply (intro keep; simp add: bump_def)
    apply (intro keep; simp add: bump_def)
   apply (intro keep; simp add: bump_def)
  apply (simp add: keeps_def Channels_FindByResourceID_def run_on_world run_simps bump_def)
  done

lemma update_metadata_resources:
  "resources (snd (run_state (Resources_UpdateMetadata e rid m) (world.truncate w))) =
    (if fault e (tick w) then resources w else tbl_update r_ID rid (\<lambda>r. r\<lparr>r_Metadata := Some m\<rparr>) (resources w))"
  by (auto simp: Resources_UpdateMetadata_def Resources_execUpdate_def run_simps bump_def list_ex_iff intro!: tbl_update_id [symmetric])

lemma update_dates:
  assumes "rid = el_ResourceID l \<Longrightarrow> date_of (el_ExpiryType l) m \<in> S"
  shows "preserves (dates_in S l) (on_world (Resources_UpdateMetadata e rid m))"
  using assms by (auto simp: preserves_def dates_in_def update_metadata_resources tbl_update_def split: option.splits)

lemma process_dates:
  assumes "\<And>n. r_ID r = el_ResourceID l \<Longrightarrow> date_of (el_ExpiryType l) (Metadata_Enrich (xe_lookups e) n r) \<in> S"
  shows "preserves (dates_in S l) (processResource e r)"
  unfolding processResource_def Let_def
  by (intro pres update_dates assms keeps_preserves [OF _ dates_in_stable] keeps_resources) (auto simp: keeps_def State_Monad.get_def)

lemma day_dates:
  assumes "\<And>n r. r_ID r = el_ResourceID l \<Longrightarrow> date_of (el_ExpiryType l) (Metadata_Enrich (xe_lookups e) n r) \<in> S"
  shows "preserves (dates_in S l) (Expiry_ProcessTask e)"
proof -
  have "preserves (dates_in S l) (on_world (Resources_FindActive (xv e) n k))" for n k
    by (simp add: preserves_def dates_in_def Resources_FindActive_def run_simps bump_def)
  then show ?thesis
    unfolding Expiry_ProcessTask_def
    by (intro pres process_dates assms keeps_preserves [OF keeps_resources(3) dates_in_stable])
qed

text \<open>
  C33: Once a threshold is recorded it is not alerted again as long as the certificate or domain is not renewed: in
  any number of daily runs, with any failures of the database, the lookups and the deliveries, no message
  for it is sent - while no lookup reports another date than the expiry date \<open>D\<close>, and the record is
  younger than a year.
\<close>

theorem logged_threshold_is_silent:
  assumes "l \<in> set (expiry_logs w)" and "dates_in ({None} \<union> Some ` {D..}) l w"
    and dates: "\<And>n r. r_ID r = el_ResourceID l \<Longrightarrow> date_of (el_ExpiryType l) (Metadata_Enrich (xe_lookups e) n r) \<in> {None, Some D}"
    and year: "\<And>n. clock (xv e) n \<le> el_SentAt l + 365 * 24 * Hour"
  shows "alerts_for l (snd (run_state (expiry_days e n) w)) = alerts_for l w"
proof -
  let ?S = "{None} \<union> Some ` {D..}"
  have unren: "unrenewed e l v" if "dates_in ?S l v" for v
  proof -
    have "\<not> renewed (el_ExpiryType l) r (Metadata_Enrich (xe_lookups e) n r)" if "r \<in> set (resources v)" "r_ID r = el_ResourceID l" for r n
      using \<open>dates_in ?S l v\<close> that dates [of r n] by (fastforce simp: dates_in_def renewed_def)
    then show ?thesis by (simp add: unrenewed_def)
  qed
  have "preserves (\<lambda>v. silent l (alerts_for l w) v \<and> dates_in ?S l v) (Expiry_ProcessTask e)"
  proof (rule preservesI, elim conjE, rule conjI)
    fix v assume v: "silent l (alerts_for l w) v" "dates_in ?S l v"
    show "silent l (alerts_for l w) (snd (run_state (Expiry_ProcessTask e) v))" by (rule day_silent [OF v(1) unren [OF v(2)] year])
    show "dates_in ?S l (snd (run_state (Expiry_ProcessTask e) v))" using dates by (intro preservesD [OF day_dates v(2)]) fastforce
  qed
  then have "preserves (\<lambda>v. silent l (alerts_for l w) v \<and> dates_in ?S l v) (expiry_days e n)"
    by (induction n) (auto intro!: pres)
  from preservesD [OF this] assms(1,2) show ?thesis by (auto simp: silent_def)
qed

section \<open>A failed lookup hides a renewal\<close>


section \<open>Passed thresholds are alerted one per day\<close>

definition fresh_ids :: "expiry_env \<Rightarrow> expiry_world \<Rightarrow> bool" where
  "fresh_ids e w \<longleftrightarrow> (\<forall>l\<in>set (expiry_logs w). \<forall>n\<ge>tick w. el_ID l \<noteq> ulid (xv e) n)"

definition deliverable :: "expiry_env \<Rightarrow> notification_channel \<Rightarrow> bool" where
  "deliverable e c \<longleftrightarrow> channel_type_string (ch_Type c) \<in> {''smtp'', ''webhook''} \<and> xe_build e c = None \<and> (\<forall>n p. xe_send e n c p = None)"

fun repeat_check ::
    "expiry_env \<Rightarrow> resource \<Rightarrow> string \<Rightarrow> time \<Rightarrow> string \<Rightarrow> int list \<Rightarrow> notification_channel list \<Rightarrow> nat \<Rightarrow> (expiry_world, unit) state" where
  "repeat_check e r ty d issuer ts cs 0 = State_Monad.return ()"
| "repeat_check e r ty d issuer ts cs (Suc n) = do {
     _ \<leftarrow> checkExpiry e r ty d issuer ts cs;
     repeat_check e r ty d issuer ts cs n
   }"

lemma dispatch_deliverable:
  "deliverable e c \<Longrightarrow> run_state (dispatch_channels e p [c]) w = (None, (bump w)\<lparr>expiry_sent := expiry_sent w @ [(ch_ID c, p)]\<rparr>)"
  by (auto simp: deliverable_def expiry_dispatch_def expiry_Send_def run_simps Let_def)

lemma check_step:
  assumes nf: "\<And>n. \<not> fault (xv e) n" and c: "deliverable e c" and ids: "inj (ulid (xv e))" "fresh_ids e w"
    and r: "r_ID r \<in> r_ID ` set (resources w)"
    and due: "smallest (due_thresholds w (r_ID r) ty (days_remaining (clock (xv e) (tick w)) d) ts) = Some t"
    and run: "run_state (checkExpiry e r ty d issuer ts [c]) w = (x, w')"
  shows "\<exists>p row. expiry_sent w' = expiry_sent w @ [(ch_ID c, p)] \<and> xn_Threshold p = t \<and> expiry_logs w' = expiry_logs w @ [row] \<and>
    log_key (r_ID r) ty t row \<and> resources w' = resources w \<and> fresh_ids e w'"
proof -
  let ?days = "days_remaining (clock (xv e) (tick w)) d"
  obtain y v where pick: "run_state (pick_threshold e (r_ID r) ty ?days None ts) (bump w) = (y, v)" by fastforce
  have y: "y = Inr (Some t)"
    using pick_total [of e "r_ID r" ty ?days None ts "bump w", OF nf] pick_run [of e "r_ID r" ty ?days None ts "bump w"] pick due
    by (auto simp: better_def)
  note same = pick_parts [OF pick]
  have new: "\<not> list_ex (log_key (r_ID r) ty t) (expiry_logs w)"
    using smallest_mem [OF due] by (simp add: due_thresholds_def is_logged_def)
  have id: "ulid (xv e) n \<notin> el_ID ` set (expiry_logs w)" if "n \<ge> tick w" for n
    using ids(2) that unfolding fresh_ids_def by (metis imageE)
  show ?thesis
    using run pick y same new r id nf ids(2)
    by (auto simp: checkExpiry_def sendExpiryNotification_def recordNotified_def Logs_Create_def EnsureID_def run_simps Let_def
        dispatch_deliverable [OF c] inj_eq [OF ids(1)] tbl_has_iff log_key_def fresh_ids_def simp del: dispatch_channels.simps)
qed

lemma sort_filter_min:
  assumes "distinct ts" "filter P ts \<noteq> []" "m = Min (set (filter P ts))"
  shows "sort (filter P ts) = m # sort (filter (\<lambda>t. P t \<and> t \<noteq> m) ts)"
proof -
  have m: "m \<in> set (filter P ts)" using assms(2,3) Min_in [of "set (filter P ts)"] by (metis List.finite_set set_empty)
  have le: "\<forall>x\<in>set (filter P ts). m \<le> x" by (simp add: assms(3))
  have "sorted (m # sort (filter (\<lambda>t. P t \<and> t \<noteq> m) ts))" using le by auto
  moreover have "distinct (m # sort (filter (\<lambda>t. P t \<and> t \<noteq> m) ts))" using assms(1) by simp
  moreover have "set (m # sort (filter (\<lambda>t. P t \<and> t \<noteq> m) ts)) = set (filter P ts)" using m by auto
  ultimately show ?thesis
    by (intro sorted_distinct_set_unique) (use assms(1) in \<open>simp_all only: sorted_sort distinct_sort distinct_filter set_sort\<close>)
qed

text \<open>
  C39: A certificate that is found when it already has passed several thresholds is alerted for each of them, one per
  check, from the smallest to the largest: the first message carries the smallest threshold, and every
  later check sends one for a larger threshold that was passed long ago.
\<close>

theorem passed_thresholds_drain:
  assumes nf: "\<And>n. \<not> fault (xv e) n" and c: "deliverable e c" and ids: "inj (ulid (xv e))" "fresh_ids e w"
    and r: "r_ID r \<in> r_ID ` set (resources w)" and "distinct ts"
    and passed: "\<And>n t. t \<in> set ts \<Longrightarrow> days_remaining (clock (xv e) n) d \<le> t"
  shows "map (xn_Threshold \<circ> snd) (expiry_sent (snd (run_state (repeat_check e r ty d issuer ts [c] n) w))) =
    map (xn_Threshold \<circ> snd) (expiry_sent w) @ take n (sort (filter (\<lambda>t. \<not> is_logged w (r_ID r) ty t) ts))"
  using ids(2) r
proof (induction n arbitrary: w)
  case (Suc n)
  let ?rest = "filter (\<lambda>t. \<not> is_logged w (r_ID r) ty t) ts"
  obtain x v where run: "run_state (checkExpiry e r ty d issuer ts [c]) w = (x, v)" by fastforce
  have due: "due_thresholds w (r_ID r) ty (days_remaining (clock (xv e) (tick w)) d) ts = ?rest"
    using passed by (auto simp: due_thresholds_def intro: filter_cong)
  show ?case
  proof (cases "?rest = []")
    case True
    have out: "expiry_sent v = expiry_sent w \<and> expiry_logs v = expiry_logs w"
      using check_outcome [where e = e and r = r and ty = ty and d = d and issuer = issuer and ts = ts and cs = "[c]" and w = w, unfolded run prod.case due]
        True by (simp add: smallest_def)
    have "resources v = resources w" "tick w \<le> tick v"
      using keeps_resources_check [of e r ty d issuer ts "[c]"] run by (auto simp: keeps_def dest: spec [of _ w])
    with Suc.IH [of v] Suc.prems run out True show ?thesis
      by (simp add: fresh_ids_def is_logged_def run_simps)
  next
    case False
    define m where "m = Min (set ?rest)"
    have small: "smallest (due_thresholds w (r_ID r) ty (days_remaining (clock (xv e) (tick w)) d) ts) = Some m"
      using False by (simp add: due smallest_def m_def)
    from check_step [OF nf c ids(1) Suc.prems small run] obtain p row where v:
      "expiry_sent v = expiry_sent w @ [(ch_ID c, p)]" "xn_Threshold p = m" "expiry_logs v = expiry_logs w @ [row]"
      "log_key (r_ID r) ty m row" "resources v = resources w" "fresh_ids e v" by blast
    have "filter (\<lambda>t. \<not> is_logged v (r_ID r) ty t) ts = filter (\<lambda>t. \<not> is_logged w (r_ID r) ty t \<and> t \<noteq> m) ts"
      using v(3,4) by (intro filter_cong) (auto simp: is_logged_def log_key_def)
    then show ?thesis
      using Suc.IH [of v] Suc.prems(2) run v sort_filter_min [OF \<open>distinct ts\<close> False m_def] by (simp add: run_simps)
  qed
qed (simp add: run_simps)

text \<open>Without a channel of its own a resource gets no alert, and the threshold is recorded as alerted.\<close>

lemma no_channel_records:
  assumes nf: "\<And>n. \<not> fault (xv e) n" and ids: "fresh_ids e w" and r: "r_ID r \<in> r_ID ` set (resources w)"
    and due: "smallest (due_thresholds w (r_ID r) ty (days_remaining (clock (xv e) (tick w)) d) ts) = Some t"
    and run: "run_state (checkExpiry e r ty d issuer ts []) w = (x, w')"
  shows "expiry_sent w' = expiry_sent w \<and> is_logged w' (r_ID r) ty t"
proof -
  let ?days = "days_remaining (clock (xv e) (tick w)) d"
  obtain y v where pick: "run_state (pick_threshold e (r_ID r) ty ?days None ts) (bump w) = (y, v)" by fastforce
  have y: "y = Inr (Some t)"
    using pick_total [of e "r_ID r" ty ?days None ts "bump w", OF nf] pick_run [of e "r_ID r" ty ?days None ts "bump w"] pick due
    by (auto simp: better_def)
  note same = pick_parts [OF pick]
  have new: "\<not> list_ex (log_key (r_ID r) ty t) (expiry_logs w)"
    using smallest_mem [OF due] by (simp add: due_thresholds_def is_logged_def)
  have id: "ulid (xv e) n \<notin> el_ID ` set (expiry_logs w)" if "n \<ge> tick w" for n
    using ids that unfolding fresh_ids_def by (metis imageE)
  show ?thesis
    using run pick y same new r nf id
    by (auto simp: checkExpiry_def sendExpiryNotification_def recordNotified_def Logs_Create_def EnsureID_def run_simps Let_def
        tbl_has_iff log_key_def is_logged_def split: if_splits)
qed

section \<open>Sample inputs for the witnesses\<close>

definition demo_expiry :: "time option \<Rightarrow> expiry_env" where
  "demo_expiry d = \<lparr>clock = (\<lambda>_. 0), fault = (\<lambda>_. False), ulid = (\<lambda>n. replicate n CHR ''i''), xe_build = (\<lambda>_. None),
     xe_send = (\<lambda>_ _ _. None),
     xe_lookups = \<lparr>url_host = (\<lambda>_. Some ''example.org''), tls_info = (\<lambda>_ _ _. Some (d, ''CA'')), whois_lookup = (\<lambda>_ _. None)\<rparr>,
     xe_globalThresholds = []\<rparr>"

definition demo_log :: expiry_notification_log where
  "demo_log = \<lparr>el_ID = ''l1'', el_ResourceID = ''r1'', el_ExpiryType = ''ssl'', el_Threshold = 7, el_SentAt = 0, el_CreatedAt = 0, el_UpdatedAt = 0\<rparr>"

definition demo_expiring :: "expiry_notification_log list \<Rightarrow> expiry_world" where
  "demo_expiring ls = world.extend demo_world (expiry_world.fields ls [])"

lemma demo_expiry_laws [simp]:
  "clock (xv (demo_expiry d)) n = 0" "\<not> fault (xv (demo_expiry d)) n" "ulid (xv (demo_expiry d)) n = replicate n CHR ''i''"
  "expiry_logs (demo_expiring ls) = ls" "expiry_sent (demo_expiring ls) = []" "resources (demo_expiring ls) = [demo_resource]"
  by (simp_all add: demo_expiry_def env.truncate_def demo_expiring_def world.extend_def expiry_world.fields_def demo_world_def)

lemma demo_dates: "date_of ''ssl'' (Metadata_Enrich (xe_lookups (demo_expiry d)) n r) \<in> {None, d}"
  by (simp add: demo_expiry_def Metadata_Enrich_def date_of_def metadata_zero_def Let_def)

theorem logged_threshold_is_silent_witness:
  "alerts_for demo_log (snd (run_state (expiry_days (demo_expiry (Some 5)) 3) (demo_expiring [demo_log]))) = []"
proof -
  have "alerts_for demo_log (snd (run_state (expiry_days (demo_expiry (Some 5)) 3) (demo_expiring [demo_log]))) =
      alerts_for demo_log (demo_expiring [demo_log])"
    using demo_dates [of "Some 5"]
    by (intro logged_threshold_is_silent [where D = 5]) (simp_all add: demo_log_def dates_in_def demo_resource_def)
  then show ?thesis by (simp add: alerts_for_def)
qed


theorem passed_thresholds_drain_witness:
  "map (xn_Threshold \<circ> snd) (expiry_sent (snd (run_state
     (repeat_check (demo_expiry None) demo_resource ''ssl'' 0 ''CA'' [30, 14, 7, 1] [demo_channel] 3) (demo_expiring [])))) = [1, 7, 14]"
proof -
  have "map (xn_Threshold \<circ> snd) (expiry_sent (snd (run_state
     (repeat_check (demo_expiry None) demo_resource ''ssl'' 0 ''CA'' [30, 14, 7, 1] [demo_channel] 3) (demo_expiring [])))) =
     map (xn_Threshold \<circ> snd) (expiry_sent (demo_expiring [])) @
       take 3 (sort (filter (\<lambda>t. \<not> is_logged (demo_expiring []) (r_ID demo_resource) ''ssl'' t) [30, 14, 7, 1]))"
  proof (rule passed_thresholds_drain)
    show "deliverable (demo_expiry None) demo_channel" by (simp add: deliverable_def demo_channel_def demo_expiry_def)
    show "inj (ulid (xv (demo_expiry None)))" by (rule injI) (metis demo_expiry_laws(3) length_replicate)
    show "days_remaining (clock (xv (demo_expiry None)) n) 0 \<le> t" if "t \<in> set [30, 14, 7, 1]" for n t
      using that by (auto simp: days_remaining_def time_sub_def go_div_def min_int64_def max_int64_def)
  qed (simp_all add: fresh_ids_def)
  then show ?thesis by (simp add: is_logged_def)
qed

end
