(* ===== verification/Uptime.thy ===== *)
theory Uptime
  imports Complex_Main Resources Extended_State
begin

text \<open>
  Daily uptime: \<open>service/uptime_aggregator.go\<close> and \<open>repository/store/uptime_daily_agg_repository_sqlc.go\<close>.

  Every few minutes the aggregator counts the checks of yesterday and today of every active resource and
  stores one row per resource and day. The state is \<open>world\<close> with the table of these rows and the settings of
  the status page. Ratios are rational numbers; what the database keeps of a ratio is the parameter
  \<open>keep_ratio\<close> - the identity for SQLite, four decimals for PostgreSQL.
\<close>

section \<open>State and repository\<close>

record uptime_daily_agg =
  ua_ResourceID :: string
  ua_Day :: time
  ua_Samples :: nat
  ua_Up :: nat
  ua_Degraded :: nat
  ua_Down :: nat
  ua_UptimeRatio :: rat
  ua_ComputedAt :: time

record status_page_settings =
  sp_Name :: string
  sp_HomepageURL :: string
  sp_LogoURLLight :: string
  sp_LogoURLDark :: string
  sp_FaviconURL :: string
  sp_PrimaryColor :: string
  sp_UmamiWebsiteID :: string
  sp_UmamiScriptURL :: string

record uptime_env = env +
  keep_ratio :: "rat \<Rightarrow> rat"

abbreviation uv :: "uptime_env \<Rightarrow> env" where
  "uv e \<equiv> env.truncate e"

record status_world = world +
  uptime_aggs :: "uptime_daily_agg list"
  page_settings :: "status_page_settings option"

abbreviation Day :: duration where "Day \<equiv> 24 * Hour"

definition truncDayUTC :: "time \<Rightarrow> time" where
  "truncDayUTC t = t - t mod Day"

text \<open>The primary key of the table is the resource with the day; an upsert replaces the row or adds one.\<close>

definition agg_key :: "uptime_daily_agg \<Rightarrow> string \<times> time" where
  "agg_key a = (ua_ResourceID a, ua_Day a)"

definition put_agg :: "uptime_daily_agg \<Rightarrow> uptime_daily_agg list \<Rightarrow> uptime_daily_agg list" where
  "put_agg a t = (if tbl_has agg_key (agg_key a) t then tbl_update agg_key (agg_key a) (\<lambda>_. a) t else t @ [a])"

definition Aggs_Upsert :: "uptime_env \<Rightarrow> uptime_daily_agg \<Rightarrow> (status_world, error + unit) state" where
  "Aggs_Upsert e a = do {
     t \<leftarrow> (if ua_ComputedAt a = zero_time then now (uv e) else State_Monad.return (ua_ComputedAt a));
     let row = a\<lparr>ua_Day := truncDayUTC (ua_Day a), ua_ComputedAt := t, ua_UptimeRatio := keep_ratio e (ua_UptimeRatio a)\<rparr>;
     repo_call (uv e) (\<lambda>w. (Inr (), w\<lparr>uptime_aggs := put_agg row (uptime_aggs w)\<rparr>))
   }"

definition days_between :: "time \<Rightarrow> time \<Rightarrow> uptime_daily_agg \<Rightarrow> bool" where
  "days_between from to a \<longleftrightarrow> truncDayUTC from \<le> ua_Day a \<and> ua_Day a \<le> truncDayUTC to"

definition Aggs_FindForResource :: "uptime_env \<Rightarrow> string \<Rightarrow> time \<Rightarrow> time \<Rightarrow> (status_world, error + uptime_daily_agg list) state" where
  "Aggs_FindForResource e rid from to = do {
     r \<leftarrow> repo_query (uv e) (\<lambda>w. Inr (sort_key ua_Day (filter (\<lambda>a. ua_ResourceID a = rid \<and> days_between from to a) (uptime_aggs w))));
     State_Monad.return (wrap_db ''sqlc: find uptime daily agg for resource'' r)
   }"

definition Aggs_FindRange :: "uptime_env \<Rightarrow> string list \<Rightarrow> time \<Rightarrow> time \<Rightarrow> (status_world, error + uptime_daily_agg list) state" where
  "Aggs_FindRange e rids from to =
     (if rids = [] then State_Monad.return (Inr [])
      else do {
        r \<leftarrow> repo_query (uv e) (\<lambda>w. Inr (sort_key ua_Day (filter (\<lambda>a. List.member rids (ua_ResourceID a) \<and> days_between from to a) (uptime_aggs w))));
        State_Monad.return (wrap_db ''sqlc: find uptime daily agg range'' r)
      })"

definition Aggs_FindEarliestDay :: "uptime_env \<Rightarrow> (status_world, error + time) state" where
  "Aggs_FindEarliestDay e = do {
     r \<leftarrow> repo_query (uv e) (\<lambda>w. Inr (case sort_key ua_Day (uptime_aggs w) of [] \<Rightarrow> zero_time | a # _ \<Rightarrow> ua_Day a));
     State_Monad.return (wrap_db ''sqlc: find earliest day'' r)
   }"

definition Activities_FindByResourceID :: "env \<Rightarrow> string \<Rightarrow> nat \<Rightarrow> nat \<Rightarrow> (world, error + monitoring_activity list) state" where
  "Activities_FindByResourceID e rid limit offset =
     (if rid = '''' then State_Monad.return (Inl ErrInvalidInput)
      else do {
        r \<leftarrow> repo_query e (\<lambda>w. Inr (page limit offset (sort_key (\<lambda>a. - ma_CreatedAt a) (filter (\<lambda>a. ma_ResourceID a = rid) (activities w)))));
        State_Monad.return (wrap_db ''sqlc: find by resource'' r)
      })"

section \<open>The aggregator\<close>

text \<open>The counters up, down and samples of the loop; degraded is declared and never changed.\<close>

fun tally :: "time \<Rightarrow> time \<Rightarrow> nat \<times> nat \<times> nat \<Rightarrow> monitoring_activity list \<Rightarrow> nat \<times> nat \<times> nat" where
  "tally dayStart dayEnd c [] = c"
| "tally dayStart dayEnd (up, down, samples) (act # rows) =
     (let ts = ma_CreatedAt act
      in if ts < dayStart \<or> \<not> ts < dayEnd then tally dayStart dayEnd (up, down, samples) rows
         else let samples = samples + 1
              in if ma_IsMaintenance act then tally dayStart dayEnd (up, down, samples - 1) rows
                 else if ma_Success act then tally dayStart dayEnd (up + 1, down, samples) rows
                 else tally dayStart dayEnd (up, down + 1, samples) rows)"

definition recompute :: "uptime_env \<Rightarrow> string \<Rightarrow> time \<Rightarrow> time \<Rightarrow> (status_world, error + unit) state" where
  "recompute e rid day computedAt =
     (let dayStart = truncDayUTC day; dayEnd = dayStart + Day
      in do {
        found \<leftarrow> on_world (Activities_FindByResourceID (uv e) rid 5000 0);
        (case found of
           Inl err \<Rightarrow> State_Monad.return (Inl (Wrapf ''uptime_aggregator: load activities'' err))
         | Inr rows \<Rightarrow>
             (case tally dayStart dayEnd (0, 0, 0) rows of (up, down, samples) \<Rightarrow>
                if samples = 0 then State_Monad.return (Inr ())
                else Aggs_Upsert e \<lparr>ua_ResourceID = rid, ua_Day = dayStart, ua_Samples = samples, ua_Up = up, ua_Degraded = 0,
                       ua_Down = down, ua_UptimeRatio = of_nat up / of_nat samples, ua_ComputedAt = computedAt\<rparr>))
      })"

fun recompute_days :: "uptime_env \<Rightarrow> string \<Rightarrow> time \<Rightarrow> time list \<Rightarrow> (status_world, error + unit) state" where
  "recompute_days e rid computedAt [] = State_Monad.return (Inr ())"
| "recompute_days e rid computedAt (day # days) = do {
     r \<leftarrow> recompute e rid day computedAt;
     (case r of Inl err \<Rightarrow> State_Monad.return (Inl err) | Inr _ \<Rightarrow> recompute_days e rid computedAt days)
   }"

fun recompute_resources :: "uptime_env \<Rightarrow> time \<Rightarrow> time list \<Rightarrow> resource list \<Rightarrow> (status_world, error + unit) state" where
  "recompute_resources e computedAt days [] = State_Monad.return (Inr ())"
| "recompute_resources e computedAt days (r # rs) = do {
     x \<leftarrow> recompute_days e (r_ID r) computedAt days;
     (case x of Inl err \<Rightarrow> State_Monad.return (Inl err) | Inr _ \<Rightarrow> recompute_resources e computedAt days rs)
   }"

definition RunOnce :: "uptime_env \<Rightarrow> (status_world, error + unit) state" where
  "RunOnce e = do {
     computedAt \<leftarrow> now (uv e);
     let today = truncDayUTC computedAt;
     let yesterday = today - Day;
     found \<leftarrow> on_world (Resources_FindActive (uv e) 5000 0);
     (case found of
        Inl err \<Rightarrow> State_Monad.return (Inl (Wrapf ''uptime_aggregator: list active'' err))
      | Inr rs \<Rightarrow> recompute_resources e computedAt [yesterday, today] rs)
   }"

section \<open>What a row says\<close>

definition counted :: "string \<Rightarrow> time \<Rightarrow> monitoring_activity list \<Rightarrow> monitoring_activity list" where
  "counted rid dayStart acts =
     filter (\<lambda>a. ma_ResourceID a = rid \<and> dayStart \<le> ma_CreatedAt a \<and> ma_CreatedAt a < dayStart + Day \<and> \<not> ma_IsMaintenance a) acts"

lemma tally_counts:
  "tally s f (u, d, n) rows =
    (let day = filter (\<lambda>a. s \<le> ma_CreatedAt a \<and> ma_CreatedAt a < f \<and> \<not> ma_IsMaintenance a) rows
     in (u + length (filter ma_Success day), d + length (filter (\<lambda>a. \<not> ma_Success a) day), n + length day))"
  by (induction rows arbitrary: u d n) (auto simp: Let_def)

lemma take_sorted_filter:
  assumes "length (filter P xs) \<le> n" "sorted_wrt (\<lambda>x y. P y \<longrightarrow> P x) xs"
  shows "filter P (take n xs) = filter P xs"
  using assms
proof (induction xs arbitrary: n)
  case (Cons x xs)
  show ?case
  proof (cases "P x")
    case True
    then obtain m where "n = Suc m" using Cons.prems(1) by (cases n) auto
    with Cons True show ?thesis by simp
  next
    case False
    then have "filter P xs = []" using Cons.prems(2) by (auto simp: filter_empty_conv)
    moreover from this have "filter P (take m xs) = []" for m by (auto simp: filter_empty_conv dest: in_set_takeD)
    ultimately show ?thesis using False by (cases n) auto
  qed
qed simp

lemma page_recent:
  assumes "length (filter (\<lambda>a. ma_ResourceID a = rid \<and> s \<le> ma_CreatedAt a) acts) \<le> n"
  shows "filter (\<lambda>a. s \<le> ma_CreatedAt a) (page n 0 (sort_key (\<lambda>a. - ma_CreatedAt a) (filter (\<lambda>a. ma_ResourceID a = rid) acts))) =
    sort_key (\<lambda>a. - ma_CreatedAt a) (filter (\<lambda>a. ma_ResourceID a = rid \<and> s \<le> ma_CreatedAt a) acts)"
proof -
  let ?xs = "sort_key (\<lambda>a. - ma_CreatedAt a) (filter (\<lambda>a. ma_ResourceID a = rid) acts)"
  have eq: "filter (\<lambda>a. s \<le> ma_CreatedAt a) ?xs = sort_key (\<lambda>a. - ma_CreatedAt a) (filter (\<lambda>a. ma_ResourceID a = rid \<and> s \<le> ma_CreatedAt a) acts)"
    by (simp add: filter_sort conj_commute)
  have "sorted_wrt (\<lambda>x y. ma_CreatedAt y \<le> ma_CreatedAt x) ?xs"
    using sorted_sort_key [of "\<lambda>a. - ma_CreatedAt a"] by (simp add: sorted_wrt_map)
  then have "sorted_wrt (\<lambda>x y. s \<le> ma_CreatedAt y \<longrightarrow> s \<le> ma_CreatedAt x) ?xs"
    by (rule sorted_wrt_mono_rel [rotated]) auto
  from take_sorted_filter [OF _ this, of n] show ?thesis
    using assms by (simp add: page_def eq)
qed

lemma tbl_find_replace:
  "tbl_find agg_key k (tbl_update agg_key (agg_key a) (\<lambda>_. a) t) =
    (if k = agg_key a then (if tbl_has agg_key (agg_key a) t then Some a else None) else tbl_find agg_key k t)"
  by (induction t) (auto simp: tbl_update_def tbl_has_iff)

lemma tbl_find_put: "tbl_find agg_key k (put_agg a t) = (if k = agg_key a then Some a else tbl_find agg_key k t)"
proof (cases "tbl_has agg_key (agg_key a) t")
  case False
  then have "tbl_find agg_key (agg_key a) t = None" by (simp add: tbl_has_iff tbl_find_None)
  then show ?thesis using False by (simp add: put_agg_def tbl_find_append split: option.splits)
qed (simp add: put_agg_def tbl_find_replace)

lemma truncDayUTC_idem [simp]: "truncDayUTC (truncDayUTC t) = truncDayUTC t" "truncDayUTC t mod 86400000000000 = 0"
  by (simp_all add: truncDayUTC_def mod_simps)

lemma activities_run:
  "run_state (on_world (Activities_FindByResourceID e rid n k)) w =
    (if rid = '''' then (Inl ErrInvalidInput, w)
     else if fault e (tick w) then (Inl (Wrapf ''sqlc: find by resource'' ErrDB), bump w)
     else (Inr (page n k (sort_key (\<lambda>a. - ma_CreatedAt a) (filter (\<lambda>a. ma_ResourceID a = rid) (activities w)))), bump w))"
  by (auto simp: Activities_FindByResourceID_def on_world_bind on_world_return run_simps wrap_db_def bump_def world.truncate_def)

lemma counted_page:
  assumes "length (filter (\<lambda>a. ma_ResourceID a = rid \<and> s \<le> ma_CreatedAt a) acts) \<le> n"
  shows "length (filter P (filter (\<lambda>a. s \<le> ma_CreatedAt a \<and> ma_CreatedAt a < s + Day \<and> \<not> ma_IsMaintenance a)
      (page n 0 (sort_key (\<lambda>a. - ma_CreatedAt a) (filter (\<lambda>a. ma_ResourceID a = rid) acts))))) = length (filter P (counted rid s acts))"
proof -
  let ?Q = "\<lambda>a. ma_CreatedAt a < s + Day \<and> \<not> ma_IsMaintenance a"
  have "filter (\<lambda>a. s \<le> ma_CreatedAt a \<and> ?Q a) xs = filter ?Q (filter (\<lambda>a. s \<le> ma_CreatedAt a) xs)"
    for xs :: "monitoring_activity list" by (simp add: conj_commute)
  then have "filter P (filter (\<lambda>a. s \<le> ma_CreatedAt a \<and> ?Q a)
      (page n 0 (sort_key (\<lambda>a. - ma_CreatedAt a) (filter (\<lambda>a. ma_ResourceID a = rid) acts)))) =
    sort_key (\<lambda>a. - ma_CreatedAt a) (filter P (filter ?Q (filter (\<lambda>a. ma_ResourceID a = rid \<and> s \<le> ma_CreatedAt a) acts)))"
    by (simp only: page_recent [OF assms] filter_sort)
  moreover have "filter ?Q (filter (\<lambda>a. ma_ResourceID a = rid \<and> s \<le> ma_CreatedAt a) acts) = counted rid s acts"
    by (auto simp: counted_def intro: filter_cong)
  ultimately show ?thesis by (simp only: length_sort)
qed

definition row_of :: "uptime_env \<Rightarrow> string \<Rightarrow> time \<Rightarrow> time \<Rightarrow> monitoring_activity list \<Rightarrow> uptime_daily_agg" where
  "row_of e rid day t acts = \<lparr>ua_ResourceID = rid, ua_Day = day, ua_Samples = length acts, ua_Up = length (filter ma_Success acts),
     ua_Degraded = 0, ua_Down = length (filter (\<lambda>a. \<not> ma_Success a) acts),
     ua_UptimeRatio = keep_ratio e (of_nat (length (filter ma_Success acts)) / of_nat (length acts)), ua_ComputedAt = t\<rparr>"


section \<open>The rows are consistent in every run\<close>

definition row_ok :: "uptime_env \<Rightarrow> uptime_daily_agg \<Rightarrow> bool" where
  "row_ok e a \<longleftrightarrow> 0 < ua_Samples a \<and> ua_Up a + ua_Down a = ua_Samples a \<and> ua_Day a mod Day = 0 \<and>
     ua_UptimeRatio a = keep_ratio e (of_nat (ua_Up a) / of_nat (ua_Samples a))"

definition rows_ok :: "uptime_env \<Rightarrow> status_world \<Rightarrow> bool" where
  "rows_ok e w \<longleftrightarrow> distinct_keys agg_key (uptime_aggs w) \<and> list_all (row_ok e) (uptime_aggs w)"

lemma rows_ok_put:
  assumes "distinct_keys agg_key t" "list_all (row_ok e) t" "row_ok e a"
  shows "distinct_keys agg_key (put_agg a t)" "list_all (row_ok e) (put_agg a t)"
proof -
  have "map agg_key (tbl_update agg_key (agg_key a) (\<lambda>_. a) t) = map agg_key t"
    by (simp add: tbl_update_def)
  with assms show "distinct_keys agg_key (put_agg a t)"
    by (auto simp: put_agg_def distinct_keys_def tbl_has_iff)
  show "list_all (row_ok e) (put_agg a t)"
    using assms by (auto simp: put_agg_def list_all_iff tbl_update_def)
qed

lemma rows_ok_bump: "rows_ok e w \<Longrightarrow> rows_ok e (bump w)"
  by (simp add: rows_ok_def bump_def)

lemma uptime_aggs_bump [simp]: "uptime_aggs (bump w) = uptime_aggs w"
  by (simp add: bump_def)

lemma recompute_ok: "preserves (rows_ok e) (recompute e rid day t)"
proof (rule preservesI)
  fix w assume w: "rows_ok e w"
  let ?rows = "page 5000 0 (sort_key (\<lambda>a. - ma_CreatedAt a) (filter (\<lambda>a. ma_ResourceID a = rid) (activities w)))"
  define d where "d = filter (\<lambda>a. truncDayUTC day \<le> ma_CreatedAt a \<and> ma_CreatedAt a < truncDayUTC day + Day \<and> \<not> ma_IsMaintenance a) ?rows"
  have tally: "tally (truncDayUTC day) (truncDayUTC day + 86400000000000) (0, 0, 0) ?rows =
      (length (filter ma_Success d), length (filter (\<lambda>a. \<not> ma_Success a) d), length d)"
    by (simp add: tally_counts Let_def d_def)
  have "row_ok e (row_of e rid (truncDayUTC day) u d)" if "d \<noteq> []" for u
    using that sum_length_filter_compl [of ma_Success d] by (simp add: row_ok_def row_of_def)
  then have put: "rows_ok e (v\<lparr>uptime_aggs := put_agg (row_of e rid (truncDayUTC day) u d) (uptime_aggs v)\<rparr>)" if "d \<noteq> []" "rows_ok e v" for u v
    using that rows_ok_put [of "uptime_aggs v" e] by (simp add: rows_ok_def)
  show "rows_ok e (snd (run_state (recompute e rid day t) w))"
    using w put [of "bump w"] put [of "bump (bump w)"] put [of "bump (bump (bump w))"]
    by (auto simp: recompute_def run_simps activities_run Let_def tally Aggs_Upsert_def rows_ok_bump row_of_def)
qed

lemma recompute_days_ok: "preserves (rows_ok e) (recompute_days e rid t days)"
  by (induction days) (auto intro!: pres recompute_ok)

lemma recompute_resources_ok: "preserves (rows_ok e) (recompute_resources e t days rs)"
  by (induction rs) (auto intro!: pres recompute_days_ok)

lemma run_once_ok: "preserves (rows_ok e) (RunOnce e)"
proof -
  have "uptime_aggs (world.extend v (world.more w)) = uptime_aggs w" for v and w :: status_world by (cases w) (simp add: world.extend_def)
  then have "preserves (rows_ok e) (on_world m)" for m :: "(world, error + resource list) state"
    by (simp add: preserves_def rows_ok_def run_on_world)
  then show ?thesis unfolding RunOnce_def Let_def
    by (intro pres recompute_resources_ok preserves_now) (auto simp: rows_ok_bump)
qed

fun run_times :: "uptime_env \<Rightarrow> nat \<Rightarrow> (status_world, unit) state" where
  "run_times e 0 = State_Monad.return ()"
| "run_times e (Suc n) = do { _ \<leftarrow> RunOnce e; run_times e n }"

text \<open>
  C32: In any number of runs of the aggregator, with any failures, there is at most one row per resource and day,
  the counts of a row add up, and its ratio is the share of successful checks.
\<close>

theorem uptime_rows_consistent:
  assumes "uptime_aggs w = []"
  shows "rows_ok e (snd (run_state (run_times e n) w))"
proof -
  have "preserves (rows_ok e) (run_times e n)" by (induction n) (auto intro!: pres run_once_ok)
  moreover have "rows_ok e w" by (simp add: rows_ok_def assms distinct_keys_def)
  ultimately show ?thesis by (rule preservesD)
qed

section \<open>More checks than the page\<close>

lemma take_filter_min:
  assumes "sorted_wrt (\<lambda>x y. P y \<longrightarrow> P x) xs"
  shows "length (filter P (take n xs)) = min n (length (filter P xs))"
  using assms
proof (induction xs arbitrary: n)
  case (Cons x xs)
  show ?case
  proof (cases "P x")
    case True
    with Cons show ?thesis by (cases n) auto
  next
    case False
    then have "filter P xs = []" using Cons.prems by (auto simp: filter_empty_conv)
    moreover from this have "filter P (take m xs) = []" for m by (auto simp: filter_empty_conv dest: in_set_takeD)
    ultimately show ?thesis using False by (cases n) auto
  qed
qed simp

text \<open>
  The aggregator reads the newest 5000 checks only: the later checks a resource has, the fewer of a day are
  counted. For a resource that is checked every ten seconds the row of yesterday is overwritten during the
  day with the last few checks of yesterday.
\<close>

lemma recompute_capped:
  assumes run: "run_state (recompute e rid day t) w = (Inr (), w')"
    and later: "length (filter (\<lambda>a. ma_ResourceID a = rid \<and> truncDayUTC day + Day \<le> ma_CreatedAt a) (activities w)) = c"
  shows "uptime_aggs w' = uptime_aggs w \<or>
    (\<exists>row. tbl_find agg_key (rid, truncDayUTC day) (uptime_aggs w') = Some row \<and> ua_Samples row + min 5000 c \<le> 5000)"
proof -
  let ?s = "truncDayUTC day"
  let ?xs = "sort_key (\<lambda>a. - ma_CreatedAt a) (filter (\<lambda>a. ma_ResourceID a = rid) (activities w))"
  let ?later = "\<lambda>a. ?s + Day \<le> ma_CreatedAt a"
  define d where "d = filter (\<lambda>a. ?s \<le> ma_CreatedAt a \<and> ma_CreatedAt a < ?s + Day \<and> \<not> ma_IsMaintenance a) (page 5000 0 ?xs)"
  have "sorted_wrt (\<lambda>x y. ma_CreatedAt y \<le> ma_CreatedAt x) ?xs"
    using sorted_sort_key [of "\<lambda>a. - ma_CreatedAt a"] by (simp add: sorted_wrt_map)
  then have "sorted_wrt (\<lambda>x y. ?later y \<longrightarrow> ?later x) ?xs"
    by (rule sorted_wrt_mono_rel [rotated]) auto
  from take_filter_min [OF this, of 5000] have "length (filter ?later (take 5000 ?xs)) = min 5000 (length (filter ?later ?xs))" .
  moreover have "length (filter ?later ?xs) = c"
    using later by (simp add: filter_sort conj_commute)
  moreover have "d = filter (\<lambda>a. ?s \<le> ma_CreatedAt a \<and> \<not> ma_IsMaintenance a) (filter (\<lambda>a. \<not> ?later a) (take 5000 ?xs))"
    by (auto simp: d_def page_def intro: filter_cong)
  then have "length d \<le> length (filter (\<lambda>a. \<not> ?later a) (take 5000 ?xs))" by (simp only: length_filter_le)
  ultimately have cap: "length d + min 5000 c \<le> 5000"
    using sum_length_filter_compl [of ?later "take 5000 ?xs"] by simp
  have tally: "tally ?s (?s + 86400000000000) (0, 0, 0) (page 5000 0 ?xs) =
      (length (filter ma_Success d), length (filter (\<lambda>a. \<not> ma_Success a) d), length d)"
    by (simp add: tally_counts Let_def d_def)
  have ok: "rid \<noteq> ''''" "\<not> fault (uv e) (tick w)"
    using run by (auto simp: recompute_def run_simps activities_run Let_def split: if_splits)
  show ?thesis
    using run ok cap
    by (auto simp: recompute_def run_simps activities_run Let_def tally Aggs_Upsert_def tbl_find_put agg_key_def split: if_splits)
qed

section \<open>Sample inputs for the witnesses\<close>

definition demo_activity :: "string \<Rightarrow> time \<Rightarrow> bool \<Rightarrow> monitoring_activity" where
  "demo_activity i t ok = \<lparr>ma_ID = i, ma_CreatedAt = t, ma_ResourceID = ''r1'', ma_Message = '''', ma_Success = ok, ma_ResponseTime = 5,
     ma_ResponseData = '''', ma_IsMaintenance = False\<rparr>"

definition demo_uptime :: uptime_env where
  "demo_uptime = \<lparr>clock = (\<lambda>n. int n + 5), fault = (\<lambda>_. False), ulid = (\<lambda>n. nat_digits n), keep_ratio = (\<lambda>x. x)\<rparr>"

definition demo_status :: status_world where
  "demo_status = world.extend (demo_world\<lparr>activities := [demo_activity ''a'' 3 True, demo_activity ''b'' 4 False]\<rparr>) (status_world.fields [] None)"

lemma demo_status_fields [simp]:
  "activities demo_status = [demo_activity ''a'' 3 True, demo_activity ''b'' 4 False]" "uptime_aggs demo_status = []"
  "\<not> fault (uv demo_uptime) n"
  by (simp_all add: demo_status_def world.extend_def status_world.fields_def demo_uptime_def env.truncate_def)


theorem uptime_rows_consistent_witness: "rows_ok demo_uptime (snd (run_state (run_times demo_uptime 2) demo_status))"
  by (rule uptime_rows_consistent) simp

end
