(* ===== verification/Public_Status.thy ===== *)
theory Public_Status
  imports Uptime "HOL-Library.List_Lexorder" "HOL-Library.Multiset"
begin

text \<open>
  The public status page: \<open>service/public_status_service.go\<close> with the types of \<open>dto/public_status.go\<close>.

  The page is computed from the stored resources, components, incidents, maintenances and daily uptime rows.
  Every repository is wired, as in the program; times are in UTC and days are named by their calendar date.
  Sorting by name is sorting of the bytes, and \<open>sort.SliceStable\<close> is the stable \<open>sort_key\<close>. Ratios are rational
  numbers. An incident comes with the name of its preloaded resource.
\<close>

section \<open>Calendar\<close>

text \<open>The proleptic Gregorian calendar from the number of days since 1970-01-01, by eras of 400 years from March.\<close>

definition civil_of_day :: "int \<Rightarrow> int \<times> int \<times> int" where
  "civil_of_day n =
     (let z = n + 719468; era = z div 146097; doe = z mod 146097;
          yoe = (doe - doe div 1460 + doe div 36524 - doe div 146096) div 365;
          doy = doe - (365 * yoe + yoe div 4 - yoe div 100);
          mp = (5 * doy + 2) div 153; d = doy - (153 * mp + 2) div 5 + 1;
          m = (if mp < 10 then mp + 3 else mp - 9)
      in (yoe + era * 400 + (if m \<le> 2 then 1 else 0), m, d))"

definition day_of_civil :: "int \<Rightarrow> int \<Rightarrow> int \<Rightarrow> int" where
  "day_of_civil y0 m d =
     (let y = (if m \<le> 2 then y0 - 1 else y0); era = y div 400; yoe = y mod 400;
          doy = (153 * (if m > 2 then m - 3 else m + 9) + 2) div 5 + d - 1;
          doe = yoe * 365 + yoe div 4 - yoe div 100 + doy
      in era * 146097 + doe - 719468)"

definition pad :: "nat \<Rightarrow> int \<Rightarrow> string" where
  "pad n i = replicate (n - length (itoa i)) CHR ''0'' @ itoa i"

definition month_key :: "time \<Rightarrow> string" where
  "month_key t = (case civil_of_day (t div Day) of (y, m, d) \<Rightarrow> pad 4 y @ ''-'' @ pad 2 m)"

definition day_key :: "time \<Rightarrow> string" where
  "day_key t = (case civil_of_day (t div Day) of (y, m, d) \<Rightarrow> pad 4 y @ ''-'' @ pad 2 m @ ''-'' @ pad 2 d)"

section \<open>Types (public\_status.go of dto)\<close>

datatype public_verdict_status = VerdictOperational | VerdictPartialDegradation | VerdictMajorOutage

datatype public_state =
    PublicStateUp | PublicStateDegraded | PublicStateDown | PublicStateMaintenance | PublicStateUnknown

datatype public_severity = PublicSeverityMinor | PublicSeverityMajor | PublicSeverityCritical

record public_verdict =
  pv_Status :: public_verdict_status
  pv_Label :: string
  pv_Color :: string

record public_ribbon_entry =
  rb_Day :: string
  rb_Ratio :: "rat option"

record public_resource =
  pr_ID :: string
  pr_Name :: string
  pr_Host :: string
  pr_CurrentState :: public_state
  pr_Uptime90dRatio :: rat
  pr_UptimeRibbon :: "public_ribbon_entry list"

record public_component =
  pc_ID :: string
  pc_Name :: string
  pc_AggregatedState :: public_state
  pc_Resources :: "public_resource list"

record public_incident_summary =
  pi_ID :: string
  pi_Title :: string
  pi_StartedAt :: time
  pi_ResolvedAt :: "time option"
  pi_Severity :: public_severity
  pi_ComponentID :: string
  pi_ResourceID :: string

record public_branding =
  pb_Name :: string
  pb_HomepageURL :: string
  pb_LogoURLLight :: string
  pb_LogoURLDark :: string
  pb_FaviconURL :: string
  pb_PrimaryColor :: string
  pb_UmamiWebsiteID :: string
  pb_UmamiScriptURL :: string

record public_uptime_window =
  uw_EarliestDay :: string
  uw_LatestDay :: string

record public_status =
  ps_GeneratedAt :: time
  ps_Branding :: public_branding
  ps_Verdict :: public_verdict
  ps_UptimeWindow :: public_uptime_window
  ps_Components :: "public_component list"
  ps_StandaloneResources :: "public_resource list"
  ps_CurrentMonthIncidents :: "public_incident_summary list"

record public_incident_month =
  pm_YearMonth :: string
  pm_Count :: nat
  pm_Incidents :: "public_incident_summary list"

record public_incidents_response =
  ir_GeneratedAt :: time
  ir_Total :: nat
  ir_Months :: "public_incident_month list"

record public_uptime_day =
  ud_Day :: string
  ud_UptimeRatio :: rat
  ud_Samples :: nat
  ud_Incidents :: nat
  ud_DowntimeSeconds :: int
  ud_RelatedIncidents :: "public_incident_summary list"

record public_uptime_response =
  ur_GeneratedAt :: time
  ur_Days :: "public_uptime_day list"

record public_window_stats =
  ws_UptimeRatio :: rat
  ws_Incidents :: nat

record public_incident_update =
  pu_ID :: string
  pu_Status :: incident_update_status
  pu_Message :: string
  pu_PostedAt :: time

record public_incident_detail =
  pd_ID :: string
  pd_Title :: string
  pd_Severity :: public_severity
  pd_StartedAt :: time
  pd_ResolvedAt :: "time option"
  pd_ComponentID :: string
  pd_ResourceID :: string
  pd_Updates :: "public_incident_update list"

record public_resource_windows =
  rw_ID :: string
  rw_Name :: string
  rw_Windows :: "(string \<times> public_window_stats) list"
  rw_Daily30d :: "public_ribbon_entry list"
  rw_RecentIncidents :: "public_incident_summary list"

section \<open>Repository reads\<close>

type_synonym loaded_incident = "incident \<times> string"

definition with_resources :: "world \<Rightarrow> incident list \<Rightarrow> loaded_incident list" where
  "with_resources w is = map (\<lambda>i. (i, case tbl_find r_ID (i_ResourceID i) (resources w) of None \<Rightarrow> '''' | Some r \<Rightarrow> r_Name r)) is"

definition Incidents_List :: "env \<Rightarrow> nat \<Rightarrow> nat \<Rightarrow> (world, error + loaded_incident list) state" where
  "Incidents_List e limit offset = do {
     r \<leftarrow> repo_query e (\<lambda>w. Inr (with_resources w (page limit offset (sort_key (\<lambda>i. - i_CreatedAt i) (incidents w)))));
     State_Monad.return (wrap_db ''sqlc: list incidents'' r)
   }"

definition Incidents_FindByID_loaded :: "env \<Rightarrow> string \<Rightarrow> (world, error + loaded_incident) state" where
  "Incidents_FindByID_loaded e i = do {
     r \<leftarrow> repo_query e (\<lambda>w. case tbl_find i_ID i (incidents w) of None \<Rightarrow> Inl ErrNotFound | Some inc \<Rightarrow> Inr (hd (with_resources w [inc])));
     State_Monad.return (wrap_db ''sqlc: find incident by id'' r)
   }"

definition Incidents_FindLoadedByResource :: "env \<Rightarrow> string \<Rightarrow> nat \<Rightarrow> nat \<Rightarrow> (world, error + loaded_incident list) state" where
  "Incidents_FindLoadedByResource e rid limit offset = do {
     r \<leftarrow> repo_query e (\<lambda>w. Inr (with_resources w (page limit offset (incidents_of rid (incidents w)))));
     State_Monad.return (wrap_db ''sqlc: find incidents by resource'' r)
   }"

definition IncidentUpdates_ListByIncident :: "env \<Rightarrow> string \<Rightarrow> (world, error + incident_update list) state" where
  "IncidentUpdates_ListByIncident e i = do {
     r \<leftarrow> repo_query e (\<lambda>w. Inr (sort_key (\<lambda>u. - iu_PostedAt u) (filter (\<lambda>u. iu_IncidentID u = i) (incident_updates w))));
     State_Monad.return (wrap_db ''sqlc: list incident_updates'' r)
   }"

definition defaultPrimaryColor :: "string \<Rightarrow> string" where
  "defaultPrimaryColor c = (if c = '''' then ''#4f46e5'' else c)"

definition defaultStatusPageSettings :: status_page_settings where
  "defaultStatusPageSettings = \<lparr>sp_Name = ''Status Page'', sp_HomepageURL = '''', sp_LogoURLLight = '''', sp_LogoURLDark = '''',
     sp_FaviconURL = '''', sp_PrimaryColor = '''', sp_UmamiWebsiteID = '''', sp_UmamiScriptURL = ''''\<rparr>"

definition Settings_Get :: "uptime_env \<Rightarrow> (status_world, error + status_page_settings) state" where
  "Settings_Get e = do {
     r \<leftarrow> repo_query (uv e) (\<lambda>w. Inr (case page_settings w of None \<Rightarrow> defaultStatusPageSettings
            | Some s \<Rightarrow> s\<lparr>sp_PrimaryColor := defaultPrimaryColor (sp_PrimaryColor s)\<rparr>));
     State_Monad.return (wrap_db ''sqlc: get status page settings'' r)
   }"

section \<open>Pure parts\<close>

definition incidentTitle :: "loaded_incident \<Rightarrow> string" where
  "incidentTitle = (\<lambda>(inc, name). if i_Cause inc \<noteq> '''' then i_Cause inc else ''Incident on '' @ name)"

definition severity_of :: "incident \<Rightarrow> public_severity" where
  "severity_of inc = (if i_ResolvedAt inc = None then PublicSeverityMajor else PublicSeverityMinor)"

definition incident_summary :: "string \<Rightarrow> loaded_incident \<Rightarrow> public_incident_summary" where
  "incident_summary cid = (\<lambda>(inc, name). \<lparr>pi_ID = i_ID inc, pi_Title = incidentTitle (inc, name), pi_StartedAt = i_StartedAt inc,
     pi_ResolvedAt = i_ResolvedAt inc, pi_Severity = severity_of inc, pi_ComponentID = cid, pi_ResourceID = i_ResourceID inc\<rparr>)"

definition newest_incidents :: "public_incident_summary list \<Rightarrow> public_incident_summary list" where
  "newest_incidents xs = sort_key (\<lambda>x. - pi_StartedAt x) xs"

fun state_rank :: "public_state \<Rightarrow> nat" where
  "state_rank PublicStateUp = 0"
| "state_rank PublicStateUnknown = 1"
| "state_rank PublicStateMaintenance = 2"
| "state_rank PublicStateDegraded = 3"
| "state_rank PublicStateDown = 4"

fun worst_state :: "public_state \<Rightarrow> public_resource list \<Rightarrow> public_state" where
  "worst_state worst [] = worst"
| "worst_state worst (r # rs) =
     worst_state (if state_rank (pr_CurrentState r) > state_rank worst then pr_CurrentState r else worst) rs"

definition aggregateComponentState :: "public_resource list \<Rightarrow> public_state" where
  "aggregateComponentState rs = (if length rs = 0 then PublicStateUnknown else worst_state PublicStateUp rs)"

text \<open>The counters of the two loops: components down, components degraded or down, and whether anything is not up.\<close>

fun count_components :: "nat \<times> nat \<times> bool \<Rightarrow> public_component list \<Rightarrow> nat \<times> nat \<times> bool" where
  "count_components c [] = c"
| "count_components (down, deg, nonUp) (c # cs) =
     (case pc_AggregatedState c of
        PublicStateDown \<Rightarrow> count_components (down + 1, deg + 1, True) cs
      | PublicStateDegraded \<Rightarrow> count_components (down, deg + 1, True) cs
      | PublicStateMaintenance \<Rightarrow> count_components (down, deg, True) cs
      | PublicStateUnknown \<Rightarrow> count_components (down, deg, True) cs
      | PublicStateUp \<Rightarrow> count_components (down, deg, nonUp) cs)"

fun count_standalone :: "nat \<times> nat \<times> bool \<Rightarrow> public_resource list \<Rightarrow> nat \<times> nat \<times> bool" where
  "count_standalone c [] = c"
| "count_standalone (down, deg, nonUp) (r # rs) =
     (case pr_CurrentState r of
        PublicStateDown \<Rightarrow> count_standalone (down + 1, deg, True) rs
      | PublicStateDegraded \<Rightarrow> count_standalone (down, deg, True) rs
      | PublicStateMaintenance \<Rightarrow> count_standalone (down, deg, True) rs
      | PublicStateUnknown \<Rightarrow> count_standalone (down, deg, True) rs
      | PublicStateUp \<Rightarrow> count_standalone (down, deg, nonUp) rs)"

definition computeVerdict :: "public_component list \<Rightarrow> public_resource list \<Rightarrow> public_verdict" where
  "computeVerdict cs rs =
     (let total = length cs
      in case count_standalone (count_components (0, 0, False) cs) rs of (down, deg, nonUp) \<Rightarrow>
        if down \<ge> 1 \<or> (total \<ge> 2 \<and> deg \<ge> 2 \<and> deg * 2 \<ge> total) then
          \<lparr>pv_Status = VerdictMajorOutage, pv_Label = ''Major Outage'', pv_Color = ''red''\<rparr>
        else if nonUp then
          \<lparr>pv_Status = VerdictPartialDegradation, pv_Label = ''Partial Degradation'', pv_Color = ''orange''\<rparr>
        else \<lparr>pv_Status = VerdictOperational, pv_Label = ''All Systems Operational'', pv_Color = ''green''\<rparr>)"

function days_from :: "time \<Rightarrow> time \<Rightarrow> time list" where
  "days_from d to = (if d > to then [] else d # days_from (d + Day) to)"
  by auto
termination by (relation "measure (\<lambda>(d, to). nat (to - d + 1))") auto

declare days_from.simps [simp del]

definition buildRibbon :: "time \<Rightarrow> time \<Rightarrow> (string \<Rightarrow> rat option) \<Rightarrow> public_ribbon_entry list" where
  "buildRibbon from to byDay = map (\<lambda>d. \<lparr>rb_Day = day_key d, rb_Ratio = byDay (day_key d)\<rparr>) (days_from from to)"

fun sum_ribbon :: "rat \<times> nat \<Rightarrow> public_ribbon_entry list \<Rightarrow> rat \<times> nat" where
  "sum_ribbon c [] = c"
| "sum_ribbon (acc, k) (x # xs) =
     (case rb_Ratio x of None \<Rightarrow> sum_ribbon (acc, k) xs | Some v \<Rightarrow> sum_ribbon (acc + v, k + 1) xs)"

definition averageRibbon :: "public_ribbon_entry list \<Rightarrow> rat" where
  "averageRibbon ribbon = (case sum_ribbon (0, 0) ribbon of (acc, k) \<Rightarrow> if k = 0 then 0 else acc / of_nat k)"

definition ratios_by_day :: "uptime_daily_agg list \<Rightarrow> string \<Rightarrow> rat option" where
  "ratios_by_day as = foldl (\<lambda>m a. m(day_key (ua_Day a) \<mapsto> ua_UptimeRatio a)) Map.empty as"

fun status_state :: "resource_status \<Rightarrow> public_state" where
  "status_state StatusUp = PublicStateUp"
| "status_state StatusDown = PublicStateDown"
| "status_state StatusError = PublicStateDown"
| "status_state StatusFlapping = PublicStateDegraded"
| "status_state StatusWarn = PublicStateDegraded"
| "status_state StatusPaused = PublicStateMaintenance"
| "status_state _ = PublicStateUnknown"

section \<open>The page\<close>

definition resourceState :: "uptime_env \<Rightarrow> resource \<Rightarrow> time \<Rightarrow> (status_world, public_state) state" where
  "resourceState e r t = do {
     windows \<leftarrow> on_world (Maintenances_FindActiveForResource (uv e) (r_ID r) t);
     State_Monad.return (case windows of Inr (_ # _) \<Rightarrow> PublicStateMaintenance | _ \<Rightarrow> status_state (r_Status r))
   }"

definition resourceSummary ::
    "uptime_env \<Rightarrow> time \<Rightarrow> time \<Rightarrow> time \<Rightarrow> uptime_daily_agg list \<Rightarrow> resource \<Rightarrow> (status_world, public_resource) state" where
  "resourceSummary e t from to as r = do {
     st \<leftarrow> resourceState e r t;
     let ribbon = buildRibbon from to (ratios_by_day (filter (\<lambda>a. ua_ResourceID a = r_ID r) as));
     State_Monad.return \<lparr>pr_ID = r_ID r, pr_Name = r_Name r, pr_Host = r_Target r, pr_CurrentState = st,
       pr_Uptime90dRatio = averageRibbon ribbon, pr_UptimeRibbon = ribbon\<rparr>
   }"

fun map_state :: "('b \<Rightarrow> ('w, 'c) state) \<Rightarrow> 'b list \<Rightarrow> ('w, 'c list) state" where
  "map_state f [] = State_Monad.return []"
| "map_state f (x # xs) = do { y \<leftarrow> f x; ys \<leftarrow> map_state f xs; State_Monad.return (y # ys) }"

definition in_component :: "string \<Rightarrow> resource \<Rightarrow> bool" where
  "in_component cid r \<longleftrightarrow> cid \<noteq> '''' \<and> r_ComponentID r = Some cid"

definition is_standalone :: "resource \<Rightarrow> bool" where
  "is_standalone r \<longleftrightarrow> r_ComponentID r = None \<or> r_ComponentID r = Some ''''"

definition componentSummary ::
    "uptime_env \<Rightarrow> time \<Rightarrow> time \<Rightarrow> time \<Rightarrow> uptime_daily_agg list \<Rightarrow> resource list \<Rightarrow> component \<Rightarrow> (status_world, public_component) state" where
  "componentSummary e t from to as rs c = do {
     members \<leftarrow> map_state (resourceSummary e t from to as) (sort_key r_Name (filter (in_component (co_ID c)) rs));
     State_Monad.return \<lparr>pc_ID = co_ID c, pc_Name = co_Name c, pc_AggregatedState = aggregateComponentState members, pc_Resources = members\<rparr>
   }"

definition loadBranding :: "uptime_env \<Rightarrow> (status_world, public_branding) state" where
  "loadBranding e = do {
     r \<leftarrow> Settings_Get e;
     State_Monad.return (case r of
        Inl _ \<Rightarrow> \<lparr>pb_Name = ''Status Page'', pb_HomepageURL = '''', pb_LogoURLLight = '''', pb_LogoURLDark = '''', pb_FaviconURL = '''',
           pb_PrimaryColor = '''', pb_UmamiWebsiteID = '''', pb_UmamiScriptURL = ''''\<rparr>
      | Inr cfg \<Rightarrow> \<lparr>pb_Name = (if sp_Name cfg = '''' then ''Status Page'' else sp_Name cfg), pb_HomepageURL = sp_HomepageURL cfg,
           pb_LogoURLLight = sp_LogoURLLight cfg, pb_LogoURLDark = sp_LogoURLDark cfg, pb_FaviconURL = sp_FaviconURL cfg,
           pb_PrimaryColor = sp_PrimaryColor cfg, pb_UmamiWebsiteID = sp_UmamiWebsiteID cfg, pb_UmamiScriptURL = sp_UmamiScriptURL cfg\<rparr>)
   }"

definition loadUptimeWindow :: "uptime_env \<Rightarrow> time \<Rightarrow> (status_world, public_uptime_window) state" where
  "loadUptimeWindow e t = do {
     r \<leftarrow> Aggs_FindEarliestDay e;
     State_Monad.return \<lparr>uw_EarliestDay = (case r of Inl _ \<Rightarrow> '''' | Inr d \<Rightarrow> if d = zero_time then '''' else day_key d),
       uw_LatestDay = day_key (truncDayUTC t)\<rparr>
   }"

text \<open>The first instant of the month of a time, and of the month after it.\<close>

definition month_start :: "time \<Rightarrow> time" where
  "month_start t = (case civil_of_day (t div Day) of (y, m, d) \<Rightarrow> day_of_civil y m 1 * Day)"

definition next_month :: "time \<Rightarrow> time" where
  "next_month t = (case civil_of_day (t div Day) of (y, m, d) \<Rightarrow>
     (if m = 12 then day_of_civil (y + 1) 1 1 else day_of_civil y (m + 1) 1) * Day)"

definition loadMonthIncidents :: "uptime_env \<Rightarrow> time \<Rightarrow> (status_world, error + public_incident_summary list) state" where
  "loadMonthIncidents e t = do {
     r \<leftarrow> on_world (Incidents_List (uv e) 200 0);
     State_Monad.return (case r of
        Inl err \<Rightarrow> Inl (Wrapf ''public_status: list incidents'' err)
      | Inr rows \<Rightarrow> Inr (newest_incidents (map (incident_summary '''')
          (filter (\<lambda>(inc, _). \<not> (i_StartedAt inc < month_start t \<or> \<not> i_StartedAt inc < next_month t)) rows))))
   }"

definition GetCurrent :: "uptime_env \<Rightarrow> (status_world, error + public_status) state" where
  "GetCurrent e = do {
     t \<leftarrow> now (uv e);
     comps \<leftarrow> on_world (Components_List (uv e) 1000 0);
     (case comps of
        Inl err \<Rightarrow> State_Monad.return (Inl (Wrapf ''public_status: list components'' err))
      | Inr cs \<Rightarrow> do {
     active \<leftarrow> on_world (Resources_FindActive (uv e) 5000 0);
     (case active of
        Inl err \<Rightarrow> State_Monad.return (Inl (Wrapf ''public_status: list resources'' err))
      | Inr rs \<Rightarrow> do {
     let to = truncDayUTC t;
     let from = to - 89 * Day;
     aggs \<leftarrow> Aggs_FindRange e (map r_ID rs) from to;
     (case aggs of
        Inl err \<Rightarrow> State_Monad.return (Inl (Wrapf ''public_status: load uptime aggs'' err))
      | Inr as \<Rightarrow> do {
     components \<leftarrow> map_state (componentSummary e t from to as rs) (sort_key co_Name cs);
     standalone \<leftarrow> map_state (resourceSummary e t from to as) (sort_key r_Name (filter is_standalone rs));
     branding \<leftarrow> loadBranding e;
     window \<leftarrow> loadUptimeWindow e t;
     month \<leftarrow> loadMonthIncidents e t;
     State_Monad.return (case month of
        Inl err \<Rightarrow> Inl err
      | Inr incs \<Rightarrow> Inr \<lparr>ps_GeneratedAt = t, ps_Branding = branding, ps_Verdict = computeVerdict components standalone,
          ps_UptimeWindow = window, ps_Components = components, ps_StandaloneResources = standalone, ps_CurrentMonthIncidents = incs\<rparr>)
      }) }) }) }"

section \<open>History\<close>

definition months_of :: "public_incident_summary list \<Rightarrow> public_incident_month list" where
  "months_of xs = map (\<lambda>k. (let list = newest_incidents (filter (\<lambda>x. month_key (pi_StartedAt x) = k) xs)
       in \<lparr>pm_YearMonth = k, pm_Count = length list, pm_Incidents = list\<rparr>))
     (rev (sort (remdups (map (\<lambda>x. month_key (pi_StartedAt x)) xs))))"

text \<open>The resources a filter by component admits: the active members, or all without a filter.\<close>

definition component_filter :: "uptime_env \<Rightarrow> string \<Rightarrow> (status_world, error + string list option) state" where
  "component_filter e cid =
     (if cid = '''' then State_Monad.return (Inr None)
      else do {
        r \<leftarrow> on_world (Resources_FindByComponentID (uv e) cid);
        State_Monad.return (case r of
           Inl err \<Rightarrow> Inl (Wrapf ''public_status: load component resources'' err)
         | Inr rs \<Rightarrow> Inr (Some (map r_ID rs)))
      })"

definition admits :: "string list option \<Rightarrow> incident \<Rightarrow> bool" where
  "admits f inc = (case f of None \<Rightarrow> True | Some ids \<Rightarrow> List.member ids (i_ResourceID inc))"

definition GetIncidents :: "uptime_env \<Rightarrow> time \<Rightarrow> time \<Rightarrow> string \<Rightarrow> (status_world, error + public_incidents_response) state" where
  "GetIncidents e from0 to0 cid = do {
     t \<leftarrow> now (uv e);
     let from = (if from0 = zero_time then t - 90 * Day else from0);
     let to = (if to0 = zero_time then t else to0);
     if from > to then State_Monad.return (Inl (Errorf ''public_status: from > to''))
     else and_then (component_filter e cid) (\<lambda>f. do {
       r \<leftarrow> on_world (Incidents_List (uv e) 500 0);
       State_Monad.return (case r of
          Inl err \<Rightarrow> Inl (Wrapf ''public_status: list incidents'' err)
        | Inr rows \<Rightarrow>
            (let xs = map (incident_summary cid)
               (filter (\<lambda>(inc, _). \<not> (i_StartedAt inc < from \<or> to < i_StartedAt inc) \<and> admits f inc) rows)
             in Inr \<lparr>ir_GeneratedAt = t, ir_Total = length xs, ir_Months = months_of xs\<rparr>))
     })
   }"

definition trunc_rat :: "rat \<Rightarrow> int" where
  "trunc_rat x = (if x \<ge> 0 then \<lfloor>x\<rfloor> else \<lceil>x\<rceil>)"

text \<open>The buckets of the rows by day, and the entry of a day.\<close>

definition uptime_day :: "uptime_daily_agg list \<Rightarrow> public_incident_summary list \<Rightarrow> time \<Rightarrow> public_uptime_day" where
  "uptime_day as incs d =
     (let key = day_key d; bucket = filter (\<lambda>a. day_key (ua_Day a) = key) as;
          related = filter (\<lambda>x. day_key (pi_StartedAt x) = key) incs;
          entry = \<lparr>ud_Day = key, ud_UptimeRatio = 0, ud_Samples = 0, ud_Incidents = length related, ud_DowntimeSeconds = 0,
                   ud_RelatedIncidents = related\<rparr>
      in if bucket = [] then entry
         else let ratio = sum_list (map ua_UptimeRatio bucket) / of_nat (length bucket)
              in entry\<lparr>ud_UptimeRatio := ratio, ud_Samples := sum_list (map ua_Samples bucket),
                   ud_DowntimeSeconds := trunc_rat ((1 - ratio) * 86400)\<rparr>)"

definition uptime_resources :: "uptime_env \<Rightarrow> string \<Rightarrow> (status_world, error + string list) state" where
  "uptime_resources e cid =
     (if cid \<noteq> '''' then do {
        r \<leftarrow> on_world (Resources_FindByComponentID (uv e) cid);
        State_Monad.return (case r of Inl err \<Rightarrow> Inl (Wrapf ''public_status: load component resources'' err) | Inr rs \<Rightarrow> Inr (map r_ID rs))
      } else do {
        r \<leftarrow> on_world (Resources_FindActive (uv e) 5000 0);
        State_Monad.return (case r of Inl err \<Rightarrow> Inl (Wrapf ''public_status: list resources'' err) | Inr rs \<Rightarrow> Inr (map r_ID rs))
      })"

definition GetUptime :: "uptime_env \<Rightarrow> string \<Rightarrow> time \<Rightarrow> time \<Rightarrow> (status_world, error + public_uptime_response) state" where
  "GetUptime e cid from0 to0 = do {
     t \<leftarrow> now (uv e);
     let from = (if from0 = zero_time then t - 89 * Day else from0);
     let to = (if to0 = zero_time then t else to0);
     if from > to then State_Monad.return (Inl (Errorf ''public_status: from > to''))
     else and_then (uptime_resources e cid) (\<lambda>ids. do {
       let fromDay = truncDayUTC from;
       let toDay = truncDayUTC to;
       aggs \<leftarrow> Aggs_FindRange e ids fromDay toDay;
       (case aggs of
          Inl err \<Rightarrow> State_Monad.return (Inl (Wrapf ''public_status: load uptime aggs'' err))
        | Inr as \<Rightarrow> do {
            r \<leftarrow> on_world (Incidents_List (uv e) 1000 0);
            State_Monad.return (case r of
               Inl err \<Rightarrow> Inl (Wrapf ''public_status: list incidents'' err)
             | Inr rows \<Rightarrow>
                 (let incs = map (incident_summary '''')
                    (filter (\<lambda>(inc, _). \<not> (i_StartedAt inc < fromDay \<or> toDay + Day < i_StartedAt inc) \<and>
                       (cid = '''' \<or> List.member ids (i_ResourceID inc))) rows)
                  in Inr \<lparr>ur_GeneratedAt = t, ur_Days = map (uptime_day as incs) (days_from fromDay toDay)\<rparr>))
          })
     })
   }"

definition window_stats :: "time \<Rightarrow> (string \<Rightarrow> rat option) \<Rightarrow> incident list \<Rightarrow> string \<times> nat \<Rightarrow> string \<times> public_window_stats" where
  "window_stats today byDay recent = (\<lambda>(key, days).
     (let fromW = today - (int days - 1) * Day;
          ratio = averageRibbon (buildRibbon fromW today byDay);
          ratio = (if key = ''24h'' then (case byDay (day_key today) of Some v \<Rightarrow> v | None \<Rightarrow> ratio) else ratio)
      in (key, \<lparr>ws_UptimeRatio = ratio,
            ws_Incidents = length (filter (\<lambda>inc. \<not> i_StartedAt inc < fromW \<and> \<not> today + Day < i_StartedAt inc) recent)\<rparr>)))"

definition GetResourceWindows :: "uptime_env \<Rightarrow> string \<Rightarrow> (status_world, error + public_resource_windows) state" where
  "GetResourceWindows e rid = and_then (on_world (Resources_FindByID (uv e) rid)) (\<lambda>r. do {
     t \<leftarrow> now (uv e);
     let today = truncDayUTC t;
     aggs \<leftarrow> Aggs_FindForResource e (r_ID r) (today - 89 * Day) today;
     (case aggs of
        Inl err \<Rightarrow> State_Monad.return (Inl (Wrapf ''public_status: load resource aggs'' err))
      | Inr as \<Rightarrow> do {
          found \<leftarrow> on_world (Incidents_FindLoadedByResource (uv e) (r_ID r) 5 0);
          State_Monad.return (case found of
             Inl err \<Rightarrow> Inl (Wrapf ''public_status: load recent incidents'' err)
           | Inr rows \<Rightarrow>
               (let recent = sort_key (\<lambda>(inc, _). - i_StartedAt inc) rows; byDay = ratios_by_day as
                in Inr \<lparr>rw_ID = r_ID r, rw_Name = r_Name r,
                     rw_Windows = map (window_stats today byDay (map fst recent)) [(''24h'', 1), (''7d'', 7), (''30d'', 30), (''90d'', 90)],
                     rw_Daily30d = buildRibbon (today - 29 * Day) today byDay,
                     rw_RecentIncidents = map (incident_summary '''') recent\<rparr>))
        })
   })"

definition GetIncidentDetail :: "uptime_env \<Rightarrow> string \<Rightarrow> (status_world, error + public_incident_detail) state" where
  "GetIncidentDetail e i = and_then (on_world (Incidents_FindByID_loaded (uv e) i)) (\<lambda>(inc, name). do {
     r \<leftarrow> on_world (IncidentUpdates_ListByIncident (uv e) i);
     State_Monad.return (case r of
        Inl err \<Rightarrow> Inl (Wrapf ''public_status: list incident updates'' err)
      | Inr rows \<Rightarrow> Inr \<lparr>pd_ID = i_ID inc, pd_Title = incidentTitle (inc, name), pd_Severity = severity_of inc,
          pd_StartedAt = i_StartedAt inc, pd_ResolvedAt = i_ResolvedAt inc, pd_ComponentID = '''', pd_ResourceID = i_ResourceID inc,
          pd_Updates = map (\<lambda>u. \<lparr>pu_ID = iu_ID u, pu_Status = iu_Status u, pu_Message = iu_Message u, pu_PostedAt = iu_PostedAt u\<rparr>) rows\<rparr>)
   })"

section \<open>The verdict\<close>

lemma rank_bounds: "state_rank x \<le> 4" "state_rank x = 4 \<longleftrightarrow> x = PublicStateDown" "state_rank x = 0 \<longleftrightarrow> x = PublicStateUp"
  by (cases x; simp)+

lemma worst_state_worst:
  "state_rank x \<le> state_rank (worst_state x rs)" "r \<in> set rs \<Longrightarrow> state_rank (pr_CurrentState r) \<le> state_rank (worst_state x rs)"
  "worst_state x rs = x \<or> worst_state x rs \<in> pr_CurrentState ` set rs"
proof (induction rs arbitrary: x)
  case (Cons q rs)
  {
    case 1
    show ?case using Cons.IH(1) [of x] Cons.IH(1) [of "pr_CurrentState q"] by auto
  next
    case 2
    then show ?case using Cons.IH(1) [of x] Cons.IH(1) [of "pr_CurrentState q"] Cons.IH(2) by auto
  next
    case 3
    show ?case using Cons.IH(3) by auto
  }
qed auto

lemma aggregate_down: "aggregateComponentState rs = PublicStateDown \<longleftrightarrow> (\<exists>r\<in>set rs. pr_CurrentState r = PublicStateDown)"
proof
  assume "aggregateComponentState rs = PublicStateDown"
  then show "\<exists>r\<in>set rs. pr_CurrentState r = PublicStateDown"
    using worst_state_worst(3) [of PublicStateUp rs] by (simp add: aggregateComponentState_def image_iff split: if_splits) metis
next
  assume "\<exists>r\<in>set rs. pr_CurrentState r = PublicStateDown"
  then obtain r where r: "r \<in> set rs" "pr_CurrentState r = PublicStateDown" by blast
  then have "state_rank (worst_state PublicStateUp rs) = 4"
    using worst_state_worst(2) [OF r(1), of PublicStateUp] rank_bounds(1) [of "worst_state PublicStateUp rs"] by simp
  then show "aggregateComponentState rs = PublicStateDown" using r by (auto simp: aggregateComponentState_def rank_bounds(2))
qed

lemma aggregate_up: "aggregateComponentState rs = PublicStateUp \<longleftrightarrow> rs \<noteq> [] \<and> (\<forall>r\<in>set rs. pr_CurrentState r = PublicStateUp)"
proof -
  have "worst_state x rs = PublicStateUp \<longleftrightarrow> x = PublicStateUp \<and> (\<forall>r\<in>set rs. pr_CurrentState r = PublicStateUp)" for x
  proof (induction rs arbitrary: x)
    case (Cons r rs)
    then show ?case using rank_bounds(3) [of x] rank_bounds(3) [of "pr_CurrentState r"] by auto
  qed simp
  then show ?thesis by (auto simp: aggregateComponentState_def)
qed

definition affected :: "public_component \<Rightarrow> bool" where
  "affected c \<longleftrightarrow> pc_AggregatedState c \<in> {PublicStateDown, PublicStateDegraded}"

lemma count_components_spec:
  "count_components (a, b, f) cs = (a + length (filter (\<lambda>c. pc_AggregatedState c = PublicStateDown) cs),
     b + length (filter affected cs), f \<or> (\<exists>c\<in>set cs. pc_AggregatedState c \<noteq> PublicStateUp))"
  by (induction cs arbitrary: a b f) (auto simp: affected_def split: public_state.splits)

lemma count_standalone_spec:
  "count_standalone (a, b, f) rs = (a + length (filter (\<lambda>r. pr_CurrentState r = PublicStateDown) rs), b,
     f \<or> (\<exists>r\<in>set rs. pr_CurrentState r \<noteq> PublicStateUp))"
  by (induction rs arbitrary: a b f) (auto split: public_state.splits)

lemma verdict_status:
  "pv_Status (computeVerdict cs rs) =
    (if (\<exists>c\<in>set cs. pc_AggregatedState c = PublicStateDown) \<or> (\<exists>r\<in>set rs. pr_CurrentState r = PublicStateDown) \<or>
        (2 \<le> length (filter affected cs) \<and> length cs \<le> 2 * length (filter affected cs))
     then VerdictMajorOutage
     else if (\<exists>c\<in>set cs. pc_AggregatedState c \<noteq> PublicStateUp) \<or> (\<exists>r\<in>set rs. pr_CurrentState r \<noteq> PublicStateUp)
     then VerdictPartialDegradation else VerdictOperational)"
proof -
  have one: "Suc 0 \<le> length (filter P xs) + length (filter Q ys) \<longleftrightarrow> (\<exists>x\<in>set xs. P x) \<or> (\<exists>y\<in>set ys. Q y)"
    for P Q and xs :: "public_component list" and ys :: "public_resource list"
    by (auto simp: Suc_le_eq filter_empty_conv)
  have "2 \<le> length (filter affected cs) \<Longrightarrow> 2 \<le> length cs" using length_filter_le [of affected cs] by linarith
  then show ?thesis
    by (simp add: computeVerdict_def Let_def count_components_spec count_standalone_spec one mult.commute)
qed

section \<open>Reading\<close>

text \<open>
  \<open>reads m g\<close>: when the database answers, the computation \<open>m\<close> only asks, and its value is the view \<open>g\<close> of the
  tables, which does not depend on the counter.
\<close>

definition reads :: "('a base_scheme, 'b) state \<Rightarrow> ('a base_scheme \<Rightarrow> 'b) \<Rightarrow> bool" where
  "reads m g \<longleftrightarrow> (\<forall>w. g (bump w) = g w) \<and> (\<forall>w. \<exists>n. run_state m w = (g w, (bump ^^ n) w))"

lemma bumps: "(\<And>w. g (bump w) = g w) \<Longrightarrow> g ((bump ^^ n) w) = g w"
  by (induction n) simp_all

lemma reads_return: "reads (State_Monad.return x) (\<lambda>_. x)"
  by (auto simp: reads_def run_simps intro: exI [of _ 0])

lemma reads_bind:
  assumes "reads m g" "\<And>x. reads (f x) (h x)"
  shows "reads (m \<bind> f) (\<lambda>w. h (g w) w)"
  unfolding reads_def
proof (intro conjI allI)
  fix w
  show "h (g (bump w)) (bump w) = h (g w) w" using assms by (simp add: reads_def)
  obtain n where n: "run_state m w = (g w, (bump ^^ n) w)" using assms(1) by (auto simp: reads_def)
  obtain k where k: "run_state (f (g w)) ((bump ^^ n) w) = (h (g w) ((bump ^^ n) w), (bump ^^ k) ((bump ^^ n) w))"
    using assms(2) [of "g w"] unfolding reads_def by blast
  have "h (g w) ((bump ^^ n) w) = h (g w) w" using assms(2) by (intro bumps) (simp add: reads_def)
  then show "\<exists>n. run_state (m \<bind> f) w = (h (g w) w, (bump ^^ n) w)"
    using n k by (auto simp: run_simps funpow_add [symmetric, THEN fun_cong, simplified] intro!: exI [of _ "k + n"])
qed

lemma reads_cong: "reads m g \<Longrightarrow> g = g' \<Longrightarrow> reads m g'"
  by simp

lemma reads_query:
  "(\<And>n. \<not> fault e n) \<Longrightarrow> (\<And>w. f (bump w) = f w) \<Longrightarrow> reads (repo_query e f) f"
  by (auto simp: reads_def run_simps intro!: exI [of _ 1])

lemma reads_on_world_query:
  "(\<And>n. \<not> fault e n) \<Longrightarrow> (\<And>w. f (bump w) = f w) \<Longrightarrow> reads (on_world (repo_query e f)) (\<lambda>w. f (world.truncate w))"
  by (auto simp: reads_def truncate_bump intro!: exI [of _ 1])

lemma reads_map_state:
  assumes "\<And>x. reads (f x) (g x)"
  shows "reads (map_state f xs) (\<lambda>w. map (\<lambda>x. g x w) xs)"
proof (induction xs)
  case Nil
  show ?case by (simp add: reads_return)
next
  case (Cons x xs)
  have "reads (map_state f (x # xs)) (\<lambda>w. (\<lambda>y w. (\<lambda>ys w. y # ys) (map (\<lambda>x. g x w) xs) w) (g x w) w)"
    unfolding map_state.simps by (intro reads_bind assms Cons.IH reads_return)
  then show ?case by simp
qed

definition in_maintenance :: "status_world \<Rightarrow> time \<Rightarrow> string \<Rightarrow> bool" where
  "in_maintenance w t rid \<longleftrightarrow> (\<exists>m\<in>set (maintenances w). (mt_ID m, rid) \<in> set (maintenance_resources w) \<and> maintenance_active t m)"

definition shown_state :: "status_world \<Rightarrow> time \<Rightarrow> resource \<Rightarrow> public_state" where
  "shown_state w t r = (if in_maintenance w t (r_ID r) then PublicStateMaintenance else status_state (r_Status r))"

lemma reads_resourceState:
  assumes nf: "\<And>n. \<not> fault (uv e) n"
  shows "reads (resourceState e r t) (\<lambda>w. shown_state w t r)"
proof -
  let ?f = "\<lambda>w :: world. Inr (filter (\<lambda>m. List.member (maintenance_resources w) (mt_ID m, r_ID r) \<and> maintenance_active t m) (maintenances w)) :: error + maintenance list"
  have "reads (resourceState e r t) (\<lambda>w. (\<lambda>x w. (\<lambda>y w. case y of Inr (_ # _) \<Rightarrow> PublicStateMaintenance | _ \<Rightarrow> status_state (r_Status r))
      (wrap_db ''sqlc: find active maintenances'' x) w) (?f (world.truncate w)) w)"
    unfolding resourceState_def Maintenances_FindActiveForResource_def on_world_bind on_world_return bind_assoc
    by (intro reads_bind reads_on_world_query nf reads_return) (simp add: bump_def)
  moreover have "(\<lambda>w. (\<lambda>x w. (\<lambda>y w. case y of Inr (_ # _) \<Rightarrow> PublicStateMaintenance | _ \<Rightarrow> status_state (r_Status r))
      (wrap_db ''sqlc: find active maintenances'' x) w) (?f (world.truncate w)) w) = (\<lambda>w. shown_state w t r)"
    by (auto simp: fun_eq_iff wrap_db_def shown_state_def in_maintenance_def filter_empty_conv
        split: list.splits)
  ultimately show ?thesis by (rule reads_cong)
qed

lemma reads_resourceSummary:
  assumes nf: "\<And>n. \<not> fault (uv e) n"
  shows "\<exists>s. reads (resourceSummary e t from to as r) (s r) \<and> (\<forall>w. pr_CurrentState (s r w) = shown_state w t r)"
proof -
  let ?ribbon = "buildRibbon from to (ratios_by_day (filter (\<lambda>a. ua_ResourceID a = r_ID r) as))"
  let ?s = "\<lambda>r w. (\<lambda>st w. \<lparr>pr_ID = r_ID r, pr_Name = r_Name r, pr_Host = r_Target r, pr_CurrentState = st,
       pr_Uptime90dRatio = averageRibbon ?ribbon, pr_UptimeRibbon = ?ribbon\<rparr>) (shown_state w t r) w"
  have "reads (resourceSummary e t from to as r) (?s r)"
    unfolding resourceSummary_def Let_def by (rule reads_bind [OF reads_resourceState [OF nf] reads_return])
  then show ?thesis by (intro exI [of _ ?s]) simp
qed

lemma summaries_run:
  assumes nf: "\<And>n. \<not> fault (uv e) n"
  shows "\<exists>ss n. run_state (map_state (resourceSummary e t from to as) rs) w = (ss, (bump ^^ n) w) \<and>
    map pr_CurrentState ss = map (shown_state w t) rs"
proof -
  obtain s where s: "\<And>r. reads (resourceSummary e t from to as r) (s r r)" "\<And>r w. pr_CurrentState (s r r w) = shown_state w t r"
    using reads_resourceSummary [OF nf] by metis
  from reads_map_state [where f = "resourceSummary e t from to as" and g = "\<lambda>r. s r r", OF s(1)] show ?thesis
    unfolding reads_def using s(2) by (intro exI [of _ "map (\<lambda>r. s r r w) rs"]) (auto simp: comp_def)
qed

lemma shown_state_bump [simp]: "shown_state (bump w) t r = shown_state w t r"
  by (simp add: shown_state_def in_maintenance_def bump_def)

lemma shown_state_bumps [simp]: "shown_state ((bump ^^ n) w) t = shown_state w t"
  by (rule ext) (rule bumps [where g = "\<lambda>w. shown_state w t r" for r], simp)

lemma funpow_bump: "(bump ^^ n) ((bump ^^ m) w) = (bump ^^ (n + m)) w"
  by (simp add: funpow_add)

lemma components_run:
  assumes nf: "\<And>n. \<not> fault (uv e) n"
  shows "\<exists>cs n. run_state (map_state (componentSummary e t from to as rs) xs) w = (cs, (bump ^^ n) w) \<and>
    map (\<lambda>c. map pr_CurrentState (pc_Resources c)) cs =
      map (\<lambda>x. map (shown_state w t) (sort_key r_Name (filter (in_component (co_ID x)) rs))) xs \<and>
    list_all (\<lambda>c. pc_AggregatedState c = aggregateComponentState (pc_Resources c)) cs"
proof (induction xs arbitrary: w)
  case Nil
  show ?case by (auto simp: run_simps intro: exI [of _ 0])
next
  case (Cons x xs)
  obtain ss n where s: "run_state (map_state (resourceSummary e t from to as) (sort_key r_Name (filter (in_component (co_ID x)) rs))) w = (ss, (bump ^^ n) w)"
    "map pr_CurrentState ss = map (shown_state w t) (sort_key r_Name (filter (in_component (co_ID x)) rs))"
    using summaries_run [OF nf] by blast
  obtain cs k where c: "run_state (map_state (componentSummary e t from to as rs) xs) ((bump ^^ n) w) = (cs, (bump ^^ k) ((bump ^^ n) w))"
    "map (\<lambda>c. map pr_CurrentState (pc_Resources c)) cs =
      map (\<lambda>x. map (shown_state ((bump ^^ n) w) t) (sort_key r_Name (filter (in_component (co_ID x)) rs))) xs"
    "list_all (\<lambda>c. pc_AggregatedState c = aggregateComponentState (pc_Resources c)) cs"
    using Cons.IH [of "(bump ^^ n) w"] by blast
  let ?c = "\<lparr>pc_ID = co_ID x, pc_Name = co_Name x, pc_AggregatedState = aggregateComponentState ss, pc_Resources = ss\<rparr>"
  have "run_state (map_state (componentSummary e t from to as rs) (x # xs)) w = (?c # cs, (bump ^^ (k + n)) w)"
    using s(1) c(1) by (simp add: componentSummary_def run_simps funpow_bump)
  moreover have "map (\<lambda>c. map pr_CurrentState (pc_Resources c)) (?c # cs) =
      map (\<lambda>x. map (shown_state w t) (sort_key r_Name (filter (in_component (co_ID x)) rs))) (x # xs)"
    using s(2) c(2) by (simp only: list.map shown_state_bumps public_component.simps)
  ultimately show ?case using c(3) by (intro exI [of _ "?c # cs"] exI [of _ "k + n"]) simp
qed

text \<open>The resources that the page shows: the active ones without a component, or with a component that exists.\<close>

definition shown :: "status_world \<Rightarrow> resource \<Rightarrow> bool" where
  "shown w r \<longleftrightarrow> r_IsActive r \<and> (is_standalone r \<or> (\<exists>c\<in>set (components w). in_component (co_ID c) r))"

lemma later_fields [simp]:
  "resources ((bump ^^ n) w) = resources w" "components ((bump ^^ n) w) = components w"
  by (rule bumps, simp add: bump_def)+

lemma getters_run:
  assumes nf: "\<And>n. \<not> fault (uv e) n"
  shows "run_state (on_world (Components_List (uv e) k 0)) w = (Inr (page k 0 (sort_key (\<lambda>c. - co_CreatedAt c) (components w))), bump w)"
    "run_state (on_world (Resources_FindActive (uv e) k 0)) w = (Inr (page k 0 (newest_first (filter r_IsActive (resources w)))), bump w)"
    "\<exists>as n. run_state (Aggs_FindRange e ids from to) w = (Inr as, (bump ^^ n) w)"
    "\<exists>b n. run_state (loadBranding e) w = (b, (bump ^^ n) w)" "\<exists>b n. run_state (loadUptimeWindow e t) w = (b, (bump ^^ n) w)"
    "\<exists>is n. run_state (loadMonthIncidents e t) w = (Inr is, (bump ^^ n) w)"
proof -
  have one: "(\<exists>n. bump w = (bump ^^ n) w) = True" "(\<exists>n. w = (bump ^^ n) w) = True"
    by (auto intro: exI [of _ 1] exI [of _ 0])
  note defs = Components_List_def Resources_FindActive_def Aggs_FindRange_def loadBranding_def Settings_Get_def loadUptimeWindow_def
    Aggs_FindEarliestDay_def loadMonthIncidents_def Incidents_List_def on_world_bind on_world_return run_simps wrap_db_def nf
  show "run_state (on_world (Components_List (uv e) k 0)) w = (Inr (page k 0 (sort_key (\<lambda>c. - co_CreatedAt c) (components w))), bump w)"
    "run_state (on_world (Resources_FindActive (uv e) k 0)) w = (Inr (page k 0 (newest_first (filter r_IsActive (resources w)))), bump w)"
    by (simp_all add: defs bump_def)
  show "\<exists>as n. run_state (Aggs_FindRange e ids from to) w = (Inr as, (bump ^^ n) w)"
    "\<exists>b n. run_state (loadBranding e) w = (b, (bump ^^ n) w)" "\<exists>b n. run_state (loadUptimeWindow e t) w = (b, (bump ^^ n) w)"
    "\<exists>is n. run_state (loadMonthIncidents e t) w = (Inr is, (bump ^^ n) w)"
    by (simp_all add: defs one)
qed

lemma page_all: "length xs \<le> n \<Longrightarrow> page n 0 xs = xs"
  by (simp add: page_def)

lemma GetCurrent_run:
  assumes nf: "\<And>n. \<not> fault (uv e) n" and "length (components w) \<le> 1000" "length (filter r_IsActive (resources w)) \<le> 5000"
  obtains p w' cs ss where "run_state (GetCurrent e) w = (Inr p, w')" "ps_Verdict p = computeVerdict cs ss"
    "map (\<lambda>c. map pr_CurrentState (pc_Resources c)) cs = map (\<lambda>x. map (shown_state w (clock (uv e) (tick w)))
      (sort_key r_Name (filter (in_component (co_ID x)) (newest_first (filter r_IsActive (resources w))))))
      (sort_key co_Name (sort_key (\<lambda>c. - co_CreatedAt c) (components w)))"
    "list_all (\<lambda>c. pc_AggregatedState c = aggregateComponentState (pc_Resources c)) cs"
    "map pr_CurrentState ss = map (shown_state w (clock (uv e) (tick w)))
      (sort_key r_Name (filter is_standalone (newest_first (filter r_IsActive (resources w)))))"
proof -
  let ?t = "clock (uv e) (tick w)" and ?rs = "newest_first (filter r_IsActive (resources w))"
  let ?xs = "sort_key (\<lambda>c. - co_CreatedAt c) (components w)"
  let ?v = "bump (bump (bump w))"
  have pages: "page 1000 0 ?xs = ?xs" "page 5000 0 ?rs = ?rs"
    using assms(2,3) by (simp_all add: page_all newest_first_def)
  obtain as n where a: "run_state (Aggs_FindRange e (map r_ID ?rs) (truncDayUTC ?t - 89 * Day) (truncDayUTC ?t)) ?v = (Inr as, (bump ^^ n) ?v)"
    using getters_run(3) [OF nf] by blast
  obtain cs k where c: "run_state (map_state (componentSummary e ?t (truncDayUTC ?t - 89 * Day) (truncDayUTC ?t) as ?rs) (sort_key co_Name ?xs)) ((bump ^^ n) ?v) =
      (cs, (bump ^^ k) ((bump ^^ n) ?v))"
    "map (\<lambda>c. map pr_CurrentState (pc_Resources c)) cs =
      map (\<lambda>x. map (shown_state ((bump ^^ n) ?v) ?t) (sort_key r_Name (filter (in_component (co_ID x)) ?rs))) (sort_key co_Name ?xs)"
    "list_all (\<lambda>c. pc_AggregatedState c = aggregateComponentState (pc_Resources c)) cs"
    using components_run [OF nf] by blast
  obtain ss m where s: "run_state (map_state (resourceSummary e ?t (truncDayUTC ?t - 89 * Day) (truncDayUTC ?t) as) (sort_key r_Name (filter is_standalone ?rs))) ((bump ^^ k) ((bump ^^ n) ?v)) =
      (ss, (bump ^^ m) ((bump ^^ k) ((bump ^^ n) ?v)))"
    "map pr_CurrentState ss = map (shown_state ((bump ^^ k) ((bump ^^ n) ?v)) ?t) (sort_key r_Name (filter is_standalone ?rs))"
    using summaries_run [OF nf] by blast
  let ?u = "(bump ^^ m) ((bump ^^ k) ((bump ^^ n) ?v))"
  obtain b j where b: "run_state (loadBranding e) ?u = (b, (bump ^^ j) ?u)" using getters_run(4) [OF nf] by blast
  obtain g i where g: "run_state (loadUptimeWindow e ?t) ((bump ^^ j) ?u) = (g, (bump ^^ i) ((bump ^^ j) ?u))" using getters_run(5) [OF nf] by blast
  obtain q l where q: "run_state (loadMonthIncidents e ?t) ((bump ^^ i) ((bump ^^ j) ?u)) = (Inr q, (bump ^^ l) ((bump ^^ i) ((bump ^^ j) ?u)))"
    using getters_run(6) [OF nf] by blast
  have fields: "components (bump v) = components v" "resources (bump v) = resources v" for v :: status_world by (simp_all add: bump_def)
  have st: "shown_state (bump v) = shown_state v" for v by (intro ext) simp
  have "run_state (GetCurrent e) w = (Inr \<lparr>ps_GeneratedAt = ?t, ps_Branding = b, ps_Verdict = computeVerdict cs ss, ps_UptimeWindow = g,
      ps_Components = cs, ps_StandaloneResources = ss, ps_CurrentMonthIncidents = q\<rparr>, (bump ^^ l) ((bump ^^ i) ((bump ^^ j) ?u)))"
    using a c(1) s(1) b g q
    by (simp only: GetCurrent_def Let_def run_bind run_now run_return getters_run(1,2) [OF nf] pages prod.case sum.case
        fields)
  then show ?thesis
    by (rule that) (use c(2,3) s(2) in \<open>simp_all add: st\<close>)
qed

lemma component_states:
  assumes "list_all (\<lambda>c. pc_AggregatedState c = aggregateComponentState (pc_Resources c)) cs"
  shows "(\<forall>c\<in>set cs. pc_AggregatedState c = PublicStateUp) \<longleftrightarrow>
      (\<forall>L\<in>set (map (\<lambda>c. map pr_CurrentState (pc_Resources c)) cs). L \<noteq> [] \<and> set L \<subseteq> {PublicStateUp})"
    and "(\<exists>c\<in>set cs. pc_AggregatedState c = PublicStateDown) \<longleftrightarrow>
      (\<exists>L\<in>set (map (\<lambda>c. map pr_CurrentState (pc_Resources c)) cs). PublicStateDown \<in> set L)"
proof -
  have a: "pc_AggregatedState c = aggregateComponentState (pc_Resources c)" if "c \<in> set cs" for c
    using assms that by (simp add: list_all_iff)
  have "pc_AggregatedState c = PublicStateUp \<longleftrightarrow> map pr_CurrentState (pc_Resources c) \<noteq> [] \<and> set (map pr_CurrentState (pc_Resources c)) \<subseteq> {PublicStateUp}"
    if "c \<in> set cs" for c unfolding a [OF that] aggregate_up by auto
  then show "(\<forall>c\<in>set cs. pc_AggregatedState c = PublicStateUp) \<longleftrightarrow>
      (\<forall>L\<in>set (map (\<lambda>c. map pr_CurrentState (pc_Resources c)) cs). L \<noteq> [] \<and> set L \<subseteq> {PublicStateUp})" by simp
  have "pc_AggregatedState c = PublicStateDown \<longleftrightarrow> PublicStateDown \<in> set (map pr_CurrentState (pc_Resources c))"
    if "c \<in> set cs" for c unfolding a [OF that] aggregate_down by force
  then show "(\<exists>c\<in>set cs. pc_AggregatedState c = PublicStateDown) \<longleftrightarrow>
      (\<exists>L\<in>set (map (\<lambda>c. map pr_CurrentState (pc_Resources c)) cs). PublicStateDown \<in> set L)" by simp
qed

lemma verdict_operational:
  "pv_Status (computeVerdict cs rs) = VerdictOperational \<longleftrightarrow>
    (\<forall>c\<in>set cs. pc_AggregatedState c = PublicStateUp) \<and> (\<forall>r\<in>set rs. pr_CurrentState r = PublicStateUp)"
proof -
  have "filter affected cs = []" if "\<forall>c\<in>set cs. pc_AggregatedState c = PublicStateUp"
    using that by (simp add: filter_empty_conv affected_def)
  then show ?thesis unfolding verdict_status by auto
qed


section \<open>The incident history\<close>

lemma group_by_key:
  assumes "distinct ks" "\<And>x. x \<in> set xs \<Longrightarrow> f x \<in> set ks"
  shows "mset (concat (map (\<lambda>k. filter (\<lambda>x. f x = k) xs) ks)) = mset xs"
  using assms
proof (induction ks arbitrary: xs)
  case Nil
  then show ?case by (cases xs) auto
next
  case (Cons k ks)
  let ?rest = "filter (\<lambda>x. f x \<noteq> k) xs"
  have "map (\<lambda>k. filter (\<lambda>x. f x = k) xs) ks = map (\<lambda>k. filter (\<lambda>x. f x = k) ?rest) ks"
    using Cons.prems(1) by (auto intro!: filter_cong)
  moreover have "mset (concat (map (\<lambda>k. filter (\<lambda>x. f x = k) ?rest) ks)) = mset ?rest"
    using Cons.prems by (intro Cons.IH) auto
  ultimately have "mset (concat (map (\<lambda>k. filter (\<lambda>x. f x = k) xs) ks)) = mset ?rest" by (simp only:)
  then show ?case using multiset_partition [of "mset xs" "\<lambda>x. f x = k"] by simp
qed

lemma mset_concat_map_sort: "mset (concat (map (\<lambda>k. sort_key g (h k)) ks)) = mset (concat (map h ks))"
  by (induction ks) simp_all

lemma months_of_mset: "mset (concat (map pm_Incidents (months_of xs))) = mset xs"
proof -
  let ?f = "\<lambda>x. month_key (pi_StartedAt x)"
  have "map pm_Incidents (months_of xs) =
      map (\<lambda>k. sort_key (\<lambda>x. - pi_StartedAt x) (filter (\<lambda>x. ?f x = k) xs)) (rev (sort (remdups (map ?f xs))))"
    by (simp add: months_of_def newest_incidents_def Let_def)
  then show ?thesis
    by (simp only: mset_concat_map_sort) (intro group_by_key, simp_all)
qed

lemma months_of_sorted: "sorted_wrt (>) (map pm_YearMonth (months_of xs))"
proof -
  have "sorted_wrt (<) (sort (remdups (map (\<lambda>x. month_key (pi_StartedAt x)) xs)))"
    by (intro strict_sorted_iff [THEN iffD2]) simp
  then have "sorted_wrt (>) (rev (sort (remdups (map (\<lambda>x. month_key (pi_StartedAt x)) xs))))"
    by (simp add: sorted_wrt_rev)
  moreover have "map pm_YearMonth (months_of xs) = rev (sort (remdups (map (\<lambda>x. month_key (pi_StartedAt x)) xs)))"
    by (simp add: months_of_def Let_def comp_def)
  ultimately show ?thesis by simp
qed

definition month_ok :: "public_incident_month \<Rightarrow> bool" where
  "month_ok m \<longleftrightarrow> pm_Incidents m \<noteq> [] \<and> pm_Count m = length (pm_Incidents m) \<and>
     sorted_wrt (\<lambda>x y. pi_StartedAt y \<le> pi_StartedAt x) (pm_Incidents m) \<and>
     list_all (\<lambda>x. month_key (pi_StartedAt x) = pm_YearMonth m) (pm_Incidents m)"

lemma months_of_ok: "list_all month_ok (months_of xs)"
proof -
  have "sorted_wrt (\<lambda>x y. pi_StartedAt y \<le> pi_StartedAt x) (newest_incidents ys)" for ys
    using sorted_sort_key [of "\<lambda>x. - pi_StartedAt x" ys] by (simp add: newest_incidents_def sorted_wrt_map)
  moreover have "newest_incidents ys = [] \<longleftrightarrow> ys = []" for ys
    by (metis newest_incidents_def length_0_conv length_sort)
  moreover have "set (newest_incidents ys) = set ys" for ys by (simp add: newest_incidents_def)
  ultimately show ?thesis
    by (auto simp: months_of_def month_ok_def list_all_iff Let_def filter_empty_conv)
qed

definition of_component :: "status_world \<Rightarrow> string \<Rightarrow> incident \<Rightarrow> bool" where
  "of_component w cid inc \<longleftrightarrow> cid = '''' \<or>
     list_ex (\<lambda>r. r_ID r = i_ResourceID inc \<and> r_ComponentID r = Some cid \<and> r_IsActive r) (resources w)"

definition listed :: "status_world \<Rightarrow> time \<Rightarrow> time \<Rightarrow> string \<Rightarrow> incident list" where
  "listed w from to cid = filter (\<lambda>inc. from \<le> i_StartedAt inc \<and> i_StartedAt inc \<le> to \<and> of_component w cid inc)
     (take 500 (sort_key (\<lambda>i. - i_CreatedAt i) (incidents w)))"

lemma run_component_filter:
  assumes "run_state (component_filter e cid) w = (Inr f, v)"
  shows "incidents v = incidents w \<and> admits f = of_component w cid"
  using assms
  by (auto simp: component_filter_def Resources_FindByComponentID_def on_world_bind on_world_return run_simps wrap_db_def
      bump_def world.truncate_def admits_def of_component_def list_ex_iff fun_eq_iff image_iff
      split: if_splits sum.splits) metis+

text \<open>
  C30: The incident history lists every incident of the window exactly once - of the 500 newest, and of the active
  members of the component when one is given - in the month it started, the months newest first, the incidents
  of a month newest first, and its total and counts are right.
\<close>

theorem history_lists_each_once:
  assumes run: "run_state (GetIncidents e from to cid) w = (Inr p, w')" and "from \<noteq> zero_time" "to \<noteq> zero_time"
  shows "sorted_wrt (>) (map pm_YearMonth (ir_Months p)) \<and> list_all month_ok (ir_Months p) \<and>
    ir_Total p = length (concat (map pm_Incidents (ir_Months p))) \<and>
    mset (map pi_ID (concat (map pm_Incidents (ir_Months p)))) = mset (map i_ID (listed w from to cid))"
proof -
  obtain f v where f: "run_state (component_filter e cid) (bump w) = (Inr f, v)" "incidents v = incidents w"
    and p: "p = (let xs = map (incident_summary cid)
               (filter (\<lambda>(inc, _). \<not> (i_StartedAt inc < from \<or> to < i_StartedAt inc) \<and> admits f inc)
                 (with_resources (bump (world.truncate v)) (page 500 0 (sort_key (\<lambda>i. - i_CreatedAt i) (incidents w)))))
             in \<lparr>ir_GeneratedAt = clock (uv e) (tick w), ir_Total = length xs, ir_Months = months_of xs\<rparr>)"
    using run assms(2,3)
    by (auto simp: GetIncidents_def component_filter_def Resources_FindByComponentID_def Incidents_List_def on_world_bind on_world_return
        run_simps run_and_then wrap_db_def Let_def bump_def world.truncate_def split: if_splits sum.splits prod.splits)
  let ?rows = "filter (\<lambda>(inc, _). \<not> (i_StartedAt inc < from \<or> to < i_StartedAt inc) \<and> admits f inc)
    (with_resources (bump (world.truncate v)) (page 500 0 (sort_key (\<lambda>i. - i_CreatedAt i) (incidents w))))"
  define xs where "xs = map (incident_summary cid) ?rows"
  have p': "ir_Months p = months_of xs" "ir_Total p = length xs" by (simp_all add: p xs_def Let_def)
  have names: "map fst (filter (\<lambda>(inc, _). P inc) (with_resources u ys)) = filter P ys" for P u ys
    by (induction ys) (auto simp: with_resources_def)
  have ids: "map pi_ID (map (incident_summary cid) zs) = map i_ID (map fst zs)" for zs
    by (induction zs) (auto simp: incident_summary_def)
  have "admits f = of_component w cid" using run_component_filter [OF f(1)] by (simp add: of_component_def fun_eq_iff)
  then have "map fst ?rows = listed w from to cid"
    unfolding names listed_def by (auto simp: page_def not_less intro: filter_cong)
  then have "map pi_ID xs = map i_ID (listed w from to cid)" unfolding xs_def ids by simp
  moreover have "mset (map pi_ID (concat (map pm_Incidents (months_of xs)))) = mset (map pi_ID xs)"
    by (simp only: mset_map months_of_mset)
  moreover have "length xs = length (concat (map pm_Incidents (months_of xs)))"
    using arg_cong [OF months_of_mset [of xs], of size] by simp
  ultimately show ?thesis using months_of_sorted [of xs] months_of_ok [of xs] by (auto simp: p')
qed

section \<open>Sample inputs for the witnesses\<close>

definition demo_incident :: "string \<Rightarrow> time \<Rightarrow> incident" where
  "demo_incident i t = \<lparr>i_ID = i, i_ResourceID = ''r1'', i_Cause = ''timeout'', i_ResolvedAt = None, i_StartedAt = t, i_Details = '''',
     i_CreatedAt = t, i_UpdatedAt = t\<rparr>"

definition demo_page :: status_world where
  "demo_page = world.extend (empty_world\<lparr>resources := [demo_resource\<lparr>r_Status := StatusDown, r_ComponentID := None\<rparr>],
     incidents := [demo_incident ''a'' 3, demo_incident ''b'' 4]\<rparr>) (status_world.fields [] None)"

lemma demo_page_fields [simp]:
  "resources demo_page = [demo_resource\<lparr>r_Status := StatusDown, r_ComponentID := None\<rparr>]" "components demo_page = []"
  "incidents demo_page = [demo_incident ''a'' 3, demo_incident ''b'' 4]" "maintenances demo_page = []" "tick demo_page = 0"
  by (simp_all add: demo_page_def world.extend_def status_world.fields_def empty_world_def)


theorem history_lists_each_once_witness:
  "list_all month_ok (ir_Months (projr (fst (run_state (GetIncidents demo_uptime 1 9 '''') demo_page))))"
proof -
  let ?r = "run_state (GetIncidents demo_uptime 1 9 '''') demo_page"
  have "\<exists>p. fst ?r = Inr p"
    by (simp add: GetIncidents_def component_filter_def Incidents_List_def on_world_bind on_world_return run_simps run_and_then
        wrap_db_def zero_time_def Let_def)
  then obtain p where "?r = (Inr p, snd ?r)" by (metis prod.collapse)
  then have p: "run_state (GetIncidents demo_uptime 1 9 '''') demo_page = (Inr p, snd ?r)" .
  from history_lists_each_once [OF p] have "list_all month_ok (ir_Months p)" by (simp add: zero_time_def)
  then show ?thesis using p by (metis fst_conv sum.sel(2))
qed

end
