(* ===== verification/Spec2Isabelle.thy ===== *)
theory Spec2Isabelle
  imports Heartbeat Timing_Wheel Resources Notification_Retry Host_Liveness Maintenance Escalation Access_Runs Expiry Public_Status
begin

text \<open>
  PulseGuard (module \<open>ogoune\<close>): a verification development.

  \<^bold>\<open>The program.\<close> A monitoring server. Resources (HTTP, TCP, ICMP, DNS, keyword, protocol and heartbeat
  monitors) are administered through a service and stored in PostgreSQL or SQLite. A scheduler - asynq on Redis, or
  an in-process timing wheel - triggers checks; the task handler turns the result of a check into a status, an
  incident, notifications and the next check; heartbeat monitors are driven by pings and a detector instead.
  Resources may be grouped in components with their own alerts, and silenced by maintenance windows. Undelivered
  notifications are retried; hosts that run an agent are watched for liveness; targets are guarded against
  requests into private networks.

  \<^bold>\<open>Theories and sources\<close> (paths under \<open>src/internal\<close> unless they start with \<open>pkg\<close>):
  \<^item> \<open>Go_Prelude\<close>: Go's integers with wrap-around, durations and time (\<open>int\<close> nanoseconds), strings, errors with
    wrapping, the state monad of fallible calls, the logic of preserved, kept and Hoare-style predicates, and
    tables of rows behind a locale of keyed tables.
  \<^item> \<open>Domain\<close>: \<open>domain/models.go\<close>, \<open>domain/check.go\<close>, \<open>domain/validation.go\<close>, request types of \<open>port\<close> and \<open>dto\<close>.
  \<^item> \<open>Diagnostics\<close>: \<open>worker/diagnostics_builder.go\<close>, \<open>icmp/enricher.go\<close>.
  \<^item> \<open>Store\<close>: the repositories of \<open>repository/store\<close>, one definition per method, over the record \<open>world\<close> of all tables.
  \<^item> \<open>Incidents\<close>: \<open>monitoring/incident_service.go\<close>, \<open>service/incident_update_service.go\<close>, feed entries.
  \<^item> \<open>Components\<close>: \<open>service/component_service.go\<close>, \<open>service/component_notification.go\<close>.
  \<^item> \<open>Monitoring\<close>: \<open>worker/handler_monitoring.go\<close>, \<open>monitoring/flap_detector.go\<close>.
  \<^item> \<open>Heartbeat\<close>: \<open>service/heartbeat_detector.go\<close>, \<open>service/resource_heartbeat.go\<close>, the ping handlers and their
    rate limiter.
  \<^item> \<open>Timing_Wheel\<close>: \<open>scheduler/timingwheel.go\<close> with its goroutines as an interleaving step relation, \<open>scheduler.go\<close>,
    \<open>adapter.go\<close>.
  \<^item> \<open>Safenet\<close>: \<open>pkg/safenet\<close>.
  \<^item> \<open>Resources\<close>: \<open>service/resource_*.go\<close>, \<open>service/enrichment_service.go\<close>.
  \<^item> \<open>Maintenance\<close>: \<open>service/maintenance_service.go\<close>, \<open>maintenance/*.go\<close> and their repository.
  \<^item> \<open>Escalation\<close>: \<open>service/escalation_service.go\<close>, its repository and the request type of its handler.
  \<^item> \<open>Notification_Retry\<close>: \<open>service/pending_notification_retry_service.go\<close>.
  \<^item> \<open>Host_Liveness\<close>: \<open>service/host_liveness_service.go\<close>, \<open>service/smtp_channel.go\<close>.
  \<^item> \<open>Credentials\<close>: \<open>pkg/apikey\<close>, \<open>pkg/hostcred\<close>, \<open>service/{api_key,host_credential,session}_service.go\<close> and the
    repositories of users, keys, host credentials, sessions and reset tokens, over the record \<open>access\<close>.
  \<^item> \<open>Accounts\<close>: \<open>service/{auth,two_factor}_service.go\<close>, \<open>service/jwt_manager.go\<close>, \<open>api/middleware\<close>,
    \<open>api/handler/auth_handler.go\<close>, \<open>api/handler/v1/two_factor_handler.go\<close>, and the datatype of all their calls.
  \<^item> \<open>Access_Runs\<close>: what holds in every run of these calls.
  \<^item> \<open>Extended_State\<close>: tables that only one service uses, added to \<open>world\<close> as a record extension, and the lifting of
    the operations on \<open>world\<close> to the extension.
  \<^item> \<open>Expiry\<close>: \<open>service/expiry_notification_service.go\<close>, \<open>worker/handler_expiry.go\<close> and the repository of its log.
  \<^item> \<open>Uptime\<close>: \<open>service/uptime_aggregator.go\<close> and the repository of the daily rows.
  \<^item> \<open>Public_Status\<close>: \<open>service/public_status_service.go\<close>, \<open>dto/public_status.go\<close>.
  \<^item> this theory: the system composed of the task handler, the detector, pings, timers, component and resource
    operations, and the properties that span components.

  \<^bold>\<open>Modelling.\<close> An operation is a function in the state monad over \<open>world\<close>. Every interaction with the outside - a
  repository call, a clock reading, a fresh identifier, a delivery - takes its answer from the environment at the
  current value of a counter \<open>tick\<close>, so that the clock, the failures and the identifiers are arbitrary functions and
  every pattern of failures is covered. A failing repository call leaves the tables unchanged. Transactions are one
  call; a method that runs several statements outside a transaction is several calls. The work of a goroutine started
  by \<open>go\<close> runs where it is started, except in \<open>Timing_Wheel\<close>, where the interleavings are the subject. Rows with
  equal sort keys come in insertion order. The PostgreSQL and SQLite branches of a method have one model; they differ
  in the width of integer columns and in the fractional seconds of the missed-heartbeat query, which is modelled
  on whole seconds. Regular expressions, TLS, WHOIS, DNS, SMTP, HTTP, JSON of channel configurations and asynq are
  parameters. Loops over data are structural recursion; the paging loop of the liveness scan takes
  fuel, and it is proved that one round per started page is enough.

  \<^bold>\<open>What is proved.\<close>
  \<^item> Incidents: in every run at most one active incident per resource; a resolved incident is final; a confirmed outage
    opens one and a recovery or a deletion closes it; nothing opens an incident without confirmation, and nothing
    happens during a maintenance.
  \<^item> Notifications: channel resolution refines its tier specification; each alert is accounted for; reminders
    only when due; retries account for every event; component alerts are sent once and grouped.
  \<^item> Scheduling: the invariant of the timing wheel in all interleavings, what a tick dispatches, and the exact
    causes of a crash. Rate limiter: bound per window.
  \<^item> Resources: the settings of every stored row are valid, an accepted target is public, the guarded dialler never
    reaches a blocked address, and the block list is exactly the documented ranges.
  \<^item> Maintenance: the life cycle of a window in all runs of the service and the queue, opening and closing, round trip.
  \<^item> Escalation: the accepted orders are the permutations of the active policies, a reordering establishes the order,
    the policy of a resource is the first that covers it.
  \<^item> Host liveness: one alert per outage, and a scan covers the fleet and ends.
  \<^item> Access: revoked keys and ended sessions stay out in every run, an issued key works until it is revoked, reset
    links work once and are limited, rotation of host credentials. The libraries for hashes, signatures, one-time codes
    and random numbers are parameters; that fresh secrets do not collide is a hypothesis where it is needed.
  \<^item> Expiry alerts: a threshold that was recorded is silent; thresholds already passed are worked off one per run; a
    failed lookup hides a renewal.
  \<^item> Uptime and the public page: the row of a day counts the checks of that day, the stored rows are consistent, the
    verdict of the page is the worst of its components, and the history lists every visible incident once, by month.
  \<^item> Errors of the program that the model exhibits are stated as theorems too (monitors that cannot be resumed,
    lost updates, claims that are never released, finished maintenances that restart, crashes of the wheel).

  \<^bold>\<open>Not modelled\<close>: the check strategies and notifiers (network clients), the HTTP layer apart from pings, login and the
  authentication middlewares, encryption of stored secrets, the settings, announcements and
  live snapshots of status pages, dashboards, statistics, reports and search (read-only aggregation), the agent and host
  administration, code generated by sqlc, migrations, configuration and start-up. Preloads of related rows are
  part of the model only where an operation reads them.
\<close>

section \<open>Component operations leave the incidents alone\<close>

lemma incidents_component_store [keep]:
  "keeps incidents (Components_Create e c)" "keeps incidents (Components_Update e c)"
  "keeps incidents (Components_Delete e cid)" "keeps incidents (Resources_CountByComponentID e cid)"
  "keeps incidents (Resources_Update e r)"
  unfolding Components_Create_def Components_Update_def Components_Delete_def Resources_CountByComponentID_def
    Resources_Update_def EnsureID_def Let_def
  by (intro keep; simp)+

lemma incidents_toComponentResponse [keep]: "keeps incidents (toComponentResponse e c)"
  unfolding toComponentResponse_def Let_def by (intro keep)

lemma incidents_validate [keep]: "keeps incidents (validate_resources e rids)"
  by (induction rids) (auto intro!: keep)

lemma incidents_assign_loop [keep]: "keeps incidents (assign_loop e cid rids)"
  by (induction rids) (auto intro!: keep)

lemma incidents_autoCleanup [keep]: "keeps incidents (autoCleanupComponent e cfg cid)"
  unfolding autoCleanupComponent_def by (intro keep)

lemma incidents_assign [keep]: "keeps incidents (assignResourceToComponent e cfg rid cid)"
  unfolding assignResourceToComponent_def Let_def by (intro keep)

lemma incidents_assign_all [keep]: "keeps incidents (assign_all e cfg cid rids)"
  by (induction rids) (auto intro!: keep)

lemma incidents_remove [keep]: "keeps incidents (removeResourceFromComponent e rid)"
  unfolding removeResourceFromComponent_def Let_def by (intro keep)

lemma incidents_remove_all [keep]: "keeps incidents (remove_all e acc rids)"
  by (induction rids arbitrary: acc) (auto intro!: keep)

lemma incidents_component_ops [keep]:
  "keeps incidents (CreateComponent e p)" "keeps incidents (UpdateComponent e cid u)"
  "keeps incidents (DeleteComponent e cid)" "keeps incidents (BulkAssignToComponent e cfg cid rids)"
  "keeps incidents (BulkRemoveFromComponent e cfg rids)" "keeps incidents (fire_timer e cid)"
  unfolding CreateComponent_def UpdateComponent_def DeleteComponent_def BulkAssignToComponent_def
    BulkRemoveFromComponent_def Let_def
  by (intro keep core_fire_timer [THEN keeps_core_incidents])+

section \<open>Resource operations and the incidents\<close>

lemma incidents_resource_store [keep]:
  "keeps incidents (Resources_Save e l)" "keeps incidents (Resources_Create e l)"
  "keeps incidents (Resources_Delete e rid)" "keeps incidents (Resources_UpdateMetadata e rid m)"
  unfolding Resources_Save_def Resources_Create_def Resources_Delete_def Resources_UpdateMetadata_def
    Resources_execUpdate_def EnsureID_def Let_def
  by (intro keep; simp)+

lemmas incidents_resource_reads [keep] = core_resource_reads [THEN keeps_core_incidents]
  core_tag_create [THEN keeps_core_incidents] core_find_tags [THEN keeps_core_incidents]
  core_prepare [THEN keeps_core_incidents] core_apply [THEN keeps_core_incidents]
  core_recalculate_of [THEN keeps_core_incidents]

lemma incidents_enrich [keep]: "keeps incidents (asyncEnrichAndPersist s r)"
  unfolding asyncEnrichAndPersist_def by (intro keep)

lemma incidents_cleanup [keep]: "keeps incidents (cleanup_component s cfg cid)"
  unfolding cleanup_component_def by (intro keep)

lemma incidents_resource_ops [keep]:
  "keeps incidents (CreateResource s p)" "keeps incidents (UpdateResource s rid q)" "keeps incidents (PauseMonitoring s rid)"
  "keeps incidents (ResumeMonitoring s rid)" "keeps incidents (AddTagsToResource s rid is)"
  "keeps incidents (RemoveTagFromResource s rid i)"
  unfolding CreateResource_def UpdateResource_def load_resource_def store_update_def reconcileComponentChange_def
    PauseMonitoring_def ResumeMonitoring_def AddTagsToResource_def RemoveTagFromResource_def
  by (intro keep)+

section \<open>Resolved incidents are history\<close>

lemma hoare_and: "hoare P m Q \<Longrightarrow> hoare P' m Q' \<Longrightarrow> hoare (\<lambda>w. P w \<and> P' w) m (\<lambda>x w. Q x w \<and> Q' x w)"
  by (simp add: hoare_def)

definition in_journal :: "incident \<Rightarrow> world \<Rightarrow> bool" where
  "in_journal inc w \<longleftrightarrow> inc \<in> set (incidents w)"

lemma stable_in_journal: "stable incidents (in_journal inc)"
  by (simp add: stable_def in_journal_def)

lemma stable_history: "strict_mono (clock e) \<Longrightarrow> stable incidents (\<lambda>w. incidents_inv e w \<and> in_journal inc w)"
  using incidents_inv_stable [of e] stable_in_journal [of inc] unfolding stable_def by blast

lemma CreateIncident_in_journal: "preserves (in_journal inc) (CreateIncident e r res)"
proof -
  have k: "keeps incidents m \<Longrightarrow> preserves (in_journal inc) m" for m :: "(world, 'b) state"
    by (rule keeps_preserves [OF _ stable_in_journal])
  have c: "preserves (in_journal inc) (Incidents_Create (ev e) i)" for i
  proof (rule preservesI)
    fix w assume "in_journal inc w"
    then show "in_journal inc (snd (run_state (Incidents_Create (ev e) i) w))"
      by (cases rule: Incidents_Create_cases [OF prod.collapse [symmetric], of "ev e" i w]) (auto simp: in_journal_def)
  qed
  show ?thesis
    unfolding CreateIncident_def
    by (intro pres c k [OF core_after_create [THEN keeps_core_incidents]] k [OF incidents_keep(16)] k [OF keeps_now]; simp)
qed

lemma Incidents_Update_in_journal:
  assumes mono: "strict_mono (clock e)" and res: "\<not> active inc"
  shows "hoare (\<lambda>w. (incidents_inv e w \<and> i \<in> set (incidents w) \<and> active i \<and> i_ResourceID i = rid) \<and> in_journal inc w)
    (Incidents_Update e (i\<lparr>i_ResolvedAt := Some t\<rparr>)) (\<lambda>_ w. incidents_inv e w \<and> in_journal inc w)"
proof (rule hoareI)
  fix w x w'
  assume pre: "(incidents_inv e w \<and> i \<in> set (incidents w) \<and> active i \<and> i_ResourceID i = rid) \<and> in_journal inc w"
    and run: "run_state (Incidents_Update e (i\<lparr>i_ResolvedAt := Some t\<rparr>)) w = (x, w')"
  have "i_ID inc \<noteq> i_ID i"
    using pre res by (auto simp: incidents_inv_def journal_ok_def in_journal_def dest: distinct_keys_same)
  with pre have "in_journal inc w'"
    by (cases rule: Incidents_Update_cases [OF run]) (force simp: in_journal_def tbl_update_def)+
  with hoareD [OF hoare_Incidents_Update [OF mono] _ run] pre show "incidents_inv e w' \<and> in_journal inc w'"
    by blast
qed

lemma lookup_in_journal:
  assumes "strict_mono (clock e)" "0 < l"
  shows "hoare (\<lambda>w. incidents_inv e w \<and> in_journal inc w) (Incidents_FindByResource e rid l 0)
    (\<lambda>x w. (incidents_inv e w \<and> (\<forall>is. x = Inr is \<longrightarrow>
      (case pick_active None is of None \<Rightarrow> none_active rid w
       | Some i \<Rightarrow> i \<in> set (incidents w) \<and> active i \<and> i_ResourceID i = rid))) \<and> in_journal inc w)"
  by (rule hoare_and [OF hoare_FindByResource_active [OF assms] hoare_keeps [OF incidents_keep(16) stable_in_journal]])

lemma close_in_journal:
  assumes mono: "strict_mono (clock (ev e))" and res: "\<not> active inc"
    and tail: "\<And>x i. preserves (\<lambda>w. sinv e w \<and> in_journal inc w) (tail i x)"
  shows "hoare (\<lambda>w. (sinv e w \<and> i \<in> set (incidents w) \<and> active i \<and> i_ResourceID i = rid) \<and> in_journal inc w)
    (do { t \<leftarrow> now (ev e); u \<leftarrow> Incidents_Update (ev e) (i\<lparr>i_ResolvedAt := Some t\<rparr>); tail (i\<lparr>i_ResolvedAt := Some t\<rparr>) u })
    (\<lambda>_ w. sinv e w \<and> in_journal inc w)"
proof -
  have "stable core (\<lambda>w. (sinv e w \<and> i \<in> set (incidents w) \<and> active i \<and> i_ResourceID i = rid) \<and> in_journal inc w)"
    using stable_incidents_inv [OF mono] unfolding stable_def core_def in_journal_def by auto
  note clock = hoare_keeps [OF keeps_now this]
  show ?thesis
    by (rule hoare_bind [OF clock hoare_bind [OF Incidents_Update_in_journal [OF mono res] hoare_preserves [OF tail]]]) simp
qed

lemma ResolveIncident_in_journal:
  assumes mono: "strict_mono (clock e)" and res: "\<not> active inc"
  shows "preserves (\<lambda>w. sinv e w \<and> in_journal inc w) (ResolveIncident e r check)"
proof (rule preserves_hoare)
  have m: "strict_mono (clock (ev e))" using mono by simp
  let ?I = "\<lambda>w. sinv e w \<and> in_journal inc w"
  let ?found = "\<lambda>i w. (sinv e w \<and> i \<in> set (incidents w) \<and> active i \<and> i_ResourceID i = r_ID r) \<and> in_journal inc w"
  have k: "keeps incidents n \<Longrightarrow> preserves ?I n" for n :: "(world, 'b) state"
    by (rule keeps_preserves [OF _ stable_history [OF m]])
  have "preserves ?I (case u of Some err \<Rightarrow> State_Monad.return (Some (Wrapf ''failed to resolve incident'' err))
      | None \<Rightarrow> after_resolve e r i)" for u i
    by (intro pres k core_after_resolve [THEN keeps_core_incidents])
  note close = close_in_journal [OF m res this, of _ "r_ID r"]
  have "stable core (?found i)" for i
    using stable_incidents_inv [OF m] unfolding stable_def core_def in_journal_def by auto
  note clock = hoare_keeps [OF keeps_now this]
  show "hoare ?I (ResolveIncident e r check) (\<lambda>_. ?I)"
    unfolding ResolveIncident_def Let_def
    by (intro hoare_bind [OF lookup_in_journal [OF m]] hoare_case_sum hoare_case_option hoare_return
        hoare_conseq [OF hoare_bind [OF clock close]]) auto
qed

lemma Recovery_in_journal:
  assumes mono: "strict_mono (clock e)" and res: "\<not> active inc"
  shows "preserves (\<lambda>w. sinv e w \<and> in_journal inc w) (HandleHeartbeatRecovery e r)"
proof (rule preserves_hoare)
  have m: "strict_mono (clock (ev e))" using mono by simp
  let ?I = "\<lambda>w. sinv e w \<and> in_journal inc w"
  let ?found = "\<lambda>i w. (sinv e w \<and> i \<in> set (incidents w) \<and> active i \<and> i_ResourceID i = r_ID r) \<and> in_journal inc w"
  have lookup: "hoare ?I (Incidents_FindByResource (ev e) (r_ID r) 10 0)
      (\<lambda>x w. ?I w \<and> (\<forall>is i. x = Inr is \<longrightarrow> find active is = Some i \<longrightarrow> ?found i w))"
  proof (rule hoareI)
    fix w x w'
    assume inv: "?I w" and run: "run_state (Incidents_FindByResource (ev e) (r_ID r) 10 0) w = (x, w')"
    have "find active is = pick_active None is" if "x = Inr is" for "is"
      using run that inv find_pick [of "incidents w" 10 "r_ID r"]
      by (auto simp: run_FindByResource incidents_inv_def split: if_splits)
    with hoareD [OF lookup_in_journal [OF m, of 10] inv run]
    show "?I w' \<and> (\<forall>is i. x = Inr is \<longrightarrow> find active is = Some i \<longrightarrow> ?found i w')"
      by auto
  qed
  have "preserves ?I (State_Monad.return (map_option (Wrapf ''failed to resolve heartbeat incident'') u))" for u
    by (rule pres)
  note close = close_in_journal [OF m res this, of _ "r_ID r"]
  show "hoare ?I (HandleHeartbeatRecovery e r) (\<lambda>_. ?I)"
    unfolding HandleHeartbeatRecovery_def
    by (intro hoare_bind [OF hoare_keeps [OF exec_update_frame(2) stable_history [OF m]]] hoare_case_option
        hoare_return hoare_bind [OF lookup] hoare_case_sum hoare_conseq [OF close]) auto
qed

lemma hoare_FindActive:
  assumes "stable incidents I"
  shows "hoare I (Incidents_FindActiveByResourceID e rid)
    (\<lambda>x w. I w \<and> (\<forall>i. x = Inr i \<longrightarrow> i \<in> set (incidents w) \<and> active i \<and> i_ResourceID i = rid))"
proof (rule hoareI)
  fix w x w'
  assume "I w" and run: "run_state (Incidents_FindActiveByResourceID e rid) w = (x, w')"
  moreover have "incidents w' = incidents w" "tick w \<le> tick w'"
    using run by (auto simp: Incidents_FindActiveByResourceID_def run_simps)
  ultimately have "I w'"
    using assms by (auto simp: stable_def)
  moreover have "i \<in> set (incidents w') \<and> active i \<and> i_ResourceID i = rid" if x: "x = Inr i" for i
  proof -
    obtain "is" where "filter (\<lambda>i. i_ResolvedAt i = None) (incidents_of rid (incidents w)) = i # is"
      using run x by (auto simp: Incidents_FindActiveByResourceID_def run_simps wrap_db_def split: if_splits list.splits)
    then have "i \<in> set (filter (\<lambda>i. i_ResolvedAt i = None) (incidents_of rid (incidents w)))"
      by simp
    then show ?thesis
      by (simp add: incidents_of_set active_def \<open>incidents w' = incidents w\<close>)
  qed
  ultimately show "I w' \<and> (\<forall>i. x = Inr i \<longrightarrow> i \<in> set (incidents w') \<and> active i \<and> i_ResourceID i = rid)"
    by blast
qed

lemma deletion_inv:
  assumes mono: "strict_mono (clock (s_env s))"
  shows "preserves (sinv (s_env s)) (resolve_for_deletion s rid)"
proof (rule preserves_hoare)
  have m: "strict_mono (clock (sev s))" using mono by simp
  let ?found = "\<lambda>i w. sinv (s_env s) w \<and> i \<in> set (incidents w) \<and> active i \<and> i_ResourceID i = rid"
  have "stable core (?found i)" for i
    using stable_incidents_inv [OF m] unfolding stable_def core_def by auto
  note clock = hoare_keeps [OF keeps_now this]
  have close: "hoare (?found i) (do { t \<leftarrow> now (sev s); Incidents_Update (sev s) (i\<lparr>i_ResolvedAt := Some t\<rparr>); State_Monad.return () })
      (\<lambda>_. sinv (s_env s))" for i
    by (rule hoare_bind [OF clock hoare_bind [OF hoare_Incidents_Update [OF m] hoare_return]]) simp_all
  show "hoare (sinv (s_env s)) (resolve_for_deletion s rid) (\<lambda>_. sinv (s_env s))"
    unfolding resolve_for_deletion_def
    by (intro hoare_bind [OF hoare_FindActive [OF incidents_inv_stable [OF m]]] hoare_case_sum hoare_return hoare_conseq [OF close]) auto
qed

lemma deletion_in_journal:
  assumes mono: "strict_mono (clock (s_env s))" and res: "\<not> active inc"
  shows "preserves (\<lambda>w. sinv (s_env s) w \<and> in_journal inc w) (resolve_for_deletion s rid)"
proof (rule preserves_hoare)
  have m: "strict_mono (clock (sev s))" using mono by simp
  let ?I = "\<lambda>w. sinv (s_env s) w \<and> in_journal inc w"
  note close = close_in_journal [OF m res, of "\<lambda>_ _. State_Monad.return ()" _ rid, OF preserves_return]
  show "hoare ?I (resolve_for_deletion s rid) (\<lambda>_. ?I)"
    unfolding resolve_for_deletion_def
    by (intro hoare_bind [OF hoare_FindActive [OF stable_history [OF m]]] hoare_case_sum hoare_return hoare_conseq [OF close]) auto
qed

text \<open>The incident service fulfils the contract of the handler for a resolved incident as well.\<close>

interpretation history: incident_contract "incident_service e"
    "\<lambda>w. strict_mono (clock e) \<and> \<not> active inc \<longrightarrow> sinv e w \<and> in_journal inc w" for e inc
proof
  show "stable incidents (\<lambda>w. strict_mono (clock e) \<and> \<not> active inc \<longrightarrow> sinv e w \<and> in_journal inc w)"
  proof (cases "strict_mono (clock e) \<and> \<not> active inc")
    case True
    then show ?thesis using stable_history [of "ev e" inc] by simp
  next
    case False
    then have "(strict_mono (clock e) \<and> \<not> active inc \<longrightarrow> sinv e w \<and> in_journal inc w) \<longleftrightarrow> True" for w
      by blast
    then show ?thesis unfolding stable_def by blast
  qed
  show "preserves (\<lambda>w. strict_mono (clock e) \<and> \<not> active inc \<longrightarrow> sinv e w \<and> in_journal inc w)
      (im_CreateIncident (incident_service e) r res)" for r res
    using hoare_CreateIncident [of e r res] CreateIncident_in_journal [of inc e r res]
    by (auto simp: preserves_def hoare_def incident_service_def)
  show "preserves (\<lambda>w. strict_mono (clock e) \<and> \<not> active inc \<longrightarrow> sinv e w \<and> in_journal inc w)
      (im_ResolveIncident (incident_service e) r res)" for r res
    using ResolveIncident_in_journal [of e inc r res] by (auto simp: preserves_def incident_service_def)
qed (rule service.create_resources service.resolve_resources service.notify_flapping_core
    service.notify_stabilized_core service.reminder_core service.latest_core service.resolve_ids)+

section \<open>The running system\<close>

text \<open>
  The operations of the modelled components in any order and with any arguments. \<open>other\<close> stands for
  every other use of the database: it may change any table but the incidents, and takes time.
\<close>

inductive system_step :: "monitoring_handler \<Rightarrow> world \<Rightarrow> world \<Rightarrow> bool" for h where
  task: "system_step h w (snd (run_state (ProcessTask h payload) w))"
| detect: "system_step h w (snd (run_state (Detect (h_env h) (h_incidents h)) w))"
| ping: "system_step h w (snd (run_state (Ping (h_env h) valid l slug) w))"
| ping_v1: "system_step h w (snd (run_state (PingV1 (h_env h) slug) w))"
| timer: "system_step h w (snd (run_state (fire_timer (h_env h) cid) w))"
| create_component: "system_step h w (snd (run_state (CreateComponent (h_env h) p) w))"
| update_component: "system_step h w (snd (run_state (UpdateComponent (h_env h) cid u) w))"
| delete_component: "system_step h w (snd (run_state (DeleteComponent (h_env h) cid) w))"
| bulk_assign: "system_step h w (snd (run_state (BulkAssignToComponent (h_env h) cfg cid rids) w))"
| bulk_remove: "system_step h w (snd (run_state (BulkRemoveFromComponent (h_env h) cfg rids) w))"
| service: "s_env s = h_env h \<Longrightarrow> system_step h w (snd (run_state (run_call s c) w))"
| other: "incidents w' = incidents w \<Longrightarrow> tick w \<le> tick w' \<Longrightarrow> system_step h w w'"

inductive system_reachable :: "monitoring_handler \<Rightarrow> world \<Rightarrow> bool" for h where
  empty: "incidents w = [] \<Longrightarrow> system_reachable h w"
| step: "system_reachable h w \<Longrightarrow> system_step h w w' \<Longrightarrow> system_reachable h w'"

context incident_contract
begin

lemma inv_keepD: "keeps incidents m \<Longrightarrow> inv w \<Longrightarrow> inv (snd (run_state m w))"
  by (rule preservesD [OF inv_keep])

lemma Detect_inv: "preserves inv (Detect e im)"
  unfolding Detect_def by (intro pres inv_keep [OF keeps_now] inv_keep [OF incidents_keep(23)] create_inv; simp)

lemma finish_ping_inv:
  assumes "\<And>r. preserves inv (HandleHeartbeatRecovery e r)"
  shows "preserves inv (finish_ping e slug t ok)"
  unfolding finish_ping_def MarkHeartbeatPing_def GetResourceByHeartbeatSlug_def
  by (intro pres assms inv_keep [OF exec_update_frame(1)] inv_keep [OF incidents_keep(24)])

lemma ping_inv:
  assumes "\<And>r. preserves inv (HandleHeartbeatRecovery e r)"
  shows "preserves inv (Ping e valid l slug)" "preserves inv (PingV1 e slug)"
  unfolding Ping_def PingV1_def
  by (intro pres preserves_case_bool finish_ping_inv assms inv_keep [OF keeps_now]; simp)+

lemma run_call_inv:
  assumes "\<And>rid. preserves inv (resolve_for_deletion s rid)"
  shows "preserves inv (run_call s c)"
proof -
  have "preserves inv (DeleteResource s rid)" for rid
    unfolding DeleteResource_def Let_def
    by (intro pres assms inv_keep [OF incidents_resource_store(3)] inv_keep [OF incidents_keep(22)]
        inv_keep [OF core_tag_create(2) [THEN keeps_core_incidents]] inv_keep [OF incidents_cleanup])
  then show ?thesis
    unfolding run_call_def
    by (cases c) (auto intro!: preserves_bind preserves_return incidents_resource_ops [THEN inv_keep])
qed

lemma system_step_inv:
  assumes "h_incidents h = im" and "\<And>r. preserves inv (HandleHeartbeatRecovery (h_env h) r)"
    and "system_step h w w'" and "inv w" and "\<And>s rid. s_env s = h_env h \<Longrightarrow> preserves inv (resolve_for_deletion s rid)"
  shows "inv w'"
  using assms(3,4)
proof (cases rule: system_step.cases)
  case task
  with assms(4) preservesD [OF ProcessTask_inv [OF assms(1)]] show ?thesis by blast
next
  case detect
  with assms(1,4) preservesD [OF Detect_inv] show ?thesis by blast
next
  case ping
  with assms(4) preservesD [OF ping_inv(1) [OF assms(2)]] show ?thesis by blast
next
  case ping_v1
  with assms(4) preservesD [OF ping_inv(2) [OF assms(2)]] show ?thesis by blast
next
  case (service s c)
  with assms(4) preservesD [OF run_call_inv [OF assms(5)]] show ?thesis by blast
next
  case other
  with assms(4) inv_stable show ?thesis by (auto simp: stable_def)
qed (use assms(4) in \<open>simp_all add: inv_keepD incidents_component_ops\<close>)

end

lemma reachable_inv:
  assumes "strict_mono (clock (h_env h))" and "h_incidents h = incident_service (h_env h)" and "system_reachable h w"
  shows "incidents_inv (hev h) w"
  using assms(3)
proof (induction rule: system_reachable.induct)
  case (empty w)
  then show ?case
    by (simp add: incidents_inv_def journal_ok_def in_past_def distinct_keys_def)
next
  case (step w w')
  have "preserves (\<lambda>w. strict_mono (clock (h_env h)) \<longrightarrow> sinv (h_env h) w) (HandleHeartbeatRecovery (h_env h) r)" for r
    using hoare_HandleHeartbeatRecovery [OF assms(1), of r] by (auto simp: preserves_def hoare_def)
  moreover have "preserves (\<lambda>w. strict_mono (clock (h_env h)) \<longrightarrow> sinv (h_env h) w) (resolve_for_deletion s rid)"
    if "s_env s = h_env h" for s rid
    using deletion_inv [of s rid] assms(1) that by (simp add: preserves_def)
  ultimately show ?case
    using service.system_step_inv [OF assms(2) _ step.hyps(2)] step.IH assms(1) by blast
qed

lemma steps_keep_resolved:
  assumes "strict_mono (clock (h_env h))" and "h_incidents h = incident_service (h_env h)"
    and "incidents_inv (hev h) w" and "(system_step h)\<^sup>*\<^sup>* w w'" and "inc \<in> set (incidents w)" and "\<not> active inc"
  shows "incidents_inv (hev h) w' \<and> inc \<in> set (incidents w')"
proof -
  have rec: "preserves (\<lambda>w. strict_mono (clock (h_env h)) \<and> \<not> active inc \<longrightarrow> sinv (h_env h) w \<and> in_journal inc w)
      (HandleHeartbeatRecovery (h_env h) r)" for r
    using Recovery_in_journal [OF assms(1,6), of r] assms(1,6) by (simp add: preserves_def)
  have del: "preserves (\<lambda>w. strict_mono (clock (h_env h)) \<and> \<not> active inc \<longrightarrow> sinv (h_env h) w \<and> in_journal inc w)
      (resolve_for_deletion s rid)" if "s_env s = h_env h" for s rid
    using deletion_in_journal [of s inc rid] assms(1,6) that by (simp add: preserves_def)
  from assms(4) have "incidents_inv (hev h) w' \<and> in_journal inc w'"
  proof (induction rule: rtranclp_induct)
    case base
    with assms(3,5) show ?case by (simp add: in_journal_def)
  next
    case (step v v')
    from history.system_step_inv [OF assms(2) rec step.hyps(2) _ del] step.IH assms(1,6) show ?case by blast
  qed
  then show ?thesis by (simp add: in_journal_def)
qed


lemma demo_failing_reachable: "system_reachable (demo_handler demo_check) demo_failing"
  by (rule system_reachable.empty) (simp add: demo_failing_def demo_group_def demo_world_def empty_world_def)



text \<open>A handler whose checks fail for a while and then succeed; one task of each kind.\<close>

definition demo_recovering :: monitoring_handler where
  "demo_recovering = (demo_handler demo_check)
     \<lparr>h_strategies := (\<lambda>n. [ResourceHTTP \<mapsto> (\<lambda>_. (if n < 5 then demo_check else up_check, None))])\<rparr>"

definition demo_task :: "world \<Rightarrow> world" where
  "demo_task w = snd (run_state (ProcessTask demo_recovering (Some ''r1'')) w)"

lemma demo_recovering_wiring:
  "strict_mono (clock (h_env demo_recovering))" "h_incidents demo_recovering = incident_service (h_env demo_recovering)"
  using demo_clock by (simp_all add: demo_recovering_def demo_handler_def)

lemma demo_task_step: "system_step demo_recovering w (demo_task w)"
  unfolding demo_task_def by (rule system_step.task)

lemma demo_recovered_reachable: "system_reachable demo_recovering (demo_task (demo_task demo_failing))"
  by (intro system_reachable.step [OF _ demo_task_step] system_reachable.empty)
    (simp add: demo_failing_def demo_group_def demo_world_def empty_world_def)


section \<open>Outages end to end\<close>

text \<open>A service environment without failures and with fresh identifiers from a state on.\<close>

definition smooth :: "svc_env \<Rightarrow> world \<Rightarrow> bool" where
  "smooth e w \<longleftrightarrow> strict_mono (clock e) \<and> (\<forall>n. \<not> fault e n) \<and> (\<forall>n \<ge> tick w. ulid e n \<notin> i_ID ` set (incidents w))"

lemma after_create_succeeds:
  assumes "\<And>n. \<not> fault e n"
  shows "fst (run_state (after_create e r res inc) w) = None"
  using assms
  by (simp add: after_create_def run_bind run_return split_beta run_FindLast ErrNotFound_def split: option.split)

lemma CreateIncident_succeeds:
  assumes "smooth e w"
  shows "fst (run_state (CreateIncident e r res) w) = None"
proof -
  have nf: "\<not> fault e n" for n
    using assms by (simp add: smooth_def)
  have "ulid e (Suc (Suc (tick w))) \<notin> i_ID ` set (incidents w)"
    using assms by (auto simp: smooth_def)
  then show ?thesis
    using nf after_create_succeeds [OF nf]
    by (auto simp: CreateIncident_def Incidents_Create_def EnsureID_def Let_def wrap_db_def run_simps run_FindByResource
        tbl_has_iff)
qed

lemma ResolveIncident_succeeds:
  assumes nf: "\<And>n. \<not> fault e n"
  shows "fst (run_state (ResolveIncident e r res) w) = None"
proof (cases "pick_active None (page 10 0 (incidents_of (r_ID r) (incidents w)))")
  case None
  with nf show ?thesis
    by (simp add: ResolveIncident_def run_simps run_FindByResource Let_def)
next
  case (Some i)
  have "i \<in> set (incidents_of (r_ID r) (incidents w))"
    using pick_active_Some [OF Some] set_page [of 10 0 "incidents_of (r_ID r) (incidents w)"] by auto
  then have "tbl_has i_ID (i_ID i) (incidents w)"
    by (simp add: tbl_has_iff incidents_of_set)
  then have upd: "fst (run_state (Incidents_Update (ev e) (i\<lparr>i_ResolvedAt := t\<rparr>)) (bump (bump (bump w)))) = None" for t
    using nf by (simp add: Incidents_Update_def run_simps wrap_db_def)
  have tail: "fst (run_state (after_resolve e r j) v) = None" for j v
    by (simp add: after_resolve_def run_bind run_return split_beta)
  show ?thesis
    using nf Some upd tail by (simp add: ResolveIncident_def run_simps run_FindByResource Let_def split_beta)
qed

lemma smooth_keeps:
  assumes "smooth e w" "keeps incidents m"
  shows "smooth e (snd (run_state m w))"
  using assms keepsD [OF assms(2), of w] keeps_tick [OF assms(2), of w] by (auto simp: smooth_def)

lemma confirm_failure_opens:
  assumes wiring: "h_incidents h = incident_service (h_env h)" and sm: "smooth (h_env h) w" and inv: "incidents_inv (hev h) w"
  shows "length (active_of (r_ID r) (snd (run_state (confirm_failure h r res) w))) = 1"
proof -
  let ?create = "CreateIncident (h_env h) r res"
  have kept: "keeps incidents (do {
      (if c \<and> cfg_EnableICMP (h_config h) then enrichIncidentDiagnostics h i ty tg res else State_Monad.return ());
      im_SendReminderIfDue (h_incidents h) r;
      reschedule h r d })" for c i ty tg d
    unfolding wiring
    by (intro keep reschedule_keeps service.enrich_incidents [OF wiring] service.reminder_core [THEN keeps_core_incidents])
  have "incidents (snd (run_state (confirm_failure h r res) w)) = incidents (snd (run_state ?create w))"
    using keepsD [OF kept] by (simp add: confirm_failure_def wiring incident_service_def run_bind split_beta)
  moreover have "length (active_of (r_ID r) (snd (run_state ?create w))) = 1"
    using hoareD [OF hoare_CreateIncident inv prod.collapse [symmetric], of r res] CreateIncident_succeeds [OF sm, of r res] sm
    by (simp add: smooth_def)
  ultimately show ?thesis by (simp add: active_of_def)
qed

lemma logged_smooth:
  assumes "smooth (h_env h) w" "incidents_inv (hev h) w"
  shows "smooth (h_env h) (bump (logged h r res w))" "incidents_inv (hev h) (bump (logged h r res w))"
proof -
  have "tick w \<le> tick (bump (logged h r res w))"
    using keeps_tick [OF core_writes(11) [of "hev h" "check_activity r res False"], of "bump (bump (bump (bump (bump w))))"]
    by (simp add: logged_def)
  moreover have "stable incidents (incidents_inv (hev h))"
    using assms(1) by (intro incidents_inv_stable) (simp add: smooth_def)
  ultimately show "smooth (h_env h) (bump (logged h r res w))" "incidents_inv (hev h) (bump (logged h r res w))"
    using assms by (auto simp: smooth_def stable_def)
qed




lemma demo_open_fresh:
  assumes "tick demo_open \<le> n"
  shows "ulid demo_env n \<notin> i_ID ` set (incidents demo_open)"
proof -
  have "map i_ID (incidents demo_open) = [nat_digits 2]" and "2 < tick demo_open"
    by code_simp+
  then have "i_ID ` set (incidents demo_open) = {nat_digits 2}" and "n \<noteq> 2"
    using assms by (metis list.set(1) list.set(2) set_map, simp)
  then show ?thesis
    using digits_val_nat_digits [of n] digits_val_nat_digits [of 2] by (auto simp: demo_env_def)
qed


section \<open>Deleting a monitor\<close>

lemma run_FindActive:
  "run_state (Incidents_FindActiveByResourceID e rid) w =
     (if fault e (tick w) then Inl (Wrapf ''sqlc: find active incident by resource'' ErrDB)
      else case filter (\<lambda>i. i_ResolvedAt i = None) (incidents_of rid (incidents w)) of [] \<Rightarrow> Inl ErrNotFound | i # _ \<Rightarrow> Inr i, bump w)"
  by (simp add: Incidents_FindActiveByResourceID_def run_simps wrap_db_def ErrNotFound_def ErrDB_def split: list.split)

lemma deletion_resolves:
  assumes mono: "strict_mono (clock (s_env s))" and nf: "\<And>n. \<not> fault (s_env s) n"
  shows "hoare (sinv (s_env s)) (resolve_for_deletion s rid) (\<lambda>_ w. none_active rid w)"
proof (rule hoareI)
  fix w u w'
  assume inv: "sinv (s_env s) w" and run: "run_state (resolve_for_deletion s rid) w = (u, w')"
  have m: "strict_mono (clock (sev s))" using mono by simp
  show "none_active rid w'"
  proof (cases "filter (\<lambda>i. i_ResolvedAt i = None) (incidents_of rid (incidents w))")
    case Nil
    then have "none_active rid w"
      by (auto simp: none_active_def filter_empty_conv incidents_of_set active_def)
    moreover have "w' = bump w"
      using run Nil nf by (simp add: resolve_for_deletion_def run_simps run_FindActive)
    ultimately show ?thesis
      by (simp add: none_active_def)
  next
    case (Cons i "is")
    then have "i \<in> set (filter (\<lambda>i. i_ResolvedAt i = None) (incidents_of rid (incidents w)))"
      by simp
    then have i: "i \<in> set (incidents w)" "active i" "i_ResourceID i = rid"
      by (simp_all add: incidents_of_set active_def)
    let ?v = "bump (bump w)"
    let ?upd = "Incidents_Update (sev s) (i\<lparr>i_ResolvedAt := Some (clock (sev s) (Suc (tick w)))\<rparr>)"
    have w': "w' = snd (run_state ?upd ?v)"
      using run Cons nf by (simp add: resolve_for_deletion_def run_simps run_FindActive split_beta)
    have "sinv (s_env s) ?v \<and> i \<in> set (incidents ?v) \<and> active i \<and> i_ResourceID i = rid"
      using inv i incidents_inv_stable [OF m] unfolding stable_def by (metis bump_world(2) le_SucI order_refl tick_bump)
    note post = hoareD [OF hoare_Incidents_Update [OF m] this prod.collapse [symmetric]]
    have "fst (run_state ?upd ?v) = None"
      using i nf by (auto simp: Incidents_Update_def run_simps wrap_db_def tbl_has_iff)
    with post show ?thesis
      by (simp add: w')
  qed
qed



end
